(* ===== verification/Prelude.thy ===== *)
theory Prelude
  imports Main "HOL-Library.Word" "HOL-Library.AList"
begin

text \<open>
  What every component shares: the machine types, fallible code as values of a sum type with
  the combinators for \<open>ensure!\<close>, \<open>ok_or(..)?\<close> and the \<open>?\<close> operator, saturating arithmetic at a
  given width, FRAME storage maps as association lists behind the interface \<open>storage_map\<close>, and
  the interface \<open>call_system\<close> of a machine whose calls either succeed or roll back.
\<close>

named_theorems exec_simps \<open>inversion of a successful run\<close>
named_theorems storage_simps \<open>reading a storage map after a write\<close>
named_theorems frame_simps \<open>storages an operation leaves alone\<close>

section \<open>Machine types\<close>

type_synonym u8 = "8 word"
type_synonym u16 = "16 word"
type_synonym u32 = "32 word"

text \<open>
  Balances (\<open>u128\<close>), block numbers and counters (\<open>u32\<close>) are naturals; every operation of the
  source that can reach the end of the type is a saturating one and has its bound written out.
\<close>

type_synonym balance = nat
type_synonym block_number = nat

type_synonym account_id = "256 word"
type_synonym bytes = "u8 list"

text \<open>Lookup sources are only handed to the address lookup: they are opaque byte strings.\<close>

type_synonym address = bytes

text \<open>\<open>RawOrigin\<close> of the system pallet.\<close>

datatype origin = Root | Signed account_id | NoOrigin

definition u32_max :: nat where
  "u32_max = 2 ^ 32 - 1"

definition u128_max :: nat where
  "u128_max = 2 ^ 128 - 1"

definition saturating_inc :: "nat \<Rightarrow> nat" where
  "saturating_inc n = min (n + 1) u32_max"

definition saturating_dec :: "nat \<Rightarrow> nat" where
  "saturating_dec n = n - 1"

definition saturating_add :: "balance \<Rightarrow> balance \<Rightarrow> balance" where
  "saturating_add a b = min (a + b) u128_max"

definition saturating_sub :: "balance \<Rightarrow> balance \<Rightarrow> balance" where
  "saturating_sub a b = a - b"

definition saturating_mul :: "balance \<Rightarrow> balance \<Rightarrow> balance" where
  "saturating_mul a b = min (a * b) u128_max"

definition block_saturating_add :: "block_number \<Rightarrow> block_number \<Rightarrow> block_number" where
  "block_saturating_add a b = min (a + b) u32_max"

lemma saturating_inc_le: "saturating_inc n \<le> u32_max"
  by (simp add: saturating_inc_def)

lemma saturating_inc_exact: "n < u32_max \<Longrightarrow> saturating_inc n = Suc n"
  by (simp add: saturating_inc_def)

lemma saturating_add_le: "saturating_add a b \<le> u128_max"
  by (simp add: saturating_add_def)

section \<open>Fallible code\<close>

declare option.pred_inject [code]

definition andthen :: "'e + 'a \<Rightarrow> ('a \<Rightarrow> 'e + 'b) \<Rightarrow> 'e + 'b" where
  "andthen r k = (case r of Inl e \<Rightarrow> Inl e | Inr v \<Rightarrow> k v)"

definition ensure :: "bool \<Rightarrow> 'e \<Rightarrow> 'e + 'a \<Rightarrow> 'e + 'a" where
  "ensure b e k = (if b then k else Inl e)"

definition ok_or :: "'v option \<Rightarrow> 'e \<Rightarrow> ('v \<Rightarrow> 'e + 'a) \<Rightarrow> 'e + 'a" where
  "ok_or x e k = (case x of None \<Rightarrow> Inl e | Some v \<Rightarrow> k v)"

text \<open>
  A run that succeeded passed every check: these equations turn \<open>f s = Inr s'\<close> into the
  conjunction of the guards and the final state, which is how every proof below starts.
\<close>

lemma andthen_Inr [exec_simps]: "andthen r k = Inr x \<longleftrightarrow> (\<exists>v. r = Inr v \<and> k v = Inr x)"
  by (simp add: andthen_def split: sum.splits)

lemma ensure_Inr [exec_simps]: "ensure b e k = Inr x \<longleftrightarrow> b \<and> k = Inr x"
  by (simp add: ensure_def)

lemma ok_or_Inr [exec_simps]: "ok_or m e k = Inr x \<longleftrightarrow> (\<exists>v. m = Some v \<and> k v = Inr x)"
  by (simp add: ok_or_def split: option.splits)

lemma andthen_eval [simp]: "andthen (Inl e) k = Inl e" "andthen (Inr v) k = k v"
  by (simp_all add: andthen_def)

lemma ensure_eval [simp]: "ensure True e k = k" "ensure False e k = Inl e"
  by (simp_all add: ensure_def)

lemma ok_or_eval [simp]: "ok_or None e h = Inl e" "ok_or (Some v) e h = h v"
  by (simp_all add: ok_or_def)

lemma ok_or_cong [fundef_cong]:
  "m = m' \<Longrightarrow> (\<And>v. m' = Some v \<Longrightarrow> k v = k' v) \<Longrightarrow> ok_or m e k = ok_or m' e k'"
  by (cases m') (simp_all add: ok_or_def)

text \<open>A loop whose body can fail: \<open>for x in xs { body(x)?; }\<close>.\<close>

fun try_fold :: "('a \<Rightarrow> 's \<Rightarrow> 'e + 's) \<Rightarrow> 'a list \<Rightarrow> 's \<Rightarrow> 'e + 's" where
  "try_fold f [] s = Inr s"
| "try_fold f (x # xs) s = andthen (f x s) (try_fold f xs)"

lemma try_fold_Cons_Inr [exec_simps]:
  "try_fold f (x # xs) s = Inr t \<longleftrightarrow> (\<exists>s'. f x s = Inr s' \<and> try_fold f xs s' = Inr t)"
  by (simp add: andthen_Inr)

lemma try_fold_invariant:
  assumes "\<And>x s s'. x \<in> set xs \<Longrightarrow> f x s = Inr s' \<Longrightarrow> P s \<Longrightarrow> P s'"
    and "try_fold f xs s = Inr t" and "P s"
  shows "P t"
  using assms
proof (induction xs arbitrary: s)
  case Nil
  then show ?case by simp
next
  case (Cons x xs)
  from Cons.prems(2) obtain s' where "f x s = Inr s'" and rest: "try_fold f xs s' = Inr t"
    by (auto simp: exec_simps)
  then have "P s'" using Cons.prems(1,3) by auto
  with rest show ?case using Cons.IH Cons.prems(1) by auto
qed

section \<open>Storage maps\<close>

text \<open>
  A FRAME \<open>StorageMap\<close>, \<open>StorageDoubleMap\<close> or \<open>StorageNMap\<close> is an association list keyed by the
  key, the pair or the tuple. The list order stands for the iteration order of the trie, which
  the source never relies on.
\<close>

type_synonym ('k, 'v) storage = "('k \<times> 'v) list"

definition sget :: "('k, 'v) storage \<Rightarrow> 'k \<Rightarrow> 'v option" where
  "sget m k = map_of m k"

definition sput :: "'k \<Rightarrow> 'v \<Rightarrow> ('k, 'v) storage \<Rightarrow> ('k, 'v) storage" where
  "sput k v m = AList.update k v m"

definition sdel :: "'k \<Rightarrow> ('k, 'v) storage \<Rightarrow> ('k, 'v) storage" where
  "sdel k m = AList.delete k m"

definition contains_key :: "('k, 'v) storage \<Rightarrow> 'k \<Rightarrow> bool" where
  "contains_key m k \<longleftrightarrow> sget m k \<noteq> None"

text \<open>\<open>iter_prefix\<close>, \<open>drain_prefix\<close> and \<open>clear_prefix\<close>: the keys under a prefix are those that
  satisfy \<open>p\<close>. \<open>clear_prefix\<close> removes at most \<open>limit\<close> of them and reports whether any is left
  (\<open>maybe_cursor.is_some()\<close>).\<close>

definition iter_prefix :: "('k \<Rightarrow> bool) \<Rightarrow> ('k, 'v) storage \<Rightarrow> ('k, 'v) storage" where
  "iter_prefix p m = filter (p \<circ> fst) m"

definition remove_prefix :: "('k \<Rightarrow> bool) \<Rightarrow> ('k, 'v) storage \<Rightarrow> ('k, 'v) storage" where
  "remove_prefix p m = filter (Not \<circ> p \<circ> fst) m"

fun clear_prefix :: "('k \<Rightarrow> bool) \<Rightarrow> nat \<Rightarrow> ('k, 'v) storage \<Rightarrow> ('k, 'v) storage \<times> bool" where
  "clear_prefix p limit [] = ([], False)"
| "clear_prefix p limit (e # m) =
     (if p (fst e)
      then (case limit of
              0 \<Rightarrow> (e # m, True)
            | Suc l \<Rightarrow> clear_prefix p l m)
      else (let (m', cursor) = clear_prefix p limit m in (e # m', cursor)))"

definition storage_wf :: "('k, 'v) storage \<Rightarrow> bool" where
  "storage_wf m \<longleftrightarrow> distinct (map fst m)"

text \<open>The interface the pallets use: after a write, a read sees it and nothing else changes.\<close>

locale storage_map =
  fixes get :: "'m \<Rightarrow> 'k \<Rightarrow> 'v option"
    and put :: "'k \<Rightarrow> 'v \<Rightarrow> 'm \<Rightarrow> 'm"
    and del :: "'k \<Rightarrow> 'm \<Rightarrow> 'm"
    and only :: "('k \<Rightarrow> bool) \<Rightarrow> 'm \<Rightarrow> 'm"
  assumes get_put: "get (put k v m) = (get m)(k \<mapsto> v)"
    and get_del: "get (del k m) = (get m)(k := None)"
    and get_only: "get (only p m) k = (if p k then get m k else None)"
    and finite_keys: "finite (dom (get m))"
begin

lemma get_put_same: "get (put k v m) k = Some v"
  by (simp add: get_put)

lemma get_put_other: "k' \<noteq> k \<Longrightarrow> get (put k v m) k' = get m k'"
  by (simp add: get_put)

lemma get_del_same: "get (del k m) k = None"
  by (simp add: get_del)

lemma get_del_other: "k' \<noteq> k \<Longrightarrow> get (del k m) k' = get m k'"
  by (simp add: get_del)

text \<open>The number of keys under a prefix, and how one write changes it.\<close>

definition count_keys :: "('k \<Rightarrow> bool) \<Rightarrow> 'm \<Rightarrow> nat" where
  "count_keys p m = card {k \<in> dom (get m). p k}"

lemma count_put_new: "get m k = None \<Longrightarrow> p k \<Longrightarrow> count_keys p (put k v m) = Suc (count_keys p m)"
proof -
  assume a: "get m k = None" "p k"
  then have "{x \<in> dom (get (put k v m)). p x} = insert k {x \<in> dom (get m). p x}"
    by (auto simp: get_put)
  moreover have "k \<notin> {x \<in> dom (get m). p x}" using a by auto
  ultimately show ?thesis
    using finite_keys [of m] by (simp add: count_keys_def)
qed

lemma count_put_old: "get m k \<noteq> None \<Longrightarrow> count_keys p (put k v m) = count_keys p m"
proof -
  assume "get m k \<noteq> None"
  then have "{x \<in> dom (get (put k v m)). p x} = {x \<in> dom (get m). p x}"
    by (auto simp: get_put)
  then show ?thesis by (simp add: count_keys_def)
qed

lemma count_put_outside: "\<not> p k \<Longrightarrow> count_keys p (put k v m) = count_keys p m"
proof -
  assume "\<not> p k"
  then have "{x \<in> dom (get (put k v m)). p x} = {x \<in> dom (get m). p x}"
    by (auto simp: get_put)
  then show ?thesis by (simp add: count_keys_def)
qed

lemma count_del_old: "get m k \<noteq> None \<Longrightarrow> p k \<Longrightarrow> count_keys p (del k m) = count_keys p m - 1"
proof -
  assume a: "get m k \<noteq> None" "p k"
  have "{x \<in> dom (get (del k m)). p x} = {x \<in> dom (get m). p x} - {k}"
    by (auto simp: get_del)
  moreover have "k \<in> {x \<in> dom (get m). p x}" using a by auto
  ultimately show ?thesis
    using finite_keys [of m] by (simp add: count_keys_def)
qed

lemma count_del_none: "get m k = None \<Longrightarrow> count_keys p (del k m) = count_keys p m"
  unfolding count_keys_def get_del by (metis fun_upd_triv)

lemma count_del_outside: "\<not> p k \<Longrightarrow> count_keys p (del k m) = count_keys p m"
proof -
  assume "\<not> p k"
  then have "{x \<in> dom (get (del k m)). p x} = {x \<in> dom (get m). p x}"
    by (auto simp: get_del)
  then show ?thesis by (simp add: count_keys_def)
qed

lemma count_zero: "count_keys p m = 0 \<longleftrightarrow> (\<forall>k. p k \<longrightarrow> get m k = None)"
proof -
  have "finite {k \<in> dom (get m). p k}" using finite_keys [of m] by simp
  then show ?thesis by (auto simp: count_keys_def dom_def)
qed

lemma count_pos: "get m k \<noteq> None \<Longrightarrow> p k \<Longrightarrow> 0 < count_keys p m"
  using count_zero [of p m] by (cases "count_keys p m") auto

end

lemma map_of_filter_key: "map_of (filter (p \<circ> fst) m) k = (if p k then map_of m k else None)"
  by (induction m) auto

interpretation st: storage_map "sget :: ('k, 'v) storage \<Rightarrow> 'k \<Rightarrow> 'v option" sput sdel iter_prefix
proof unfold_locales
  fix m :: "('k, 'v) storage" and k v p
  show "sget (sput k v m) = (sget m)(k \<mapsto> v)"
    by (simp add: fun_eq_iff sget_def sput_def update_conv)
  show "sget (sdel k m) = (sget m)(k := None)"
    by (simp add: fun_eq_iff sget_def sdel_def delete_conv)
  show "sget (iter_prefix p m) k = (if p k then sget m k else None)"
    by (simp add: sget_def iter_prefix_def map_of_filter_key)
  show "finite (dom (sget m))"
    by (simp add: sget_def [abs_def] finite_dom_map_of)
qed

lemmas storage_reads [storage_simps] = st.get_put st.get_del st.get_only

declare st.get_put_same [simp] st.get_del_same [simp]

lemma sget_Nil [simp]: "sget [] k = None"
  by (simp add: sget_def)

lemma get_remove_prefix [storage_simps]: "sget (remove_prefix p m) k = (if p k then None else sget m k)"
  using map_of_filter_key [of "Not \<circ> p" m k] by (simp add: sget_def remove_prefix_def comp_assoc)

lemma contains_key_simps [storage_simps]:
  "contains_key (sput k v m) j \<longleftrightarrow> j = k \<or> contains_key m j"
  "contains_key (sdel k m) j \<longleftrightarrow> j \<noteq> k \<and> contains_key m j"
  "contains_key (remove_prefix p m) j \<longleftrightarrow> \<not> p j \<and> contains_key m j"
  by (simp_all add: contains_key_def storage_simps)

text \<open>With a limit that covers the prefix, \<open>clear_prefix\<close> removes all of it and leaves no cursor.\<close>

lemma clear_prefix_all:
  "length (iter_prefix p m) \<le> limit \<Longrightarrow> clear_prefix p limit m = (remove_prefix p m, False)"
proof (induction m arbitrary: limit)
  case Nil
  then show ?case by (simp add: remove_prefix_def)
next
  case (Cons e m)
  show ?case
  proof (cases "p (fst e)")
    case True
    with Cons.prems obtain l where "limit = Suc l" "length (iter_prefix p m) \<le> l"
      by (cases limit) (auto simp: iter_prefix_def)
    with True Cons.IH show ?thesis by (simp add: remove_prefix_def)
  next
    case False
    with Cons show ?thesis by (simp add: remove_prefix_def iter_prefix_def)
  qed
qed

text \<open>\<open>clear_prefix\<close> never touches a key outside the prefix, whatever the limit.\<close>

lemma clear_prefix_outside: "\<not> p k \<Longrightarrow> sget (fst (clear_prefix p limit m)) k = sget m k"
proof (induction p limit m rule: clear_prefix.induct)
  case (1 p limit)
  then show ?case by simp
next
  case (2 p limit e m)
  then show ?case
    by (cases e) (auto simp: sget_def split: nat.splits prod.splits)
qed

lemma clear_prefix_subset: "set (fst (clear_prefix p limit m)) \<subseteq> set m"
  by (induction p limit m rule: clear_prefix.induct) (auto split: nat.splits prod.splits)

lemma clear_prefix_no_cursor:
  "\<not> snd (clear_prefix p limit m) \<Longrightarrow> fst (clear_prefix p limit m) = remove_prefix p m"
  by (induction p limit m rule: clear_prefix.induct)
    (auto simp: remove_prefix_def split: nat.splits prod.splits)

lemma storage_wf_sput [simp]: "storage_wf m \<Longrightarrow> storage_wf (sput k v m)"
  by (simp add: storage_wf_def sput_def distinct_update)

lemma storage_wf_sdel [simp]: "storage_wf m \<Longrightarrow> storage_wf (sdel k m)"
  by (simp add: storage_wf_def sdel_def distinct_delete)

lemma storage_wf_remove_prefix [simp]: "storage_wf m \<Longrightarrow> storage_wf (remove_prefix p m)"
  by (simp add: storage_wf_def remove_prefix_def distinct_map_filter)

lemma length_iter_prefix: "storage_wf m \<Longrightarrow> length (iter_prefix p m) = st.count_keys p m"
proof -
  assume wf: "storage_wf m"
  then have d: "distinct (map fst (iter_prefix p m))"
    by (simp add: storage_wf_def iter_prefix_def distinct_map_filter)
  have "fst ` set (iter_prefix p m) = {k \<in> dom (sget m). p k}"
    by (auto simp: iter_prefix_def sget_def [abs_def] dom_map_of_conv_image_fst)
  then have "st.count_keys p m = card (set (map fst (iter_prefix p m)))"
    by (simp add: st.count_keys_def)
  then show ?thesis using distinct_card [OF d] by simp
qed

section \<open>Runs of calls\<close>

text \<open>
  A dispatchable runs in a storage layer of its own: if it returns an error, all its writes are
  dropped. A run is therefore a sequence of calls that succeeded, each accepted by \<open>ok\<close>, with
  moves of the outside world (blocks, balances, other pallets) in between; the number counts the
  calls.
\<close>

inductive runs ::
  "('c \<Rightarrow> 's \<Rightarrow> 'e + 's) \<Rightarrow> ('s \<Rightarrow> 's \<Rightarrow> bool) \<Rightarrow> ('c \<Rightarrow> bool) \<Rightarrow> nat \<Rightarrow> 's \<Rightarrow> 's \<Rightarrow> bool"
  for step world ok where
  start: "runs step world ok 0 s s"
| call: "runs step world ok n s t \<Longrightarrow> ok c \<Longrightarrow> step c t = Inr u \<Longrightarrow> runs step world ok (Suc n) s u"
| world: "runs step world ok n s t \<Longrightarrow> world t u \<Longrightarrow> runs step world ok n s u"

text \<open>The contract of an invariant of such a system.\<close>

locale call_system =
  fixes step :: "'c \<Rightarrow> 's \<Rightarrow> 'e + 's"
    and world :: "'s \<Rightarrow> 's \<Rightarrow> bool"
    and ok :: "'c \<Rightarrow> bool"
    and inv :: "'s \<Rightarrow> bool"
  assumes step_inv: "ok c \<Longrightarrow> inv s \<Longrightarrow> step c s = Inr s' \<Longrightarrow> inv s'"
    and world_inv: "inv s \<Longrightarrow> world s s' \<Longrightarrow> inv s'"
begin

lemma runs_inv: "runs step world ok n s s' \<Longrightarrow> inv s \<Longrightarrow> inv s'"
  by (induction rule: runs.induct) (auto intro: step_inv world_inv)

end

text \<open>The contract of an invariant that holds as long as a counter cannot overflow: every call uses
  up at most \<open>cost\<close> of \<open>bound\<close>.\<close>

locale call_budget =
  fixes step :: "'c \<Rightarrow> 's \<Rightarrow> 'e + 's"
    and world :: "'s \<Rightarrow> 's \<Rightarrow> bool"
    and ok :: "'c \<Rightarrow> bool"
    and inv :: "nat \<Rightarrow> 's \<Rightarrow> bool"
    and cost bound :: nat
  assumes step_budget:
      "ok c \<Longrightarrow> inv m s \<Longrightarrow> step c s = Inr s' \<Longrightarrow> m + cost \<le> bound \<Longrightarrow> inv (m + cost) s'"
    and world_budget: "inv m s \<Longrightarrow> world s s' \<Longrightarrow> inv m s'"
begin

lemma runs_budget:
  "runs step world ok n s s' \<Longrightarrow> inv m s \<Longrightarrow> m + n * cost \<le> bound \<Longrightarrow> inv (m + n * cost) s'"
proof (induction rule: runs.induct)
  case (call n s t c u)
  then have "inv (m + n * cost) t" by simp
  with call step_budget [of c "m + n * cost" t u] show ?case by (simp add: ac_simps)
qed (auto intro: world_budget)

end

text \<open>Every unbudgeted contract is a budgeted one of cost zero.\<close>

sublocale call_system \<subseteq> free: call_budget step world ok "\<lambda>_. inv" 0 0
  by unfold_locales (auto intro: step_inv world_inv)

end
