(* ===== verification/Bitflags.thy ===== *)
theory Bitflags
  imports Prelude
begin

text \<open>
  Little-endian byte encodings and the bit flag wrappers of the NFTs pallet
  (\<open>pallets/nfts/src/macros.rs\<close> and the \<open>BitFlags\<close> operations of \<open>types.rs\<close>). A flag set is the
  word of its bits; variant number \<open>n\<close> of a \<open>#[bitflags]\<close> enum is bit \<open>n\<close>. The locale
  \<open>bitflag_enum\<close> states what an enum must satisfy, and proves the laws of the flag sets once.
\<close>

unbundle bit_operations_syntax

section \<open>Little-endian bytes\<close>

fun le_bytes :: "nat \<Rightarrow> 'w::len word \<Rightarrow> u8 list" where
  "le_bytes 0 w = []"
| "le_bytes (Suc n) w = ucast w # le_bytes n (drop_bit 8 w)"

fun from_le_bytes :: "u8 list \<Rightarrow> 'w::len word" where
  "from_le_bytes [] = 0"
| "from_le_bytes (b # bs) = ucast b OR push_bit 8 (from_le_bytes bs)"

lemma length_le_bytes [simp]: "length (le_bytes n w) = n"
  by (induction n arbitrary: w) auto

lemma from_le_bytes_le_bytes: "from_le_bytes (le_bytes n w) = take_bit (8 * n) (w :: 'w::len word)"
proof (induction n arbitrary: w)
  case 0
  then show ?case by simp
next
  case (Suc n)
  show ?case
    by (rule bit_word_eqI)
      (auto simp: Suc.IH bit_or_iff bit_push_bit_iff bit_take_bit_iff bit_drop_bit_eq
        bit_unsigned_iff)
qed

lemma bit_from_le_bytes_less: "bit (from_le_bytes bs :: 'w::len word) n \<Longrightarrow> n < 8 * length bs"
proof (induction bs arbitrary: n)
  case Nil
  then show ?case by simp
next
  case (Cons b bs)
  from Cons.prems have "bit b n \<or> 8 \<le> n \<and> bit (from_le_bytes bs :: 'w word) (n - 8)"
    by (auto simp: bit_or_iff bit_push_bit_iff bit_unsigned_iff)
  then show ?case using Cons.IH [of "n - 8"] bit_imp_le_length [of b n] by auto
qed

lemma le_bytes_from_le_bytes:
  "8 * length bs \<le> LENGTH('w) \<Longrightarrow> le_bytes (length bs) (from_le_bytes bs :: 'w::len word) = bs"
proof (induction bs)
  case Nil
  then show ?case by simp
next
  case (Cons b bs)
  have low: "ucast (ucast b OR push_bit 8 (from_le_bytes bs) :: 'w word) = b"
    using Cons.prems
    by (auto intro!: bit_word_eqI simp: bit_or_iff bit_push_bit_iff bit_unsigned_iff)
  have high: "drop_bit 8 (ucast b OR push_bit 8 (from_le_bytes bs)) = (from_le_bytes bs :: 'w word)"
    using Cons.prems bit_from_le_bytes_less [where bs = bs and 'w = 'w]
    by (fastforce intro!: bit_word_eqI simp: bit_or_iff bit_push_bit_iff bit_unsigned_iff bit_drop_bit_eq
        dest: bit_imp_le_length)
  show ?case using Cons low high by simp
qed

lemma le_bytes_4:
  "le_bytes 4 w = [ucast w, ucast (drop_bit 8 w), ucast (drop_bit 16 w), ucast (drop_bit 24 (w :: u32))]"
  by (simp add: numeral_eq_Suc drop_bit_drop_bit)

section \<open>Flag sets\<close>

definition flags_contains :: "('e \<Rightarrow> nat) \<Rightarrow> 'w::len word \<Rightarrow> 'e \<Rightarrow> bool" where
  "flags_contains pos flags e \<longleftrightarrow> bit flags (pos e)"

definition flags_insert :: "('e \<Rightarrow> nat) \<Rightarrow> 'w::len word \<Rightarrow> 'e \<Rightarrow> 'w word" where
  "flags_insert pos flags e = set_bit (pos e) flags"

definition flags_remove :: "('e \<Rightarrow> nat) \<Rightarrow> 'w::len word \<Rightarrow> 'e \<Rightarrow> 'w word" where
  "flags_remove pos flags e = unset_bit (pos e) flags"

definition flags_all :: "('e \<Rightarrow> nat) \<Rightarrow> 'e list \<Rightarrow> 'w::len word" where
  "flags_all pos variants = foldr (\<lambda>e w. set_bit (pos e) w) variants 0"

text \<open>\<open>BitFlags::iter\<close> runs over the variants that are set, in the order of their bits.\<close>

definition flags_iter :: "('e \<Rightarrow> nat) \<Rightarrow> 'e list \<Rightarrow> 'w::len word \<Rightarrow> 'e list" where
  "flags_iter pos variants flags = filter (flags_contains pos flags) variants"

text \<open>\<open>impl_codec_bitflags!\<close>: encode the bits as a little-endian integer of \<open>sz\<close> bytes; decode the
  integer and refuse it when a bit outside the enum is set.\<close>

definition flags_encode :: "nat \<Rightarrow> 'w::len word \<Rightarrow> u8 list" where
  "flags_encode sz flags = le_bytes sz flags"

definition flags_decode ::
  "('e \<Rightarrow> nat) \<Rightarrow> 'e list \<Rightarrow> nat \<Rightarrow> u8 list \<Rightarrow> ('w::len word \<times> u8 list) option" where
  "flags_decode pos variants sz input =
     (if length input < sz then None
      else let field = from_le_bytes (take sz input)
           in if field AND NOT (flags_all pos variants) = 0
              then Some (field, drop sz input)
              else None)"

locale bitflag_enum =
  fixes pos :: "'e \<Rightarrow> nat"
    and variants :: "'e list"
    and width :: "'w::len itself"
  assumes pos_inj: "pos a = pos b \<Longrightarrow> a = b"
    and pos_width: "pos e < LENGTH('w)"
    and variants_all: "e \<in> set variants"
begin

lemma contains_insert:
  "flags_contains pos (flags_insert pos (f :: 'w word) e) e' \<longleftrightarrow> e' = e \<or> flags_contains pos f e'"
  using pos_inj pos_width
  by (auto simp: flags_contains_def flags_insert_def bit_set_bit_iff)

lemma contains_remove:
  "flags_contains pos (flags_remove pos (f :: 'w word) e) e' \<longleftrightarrow> e' \<noteq> e \<and> flags_contains pos f e'"
  using pos_inj by (auto simp: flags_contains_def flags_remove_def bit_unset_bit_iff)

lemma contains_empty: "\<not> flags_contains pos (0 :: 'w word) e"
  by (simp add: flags_contains_def)

lemma set_iter: "set (flags_iter pos variants (f :: 'w word)) = {e. flags_contains pos f e}"
  using variants_all by (auto simp: flags_iter_def)

lemma fold_insert_contains:
  "flags_contains pos (fold (\<lambda>e g. flags_insert pos g e) es (f :: 'w word)) e
     \<longleftrightarrow> e \<in> set es \<or> flags_contains pos f e"
  by (induction es arbitrary: f) (auto simp: contains_insert)

lemma bit_foldr_set: "bit (foldr (\<lambda>e w. set_bit (pos e) w) es (0 :: 'w word)) n \<longleftrightarrow> n \<in> pos ` set es"
  using pos_width by (induction es) (auto simp: bit_set_bit_iff)

text \<open>A flag set that uses only the enum's bits, such as one built by inserting variants.\<close>

definition valid :: "'w word \<Rightarrow> bool" where
  "valid f \<longleftrightarrow> f AND NOT (flags_all pos variants) = 0"

lemma valid_bits: "valid f \<longleftrightarrow> (\<forall>n. bit f n \<longrightarrow> (\<exists>e. n = pos e))"
proof -
  have "(f AND NOT (flags_all pos variants) = 0)
      \<longleftrightarrow> (\<forall>n. bit f n \<longrightarrow> n \<in> pos ` set variants)"
    by (auto simp: bit_eq_iff bit_and_iff bit_not_iff flags_all_def bit_foldr_set
        dest: bit_imp_le_length)
  then show ?thesis using variants_all by (auto simp: valid_def)
qed

lemma valid_empty: "valid 0"
  by (simp add: valid_bits)

lemma valid_insert: "valid f \<Longrightarrow> valid (flags_insert pos f e)"
  by (auto simp: valid_bits flags_insert_def bit_set_bit_iff)

lemma valid_remove: "valid f \<Longrightarrow> valid (flags_remove pos f e)"
  by (auto simp: valid_bits flags_remove_def bit_unset_bit_iff)

lemma valid_eqI: "valid f \<Longrightarrow> valid g \<Longrightarrow> (\<And>e. flags_contains pos f e = flags_contains pos g e) \<Longrightarrow> f = g"
  by (rule bit_word_eqI) (metis flags_contains_def valid_bits)

lemma decode_encode:
  assumes "8 * sz = LENGTH('w)"
  shows "flags_decode pos variants sz (flags_encode sz f @ rest)
    = (if valid f then Some (f, rest) else None)"
proof -
  have "from_le_bytes (le_bytes sz f) = f"
    using assms by (simp add: from_le_bytes_le_bytes)
  then show ?thesis
    by (simp add: flags_decode_def flags_encode_def valid_def)
qed

lemma decode_valid: "flags_decode pos variants sz input = Some (f, rest) \<Longrightarrow> valid f"
  by (auto simp: flags_decode_def valid_def Let_def split: if_splits)

end

end
