(* ===== verification/Nfts_Types.thy ===== *)
theory Nfts_Types
  imports Bitflags
begin

text \<open>
  The data of the NFTs pallet: \<open>pallets/nfts/src/types.rs\<close> (structs as records, enums as
  datatypes, the bit flag wrappers as words) and, from \<open>lib.rs\<close>, the \<open>Config\<close> trait, the
  storages, the events and the errors. The generic identifiers are those of the runtimes:
  \<open>CollectionId\<close> and \<open>ItemId\<close> are \<open>u32\<close>, accounts are 32 bytes. Everything the pallet takes from
  outside the repository (the currency, the consumer references and block number of the system
  pallet, the locker, the origin checks, the address lookup, signature verification and the
  codec of the signed data) is a field of the record \<open>config\<close>, over an external state \<open>'x\<close>.
\<close>

type_synonym collection_id = u32
type_synonym item_id = u32

text \<open>Off-chain signatures are only handed to \<open>verify\<close>: they are opaque byte strings.\<close>

type_synonym signature = bytes

section \<open>Bit flag enums\<close>

datatype collection_setting =
  TransferableItems | UnlockedMetadata | UnlockedAttributes | UnlockedMaxSupply | DepositRequired

fun collection_setting_bit :: "collection_setting \<Rightarrow> nat" where
  "collection_setting_bit TransferableItems = 0"
| "collection_setting_bit collection_setting.UnlockedMetadata = 1"
| "collection_setting_bit collection_setting.UnlockedAttributes = 2"
| "collection_setting_bit UnlockedMaxSupply = 3"
| "collection_setting_bit DepositRequired = 4"

definition collection_setting_variants :: "collection_setting list" where
  "collection_setting_variants =
     [TransferableItems, collection_setting.UnlockedMetadata,
      collection_setting.UnlockedAttributes, UnlockedMaxSupply, DepositRequired]"

type_synonym collection_settings = "64 word"

definition collection_settings_all_enabled :: collection_settings where
  "collection_settings_all_enabled = 0"

definition collection_settings_is_disabled :: "collection_settings \<Rightarrow> collection_setting \<Rightarrow> bool" where
  "collection_settings_is_disabled s = flags_contains collection_setting_bit s"

definition collection_settings_get_disabled :: "collection_settings \<Rightarrow> collection_setting list" where
  "collection_settings_get_disabled s =
     flags_iter collection_setting_bit collection_setting_variants s"

datatype item_setting = Transferable | UnlockedMetadata | UnlockedAttributes

fun item_setting_bit :: "item_setting \<Rightarrow> nat" where
  "item_setting_bit Transferable = 0"
| "item_setting_bit item_setting.UnlockedMetadata = 1"
| "item_setting_bit item_setting.UnlockedAttributes = 2"

definition item_setting_variants :: "item_setting list" where
  "item_setting_variants =
     [Transferable, item_setting.UnlockedMetadata, item_setting.UnlockedAttributes]"

type_synonym item_settings = "64 word"

definition item_settings_all_enabled :: item_settings where
  "item_settings_all_enabled = 0"

definition item_settings_is_disabled :: "item_settings \<Rightarrow> item_setting \<Rightarrow> bool" where
  "item_settings_is_disabled s = flags_contains item_setting_bit s"

datatype pallet_feature = Trading | Attributes | Approvals | Swaps

fun pallet_feature_bit :: "pallet_feature \<Rightarrow> nat" where
  "pallet_feature_bit Trading = 0"
| "pallet_feature_bit Attributes = 1"
| "pallet_feature_bit Approvals = 2"
| "pallet_feature_bit Swaps = 3"

definition pallet_feature_variants :: "pallet_feature list" where
  "pallet_feature_variants = [Trading, Attributes, Approvals, Swaps]"

type_synonym pallet_features = "64 word"

definition pallet_features_is_enabled :: "pallet_features \<Rightarrow> pallet_feature \<Rightarrow> bool" where
  "pallet_features_is_enabled s f \<longleftrightarrow> \<not> flags_contains pallet_feature_bit s f"

datatype collection_role = Issuer | Freezer | Admin

fun collection_role_bit :: "collection_role \<Rightarrow> nat" where
  "collection_role_bit collection_role.Issuer = 0"
| "collection_role_bit Freezer = 1"
| "collection_role_bit Admin = 2"

definition collection_role_variants :: "collection_role list" where
  "collection_role_variants = [collection_role.Issuer, Freezer, Admin]"

type_synonym collection_roles = u8

definition collection_roles_none :: collection_roles where
  "collection_roles_none = 0"

definition collection_roles_has_role :: "collection_roles \<Rightarrow> collection_role \<Rightarrow> bool" where
  "collection_roles_has_role r = flags_contains collection_role_bit r"

definition collection_roles_add_role :: "collection_roles \<Rightarrow> collection_role \<Rightarrow> collection_roles" where
  "collection_roles_add_role r = flags_insert collection_role_bit r"

definition collection_roles_max_roles :: nat where
  "collection_roles_max_roles = length collection_role_variants"

section \<open>Structs and enums\<close>

record collection_details =
  cd_owner :: account_id
  cd_owner_deposit :: balance
  cd_items :: nat
  cd_item_metadatas :: nat
  cd_item_configs :: nat
  cd_attributes :: nat

record destroy_witness =
  dw_item_metadatas :: nat
  dw_item_configs :: nat
  dw_attributes :: nat

definition details_destroy_witness :: "collection_details \<Rightarrow> destroy_witness" where
  "details_destroy_witness d =
     \<lparr>dw_item_metadatas = cd_item_metadatas d, dw_item_configs = cd_item_configs d,
      dw_attributes = cd_attributes d\<rparr>"

record mint_witness =
  mw_owned_item :: "item_id option"
  mw_mint_price :: "balance option"

record item_deposit =
  dep_account :: account_id
  dep_amount :: balance

record item_details =
  it_owner :: account_id
  it_approvals :: "(account_id, block_number option) storage"
  it_deposit :: item_deposit

record collection_metadata =
  cm_deposit :: balance
  cm_data :: bytes

record item_metadata_deposit =
  imd_account :: "account_id option"
  imd_amount :: balance

record item_metadata =
  im_deposit :: item_metadata_deposit
  im_data :: bytes

record item_tip =
  tip_collection :: collection_id
  tip_item :: item_id
  tip_receiver :: account_id
  tip_amount :: balance

datatype price_direction = Send | Receive

record price_with_direction =
  pd_amount :: balance
  pd_direction :: price_direction

record pending_swap =
  sw_desired_collection :: collection_id
  sw_desired_item :: "item_id option"
  sw_price :: "price_with_direction option"
  sw_deadline :: block_number

record attribute_deposit =
  ad_account :: "account_id option"
  ad_amount :: balance

datatype mint_type = Issuer | Public | HolderOf collection_id

record mint_settings =
  ms_mint_type :: mint_type
  ms_price :: "balance option"
  ms_start_block :: "block_number option"
  ms_end_block :: "block_number option"
  ms_default_item_settings :: item_settings

definition mint_settings_default :: mint_settings where
  "mint_settings_default =
     \<lparr>ms_mint_type = mint_type.Issuer, ms_price = None, ms_start_block = None,
      ms_end_block = None, ms_default_item_settings = item_settings_all_enabled\<rparr>"

datatype attribute_namespace = Pallet | CollectionOwner | ItemOwner | Account account_id

record cancel_attributes_approval_witness =
  account_attributes :: nat

datatype pallet_attributes = UsedToClaim collection_id | TransferDisabled

record collection_config =
  cc_settings :: collection_settings
  cc_max_supply :: "nat option"
  cc_mint_settings :: mint_settings

definition collection_config_is_setting_enabled ::
  "collection_config \<Rightarrow> collection_setting \<Rightarrow> bool" where
  "collection_config_is_setting_enabled c s \<longleftrightarrow> \<not> collection_settings_is_disabled (cc_settings c) s"

definition collection_config_has_disabled_setting ::
  "collection_config \<Rightarrow> collection_setting \<Rightarrow> bool" where
  "collection_config_has_disabled_setting c s \<longleftrightarrow> collection_settings_is_disabled (cc_settings c) s"

definition collection_config_disable_setting ::
  "collection_setting \<Rightarrow> collection_config \<Rightarrow> collection_config" where
  "collection_config_disable_setting s c =
     c\<lparr>cc_settings := flags_insert collection_setting_bit (cc_settings c) s\<rparr>"

definition collection_config_enable_setting ::
  "collection_setting \<Rightarrow> collection_config \<Rightarrow> collection_config" where
  "collection_config_enable_setting s c =
     c\<lparr>cc_settings := flags_remove collection_setting_bit (cc_settings c) s\<rparr>"

record item_config =
  ic_settings :: item_settings

definition item_config_is_setting_enabled :: "item_config \<Rightarrow> item_setting \<Rightarrow> bool" where
  "item_config_is_setting_enabled c s \<longleftrightarrow> \<not> item_settings_is_disabled (ic_settings c) s"

definition item_config_has_disabled_setting :: "item_config \<Rightarrow> item_setting \<Rightarrow> bool" where
  "item_config_has_disabled_setting c s \<longleftrightarrow> item_settings_is_disabled (ic_settings c) s"

definition item_config_has_disabled_settings :: "item_config \<Rightarrow> bool" where
  "item_config_has_disabled_settings c \<longleftrightarrow> ic_settings c \<noteq> 0"

definition item_config_disable_setting :: "item_setting \<Rightarrow> item_config \<Rightarrow> item_config" where
  "item_config_disable_setting s c =
     c\<lparr>ic_settings := flags_insert item_setting_bit (ic_settings c) s\<rparr>"

definition item_config_enable_setting :: "item_setting \<Rightarrow> item_config \<Rightarrow> item_config" where
  "item_config_enable_setting s c =
     c\<lparr>ic_settings := flags_remove item_setting_bit (ic_settings c) s\<rparr>"

record pre_signed_mint =
  psm_collection :: collection_id
  psm_item :: item_id
  psm_attributes :: "(bytes \<times> bytes) list"
  psm_metadata :: bytes
  psm_only_account :: "account_id option"
  psm_deadline :: block_number
  psm_mint_price :: "balance option"

record pre_signed_attributes =
  psa_collection :: collection_id
  psa_item :: item_id
  psa_attributes :: "(bytes \<times> bytes) list"
  psa_namespace :: attribute_namespace
  psa_deadline :: block_number

section \<open>Errors and events\<close>

datatype (plugins only: code) nfts_error =
  NoPermission | UnknownCollection | AlreadyExists | ApprovalExpired | WrongOwner | BadWitness
| CollectionIdInUse | ItemsNonTransferable | NotDelegate | WrongDelegate | Unapproved | Unaccepted
| ItemLocked | LockedItemAttributes | LockedCollectionAttributes | LockedItemMetadata
| LockedCollectionMetadata | MaxSupplyReached | MaxSupplyLocked | MaxSupplyTooSmall | UnknownItem
| UnknownSwap | MetadataNotFound | AttributeNotFound | NotForSale | BidTooLow
| ReachedApprovalLimit | DeadlineExpired | WrongDuration | MethodDisabled | WrongSetting
| InconsistentItemConfig | NoConfig | RolesNotCleared | MintNotStarted | MintEnded | AlreadyClaimed
| IncorrectData | WrongOrigin | WrongSignature | IncorrectMetadata | MaxAttributesLimitReached
| WrongNamespace | CollectionNotEmpty | WitnessRequired

text \<open>What a call returns on failure: an error of this pallet, a refused origin, or an error of the
  code it calls (currency, system, lookup), which it only passes on.\<close>

datatype 'e call_error = Module nfts_error | BadOrigin | External 'e

datatype (plugins only: code) event =
  Created collection_id account_id account_id
| ForceCreated collection_id account_id
| Destroyed collection_id
| Issued collection_id item_id account_id
| Transferred collection_id item_id account_id account_id
| Burned collection_id item_id account_id
| ItemTransferLocked collection_id item_id
| ItemTransferUnlocked collection_id item_id
| ItemPropertiesLocked collection_id item_id bool bool
| CollectionLocked collection_id
| OwnerChanged collection_id account_id
| TeamChanged collection_id "account_id option" "account_id option" "account_id option"
| TransferApproved collection_id item_id account_id account_id "block_number option"
| ApprovalCancelled collection_id item_id account_id account_id
| AllApprovalsCancelled collection_id item_id account_id
| CollectionConfigChanged collection_id
| CollectionMetadataSet collection_id bytes
| CollectionMetadataCleared collection_id
| ItemMetadataSet collection_id item_id bytes
| ItemMetadataCleared collection_id item_id
| Redeposited collection_id "item_id list"
| AttributeSet collection_id "item_id option" bytes bytes attribute_namespace
| AttributeCleared collection_id "item_id option" bytes attribute_namespace
| ItemAttributesApprovalAdded collection_id item_id account_id
| ItemAttributesApprovalRemoved collection_id item_id account_id
| OwnershipAcceptanceChanged account_id "collection_id option"
| CollectionMaxSupplySet collection_id nat
| CollectionMintSettingsUpdated collection_id
| NextCollectionIdIncremented "collection_id option"
| ItemPriceSet collection_id item_id balance "account_id option"
| ItemPriceRemoved collection_id item_id
| ItemBought collection_id item_id balance account_id account_id
| TipSent collection_id item_id account_id account_id balance
| SwapCreated collection_id item_id collection_id "item_id option" "price_with_direction option" block_number
| SwapCancelled collection_id item_id collection_id "item_id option" "price_with_direction option" block_number
| SwapClaimed collection_id item_id account_id collection_id item_id account_id "price_with_direction option" block_number
| PreSignedAttributesSet collection_id item_id attribute_namespace
| PalletAttributeSet collection_id "item_id option" pallet_attributes bytes

section \<open>Storage\<close>

type_synonym attribute_key = "collection_id \<times> item_id option \<times> attribute_namespace \<times> bytes"

record 'x nfts =
  Collection :: "(collection_id, collection_details) storage"
  OwnershipAcceptance :: "(account_id, collection_id) storage"
  Account :: "(account_id \<times> collection_id \<times> item_id, unit) storage"
  CollectionAccount :: "(account_id \<times> collection_id, unit) storage"
  CollectionRoleOf :: "(collection_id \<times> account_id, collection_roles) storage"
  Item :: "(collection_id \<times> item_id, item_details) storage"
  CollectionMetadataOf :: "(collection_id, collection_metadata) storage"
  ItemMetadataOf :: "(collection_id \<times> item_id, item_metadata) storage"
  Attribute :: "(attribute_key, bytes \<times> attribute_deposit) storage"
  ItemPriceOf :: "(collection_id \<times> item_id, balance \<times> account_id option) storage"
  ItemAttributesApprovalsOf :: "(collection_id \<times> item_id, account_id list) storage"
  NextCollectionId :: "collection_id option"
  PendingSwapOf :: "(collection_id \<times> item_id, pending_swap) storage"
  CollectionConfigOf :: "(collection_id, collection_config) storage"
  ItemConfigOf :: "(collection_id \<times> item_id, item_config) storage"
  events :: "event list"
  ext :: 'x

definition nfts_genesis :: "'x \<Rightarrow> 'x nfts" where
  "nfts_genesis x =
     \<lparr>Collection = [], OwnershipAcceptance = [], Account = [], CollectionAccount = [],
      CollectionRoleOf = [], Item = [], CollectionMetadataOf = [], ItemMetadataOf = [],
      Attribute = [], ItemPriceOf = [], ItemAttributesApprovalsOf = [], NextCollectionId = None,
      PendingSwapOf = [], CollectionConfigOf = [], ItemConfigOf = [], events = [], ext = x\<rparr>"

definition deposit_event :: "event \<Rightarrow> 'x nfts \<Rightarrow> 'x nfts" where
  "deposit_event e s = s\<lparr>events := events s @ [e]\<rparr>"

section \<open>Configuration\<close>

record ('x, 'e) config =
  collection_deposit :: balance
  item_deposit :: balance
  metadata_deposit_base :: balance
  attribute_deposit_base :: balance
  deposit_per_byte :: balance
  string_limit :: nat
  key_limit :: nat
  value_limit :: nat
  approvals_limit :: nat
  item_attributes_approvals_limit :: nat
  max_tips :: nat
  max_deadline_duration :: block_number
  max_attributes_per_call :: nat
  features :: pallet_features
  initial_value :: "collection_id option"
  increment :: "collection_id \<Rightarrow> collection_id option"
  force_origin :: "origin \<Rightarrow> bool"
  create_origin :: "origin \<Rightarrow> collection_id \<Rightarrow> account_id option"
  is_locked :: "'x \<Rightarrow> collection_id \<Rightarrow> item_id \<Rightarrow> bool"
  currency_reserve :: "account_id \<Rightarrow> balance \<Rightarrow> 'x \<Rightarrow> 'e + 'x"
  currency_unreserve :: "account_id \<Rightarrow> balance \<Rightarrow> 'x \<Rightarrow> 'x"
  currency_repatriate_reserved :: "account_id \<Rightarrow> account_id \<Rightarrow> balance \<Rightarrow> 'x \<Rightarrow> 'e + 'x"
  currency_transfer_keep_alive :: "account_id \<Rightarrow> account_id \<Rightarrow> balance \<Rightarrow> 'x \<Rightarrow> 'e + 'x"
  inc_consumers :: "account_id \<Rightarrow> 'x \<Rightarrow> 'e + 'x"
  dec_consumers :: "account_id \<Rightarrow> 'x \<Rightarrow> 'x"
  block_number :: "'x \<Rightarrow> block_number"
  lookup :: "address \<Rightarrow> 'e + account_id"
  verify :: "signature \<Rightarrow> bytes \<Rightarrow> account_id \<Rightarrow> bool"
  encode_pallet_attribute :: "pallet_attributes \<Rightarrow> bytes"
  encode_pre_signed_mint :: "pre_signed_mint \<Rightarrow> bytes"
  encode_pre_signed_attributes :: "pre_signed_attributes \<Rightarrow> bytes"

text \<open>The external state threaded through the pallet's state: a call that can fail, and one that
  cannot.\<close>

definition on_ext :: "('x \<Rightarrow> 'e + 'x) \<Rightarrow> 'x nfts \<Rightarrow> 'e call_error + 'x nfts" where
  "on_ext f s = (case f (ext s) of Inl e \<Rightarrow> Inl (External e) | Inr x \<Rightarrow> Inr (s\<lparr>ext := x\<rparr>))"

definition upd_ext :: "('x \<Rightarrow> 'x) \<Rightarrow> 'x nfts \<Rightarrow> 'x nfts" where
  "upd_ext f s = s\<lparr>ext := f (ext s)\<rparr>"

definition reserve ::
  "('x, 'e) config \<Rightarrow> account_id \<Rightarrow> balance \<Rightarrow> 'x nfts \<Rightarrow> 'e call_error + 'x nfts" where
  "reserve cfg who amount = on_ext (currency_reserve cfg who amount)"

definition unreserve ::
  "('x, 'e) config \<Rightarrow> account_id \<Rightarrow> balance \<Rightarrow> 'x nfts \<Rightarrow> 'x nfts" where
  "unreserve cfg who amount = upd_ext (currency_unreserve cfg who amount)"

definition repatriate_reserved ::
  "('x, 'e) config \<Rightarrow> account_id \<Rightarrow> account_id \<Rightarrow> balance \<Rightarrow> 'x nfts
    \<Rightarrow> 'e call_error + 'x nfts" where
  "repatriate_reserved cfg slashed beneficiary amount =
     on_ext (currency_repatriate_reserved cfg slashed beneficiary amount)"

definition currency_transfer ::
  "('x, 'e) config \<Rightarrow> account_id \<Rightarrow> account_id \<Rightarrow> balance \<Rightarrow> 'x nfts
    \<Rightarrow> 'e call_error + 'x nfts" where
  "currency_transfer cfg source dest amount =
     on_ext (currency_transfer_keep_alive cfg source dest amount)"

definition now :: "('x, 'e) config \<Rightarrow> 'x nfts \<Rightarrow> block_number" where
  "now cfg s = block_number cfg (ext s)"

text \<open>\<open>BoundedBTreeMap::try_insert\<close> and \<open>BoundedBTreeSet::try_insert\<close>: refused when the key is new
  and the bound is reached. \<open>BoundedVec::try_from\<close>: refused when too long.\<close>

definition bounded_map_insert :: "nat \<Rightarrow> 'k \<Rightarrow> 'v \<Rightarrow> ('k, 'v) storage \<Rightarrow> ('k, 'v) storage option" where
  "bounded_map_insert bound k v m =
     (if length m < bound \<or> contains_key m k then Some (sput k v m) else None)"

definition bounded_set_insert :: "nat \<Rightarrow> 'k \<Rightarrow> 'k list \<Rightarrow> 'k list option" where
  "bounded_set_insert bound k ks =
     (if length ks < bound \<or> k \<in> set ks then Some (List.insert k ks) else None)"

definition bounded_vec :: "nat \<Rightarrow> 'e \<Rightarrow> 'v list \<Rightarrow> 'e + 'v list" where
  "bounded_vec bound err xs = (if length xs \<le> bound then Inr xs else Inl err)"

section \<open>Laws of the flag sets\<close>

interpretation cs: bitflag_enum collection_setting_bit collection_setting_variants "TYPE(64)"
proof unfold_locales
  fix a b e :: collection_setting
  show "collection_setting_bit a = collection_setting_bit b \<Longrightarrow> a = b"
    by (cases a; cases b) simp_all
  show "collection_setting_bit e < LENGTH(64)" by (cases e) simp_all
  show "e \<in> set collection_setting_variants"
    by (cases e) (simp_all add: collection_setting_variants_def)
qed

interpretation its: bitflag_enum item_setting_bit item_setting_variants "TYPE(64)"
proof unfold_locales
  fix a b e :: item_setting
  show "item_setting_bit a = item_setting_bit b \<Longrightarrow> a = b" by (cases a; cases b) simp_all
  show "item_setting_bit e < LENGTH(64)" by (cases e) simp_all
  show "e \<in> set item_setting_variants" by (cases e) (simp_all add: item_setting_variants_def)
qed

interpretation pf: bitflag_enum pallet_feature_bit pallet_feature_variants "TYPE(64)"
proof unfold_locales
  fix a b e :: pallet_feature
  show "pallet_feature_bit a = pallet_feature_bit b \<Longrightarrow> a = b" by (cases a; cases b) simp_all
  show "pallet_feature_bit e < LENGTH(64)" by (cases e) simp_all
  show "e \<in> set pallet_feature_variants" by (cases e) (simp_all add: pallet_feature_variants_def)
qed

interpretation cr: bitflag_enum collection_role_bit collection_role_variants "TYPE(8)"
proof unfold_locales
  fix a b e :: collection_role
  show "collection_role_bit a = collection_role_bit b \<Longrightarrow> a = b" by (cases a; cases b) simp_all
  show "collection_role_bit e < LENGTH(8)" by (cases e) simp_all
  show "e \<in> set collection_role_variants" by (cases e) (simp_all add: collection_role_variants_def)
qed

lemma collection_disable_setting [simp]:
  "collection_settings_is_disabled (cc_settings (collection_config_disable_setting s c)) s'
     \<longleftrightarrow> s' = s \<or> collection_settings_is_disabled (cc_settings c) s'"
  by (simp add: collection_settings_is_disabled_def collection_config_disable_setting_def
      cs.contains_insert)

lemma collection_disable_setting_frame [simp]:
  "cc_max_supply (collection_config_disable_setting s c) = cc_max_supply c"
  "cc_mint_settings (collection_config_disable_setting s c) = cc_mint_settings c"
  by (simp_all add: collection_config_disable_setting_def)

lemma item_disable_setting [simp]:
  "item_settings_is_disabled (ic_settings (item_config_disable_setting s c)) s'
     \<longleftrightarrow> s' = s \<or> item_settings_is_disabled (ic_settings c) s'"
  by (simp add: item_settings_is_disabled_def item_config_disable_setting_def its.contains_insert)

lemma item_enable_setting [simp]:
  "item_settings_is_disabled (ic_settings (item_config_enable_setting s c)) s'
     \<longleftrightarrow> s' \<noteq> s \<and> item_settings_is_disabled (ic_settings c) s'"
  by (simp add: item_settings_is_disabled_def item_config_enable_setting_def its.contains_remove)

lemma item_disabled_settings:
  "item_settings_is_disabled (ic_settings c) s \<Longrightarrow> item_config_has_disabled_settings c"
  by (auto simp: item_settings_is_disabled_def item_config_has_disabled_settings_def
      flags_contains_def)

section \<open>Inversion and frame lemmas\<close>

lemma on_ext_Inr [exec_simps]: "on_ext f s = Inr t \<longleftrightarrow> (\<exists>x. f (ext s) = Inr x \<and> t = s\<lparr>ext := x\<rparr>)"
  by (auto simp: on_ext_def split: sum.splits)

lemmas ext_calls [exec_simps] =
  reserve_def repatriate_reserved_def currency_transfer_def

lemma bounded_vec_Inr [exec_simps]: "bounded_vec b e xs = Inr ys \<longleftrightarrow> ys = xs \<and> length xs \<le> b"
  by (auto simp: bounded_vec_def)

text \<open>A call that touches nothing but the state outside the pallet.\<close>

definition only_ext :: "'x nfts \<Rightarrow> 'x nfts \<Rightarrow> bool" where
  "only_ext s s' \<longleftrightarrow> (\<exists>x. s' = s\<lparr>ext := x\<rparr>)"

lemma only_extE: "only_ext s s' \<Longrightarrow> (\<And>x. s' = s\<lparr>ext := x\<rparr> \<Longrightarrow> P) \<Longrightarrow> P"
  by (auto simp: only_ext_def)

lemma only_ext_refl: "only_ext s s"
  unfolding only_ext_def by (rule exI [of _ "ext s"]) simp

lemma only_ext_upd: "only_ext s (s\<lparr>ext := x\<rparr>)"
  unfolding only_ext_def by (rule exI) (rule refl)

lemma only_ext_trans: "only_ext s t \<Longrightarrow> only_ext t u \<Longrightarrow> only_ext s u"
  by (elim only_extE) (simp add: only_ext_upd)

lemma only_ext_unreserve: "only_ext s (unreserve cfg a b s)"
  unfolding unreserve_def upd_ext_def by (rule only_ext_upd)

lemma only_ext_on_ext: "on_ext f s = Inr s' \<Longrightarrow> only_ext s s'"
  unfolding on_ext_Inr by (elim exE conjE) (simp only: only_ext_upd)

lemma only_ext_currency:
  "reserve cfg a b s = Inr s' \<Longrightarrow> only_ext s s'"
  "repatriate_reserved cfg a d b s = Inr s' \<Longrightarrow> only_ext s s'"
  "currency_transfer cfg a d b s = Inr s' \<Longrightarrow> only_ext s s'"
  unfolding ext_calls by (fact only_ext_on_ext)+

lemmas only_ext_intros =
  only_ext_refl only_ext_upd only_ext_unreserve only_ext_on_ext only_ext_currency only_ext_trans

end
