(* ===== verification/Nfts_Admin.thy ===== *)
theory Nfts_Admin
  imports Nfts_Types
begin

text \<open>
  Common functions, collection settings, roles and locks of the NFTs pallet:
  \<open>common_functions.rs\<close>, \<open>features/settings.rs\<close>, \<open>features/roles.rs\<close> and \<open>features/lock.rs\<close>.
\<close>

section \<open>Common functions\<close>

definition owner :: "collection_id \<Rightarrow> item_id \<Rightarrow> 'x nfts \<Rightarrow> account_id option" where
  "owner collection item s = map_option it_owner (sget (Item s) (collection, item))"

definition collection_owner :: "collection_id \<Rightarrow> 'x nfts \<Rightarrow> account_id option" where
  "collection_owner collection s = map_option cd_owner (sget (Collection s) collection)"

definition bytes_prefix :: bytes where
  "bytes_prefix = [60, 66, 121, 116, 101, 115, 62]"

definition bytes_suffix :: bytes where
  "bytes_suffix = [60, 47, 66, 121, 116, 101, 115, 62]"

definition validate_signature ::
  "('x, 'e) config \<Rightarrow> bytes \<Rightarrow> signature \<Rightarrow> account_id \<Rightarrow> 'e call_error + unit" where
  "validate_signature cfg data signature signer =
     (if verify cfg signature data signer then Inr ()
      else let wrapped = bytes_prefix @ data @ bytes_suffix
           in ensure (verify cfg signature wrapped signer) (Module WrongSignature) (Inr ()))"

definition set_next_collection_id ::
  "('x, 'e) config \<Rightarrow> collection_id \<Rightarrow> 'x nfts \<Rightarrow> 'x nfts" where
  "set_next_collection_id cfg collection s =
     (let next_id = increment cfg collection
      in deposit_event (NextCollectionIdIncremented next_id) (s\<lparr>NextCollectionId := next_id\<rparr>))"

section \<open>Settings\<close>

definition get_collection_config :: "collection_id \<Rightarrow> 'x nfts \<Rightarrow> 'e call_error + collection_config" where
  "get_collection_config collection s =
     ok_or (sget (CollectionConfigOf s) collection) (Module NoConfig) Inr"

definition get_item_config :: "collection_id \<Rightarrow> item_id \<Rightarrow> 'x nfts \<Rightarrow> 'e call_error + item_config" where
  "get_item_config collection item s =
     ok_or (sget (ItemConfigOf s) (collection, item)) (Module UnknownItem) Inr"

definition get_default_item_settings :: "collection_id \<Rightarrow> 'x nfts \<Rightarrow> 'e call_error + item_settings" where
  "get_default_item_settings collection s =
     andthen (get_collection_config collection s) (\<lambda>collection_config.
     Inr (ms_default_item_settings (cc_mint_settings collection_config)))"

definition is_pallet_feature_enabled :: "('x, 'e) config \<Rightarrow> pallet_feature \<Rightarrow> bool" where
  "is_pallet_feature_enabled cfg feature = pallet_features_is_enabled (features cfg) feature"

definition do_force_collection_config ::
  "collection_id \<Rightarrow> collection_config \<Rightarrow> 'x nfts \<Rightarrow> 'e call_error + 'x nfts" where
  "do_force_collection_config collection config s =
     ensure (contains_key (Collection s) collection) (Module UnknownCollection) (
     Inr (deposit_event (CollectionConfigChanged collection)
       (s\<lparr>CollectionConfigOf := sput collection config (CollectionConfigOf s)\<rparr>)))"

definition do_set_collection_max_supply ::
  "account_id option \<Rightarrow> collection_id \<Rightarrow> nat \<Rightarrow> 'x nfts \<Rightarrow> 'e call_error + 'x nfts" where
  "do_set_collection_max_supply maybe_check_owner collection max_supply s =
     andthen (get_collection_config collection s) (\<lambda>collection_config.
     ensure (collection_config_is_setting_enabled collection_config UnlockedMaxSupply)
       (Module MaxSupplyLocked) (
     ok_or (sget (Collection s) collection) (Module UnknownCollection) (\<lambda>details.
     ensure (pred_option (\<lambda>check_owner. check_owner = cd_owner details) maybe_check_owner)
       (Module NoPermission) (
     ensure (cd_items details \<le> max_supply) (Module MaxSupplyTooSmall) (
     ok_or (sget (CollectionConfigOf s) collection) (Module NoConfig) (\<lambda>config.
     Inr (deposit_event (CollectionMaxSupplySet collection max_supply)
       (s\<lparr>CollectionConfigOf :=
            sput collection (config\<lparr>cc_max_supply := Some max_supply\<rparr>) (CollectionConfigOf s)\<rparr>))))))))"

section \<open>Roles\<close>

definition has_role :: "collection_id \<Rightarrow> account_id \<Rightarrow> collection_role \<Rightarrow> 'x nfts \<Rightarrow> bool" where
  "has_role collection account role s =
     (case sget (CollectionRoleOf s) (collection, account) of
        None \<Rightarrow> False
      | Some roles \<Rightarrow> collection_roles_has_role roles role)"

definition find_account_by_role ::
  "collection_id \<Rightarrow> collection_role \<Rightarrow> 'x nfts \<Rightarrow> account_id option" where
  "find_account_by_role collection role s =
     map_option (\<lambda>entry. snd (fst entry))
       (List.find (\<lambda>entry. collection_roles_has_role (snd entry) role)
         (iter_prefix (\<lambda>k. fst k = collection) (CollectionRoleOf s)))"

text \<open>\<open>BTreeMap::entry(account).or_insert(none()).add_role(role)\<close>, on the entries in key order.\<close>

fun entry_add_role ::
  "account_id \<Rightarrow> collection_role \<Rightarrow> (account_id \<times> collection_roles) list
    \<Rightarrow> (account_id \<times> collection_roles) list" where
  "entry_add_role account role [] = [(account, collection_roles_add_role collection_roles_none role)]"
| "entry_add_role account role ((a, roles) # m) =
     (if account < a
      then (account, collection_roles_add_role collection_roles_none role) # (a, roles) # m
      else if account = a then (a, collection_roles_add_role roles role) # m
      else (a, roles) # entry_add_role account role m)"

definition group_roles_by_account ::
  "(account_id \<times> collection_role) list \<Rightarrow> (account_id \<times> collection_roles) list" where
  "group_roles_by_account input = fold (\<lambda>(account, role). entry_add_role account role) input []"

definition clear_roles :: "collection_id \<Rightarrow> 'x nfts \<Rightarrow> 'e call_error + 'x nfts" where
  "clear_roles collection s =
     (let (roles, cursor) =
        clear_prefix (\<lambda>k. fst k = collection) collection_roles_max_roles (CollectionRoleOf s)
      in ensure (\<not> cursor) (Module RolesNotCleared) (Inr (s\<lparr>CollectionRoleOf := roles\<rparr>)))"

definition insert_roles ::
  "collection_id \<Rightarrow> (account_id \<times> collection_roles) list \<Rightarrow> 'x nfts \<Rightarrow> 'x nfts" where
  "insert_roles collection account_to_role s =
     s\<lparr>CollectionRoleOf :=
         fold (\<lambda>(account, roles). sput (collection, account) roles) account_to_role
           (CollectionRoleOf s)\<rparr>"

definition do_set_team ::
  "account_id option \<Rightarrow> collection_id \<Rightarrow> account_id option \<Rightarrow> account_id option \<Rightarrow> account_id option
    \<Rightarrow> 'x nfts \<Rightarrow> 'e call_error + 'x nfts" where
  "do_set_team maybe_check_owner collection issuer admin freezer s =
     ok_or (sget (Collection s) collection) (Module UnknownCollection) (\<lambda>details.
     let is_root = (maybe_check_owner = None) in
     ensure (pred_option (\<lambda>check_origin. check_origin = cd_owner details) maybe_check_owner)
       (Module NoPermission) (
     let roles_map = [(issuer, collection_role.Issuer), (admin, Admin), (freezer, Freezer)] in
     ensure (is_root \<or> list_all (\<lambda>(account, role).
         account \<noteq> None \<longrightarrow> find_account_by_role collection role s \<noteq> None) roles_map)
       (Module NoPermission) (
     let roles = List.map_filter (\<lambda>(account, role). map_option (\<lambda>a. (a, role)) account) roles_map;
         account_to_role = group_roles_by_account roles in
     andthen (clear_roles collection s) (\<lambda>s.
     Inr (deposit_event (TeamChanged collection issuer admin freezer)
       (insert_roles collection account_to_role s))))))"

definition do_update_mint_settings ::
  "account_id option \<Rightarrow> collection_id \<Rightarrow> mint_settings \<Rightarrow> 'x nfts \<Rightarrow> 'e call_error + 'x nfts" where
  "do_update_mint_settings maybe_check_origin collection mint_settings s =
     ensure (pred_option (\<lambda>check_origin. has_role collection check_origin collection_role.Issuer s)
       maybe_check_origin) (Module NoPermission) (
     ok_or (sget (CollectionConfigOf s) collection) (Module NoConfig) (\<lambda>config.
     Inr (deposit_event (CollectionMintSettingsUpdated collection)
       (s\<lparr>CollectionConfigOf :=
            sput collection (config\<lparr>cc_mint_settings := mint_settings\<rparr>) (CollectionConfigOf s)\<rparr>))))"

section \<open>Locks\<close>

definition do_lock_collection ::
  "account_id \<Rightarrow> collection_id \<Rightarrow> collection_settings \<Rightarrow> 'x nfts \<Rightarrow> 'e call_error + 'x nfts" where
  "do_lock_collection origin collection lock_settings s =
     ensure (collection_owner collection s = Some origin) (Module NoPermission) (
     ensure (\<not> collection_settings_is_disabled lock_settings DepositRequired) (Module WrongSetting) (
     ok_or (sget (CollectionConfigOf s) collection) (Module NoConfig) (\<lambda>config.
     let config =
       fold collection_config_disable_setting (collection_settings_get_disabled lock_settings) config in
     Inr (deposit_event (CollectionLocked collection)
       (s\<lparr>CollectionConfigOf := sput collection config (CollectionConfigOf s)\<rparr>)))))"

definition do_lock_item_transfer ::
  "account_id \<Rightarrow> collection_id \<Rightarrow> item_id \<Rightarrow> 'x nfts \<Rightarrow> 'e call_error + 'x nfts" where
  "do_lock_item_transfer origin collection item s =
     ensure (has_role collection origin Freezer s) (Module NoPermission) (
     andthen (get_item_config collection item s) (\<lambda>config.
     let config = (if \<not> item_config_has_disabled_setting config Transferable
                   then item_config_disable_setting Transferable config else config) in
     Inr (deposit_event (ItemTransferLocked collection item)
       (s\<lparr>ItemConfigOf := sput (collection, item) config (ItemConfigOf s)\<rparr>))))"

definition do_unlock_item_transfer ::
  "account_id \<Rightarrow> collection_id \<Rightarrow> item_id \<Rightarrow> 'x nfts \<Rightarrow> 'e call_error + 'x nfts" where
  "do_unlock_item_transfer origin collection item s =
     ensure (has_role collection origin Freezer s) (Module NoPermission) (
     andthen (get_item_config collection item s) (\<lambda>config.
     let config = (if item_config_has_disabled_setting config Transferable
                   then item_config_enable_setting Transferable config else config) in
     Inr (deposit_event (ItemTransferUnlocked collection item)
       (s\<lparr>ItemConfigOf := sput (collection, item) config (ItemConfigOf s)\<rparr>))))"

definition do_lock_item_properties ::
  "account_id option \<Rightarrow> collection_id \<Rightarrow> item_id \<Rightarrow> bool \<Rightarrow> bool \<Rightarrow> 'x nfts
    \<Rightarrow> 'e call_error + 'x nfts" where
  "do_lock_item_properties maybe_check_origin collection item lock_metadata lock_attributes s =
     ensure (pred_option (\<lambda>check_origin. has_role collection check_origin Admin s) maybe_check_origin)
       (Module NoPermission) (
     ok_or (sget (ItemConfigOf s) (collection, item)) (Module UnknownItem) (\<lambda>config.
     let config = (if lock_metadata
                   then item_config_disable_setting item_setting.UnlockedMetadata config else config);
         config = (if lock_attributes
                   then item_config_disable_setting item_setting.UnlockedAttributes config else config) in
     Inr (deposit_event (ItemPropertiesLocked collection item lock_metadata lock_attributes)
       (s\<lparr>ItemConfigOf := sput (collection, item) config (ItemConfigOf s)\<rparr>))))"

section \<open>Inversion lemmas\<close>

lemma get_config_Inr [exec_simps]:
  "get_collection_config c s = Inr cc \<longleftrightarrow> sget (CollectionConfigOf s) c = Some cc"
  "get_item_config c i s = Inr ic \<longleftrightarrow> sget (ItemConfigOf s) (c, i) = Some ic"
  by (auto simp: get_collection_config_def get_item_config_def exec_simps)

lemma clear_roles_Inr [exec_simps]:
  "clear_roles c s = Inr s' \<longleftrightarrow>
     \<not> snd (clear_prefix (\<lambda>k. fst k = c) collection_roles_max_roles (CollectionRoleOf s)) \<and>
     s' = s\<lparr>CollectionRoleOf := remove_prefix (\<lambda>k. fst k = c) (CollectionRoleOf s)\<rparr>"
  by (auto simp: clear_roles_def exec_simps clear_prefix_no_cursor split: prod.splits)
     (metis clear_prefix_no_cursor fst_conv snd_conv)+

end
