(* ===== verification/Nfts_Attributes.thy ===== *)
theory Nfts_Attributes
  imports Nfts_Admin
begin

text \<open>
  Attributes and metadata of collections and items: \<open>features/attributes.rs\<close> and
  \<open>features/metadata.rs\<close>.
\<close>

definition as_u32 :: "nat \<Rightarrow> nat" where
  "as_u32 n = n mod 2 ^ 32"

text \<open>The step that \<open>do_set_attribute\<close> and \<open>do_set_item_metadata\<close> share: release the old deposit and
  take the new one when the depositor changes, otherwise reserve or release the difference.\<close>

definition move_deposit ::
  "('x, 'e) config \<Rightarrow> account_id option \<Rightarrow> balance \<Rightarrow> account_id \<Rightarrow> balance \<Rightarrow> 'x nfts
    \<Rightarrow> 'e call_error + 'x nfts" where
  "move_deposit cfg old_depositor old_amount depositor amount s =
     (if old_depositor \<noteq> Some depositor
      then reserve cfg depositor amount
             (case old_depositor of
                None \<Rightarrow> s
              | Some old \<Rightarrow> unreserve cfg old old_amount s)
      else if amount > old_amount then reserve cfg depositor (amount - old_amount) s
      else if amount < old_amount then Inr (unreserve cfg depositor (old_amount - amount) s)
      else Inr s)"

section \<open>Attributes\<close>

definition item_attributes_approvals :: "collection_id \<Rightarrow> item_id \<Rightarrow> 'x nfts \<Rightarrow> account_id list" where
  "item_attributes_approvals collection item s =
     (case sget (ItemAttributesApprovalsOf s) (collection, item) of None \<Rightarrow> [] | Some l \<Rightarrow> l)"

definition is_valid_namespace ::
  "account_id \<Rightarrow> attribute_namespace \<Rightarrow> collection_id \<Rightarrow> item_id option \<Rightarrow> 'x nfts
    \<Rightarrow> 'e call_error + bool" where
  "is_valid_namespace origin namespace collection maybe_item s =
     (case namespace of
        CollectionOwner \<Rightarrow> Inr (has_role collection origin Admin s)
      | ItemOwner \<Rightarrow>
          (case maybe_item of
             None \<Rightarrow> Inr False
           | Some item \<Rightarrow>
               ok_or (sget (Item s) (collection, item)) (Module UnknownItem) (\<lambda>item_details.
               Inr (origin = it_owner item_details)))
      | attribute_namespace.Account account \<Rightarrow>
          (case maybe_item of
             None \<Rightarrow> Inr False
           | Some item \<Rightarrow>
               Inr (account = origin \<and> origin \<in> set (item_attributes_approvals collection item s)))
      | Pallet \<Rightarrow> Inr False)"

definition construct_attribute_key ::
  "('x, 'e) config \<Rightarrow> bytes \<Rightarrow> 'e call_error + bytes" where
  "construct_attribute_key cfg key = bounded_vec (key_limit cfg) (Module IncorrectData) key"

definition construct_attribute_value ::
  "('x, 'e) config \<Rightarrow> bytes \<Rightarrow> 'e call_error + bytes" where
  "construct_attribute_value cfg v = bounded_vec (value_limit cfg) (Module IncorrectData) v"

definition has_system_attribute ::
  "('x, 'e) config \<Rightarrow> collection_id \<Rightarrow> item_id \<Rightarrow> pallet_attributes \<Rightarrow> 'x nfts
    \<Rightarrow> 'e call_error + bool" where
  "has_system_attribute cfg collection item attribute_key s =
     andthen (construct_attribute_key cfg (encode_pallet_attribute cfg attribute_key)) (\<lambda>key.
     Inr (contains_key (Attribute s) (collection, Some item, Pallet, key)))"

definition do_set_attribute ::
  "('x, 'e) config \<Rightarrow> account_id \<Rightarrow> collection_id \<Rightarrow> item_id option \<Rightarrow> attribute_namespace
    \<Rightarrow> bytes \<Rightarrow> bytes \<Rightarrow> account_id \<Rightarrow> 'x nfts \<Rightarrow> 'e call_error + 'x nfts" where
  "do_set_attribute cfg origin collection maybe_item namespace key v depositor s =
     ensure (is_pallet_feature_enabled cfg Attributes) (Module MethodDisabled) (
     andthen (is_valid_namespace origin namespace collection maybe_item s) (\<lambda>valid.
     ensure valid (Module NoPermission) (
     andthen (get_collection_config collection s) (\<lambda>collection_config.
     andthen
       (if namespace = CollectionOwner
        then (case maybe_item of
                None \<Rightarrow>
                  ensure (collection_config_is_setting_enabled collection_config
                      collection_setting.UnlockedAttributes)
                    (Module LockedCollectionAttributes) (Inr ())
              | Some item \<Rightarrow>
                  andthen (get_item_config collection item s) (\<lambda>c.
                  ensure (\<not> item_config_has_disabled_setting c item_setting.UnlockedAttributes)
                    (Module LockedItemAttributes) (Inr ())))
        else Inr ()) (\<lambda>_.
     ok_or (sget (Collection s) collection) (Module UnknownCollection) (\<lambda>details.
     let attribute = sget (Attribute s) (collection, maybe_item, namespace, key);
         attribute_exists = (attribute \<noteq> None);
         details = (if \<not> attribute_exists
                    then details\<lparr>cd_attributes := saturating_inc (cd_attributes details)\<rparr>
                    else details);
         old_deposit = (case attribute of
                          None \<Rightarrow> \<lparr>ad_account = None, ad_amount = 0\<rparr>
                        | Some m \<Rightarrow> snd m);
         deposit = (if collection_config_is_setting_enabled collection_config DepositRequired
                        \<or> namespace \<noteq> CollectionOwner
                    then saturating_add
                           (saturating_mul (deposit_per_byte cfg) (as_u32 (length key + length v)))
                           (attribute_deposit_base cfg)
                    else 0);
         is_collection_owner_namespace = (namespace = CollectionOwner);
         is_depositor_collection_owner =
           (is_collection_owner_namespace \<and> cd_owner details = depositor);
         old_depositor = (if is_collection_owner_namespace \<and> ad_account old_deposit = None
                              \<and> attribute_exists
                          then Some (cd_owner details)
                          else ad_account old_deposit);
         depositor_has_changed = (old_depositor \<noteq> Some depositor) in
     andthen (move_deposit cfg old_depositor (ad_amount old_deposit) depositor deposit s) (\<lambda>s.
     let details =
           (if is_depositor_collection_owner
            then let d = (if \<not> depositor_has_changed
                          then details\<lparr>cd_owner_deposit :=
                                 saturating_sub (cd_owner_deposit details) (ad_amount old_deposit)\<rparr>
                          else details)
                 in d\<lparr>cd_owner_deposit := saturating_add (cd_owner_deposit d) deposit\<rparr>
            else details);
         new_deposit_owner = (if is_depositor_collection_owner then None else Some depositor) in
     Inr (deposit_event (AttributeSet collection maybe_item key v namespace)
       (s\<lparr>Attribute :=
            sput (collection, maybe_item, namespace, key)
              (v, \<lparr>ad_account = new_deposit_owner, ad_amount = deposit\<rparr>) (Attribute s),
          Collection := sput collection details (Collection s)\<rparr>)))))))))"

definition do_force_set_attribute ::
  "('x, 'e) config \<Rightarrow> account_id option \<Rightarrow> collection_id \<Rightarrow> item_id option
    \<Rightarrow> attribute_namespace \<Rightarrow> bytes \<Rightarrow> bytes \<Rightarrow> 'x nfts \<Rightarrow> 'e call_error + 'x nfts" where
  "do_force_set_attribute cfg set_as collection maybe_item namespace key v s =
     ok_or (sget (Collection s) collection) (Module UnknownCollection) (\<lambda>details.
     let (details, s) =
           (case sget (Attribute s) (collection, maybe_item, namespace, key) of
              Some (_, deposit) \<Rightarrow>
                (details,
                 if ad_account deposit \<noteq> set_as \<and> ad_amount deposit \<noteq> 0
                 then (case ad_account deposit of
                         Some deposit_account \<Rightarrow> unreserve cfg deposit_account (ad_amount deposit) s
                       | None \<Rightarrow> s)
                 else s)
            | None \<Rightarrow> (details\<lparr>cd_attributes := saturating_inc (cd_attributes details)\<rparr>, s)) in
     Inr (deposit_event (AttributeSet collection maybe_item key v namespace)
       (s\<lparr>Attribute :=
            sput (collection, maybe_item, namespace, key)
              (v, \<lparr>ad_account = set_as, ad_amount = 0\<rparr>) (Attribute s),
          Collection := sput collection details (Collection s)\<rparr>)))"

definition do_approve_item_attributes ::
  "('x, 'e) config \<Rightarrow> account_id \<Rightarrow> collection_id \<Rightarrow> item_id \<Rightarrow> account_id \<Rightarrow> 'x nfts
    \<Rightarrow> 'e call_error + 'x nfts" where
  "do_approve_item_attributes cfg check_origin collection item delegate s =
     ensure (is_pallet_feature_enabled cfg Attributes) (Module MethodDisabled) (
     ok_or (sget (Item s) (collection, item)) (Module UnknownItem) (\<lambda>details.
     ensure (check_origin = it_owner details) (Module NoPermission) (
     ok_or (bounded_set_insert (item_attributes_approvals_limit cfg) delegate
         (item_attributes_approvals collection item s)) (Module ReachedApprovalLimit) (\<lambda>approvals.
     Inr (deposit_event (ItemAttributesApprovalAdded collection item delegate)
       (s\<lparr>ItemAttributesApprovalsOf :=
            sput (collection, item) approvals (ItemAttributesApprovalsOf s)\<rparr>))))))"

text \<open>The body of the loops over key and value pairs in \<open>do_set_attributes_pre_signed\<close> and
  \<open>do_mint_pre_signed\<close>.\<close>

definition set_attribute_pair ::
  "('x, 'e) config \<Rightarrow> account_id \<Rightarrow> collection_id \<Rightarrow> item_id \<Rightarrow> attribute_namespace
    \<Rightarrow> account_id \<Rightarrow> bytes \<times> bytes \<Rightarrow> 'x nfts \<Rightarrow> 'e call_error + 'x nfts" where
  "set_attribute_pair cfg signer collection item namespace depositor kv s =
     andthen (construct_attribute_key cfg (fst kv)) (\<lambda>key.
     andthen (construct_attribute_value cfg (snd kv)) (\<lambda>v.
     do_set_attribute cfg signer collection (Some item) namespace key v depositor s))"

definition do_set_attributes_pre_signed ::
  "('x, 'e) config \<Rightarrow> account_id \<Rightarrow> pre_signed_attributes \<Rightarrow> account_id \<Rightarrow> 'x nfts
    \<Rightarrow> 'e call_error + 'x nfts" where
  "do_set_attributes_pre_signed cfg origin data signer s =
     (let collection = psa_collection data; item = psa_item data; namespace = psa_namespace data in
     ensure (length (psa_attributes data) \<le> max_attributes_per_call cfg)
       (Module MaxAttributesLimitReached) (
     ensure (psa_deadline data \<ge> now cfg s) (Module DeadlineExpired) (
     ok_or (sget (Item s) (collection, item)) (Module UnknownItem) (\<lambda>item_details.
     ensure (it_owner item_details = origin) (Module NoPermission) (
     andthen
       (case namespace of
          CollectionOwner \<Rightarrow> Inr s
        | attribute_namespace.Account account \<Rightarrow>
            ensure (account = signer) (Module NoPermission) (
            if account \<in> set (item_attributes_approvals collection item s) then Inr s
            else do_approve_item_attributes cfg origin collection item account s)
        | _ \<Rightarrow> Inl (Module WrongNamespace)) (\<lambda>s.
     andthen (try_fold (set_attribute_pair cfg signer collection item namespace origin)
         (psa_attributes data) s) (\<lambda>s.
     Inr (deposit_event (PreSignedAttributesSet collection item namespace) s))))))))"

definition do_clear_attribute ::
  "('x, 'e) config \<Rightarrow> account_id option \<Rightarrow> collection_id \<Rightarrow> item_id option
    \<Rightarrow> attribute_namespace \<Rightarrow> bytes \<Rightarrow> 'x nfts \<Rightarrow> 'e call_error + 'x nfts" where
  "do_clear_attribute cfg maybe_check_origin collection maybe_item namespace key s =
     ok_or (sget (Attribute s) (collection, maybe_item, namespace, key)) (Module AttributeNotFound)
       (\<lambda>attribute.
     let deposit = snd attribute;
         s = s\<lparr>Attribute := sdel (collection, maybe_item, namespace, key) (Attribute s)\<rparr> in
     andthen
       (case maybe_check_origin of
          None \<Rightarrow> Inr ()
        | Some check_origin \<Rightarrow>
            andthen
              (if ad_account deposit \<noteq> maybe_check_origin
               then andthen (is_valid_namespace check_origin namespace collection maybe_item s)
                      (\<lambda>valid. ensure valid (Module NoPermission) (Inr ()))
               else Inr ()) (\<lambda>_.
            if namespace = CollectionOwner
            then (case maybe_item of
                    None \<Rightarrow>
                      andthen (get_collection_config collection s) (\<lambda>collection_config.
                      ensure (collection_config_is_setting_enabled collection_config
                          collection_setting.UnlockedAttributes)
                        (Module LockedCollectionAttributes) (Inr ()))
                  | Some item \<Rightarrow>
                      (case sget (ItemConfigOf s) (collection, item) of
                         None \<Rightarrow> Inr ()
                       | Some c \<Rightarrow>
                           ensure (\<not> item_config_has_disabled_setting c
                               item_setting.UnlockedAttributes) (Module LockedItemAttributes) (
                           ensure (has_role collection check_origin Admin s) (Module NoPermission)
                             (Inr ()))))
            else Inr ())) (\<lambda>_.
     ok_or (sget (Collection s) collection) (Module UnknownCollection) (\<lambda>details.
     let details = details\<lparr>cd_attributes := saturating_dec (cd_attributes details)\<rparr>;
         (details, s) =
           (case ad_account deposit of
              Some deposit_account \<Rightarrow> (details, unreserve cfg deposit_account (ad_amount deposit) s)
            | None \<Rightarrow>
                if namespace = CollectionOwner
                then (details\<lparr>cd_owner_deposit :=
                        saturating_sub (cd_owner_deposit details) (ad_amount deposit)\<rparr>,
                      unreserve cfg (cd_owner details) (ad_amount deposit) s)
                else (details, s)) in
     Inr (deposit_event (AttributeCleared collection maybe_item key namespace)
       (s\<lparr>Collection := sput collection details (Collection s)\<rparr>)))))"

definition attribute_prefix ::
  "collection_id \<Rightarrow> item_id option \<Rightarrow> attribute_namespace \<Rightarrow> attribute_key \<Rightarrow> bool" where
  "attribute_prefix collection maybe_item namespace k \<longleftrightarrow>
     fst k = collection \<and> fst (snd k) = maybe_item \<and> fst (snd (snd k)) = namespace"

definition do_cancel_item_attributes_approval ::
  "('x, 'e) config \<Rightarrow> account_id \<Rightarrow> collection_id \<Rightarrow> item_id \<Rightarrow> account_id
    \<Rightarrow> cancel_attributes_approval_witness \<Rightarrow> 'x nfts \<Rightarrow> 'e call_error + 'x nfts" where
  "do_cancel_item_attributes_approval cfg check_origin collection item delegate witness s =
     ensure (is_pallet_feature_enabled cfg Attributes) (Module MethodDisabled) (
     ok_or (sget (Item s) (collection, item)) (Module UnknownItem) (\<lambda>details.
     ensure (check_origin = it_owner details) (Module NoPermission) (
     let approvals = removeAll delegate (item_attributes_approvals collection item s);
         prefix = attribute_prefix collection (Some item) (attribute_namespace.Account delegate);
         drained = iter_prefix prefix (Attribute s);
         attributes = fold (\<lambda>_ n. saturating_inc n) drained 0;
         deposited = fold (\<lambda>e n. saturating_add n (ad_amount (snd (snd e)))) drained 0;
         s = s\<lparr>Attribute := remove_prefix prefix (Attribute s)\<rparr> in
     ensure (attributes \<le> account_attributes witness) (Module BadWitness) (
     let s = (if deposited \<noteq> 0 then unreserve cfg delegate deposited s else s) in
     Inr (deposit_event (ItemAttributesApprovalRemoved collection item delegate)
       (s\<lparr>ItemAttributesApprovalsOf :=
            sput (collection, item) approvals (ItemAttributesApprovalsOf s)\<rparr>))))))"

section \<open>Metadata\<close>

definition construct_metadata :: "('x, 'e) config \<Rightarrow> bytes \<Rightarrow> 'e call_error + bytes" where
  "construct_metadata cfg metadata = bounded_vec (string_limit cfg) (Module IncorrectMetadata) metadata"

definition metadata_deposit :: "('x, 'e) config \<Rightarrow> bytes \<Rightarrow> balance" where
  "metadata_deposit cfg data =
     saturating_add (saturating_mul (deposit_per_byte cfg) (as_u32 (length data)))
       (metadata_deposit_base cfg)"

definition do_set_item_metadata ::
  "('x, 'e) config \<Rightarrow> account_id option \<Rightarrow> collection_id \<Rightarrow> item_id \<Rightarrow> bytes
    \<Rightarrow> account_id option \<Rightarrow> 'x nfts \<Rightarrow> 'e call_error + 'x nfts" where
  "do_set_item_metadata cfg maybe_check_origin collection item data maybe_depositor s =
     ensure (pred_option (\<lambda>check_origin. has_role collection check_origin Admin s) maybe_check_origin)
       (Module NoPermission) (
     let is_root = (maybe_check_origin = None) in
     ok_or (sget (Collection s) collection) (Module UnknownCollection) (\<lambda>details.
     andthen (get_item_config collection item s) (\<lambda>item_config.
     ensure (is_root \<or> item_config_is_setting_enabled item_config item_setting.UnlockedMetadata)
       (Module LockedItemMetadata) (
     andthen (get_collection_config collection s) (\<lambda>collection_config.
     let metadata = sget (ItemMetadataOf s) (collection, item);
         details = (if metadata = None
                    then details\<lparr>cd_item_metadatas := saturating_inc (cd_item_metadatas details)\<rparr>
                    else details);
         old_deposit = (case metadata of
                          None \<Rightarrow> \<lparr>imd_account = None, imd_amount = 0\<rparr>
                        | Some m \<Rightarrow> im_deposit m);
         deposit = (if collection_config_is_setting_enabled collection_config DepositRequired
                        \<and> \<not> is_root
                    then metadata_deposit cfg data else 0);
         depositor = (case maybe_depositor of None \<Rightarrow> cd_owner details | Some a \<Rightarrow> a);
         old_depositor = (case imd_account old_deposit of None \<Rightarrow> cd_owner details | Some a \<Rightarrow> a) in
     andthen (move_deposit cfg (Some old_depositor) (imd_amount old_deposit) depositor deposit s) (\<lambda>s.
     let details =
           (if maybe_depositor = None
            then details\<lparr>cd_owner_deposit :=
                   saturating_sub (saturating_add (cd_owner_deposit details) deposit)
                     (imd_amount old_deposit)\<rparr>
            else details) in
     Inr (deposit_event (ItemMetadataSet collection item data)
       (s\<lparr>ItemMetadataOf :=
            sput (collection, item)
              \<lparr>im_deposit = \<lparr>imd_account = maybe_depositor, imd_amount = deposit\<rparr>, im_data = data\<rparr>
              (ItemMetadataOf s),
          Collection := sput collection details (Collection s)\<rparr>))))))))"

definition do_clear_item_metadata ::
  "('x, 'e) config \<Rightarrow> account_id option \<Rightarrow> collection_id \<Rightarrow> item_id \<Rightarrow> 'x nfts
    \<Rightarrow> 'e call_error + 'x nfts" where
  "do_clear_item_metadata cfg maybe_check_origin collection item s =
     ensure (pred_option (\<lambda>check_origin. has_role collection check_origin Admin s) maybe_check_origin)
       (Module NoPermission) (
     let is_root = (maybe_check_origin = None) in
     ok_or (sget (ItemMetadataOf s) (collection, item)) (Module MetadataNotFound) (\<lambda>metadata.
     let s = s\<lparr>ItemMetadataOf := sdel (collection, item) (ItemMetadataOf s)\<rparr> in
     ok_or (sget (Collection s) collection) (Module UnknownCollection) (\<lambda>details.
     let depositor_account =
           (case imd_account (im_deposit metadata) of None \<Rightarrow> cd_owner details | Some a \<Rightarrow> a);
         is_locked = (case sget (ItemConfigOf s) (collection, item) of
                        None \<Rightarrow> False
                      | Some c \<Rightarrow> item_config_has_disabled_setting c item_setting.UnlockedMetadata) in
     ensure (is_root \<or> \<not> is_locked) (Module LockedItemMetadata) (
     let details = details\<lparr>cd_item_metadatas := saturating_dec (cd_item_metadatas details)\<rparr>;
         amount = imd_amount (im_deposit metadata);
         s = unreserve cfg depositor_account amount s;
         details = (if depositor_account = cd_owner details
                    then details\<lparr>cd_owner_deposit :=
                           saturating_sub (cd_owner_deposit details) amount\<rparr>
                    else details) in
     Inr (deposit_event (ItemMetadataCleared collection item)
       (s\<lparr>Collection := sput collection details (Collection s)\<rparr>))))))"

definition do_set_collection_metadata ::
  "('x, 'e) config \<Rightarrow> account_id option \<Rightarrow> collection_id \<Rightarrow> bytes \<Rightarrow> 'x nfts
    \<Rightarrow> 'e call_error + 'x nfts" where
  "do_set_collection_metadata cfg maybe_check_origin collection data s =
     ensure (pred_option (\<lambda>check_origin. has_role collection check_origin Admin s) maybe_check_origin)
       (Module NoPermission) (
     let is_root = (maybe_check_origin = None) in
     andthen (get_collection_config collection s) (\<lambda>collection_config.
     ensure (is_root \<or> collection_config_is_setting_enabled collection_config
         collection_setting.UnlockedMetadata) (Module LockedCollectionMetadata) (
     ok_or (sget (Collection s) collection) (Module UnknownCollection) (\<lambda>details.
     let old_deposit = (case sget (CollectionMetadataOf s) collection of
                          None \<Rightarrow> 0 | Some m \<Rightarrow> cm_deposit m);
         details = details\<lparr>cd_owner_deposit := saturating_sub (cd_owner_deposit details) old_deposit\<rparr>;
         deposit = (if \<not> is_root
                        \<and> collection_config_is_setting_enabled collection_config DepositRequired
                    then metadata_deposit cfg data else 0) in
     andthen
       (if deposit > old_deposit then reserve cfg (cd_owner details) (deposit - old_deposit) s
        else if deposit < old_deposit
        then Inr (unreserve cfg (cd_owner details) (old_deposit - deposit) s)
        else Inr s) (\<lambda>s.
     let details = details\<lparr>cd_owner_deposit := saturating_add (cd_owner_deposit details) deposit\<rparr> in
     Inr (deposit_event (CollectionMetadataSet collection data)
       (s\<lparr>Collection := sput collection details (Collection s),
          CollectionMetadataOf :=
            sput collection \<lparr>cm_deposit = deposit, cm_data = data\<rparr> (CollectionMetadataOf s)\<rparr>)))))))"

definition do_clear_collection_metadata ::
  "('x, 'e) config \<Rightarrow> account_id option \<Rightarrow> collection_id \<Rightarrow> 'x nfts
    \<Rightarrow> 'e call_error + 'x nfts" where
  "do_clear_collection_metadata cfg maybe_check_origin collection s =
     ensure (pred_option (\<lambda>check_origin. has_role collection check_origin Admin s) maybe_check_origin)
       (Module NoPermission) (
     ok_or (sget (Collection s) collection) (Module UnknownCollection) (\<lambda>details.
     andthen (get_collection_config collection s) (\<lambda>collection_config.
     ensure (maybe_check_origin = None
         \<or> collection_config_is_setting_enabled collection_config collection_setting.UnlockedMetadata)
       (Module LockedCollectionMetadata) (
     ok_or (sget (CollectionMetadataOf s) collection) (Module UnknownCollection) (\<lambda>metadata.
     let deposit = cm_deposit metadata;
         s = unreserve cfg (cd_owner details) deposit s;
         details = details\<lparr>cd_owner_deposit := saturating_sub (cd_owner_deposit details) deposit\<rparr> in
     Inr (deposit_event (CollectionMetadataCleared collection)
       (s\<lparr>Collection := sput collection details (Collection s),
          CollectionMetadataOf := sdel collection (CollectionMetadataOf s)\<rparr>)))))))"

section \<open>Inversion lemmas\<close>

lemma only_ext_move_deposit: "move_deposit cfg od oa d a s = Inr s' \<Longrightarrow> only_ext s s'"
  unfolding move_deposit_def
  by (auto split: if_splits option.splits intro: only_ext_intros)

end
