(* ===== verification/Nfts_Items.thy ===== *)
theory Nfts_Items
  imports Nfts_Attributes
begin

text \<open>
  The life of items and collections: \<open>features/transfer.rs\<close>, \<open>features/approvals.rs\<close>,
  \<open>features/create_delete_item.rs\<close> and \<open>features/create_delete_collection.rs\<close>. A closure passed to
  \<open>do_mint\<close>, \<open>do_burn\<close> or \<open>do_transfer\<close> is a function argument with the same parameters.
\<close>

section \<open>Transfers and ownership\<close>

definition do_transfer ::
  "('x, 'e) config \<Rightarrow> collection_id \<Rightarrow> item_id \<Rightarrow> account_id
    \<Rightarrow> (collection_details \<Rightarrow> item_details \<Rightarrow> 'e call_error + item_details) \<Rightarrow> 'x nfts
    \<Rightarrow> 'e call_error + 'x nfts" where
  "do_transfer cfg collection item dest with_details s =
     ok_or (sget (Collection s) collection) (Module UnknownCollection) (\<lambda>collection_details.
     ensure (\<not> is_locked cfg (ext s) collection item) (Module ItemLocked) (
     andthen (has_system_attribute cfg collection item TransferDisabled s) (\<lambda>transfer_disabled.
     ensure (\<not> transfer_disabled) (Module ItemLocked) (
     andthen (get_collection_config collection s) (\<lambda>collection_config.
     ensure (collection_config_is_setting_enabled collection_config TransferableItems)
       (Module ItemsNonTransferable) (
     andthen (get_item_config collection item s) (\<lambda>item_config.
     ensure (item_config_is_setting_enabled item_config Transferable) (Module ItemLocked) (
     ok_or (sget (Item s) (collection, item)) (Module UnknownItem) (\<lambda>details.
     andthen (with_details collection_details details) (\<lambda>details.
     let origin = it_owner details;
         details = details\<lparr>it_owner := dest, it_approvals := []\<rparr> in
     Inr (deposit_event (Transferred collection item origin dest)
       (s\<lparr>Account := sput (dest, collection, item) ()
            (sdel (origin, collection, item) (Account s)),
          Item := sput (collection, item) details (Item s),
          ItemPriceOf := sdel (collection, item) (ItemPriceOf s),
          PendingSwapOf := sdel (collection, item) (PendingSwapOf s)\<rparr>))))))))))))"

definition do_transfer_ownership ::
  "('x, 'e) config \<Rightarrow> account_id \<Rightarrow> collection_id \<Rightarrow> account_id \<Rightarrow> 'x nfts
    \<Rightarrow> 'e call_error + 'x nfts" where
  "do_transfer_ownership cfg origin collection new_owner s =
     ensure (sget (OwnershipAcceptance s) new_owner = Some collection) (Module Unaccepted) (
     ok_or (sget (Collection s) collection) (Module UnknownCollection) (\<lambda>details.
     ensure (origin = cd_owner details) (Module NoPermission) (
     if cd_owner details = new_owner then Inr s
     else
       andthen (repatriate_reserved cfg (cd_owner details) new_owner (cd_owner_deposit details) s) (\<lambda>s.
       let s = s\<lparr>CollectionAccount := sput (new_owner, collection) ()
                   (sdel (cd_owner details, collection) (CollectionAccount s)),
                 OwnershipAcceptance := sdel new_owner (OwnershipAcceptance s)\<rparr>;
           s = upd_ext (dec_consumers cfg new_owner) s in
       Inr (deposit_event (OwnerChanged collection new_owner)
         (s\<lparr>Collection := sput collection (details\<lparr>cd_owner := new_owner\<rparr>) (Collection s)\<rparr>))))))"

definition do_set_accept_ownership ::
  "('x, 'e) config \<Rightarrow> account_id \<Rightarrow> collection_id option \<Rightarrow> 'x nfts
    \<Rightarrow> 'e call_error + 'x nfts" where
  "do_set_accept_ownership cfg who maybe_collection s =
     (let exists = contains_key (OwnershipAcceptance s) who in
     andthen
       (if \<not> exists \<and> maybe_collection \<noteq> None then on_ext (inc_consumers cfg who) s
        else if exists \<and> maybe_collection = None then Inr (upd_ext (dec_consumers cfg who) s)
        else Inr s) (\<lambda>s.
     Inr (deposit_event (OwnershipAcceptanceChanged who maybe_collection)
       (case maybe_collection of
          Some collection \<Rightarrow> s\<lparr>OwnershipAcceptance := sput who collection (OwnershipAcceptance s)\<rparr>
        | None \<Rightarrow> s\<lparr>OwnershipAcceptance := sdel who (OwnershipAcceptance s)\<rparr>))))"

definition do_force_collection_owner ::
  "('x, 'e) config \<Rightarrow> collection_id \<Rightarrow> account_id \<Rightarrow> 'x nfts \<Rightarrow> 'e call_error + 'x nfts" where
  "do_force_collection_owner cfg collection new_owner s =
     ok_or (sget (Collection s) collection) (Module UnknownCollection) (\<lambda>details.
     if cd_owner details = new_owner then Inr s
     else
       andthen (repatriate_reserved cfg (cd_owner details) new_owner (cd_owner_deposit details) s) (\<lambda>s.
       Inr (deposit_event (OwnerChanged collection new_owner)
         (s\<lparr>CollectionAccount := sput (new_owner, collection) ()
              (sdel (cd_owner details, collection) (CollectionAccount s)),
            Collection := sput collection (details\<lparr>cd_owner := new_owner\<rparr>) (Collection s)\<rparr>))))"

section \<open>Approvals\<close>

definition do_approve_transfer ::
  "('x, 'e) config \<Rightarrow> account_id option \<Rightarrow> collection_id \<Rightarrow> item_id \<Rightarrow> account_id
    \<Rightarrow> block_number option \<Rightarrow> 'x nfts \<Rightarrow> 'e call_error + 'x nfts" where
  "do_approve_transfer cfg maybe_check_origin collection item delegate maybe_deadline s =
     ensure (is_pallet_feature_enabled cfg Approvals) (Module MethodDisabled) (
     ok_or (sget (Item s) (collection, item)) (Module UnknownItem) (\<lambda>details.
     andthen (get_collection_config collection s) (\<lambda>collection_config.
     ensure (collection_config_is_setting_enabled collection_config TransferableItems)
       (Module ItemsNonTransferable) (
     ensure (pred_option (\<lambda>check_origin. check_origin = it_owner details) maybe_check_origin)
       (Module NoPermission) (
     let deadline = map_option (\<lambda>d. block_saturating_add d (now cfg s)) maybe_deadline in
     ok_or (bounded_map_insert (approvals_limit cfg) delegate deadline (it_approvals details))
       (Module ReachedApprovalLimit) (\<lambda>approvals.
     Inr (deposit_event (TransferApproved collection item (it_owner details) delegate deadline)
       (s\<lparr>Item := sput (collection, item) (details\<lparr>it_approvals := approvals\<rparr>) (Item s)\<rparr>))))))))"

definition do_cancel_approval ::
  "('x, 'e) config \<Rightarrow> account_id option \<Rightarrow> collection_id \<Rightarrow> item_id \<Rightarrow> account_id
    \<Rightarrow> 'x nfts \<Rightarrow> 'e call_error + 'x nfts" where
  "do_cancel_approval cfg maybe_check_origin collection item delegate s =
     ok_or (sget (Item s) (collection, item)) (Module UnknownItem) (\<lambda>details.
     ok_or (sget (it_approvals details) delegate) (Module NotDelegate) (\<lambda>maybe_deadline.
     let is_past_deadline = (case maybe_deadline of
                               Some deadline \<Rightarrow> now cfg s > deadline
                             | None \<Rightarrow> False) in
     ensure (is_past_deadline
         \<or> pred_option (\<lambda>check_origin. check_origin = it_owner details) maybe_check_origin)
       (Module NoPermission) (
     let details = details\<lparr>it_approvals := sdel delegate (it_approvals details)\<rparr> in
     Inr (deposit_event (ApprovalCancelled collection item (it_owner details) delegate)
       (s\<lparr>Item := sput (collection, item) details (Item s)\<rparr>)))))"

definition do_clear_all_transfer_approvals ::
  "account_id option \<Rightarrow> collection_id \<Rightarrow> item_id \<Rightarrow> 'x nfts \<Rightarrow> 'e call_error + 'x nfts" where
  "do_clear_all_transfer_approvals maybe_check_origin collection item s =
     ok_or (sget (Item s) (collection, item)) (Module UnknownCollection) (\<lambda>details.
     ensure (pred_option (\<lambda>check_origin. check_origin = it_owner details) maybe_check_origin)
       (Module NoPermission) (
     let details = details\<lparr>it_approvals := []\<rparr> in
     Inr (deposit_event (AllApprovalsCancelled collection item (it_owner details))
       (s\<lparr>Item := sput (collection, item) details (Item s)\<rparr>))))"

section \<open>Minting and burning\<close>

definition do_mint ::
  "('x, 'e) config \<Rightarrow> collection_id \<Rightarrow> item_id \<Rightarrow> account_id option \<Rightarrow> account_id
    \<Rightarrow> item_config \<Rightarrow> (collection_details \<Rightarrow> collection_config \<Rightarrow> 'x nfts \<Rightarrow> 'e call_error + 'x nfts)
    \<Rightarrow> 'x nfts \<Rightarrow> 'e call_error + 'x nfts" where
  "do_mint cfg collection item maybe_depositor mint_to item_config with_details_and_config s =
     ensure (\<not> contains_key (Item s) (collection, item)) (Module AlreadyExists) (
     ok_or (sget (Collection s) collection) (Module UnknownCollection) (\<lambda>details.
     andthen (get_collection_config collection s) (\<lambda>collection_config.
     andthen (with_details_and_config details collection_config s) (\<lambda>s.
     ensure (pred_option (\<lambda>max_supply. cd_items details < max_supply) (cc_max_supply collection_config))
       (Module MaxSupplyReached) (
     let details = details\<lparr>cd_items := saturating_inc (cd_items details)\<rparr> in
     andthen (get_collection_config collection s) (\<lambda>collection_config.
     let deposit_amount =
           (if collection_config_is_setting_enabled collection_config DepositRequired
            then item_deposit cfg else 0);
         deposit_account =
           (case maybe_depositor of None \<Rightarrow> cd_owner details | Some depositor \<Rightarrow> depositor);
         s = s\<lparr>Account := sput (mint_to, collection, item) () (Account s)\<rparr> in
     andthen
       (case sget (ItemConfigOf s) (collection, item) of
          Some existing_config \<Rightarrow>
            ensure (existing_config = item_config) (Module InconsistentItemConfig) (Inr (details, s))
        | None \<Rightarrow>
            Inr (details\<lparr>cd_item_configs := saturating_inc (cd_item_configs details)\<rparr>,
                 s\<lparr>ItemConfigOf := sput (collection, item) item_config (ItemConfigOf s)\<rparr>))
       (\<lambda>(details, s).
     andthen (reserve cfg deposit_account deposit_amount s) (\<lambda>s.
     let item_details =
           \<lparr>it_owner = mint_to, it_approvals = [],
            it_deposit = \<lparr>dep_account = deposit_account, dep_amount = deposit_amount\<rparr>\<rparr> in
     Inr (deposit_event (Issued collection item mint_to)
       (s\<lparr>Item := sput (collection, item) item_details (Item s),
          Collection := sput collection details (Collection s)\<rparr>))))))))))"

definition do_mint_pre_signed ::
  "('x, 'e) config \<Rightarrow> account_id \<Rightarrow> pre_signed_mint \<Rightarrow> account_id \<Rightarrow> 'x nfts
    \<Rightarrow> 'e call_error + 'x nfts" where
  "do_mint_pre_signed cfg mint_to mint_data signer s =
     (let collection = psm_collection mint_data; item = psm_item mint_data in
     andthen (construct_metadata cfg (psm_metadata mint_data)) (\<lambda>metadata.
     ensure (length (psm_attributes mint_data) \<le> max_attributes_per_call cfg)
       (Module MaxAttributesLimitReached) (
     ensure (pred_option (\<lambda>account. account = mint_to) (psm_only_account mint_data))
       (Module WrongOrigin) (
     ensure (psm_deadline mint_data \<ge> now cfg s) (Module DeadlineExpired) (
     ensure (has_role collection signer collection_role.Issuer s) (Module NoPermission) (
     andthen (get_default_item_settings collection s) (\<lambda>default_settings.
     andthen
       (do_mint cfg collection item (Some mint_to) mint_to \<lparr>ic_settings = default_settings\<rparr>
         (\<lambda>collection_details _ s.
            case psm_mint_price mint_data of
              Some price \<Rightarrow> currency_transfer cfg mint_to (cd_owner collection_details) price s
            | None \<Rightarrow> Inr s) s) (\<lambda>s.
     case find_account_by_role collection Admin s of
       None \<Rightarrow> Inr s
     | Some admin_account \<Rightarrow>
         andthen (try_fold
             (set_attribute_pair cfg admin_account collection item CollectionOwner mint_to)
             (psm_attributes mint_data) s) (\<lambda>s.
         if metadata \<noteq> []
         then do_set_item_metadata cfg (Some admin_account) collection item metadata (Some mint_to) s
         else Inr s)))))))))"

definition do_burn ::
  "('x, 'e) config \<Rightarrow> collection_id \<Rightarrow> item_id \<Rightarrow> (item_details \<Rightarrow> 'e call_error + unit)
    \<Rightarrow> 'x nfts \<Rightarrow> 'e call_error + 'x nfts" where
  "do_burn cfg collection item with_details s =
     ensure (\<not> is_locked cfg (ext s) collection item) (Module ItemLocked) (
     andthen (has_system_attribute cfg collection item TransferDisabled s) (\<lambda>transfer_disabled.
     ensure (\<not> transfer_disabled) (Module ItemLocked) (
     andthen (get_item_config collection item s) (\<lambda>item_config.
     let remove_config = (\<not> item_config_has_disabled_settings item_config) in
     ok_or (sget (Collection s) collection) (Module UnknownCollection) (\<lambda>collection_details.
     ok_or (sget (Item s) (collection, item)) (Module UnknownCollection) (\<lambda>details.
     andthen (with_details details) (\<lambda>_.
     let s = unreserve cfg (dep_account (it_deposit details)) (dep_amount (it_deposit details)) s;
         cd = collection_details\<lparr>cd_items := saturating_dec (cd_items collection_details)\<rparr>;
         cd = (if remove_config
               then cd\<lparr>cd_item_configs := saturating_dec (cd_item_configs cd)\<rparr> else cd);
         (cd, s) =
           (if item_config_is_setting_enabled item_config item_setting.UnlockedMetadata
            then (case sget (ItemMetadataOf s) (collection, item) of
                    None \<Rightarrow> (cd, s)
                  | Some metadata \<Rightarrow>
                      let amount = imd_amount (im_deposit metadata);
                          depositor_account =
                            (case imd_account (im_deposit metadata) of
                               None \<Rightarrow> cd_owner cd | Some a \<Rightarrow> a);
                          s = s\<lparr>ItemMetadataOf := sdel (collection, item) (ItemMetadataOf s)\<rparr>;
                          s = unreserve cfg depositor_account amount s;
                          cd = cd\<lparr>cd_item_metadatas := saturating_dec (cd_item_metadatas cd)\<rparr>;
                          cd = (if depositor_account = cd_owner cd
                                then cd\<lparr>cd_owner_deposit :=
                                       saturating_sub (cd_owner_deposit cd) amount\<rparr>
                                else cd)
                      in (cd, s))
            else (cd, s)) in
     Inr (deposit_event (Burned collection item (it_owner details))
       (s\<lparr>Collection := sput collection cd (Collection s),
          Item := sdel (collection, item) (Item s),
          Account := sdel (it_owner details, collection, item) (Account s),
          ItemPriceOf := sdel (collection, item) (ItemPriceOf s),
          PendingSwapOf := sdel (collection, item) (PendingSwapOf s),
          ItemAttributesApprovalsOf := sdel (collection, item) (ItemAttributesApprovalsOf s),
          ItemConfigOf := (if remove_config then sdel (collection, item) (ItemConfigOf s)
                           else ItemConfigOf s)\<rparr>)))))))))"

section \<open>Creating and destroying collections\<close>

definition all_roles :: collection_roles where
  "all_roles =
     flags_insert collection_role_bit (flags_insert collection_role_bit
       (flags_insert collection_role_bit 0 Admin) Freezer) collection_role.Issuer"

definition do_create_collection ::
  "('x, 'e) config \<Rightarrow> collection_id \<Rightarrow> account_id \<Rightarrow> account_id \<Rightarrow> collection_config
    \<Rightarrow> balance \<Rightarrow> event \<Rightarrow> 'x nfts \<Rightarrow> 'e call_error + 'x nfts" where
  "do_create_collection cfg collection own admin config deposit event s =
     ensure (\<not> contains_key (Collection s) collection) (Module CollectionIdInUse) (
     andthen (reserve cfg own deposit s) (\<lambda>s.
     let s = s\<lparr>Collection := sput collection
                 \<lparr>cd_owner = own, cd_owner_deposit = deposit, cd_items = 0, cd_item_metadatas = 0,
                  cd_item_configs = 0, cd_attributes = 0\<rparr> (Collection s),
               CollectionRoleOf := sput (collection, admin) all_roles (CollectionRoleOf s),
               CollectionConfigOf := sput collection config (CollectionConfigOf s),
               CollectionAccount := sput (own, collection) () (CollectionAccount s)\<rparr>;
         s = deposit_event event s in
     Inr (case cc_max_supply config of
            Some max_supply \<Rightarrow> deposit_event (CollectionMaxSupplySet collection max_supply) s
          | None \<Rightarrow> s)))"

text \<open>The two loops of \<open>do_destroy_collection\<close> over drained entries release the deposits.\<close>

definition release_item_metadata ::
  "('x, 'e) config \<Rightarrow> (collection_id \<times> item_id) \<times> item_metadata \<Rightarrow> 'x nfts \<Rightarrow> 'x nfts" where
  "release_item_metadata cfg e s =
     (case imd_account (im_deposit (snd e)) of
        Some depositor \<Rightarrow> unreserve cfg depositor (imd_amount (im_deposit (snd e))) s
      | None \<Rightarrow> s)"

definition release_attribute ::
  "('x, 'e) config \<Rightarrow> attribute_key \<times> bytes \<times> attribute_deposit \<Rightarrow> 'x nfts \<Rightarrow> 'x nfts" where
  "release_attribute cfg e s =
     (let deposit = snd (snd e) in
      if ad_amount deposit \<noteq> 0
      then (case ad_account deposit of
              Some account \<Rightarrow> unreserve cfg account (ad_amount deposit) s
            | None \<Rightarrow> s)
      else s)"

definition do_destroy_collection ::
  "('x, 'e) config \<Rightarrow> collection_id \<Rightarrow> destroy_witness \<Rightarrow> account_id option \<Rightarrow> 'x nfts
    \<Rightarrow> 'e call_error + (destroy_witness \<times> 'x nfts)" where
  "do_destroy_collection cfg collection witness maybe_check_owner s =
     ok_or (sget (Collection s) collection) (Module UnknownCollection) (\<lambda>details.
     ensure (pred_option (\<lambda>check_owner. cd_owner details = check_owner) maybe_check_owner)
       (Module NoPermission) (
     ensure (cd_items details = 0) (Module CollectionNotEmpty) (
     ensure (cd_attributes details = dw_attributes witness) (Module BadWitness) (
     ensure (cd_item_metadatas details = dw_item_metadatas witness) (Module BadWitness) (
     ensure (cd_item_configs details = dw_item_configs witness) (Module BadWitness) (
     let metadatas = iter_prefix (\<lambda>k. fst k = collection) (ItemMetadataOf s);
         s = s\<lparr>ItemMetadataOf := remove_prefix (\<lambda>k. fst k = collection) (ItemMetadataOf s)\<rparr>;
         s = fold (release_item_metadata cfg) metadatas s;
         s = s\<lparr>CollectionMetadataOf := sdel collection (CollectionMetadataOf s)\<rparr> in
     andthen (clear_roles collection s) (\<lambda>s.
     let attributes = iter_prefix (\<lambda>k. fst k = collection) (Attribute s);
         s = s\<lparr>Attribute := remove_prefix (\<lambda>k. fst k = collection) (Attribute s)\<rparr>;
         s = fold (release_attribute cfg) attributes s;
         s = s\<lparr>CollectionAccount := sdel (cd_owner details, collection) (CollectionAccount s)\<rparr>;
         s = unreserve cfg (cd_owner details) (cd_owner_deposit details) s;
         s = s\<lparr>CollectionConfigOf := sdel collection (CollectionConfigOf s),
               ItemConfigOf := fst (clear_prefix (\<lambda>k. fst k = collection)
                 (dw_item_configs witness) (ItemConfigOf s))\<rparr> in
     Inr (details_destroy_witness details,
       deposit_event (Destroyed collection)
         (s\<lparr>Collection := sdel collection (Collection s)\<rparr>)))))))))"

end
