(* ===== verification/Nfts_Trading.thy ===== *)
theory Nfts_Trading
  imports Nfts_Items
begin

text \<open>
  Trading: prices, sales and tips (\<open>features/buy_sell.rs\<close>) and atomic swaps
  (\<open>features/atomic_swap.rs\<close>).
\<close>

definition no_details_check ::
  "collection_details \<Rightarrow> item_details \<Rightarrow> 'e call_error + item_details" where
  "no_details_check _ details = Inr details"

section \<open>Prices, sales and tips\<close>

definition pay_tip ::
  "('x, 'e) config \<Rightarrow> account_id \<Rightarrow> item_tip \<Rightarrow> 'x nfts \<Rightarrow> 'e call_error + 'x nfts" where
  "pay_tip cfg sender tip s =
     andthen (currency_transfer cfg sender (tip_receiver tip) (tip_amount tip) s) (\<lambda>s.
     Inr (deposit_event
       (TipSent (tip_collection tip) (tip_item tip) sender (tip_receiver tip) (tip_amount tip)) s))"

definition do_pay_tips ::
  "('x, 'e) config \<Rightarrow> account_id \<Rightarrow> item_tip list \<Rightarrow> 'x nfts \<Rightarrow> 'e call_error + 'x nfts" where
  "do_pay_tips cfg sender tips s = try_fold (pay_tip cfg sender) tips s"

definition do_set_price ::
  "('x, 'e) config \<Rightarrow> collection_id \<Rightarrow> item_id \<Rightarrow> account_id \<Rightarrow> balance option
    \<Rightarrow> account_id option \<Rightarrow> 'x nfts \<Rightarrow> 'e call_error + 'x nfts" where
  "do_set_price cfg collection item sender price whitelisted_buyer s =
     ensure (is_pallet_feature_enabled cfg Trading) (Module MethodDisabled) (
     ok_or (sget (Item s) (collection, item)) (Module UnknownItem) (\<lambda>details.
     ensure (it_owner details = sender) (Module NoPermission) (
     andthen (get_collection_config collection s) (\<lambda>collection_config.
     ensure (collection_config_is_setting_enabled collection_config TransferableItems)
       (Module ItemsNonTransferable) (
     andthen (get_item_config collection item s) (\<lambda>item_config.
     ensure (item_config_is_setting_enabled item_config Transferable) (Module ItemLocked) (
     Inr (case price of
            Some price \<Rightarrow>
              deposit_event (ItemPriceSet collection item price whitelisted_buyer)
                (s\<lparr>ItemPriceOf :=
                     sput (collection, item) (price, whitelisted_buyer) (ItemPriceOf s)\<rparr>)
          | None \<Rightarrow>
              deposit_event (ItemPriceRemoved collection item)
                (s\<lparr>ItemPriceOf := sdel (collection, item) (ItemPriceOf s)\<rparr>)))))))))"

definition do_buy_item ::
  "('x, 'e) config \<Rightarrow> collection_id \<Rightarrow> item_id \<Rightarrow> account_id \<Rightarrow> balance \<Rightarrow> 'x nfts
    \<Rightarrow> 'e call_error + 'x nfts" where
  "do_buy_item cfg collection item buyer bid_price s =
     ensure (is_pallet_feature_enabled cfg Trading) (Module MethodDisabled) (
     ok_or (sget (Item s) (collection, item)) (Module UnknownItem) (\<lambda>details.
     ensure (it_owner details \<noteq> buyer) (Module NoPermission) (
     ok_or (sget (ItemPriceOf s) (collection, item)) (Module NotForSale) (\<lambda>price_info.
     ensure (bid_price \<ge> fst price_info) (Module BidTooLow) (
     ensure (pred_option (\<lambda>only_buyer. only_buyer = buyer) (snd price_info)) (Module NoPermission) (
     andthen (currency_transfer cfg buyer (it_owner details) (fst price_info) s) (\<lambda>s.
     andthen (do_transfer cfg collection item buyer no_details_check s) (\<lambda>s.
     Inr (deposit_event
       (ItemBought collection item (fst price_info) (it_owner details) buyer) s)))))))))"

section \<open>Atomic swaps\<close>

definition do_create_swap ::
  "('x, 'e) config \<Rightarrow> account_id \<Rightarrow> collection_id \<Rightarrow> item_id \<Rightarrow> collection_id
    \<Rightarrow> item_id option \<Rightarrow> price_with_direction option \<Rightarrow> block_number \<Rightarrow> 'x nfts
    \<Rightarrow> 'e call_error + 'x nfts" where
  "do_create_swap cfg caller offered_collection offered_item desired_collection maybe_desired_item
       maybe_price duration s =
     ensure (is_pallet_feature_enabled cfg Swaps) (Module MethodDisabled) (
     ensure (duration \<le> max_deadline_duration cfg) (Module WrongDuration) (
     ok_or (sget (Item s) (offered_collection, offered_item)) (Module UnknownItem) (\<lambda>item.
     ensure (it_owner item = caller) (Module NoPermission) (
     andthen
       (case maybe_desired_item of
          Some desired_item \<Rightarrow>
            ensure (contains_key (Item s) (desired_collection, desired_item)) (Module UnknownItem)
              (Inr ())
        | None \<Rightarrow>
            ensure (contains_key (Collection s) desired_collection) (Module UnknownCollection)
              (Inr ())) (\<lambda>_.
     let deadline = block_saturating_add duration (now cfg s) in
     Inr (deposit_event
       (SwapCreated offered_collection offered_item desired_collection maybe_desired_item maybe_price
         deadline)
       (s\<lparr>PendingSwapOf :=
            sput (offered_collection, offered_item)
              \<lparr>sw_desired_collection = desired_collection, sw_desired_item = maybe_desired_item,
               sw_price = maybe_price, sw_deadline = deadline\<rparr> (PendingSwapOf s)\<rparr>)))))))"

definition do_cancel_swap ::
  "('x, 'e) config \<Rightarrow> account_id \<Rightarrow> collection_id \<Rightarrow> item_id \<Rightarrow> 'x nfts
    \<Rightarrow> 'e call_error + 'x nfts" where
  "do_cancel_swap cfg caller offered_collection offered_item s =
     ok_or (sget (PendingSwapOf s) (offered_collection, offered_item)) (Module UnknownSwap) (\<lambda>swap.
     andthen
       (if sw_deadline swap > now cfg s
        then ok_or (sget (Item s) (offered_collection, offered_item)) (Module UnknownItem) (\<lambda>item.
             ensure (it_owner item = caller) (Module NoPermission) (Inr ()))
        else Inr ()) (\<lambda>_.
     Inr (deposit_event
       (SwapCancelled offered_collection offered_item (sw_desired_collection swap)
         (sw_desired_item swap) (sw_price swap) (sw_deadline swap))
       (s\<lparr>PendingSwapOf := sdel (offered_collection, offered_item) (PendingSwapOf s)\<rparr>))))"

definition do_claim_swap ::
  "('x, 'e) config \<Rightarrow> account_id \<Rightarrow> collection_id \<Rightarrow> item_id \<Rightarrow> collection_id \<Rightarrow> item_id
    \<Rightarrow> price_with_direction option \<Rightarrow> 'x nfts \<Rightarrow> 'e call_error + 'x nfts" where
  "do_claim_swap cfg caller send_collection send_item_id receive_collection receive_item_id
       witness_price s =
     ensure (is_pallet_feature_enabled cfg Swaps) (Module MethodDisabled) (
     ok_or (sget (Item s) (send_collection, send_item_id)) (Module UnknownItem) (\<lambda>send_item.
     ok_or (sget (Item s) (receive_collection, receive_item_id)) (Module UnknownItem) (\<lambda>receive_item.
     ok_or (sget (PendingSwapOf s) (receive_collection, receive_item_id)) (Module UnknownSwap) (\<lambda>swap.
     ensure (it_owner send_item = caller) (Module NoPermission) (
     ensure (sw_desired_collection swap = send_collection \<and> sw_price swap = witness_price)
       (Module UnknownSwap) (
     ensure (pred_option (\<lambda>desired_item. desired_item = send_item_id) (sw_desired_item swap))
       (Module UnknownSwap) (
     ensure (now cfg s \<le> sw_deadline swap) (Module DeadlineExpired) (
     andthen
       (case sw_price swap of
          None \<Rightarrow> Inr s
        | Some price \<Rightarrow>
            (case pd_direction price of
               Send \<Rightarrow>
                 currency_transfer cfg (it_owner receive_item) (it_owner send_item) (pd_amount price) s
             | Receive \<Rightarrow>
                 currency_transfer cfg (it_owner send_item) (it_owner receive_item) (pd_amount price) s))
       (\<lambda>s.
     andthen (do_transfer cfg send_collection send_item_id (it_owner receive_item) no_details_check s)
       (\<lambda>s.
     andthen (do_transfer cfg receive_collection receive_item_id (it_owner send_item)
         no_details_check s) (\<lambda>s.
     Inr (deposit_event
       (SwapClaimed send_collection send_item_id (it_owner send_item) receive_collection
         receive_item_id (it_owner receive_item) (sw_price swap) (sw_deadline swap)) s))))))))))))"

end
