(* ===== verification/Nfts_Calls.thy ===== *)
theory Nfts_Calls
  imports Nfts_Trading
begin

text \<open>
  The dispatchables of the NFTs pallet, \<open>#[pallet::call]\<close> of \<open>pallets/nfts/src/lib.rs\<close>: each checks
  its origin, looks addresses up and calls the function of the feature module. \<open>call\<close> is the
  generated \<open>Call\<close> enum and \<open>dispatch\<close> its dispatcher; a call that fails leaves the state as it
  was, so a run is a sequence of calls that succeeded (\<open>runs\<close>). The weights are not part of the state and are not
  returned.
\<close>

section \<open>Origins and lookups\<close>

fun ensure_signed :: "origin \<Rightarrow> 'e call_error + account_id" where
  "ensure_signed (Signed who) = Inr who"
| "ensure_signed _ = Inl BadOrigin"

definition force_or_signed ::
  "('x, 'e) config \<Rightarrow> origin \<Rightarrow> 'e call_error + account_id option" where
  "force_or_signed cfg origin =
     (if force_origin cfg origin then Inr None
      else andthen (ensure_signed origin) (\<lambda>who. Inr (Some who)))"

definition ensure_force :: "('x, 'e) config \<Rightarrow> origin \<Rightarrow> 'e call_error + unit" where
  "ensure_force cfg origin = ensure (force_origin cfg origin) BadOrigin (Inr ())"

definition do_lookup :: "('x, 'e) config \<Rightarrow> address \<Rightarrow> 'e call_error + account_id" where
  "do_lookup cfg l = (case lookup cfg l of Inl e \<Rightarrow> Inl (External e) | Inr a \<Rightarrow> Inr a)"

definition do_lookup_opt ::
  "('x, 'e) config \<Rightarrow> address option \<Rightarrow> 'e call_error + account_id option" where
  "do_lookup_opt cfg m =
     (case m of None \<Rightarrow> Inr None | Some l \<Rightarrow> andthen (do_lookup cfg l) (\<lambda>a. Inr (Some a)))"

definition next_collection ::
  "('x, 'e) config \<Rightarrow> 'x nfts \<Rightarrow> collection_id option" where
  "next_collection cfg s =
     (case NextCollectionId s of Some c \<Rightarrow> Some c | None \<Rightarrow> initial_value cfg)"

section \<open>Collections and items\<close>

definition create ::
  "('x, 'e) config \<Rightarrow> origin \<Rightarrow> address \<Rightarrow> collection_config \<Rightarrow> 'x nfts
    \<Rightarrow> 'e call_error + 'x nfts" where
  "create cfg origin admin config s =
     ok_or (next_collection cfg s) (Module UnknownCollection) (\<lambda>collection.
     ok_or (create_origin cfg origin collection) BadOrigin (\<lambda>own.
     andthen (do_lookup cfg admin) (\<lambda>admin.
     ensure (\<not> collection_config_has_disabled_setting config DepositRequired)
       (Module WrongSetting) (
     andthen (do_create_collection cfg collection own admin config (collection_deposit cfg)
         (Created collection own admin) s) (\<lambda>s.
     Inr (set_next_collection_id cfg collection s))))))"

definition force_create ::
  "('x, 'e) config \<Rightarrow> origin \<Rightarrow> address \<Rightarrow> collection_config \<Rightarrow> 'x nfts
    \<Rightarrow> 'e call_error + 'x nfts" where
  "force_create cfg origin own config s =
     andthen (ensure_force cfg origin) (\<lambda>_.
     andthen (do_lookup cfg own) (\<lambda>own.
     ok_or (next_collection cfg s) (Module UnknownCollection) (\<lambda>collection.
     andthen (do_create_collection cfg collection own own config 0 (ForceCreated collection own) s)
       (\<lambda>s.
     Inr (set_next_collection_id cfg collection s)))))"

definition destroy ::
  "('x, 'e) config \<Rightarrow> origin \<Rightarrow> collection_id \<Rightarrow> destroy_witness \<Rightarrow> 'x nfts
    \<Rightarrow> 'e call_error + 'x nfts" where
  "destroy cfg origin collection witness s =
     andthen (force_or_signed cfg origin) (\<lambda>maybe_check_owner.
     andthen (do_destroy_collection cfg collection witness maybe_check_owner s) (\<lambda>(details, s).
     Inr s))"

text \<open>The closure that \<open>mint\<close> passes to \<open>do_mint\<close>.\<close>

definition mint_check ::
  "('x, 'e) config \<Rightarrow> collection_id \<Rightarrow> account_id \<Rightarrow> mint_witness option
    \<Rightarrow> collection_details \<Rightarrow> collection_config \<Rightarrow> 'x nfts \<Rightarrow> 'e call_error + 'x nfts" where
  "mint_check cfg collection caller witness_data collection_details collection_config s =
     (let mint_settings = cc_mint_settings collection_config in
     ensure (pred_option (\<lambda>start_block. start_block \<le> now cfg s) (ms_start_block mint_settings))
       (Module MintNotStarted) (
     ensure (pred_option (\<lambda>end_block. end_block \<ge> now cfg s) (ms_end_block mint_settings))
       (Module MintEnded) (
     andthen
       (case ms_mint_type mint_settings of
          mint_type.Issuer \<Rightarrow>
            ensure (has_role collection caller collection_role.Issuer s) (Module NoPermission) (Inr s)
        | HolderOf collection_id \<Rightarrow>
            ok_or witness_data (Module WitnessRequired) (\<lambda>witness.
            ok_or (mw_owned_item witness) (Module BadWitness) (\<lambda>owned_item.
            ensure (contains_key (Account s) (caller, collection_id, owned_item)) (Module BadWitness) (
            let pallet_attribute = UsedToClaim collection in
            andthen (construct_attribute_key cfg (encode_pallet_attribute cfg pallet_attribute))
              (\<lambda>attribute_key.
            let key = (collection_id, Some owned_item, Pallet, attribute_key) in
            ensure (\<not> contains_key (Attribute s) key) (Module AlreadyClaimed) (
            andthen (construct_attribute_value cfg []) (\<lambda>attribute_value.
            Inr (deposit_event
              (PalletAttributeSet collection_id (Some owned_item) pallet_attribute attribute_value)
              (s\<lparr>Attribute :=
                   sput key (attribute_value, \<lparr>ad_account = None, ad_amount = 0\<rparr>)
                     (Attribute s)\<rparr>)))))))
          )
        | Public \<Rightarrow> Inr s) (\<lambda>s.
     case ms_price mint_settings of
       None \<Rightarrow> Inr s
     | Some price \<Rightarrow>
         ok_or witness_data (Module WitnessRequired) (\<lambda>witness.
         ok_or (mw_mint_price witness) (Module BadWitness) (\<lambda>mint_price.
         ensure (mint_price \<ge> price) (Module BadWitness) (
         currency_transfer cfg caller (cd_owner collection_details) price s)))))))"

definition mint ::
  "('x, 'e) config \<Rightarrow> origin \<Rightarrow> collection_id \<Rightarrow> item_id \<Rightarrow> address \<Rightarrow> mint_witness option
    \<Rightarrow> 'x nfts \<Rightarrow> 'e call_error + 'x nfts" where
  "mint cfg origin collection item mint_to witness_data s =
     andthen (ensure_signed origin) (\<lambda>caller.
     andthen (do_lookup cfg mint_to) (\<lambda>mint_to.
     andthen (get_default_item_settings collection s) (\<lambda>default_settings.
     do_mint cfg collection item (Some caller) mint_to \<lparr>ic_settings = default_settings\<rparr>
       (mint_check cfg collection caller witness_data) s)))"

definition no_mint_check ::
  "collection_details \<Rightarrow> collection_config \<Rightarrow> 'x nfts \<Rightarrow> 'e call_error + 'x nfts" where
  "no_mint_check _ _ s = Inr s"

definition force_mint ::
  "('x, 'e) config \<Rightarrow> origin \<Rightarrow> collection_id \<Rightarrow> item_id \<Rightarrow> address \<Rightarrow> item_config
    \<Rightarrow> 'x nfts \<Rightarrow> 'e call_error + 'x nfts" where
  "force_mint cfg origin collection item mint_to item_config s =
     andthen (force_or_signed cfg origin) (\<lambda>maybe_check_origin.
     andthen (do_lookup cfg mint_to) (\<lambda>mint_to.
     ensure (pred_option (\<lambda>check_origin. has_role collection check_origin collection_role.Issuer s)
       maybe_check_origin) (Module NoPermission) (
     do_mint cfg collection item None mint_to item_config no_mint_check s)))"

definition burn_check ::
  "account_id option \<Rightarrow> item_details \<Rightarrow> 'e call_error + unit" where
  "burn_check maybe_check_origin details =
     ensure (pred_option (\<lambda>check_origin. it_owner details = check_origin) maybe_check_origin)
       (Module NoPermission) (Inr ())"

definition burn ::
  "('x, 'e) config \<Rightarrow> origin \<Rightarrow> collection_id \<Rightarrow> item_id \<Rightarrow> 'x nfts
    \<Rightarrow> 'e call_error + 'x nfts" where
  "burn cfg origin collection item s =
     andthen (force_or_signed cfg origin) (\<lambda>maybe_check_origin.
     do_burn cfg collection item (burn_check maybe_check_origin) s)"

text \<open>The closure that \<open>transfer\<close> passes to \<open>do_transfer\<close>.\<close>

definition transfer_check ::
  "account_id \<Rightarrow> block_number \<Rightarrow> collection_details \<Rightarrow> item_details \<Rightarrow> 'e call_error + item_details" where
  "transfer_check origin block _ details =
     (if it_owner details \<noteq> origin
      then ok_or (sget (it_approvals details) origin) (Module NoPermission) (\<lambda>deadline.
           ensure (pred_option (\<lambda>d. block \<le> d) deadline) (Module ApprovalExpired) (Inr details))
      else Inr details)"

definition transfer ::
  "('x, 'e) config \<Rightarrow> origin \<Rightarrow> collection_id \<Rightarrow> item_id \<Rightarrow> address \<Rightarrow> 'x nfts
    \<Rightarrow> 'e call_error + 'x nfts" where
  "transfer cfg origin collection item dest s =
     andthen (ensure_signed origin) (\<lambda>origin.
     andthen (do_lookup cfg dest) (\<lambda>dest.
     do_transfer cfg collection item dest (transfer_check origin (now cfg s)) s))"

text \<open>One round of the loop of \<open>redeposit\<close>: the items it could not or need not change are skipped.\<close>

definition redeposit_item ::
  "('x, 'e) config \<Rightarrow> collection_id \<Rightarrow> balance \<Rightarrow> item_id \<Rightarrow> item_id list \<times> 'x nfts
    \<Rightarrow> item_id list \<times> 'x nfts" where
  "redeposit_item cfg collection deposit item = (\<lambda>(successful, s).
     case sget (Item s) (collection, item) of
       None \<Rightarrow> (successful, s)
     | Some details \<Rightarrow>
         (let old = dep_amount (it_deposit details);
              account = dep_account (it_deposit details);
              store = (\<lambda>s. (successful @ [item],
                s\<lparr>Item := sput (collection, item)
                    (details\<lparr>it_deposit := (it_deposit details)\<lparr>dep_amount := deposit\<rparr>\<rparr>)
                    (Item s)\<rparr>))
          in if old > deposit then store (unreserve cfg account (old - deposit) s)
             else if old < deposit
             then (case reserve cfg account (deposit - old) s of
                     Inl _ \<Rightarrow> (successful, s)
                   | Inr s \<Rightarrow> store s)
             else (successful, s)))"

definition redeposit ::
  "('x, 'e) config \<Rightarrow> origin \<Rightarrow> collection_id \<Rightarrow> item_id list \<Rightarrow> 'x nfts
    \<Rightarrow> 'e call_error + 'x nfts" where
  "redeposit cfg origin collection items s =
     andthen (ensure_signed origin) (\<lambda>origin.
     ok_or (sget (Collection s) collection) (Module UnknownCollection) (\<lambda>collection_details.
     ensure (cd_owner collection_details = origin) (Module NoPermission) (
     andthen (get_collection_config collection s) (\<lambda>config.
     let deposit = (if collection_config_is_setting_enabled config DepositRequired
                    then item_deposit cfg else 0);
         (successful, s) = fold (redeposit_item cfg collection deposit) items ([], s) in
     Inr (deposit_event (Redeposited collection successful) s)))))"

section \<open>Locks, teams and owners\<close>

definition lock_item_transfer ::
  "origin \<Rightarrow> collection_id \<Rightarrow> item_id \<Rightarrow> 'x nfts \<Rightarrow> 'e call_error + 'x nfts" where
  "lock_item_transfer origin collection item s =
     andthen (ensure_signed origin) (\<lambda>origin. do_lock_item_transfer origin collection item s)"

definition unlock_item_transfer ::
  "origin \<Rightarrow> collection_id \<Rightarrow> item_id \<Rightarrow> 'x nfts \<Rightarrow> 'e call_error + 'x nfts" where
  "unlock_item_transfer origin collection item s =
     andthen (ensure_signed origin) (\<lambda>origin. do_unlock_item_transfer origin collection item s)"

definition lock_collection ::
  "origin \<Rightarrow> collection_id \<Rightarrow> collection_settings \<Rightarrow> 'x nfts \<Rightarrow> 'e call_error + 'x nfts" where
  "lock_collection origin collection lock_settings s =
     andthen (ensure_signed origin) (\<lambda>origin. do_lock_collection origin collection lock_settings s)"

definition transfer_ownership ::
  "('x, 'e) config \<Rightarrow> origin \<Rightarrow> collection_id \<Rightarrow> address \<Rightarrow> 'x nfts
    \<Rightarrow> 'e call_error + 'x nfts" where
  "transfer_ownership cfg origin collection new_owner s =
     andthen (ensure_signed origin) (\<lambda>origin.
     andthen (do_lookup cfg new_owner) (\<lambda>new_owner.
     do_transfer_ownership cfg origin collection new_owner s))"

definition set_team ::
  "('x, 'e) config \<Rightarrow> origin \<Rightarrow> collection_id \<Rightarrow> address option \<Rightarrow> address option \<Rightarrow> address option
    \<Rightarrow> 'x nfts \<Rightarrow> 'e call_error + 'x nfts" where
  "set_team cfg origin collection issuer admin freezer s =
     andthen (force_or_signed cfg origin) (\<lambda>maybe_check_owner.
     andthen (do_lookup_opt cfg issuer) (\<lambda>issuer.
     andthen (do_lookup_opt cfg admin) (\<lambda>admin.
     andthen (do_lookup_opt cfg freezer) (\<lambda>freezer.
     do_set_team maybe_check_owner collection issuer admin freezer s))))"

definition force_collection_owner ::
  "('x, 'e) config \<Rightarrow> origin \<Rightarrow> collection_id \<Rightarrow> address \<Rightarrow> 'x nfts
    \<Rightarrow> 'e call_error + 'x nfts" where
  "force_collection_owner cfg origin collection own s =
     andthen (ensure_force cfg origin) (\<lambda>_.
     andthen (do_lookup cfg own) (\<lambda>new_owner.
     do_force_collection_owner cfg collection new_owner s))"

definition force_collection_config ::
  "('x, 'e) config \<Rightarrow> origin \<Rightarrow> collection_id \<Rightarrow> collection_config \<Rightarrow> 'x nfts
    \<Rightarrow> 'e call_error + 'x nfts" where
  "force_collection_config cfg origin collection config s =
     andthen (ensure_force cfg origin) (\<lambda>_. do_force_collection_config collection config s)"

section \<open>Approvals\<close>

definition approve_transfer ::
  "('x, 'e) config \<Rightarrow> origin \<Rightarrow> collection_id \<Rightarrow> item_id \<Rightarrow> address \<Rightarrow> block_number option
    \<Rightarrow> 'x nfts \<Rightarrow> 'e call_error + 'x nfts" where
  "approve_transfer cfg origin collection item delegate maybe_deadline s =
     andthen (force_or_signed cfg origin) (\<lambda>maybe_check_origin.
     andthen (do_lookup cfg delegate) (\<lambda>delegate.
     do_approve_transfer cfg maybe_check_origin collection item delegate maybe_deadline s))"

definition cancel_approval ::
  "('x, 'e) config \<Rightarrow> origin \<Rightarrow> collection_id \<Rightarrow> item_id \<Rightarrow> address \<Rightarrow> 'x nfts
    \<Rightarrow> 'e call_error + 'x nfts" where
  "cancel_approval cfg origin collection item delegate s =
     andthen (force_or_signed cfg origin) (\<lambda>maybe_check_origin.
     andthen (do_lookup cfg delegate) (\<lambda>delegate.
     do_cancel_approval cfg maybe_check_origin collection item delegate s))"

definition clear_all_transfer_approvals ::
  "('x, 'e) config \<Rightarrow> origin \<Rightarrow> collection_id \<Rightarrow> item_id \<Rightarrow> 'x nfts
    \<Rightarrow> 'e call_error + 'x nfts" where
  "clear_all_transfer_approvals cfg origin collection item s =
     andthen (force_or_signed cfg origin) (\<lambda>maybe_check_origin.
     do_clear_all_transfer_approvals maybe_check_origin collection item s)"

section \<open>Properties, attributes and metadata\<close>

definition lock_item_properties ::
  "('x, 'e) config \<Rightarrow> origin \<Rightarrow> collection_id \<Rightarrow> item_id \<Rightarrow> bool \<Rightarrow> bool \<Rightarrow> 'x nfts
    \<Rightarrow> 'e call_error + 'x nfts" where
  "lock_item_properties cfg origin collection item lock_metadata lock_attributes s =
     andthen (force_or_signed cfg origin) (\<lambda>maybe_check_origin.
     do_lock_item_properties maybe_check_origin collection item lock_metadata lock_attributes s)"

definition set_attribute ::
  "('x, 'e) config \<Rightarrow> origin \<Rightarrow> collection_id \<Rightarrow> item_id option \<Rightarrow> attribute_namespace
    \<Rightarrow> bytes \<Rightarrow> bytes \<Rightarrow> 'x nfts \<Rightarrow> 'e call_error + 'x nfts" where
  "set_attribute cfg origin collection maybe_item namespace key v s =
     andthen (ensure_signed origin) (\<lambda>origin.
     andthen
       (if namespace = CollectionOwner
        then ok_or (collection_owner collection s) (Module UnknownCollection) Inr
        else Inr origin) (\<lambda>depositor.
     do_set_attribute cfg origin collection maybe_item namespace key v depositor s))"

definition force_set_attribute ::
  "('x, 'e) config \<Rightarrow> origin \<Rightarrow> account_id option \<Rightarrow> collection_id \<Rightarrow> item_id option
    \<Rightarrow> attribute_namespace \<Rightarrow> bytes \<Rightarrow> bytes \<Rightarrow> 'x nfts \<Rightarrow> 'e call_error + 'x nfts" where
  "force_set_attribute cfg origin set_as collection maybe_item namespace key v s =
     andthen (ensure_force cfg origin) (\<lambda>_.
     do_force_set_attribute cfg set_as collection maybe_item namespace key v s)"

definition clear_attribute ::
  "('x, 'e) config \<Rightarrow> origin \<Rightarrow> collection_id \<Rightarrow> item_id option \<Rightarrow> attribute_namespace
    \<Rightarrow> bytes \<Rightarrow> 'x nfts \<Rightarrow> 'e call_error + 'x nfts" where
  "clear_attribute cfg origin collection maybe_item namespace key s =
     andthen (force_or_signed cfg origin) (\<lambda>maybe_check_owner.
     do_clear_attribute cfg maybe_check_owner collection maybe_item namespace key s)"

definition approve_item_attributes ::
  "('x, 'e) config \<Rightarrow> origin \<Rightarrow> collection_id \<Rightarrow> item_id \<Rightarrow> address \<Rightarrow> 'x nfts
    \<Rightarrow> 'e call_error + 'x nfts" where
  "approve_item_attributes cfg origin collection item delegate s =
     andthen (ensure_signed origin) (\<lambda>origin.
     andthen (do_lookup cfg delegate) (\<lambda>delegate.
     do_approve_item_attributes cfg origin collection item delegate s))"

definition cancel_item_attributes_approval ::
  "('x, 'e) config \<Rightarrow> origin \<Rightarrow> collection_id \<Rightarrow> item_id \<Rightarrow> address
    \<Rightarrow> cancel_attributes_approval_witness \<Rightarrow> 'x nfts \<Rightarrow> 'e call_error + 'x nfts" where
  "cancel_item_attributes_approval cfg origin collection item delegate witness s =
     andthen (ensure_signed origin) (\<lambda>origin.
     andthen (do_lookup cfg delegate) (\<lambda>delegate.
     do_cancel_item_attributes_approval cfg origin collection item delegate witness s))"

definition set_metadata ::
  "('x, 'e) config \<Rightarrow> origin \<Rightarrow> collection_id \<Rightarrow> item_id \<Rightarrow> bytes \<Rightarrow> 'x nfts
    \<Rightarrow> 'e call_error + 'x nfts" where
  "set_metadata cfg origin collection item data s =
     andthen (force_or_signed cfg origin) (\<lambda>maybe_check_origin.
     do_set_item_metadata cfg maybe_check_origin collection item data None s)"

definition clear_metadata ::
  "('x, 'e) config \<Rightarrow> origin \<Rightarrow> collection_id \<Rightarrow> item_id \<Rightarrow> 'x nfts
    \<Rightarrow> 'e call_error + 'x nfts" where
  "clear_metadata cfg origin collection item s =
     andthen (force_or_signed cfg origin) (\<lambda>maybe_check_origin.
     do_clear_item_metadata cfg maybe_check_origin collection item s)"

definition set_collection_metadata ::
  "('x, 'e) config \<Rightarrow> origin \<Rightarrow> collection_id \<Rightarrow> bytes \<Rightarrow> 'x nfts
    \<Rightarrow> 'e call_error + 'x nfts" where
  "set_collection_metadata cfg origin collection data s =
     andthen (force_or_signed cfg origin) (\<lambda>maybe_check_origin.
     do_set_collection_metadata cfg maybe_check_origin collection data s)"

definition clear_collection_metadata ::
  "('x, 'e) config \<Rightarrow> origin \<Rightarrow> collection_id \<Rightarrow> 'x nfts \<Rightarrow> 'e call_error + 'x nfts" where
  "clear_collection_metadata cfg origin collection s =
     andthen (force_or_signed cfg origin) (\<lambda>maybe_check_origin.
     do_clear_collection_metadata cfg maybe_check_origin collection s)"

definition set_accept_ownership ::
  "('x, 'e) config \<Rightarrow> origin \<Rightarrow> collection_id option \<Rightarrow> 'x nfts
    \<Rightarrow> 'e call_error + 'x nfts" where
  "set_accept_ownership cfg origin maybe_collection s =
     andthen (ensure_signed origin) (\<lambda>who. do_set_accept_ownership cfg who maybe_collection s)"

definition set_collection_max_supply ::
  "('x, 'e) config \<Rightarrow> origin \<Rightarrow> collection_id \<Rightarrow> nat \<Rightarrow> 'x nfts
    \<Rightarrow> 'e call_error + 'x nfts" where
  "set_collection_max_supply cfg origin collection max_supply s =
     andthen (force_or_signed cfg origin) (\<lambda>maybe_check_owner.
     do_set_collection_max_supply maybe_check_owner collection max_supply s)"

definition update_mint_settings ::
  "('x, 'e) config \<Rightarrow> origin \<Rightarrow> collection_id \<Rightarrow> mint_settings \<Rightarrow> 'x nfts
    \<Rightarrow> 'e call_error + 'x nfts" where
  "update_mint_settings cfg origin collection mint_settings s =
     andthen (force_or_signed cfg origin) (\<lambda>maybe_check_origin.
     do_update_mint_settings maybe_check_origin collection mint_settings s)"

section \<open>Trading\<close>

definition set_price ::
  "('x, 'e) config \<Rightarrow> origin \<Rightarrow> collection_id \<Rightarrow> item_id \<Rightarrow> balance option \<Rightarrow> address option
    \<Rightarrow> 'x nfts \<Rightarrow> 'e call_error + 'x nfts" where
  "set_price cfg origin collection item price whitelisted_buyer s =
     andthen (ensure_signed origin) (\<lambda>origin.
     andthen (do_lookup_opt cfg whitelisted_buyer) (\<lambda>whitelisted_buyer.
     do_set_price cfg collection item origin price whitelisted_buyer s))"

definition buy_item ::
  "('x, 'e) config \<Rightarrow> origin \<Rightarrow> collection_id \<Rightarrow> item_id \<Rightarrow> balance \<Rightarrow> 'x nfts
    \<Rightarrow> 'e call_error + 'x nfts" where
  "buy_item cfg origin collection item bid_price s =
     andthen (ensure_signed origin) (\<lambda>origin. do_buy_item cfg collection item origin bid_price s)"

definition pay_tips ::
  "('x, 'e) config \<Rightarrow> origin \<Rightarrow> item_tip list \<Rightarrow> 'x nfts \<Rightarrow> 'e call_error + 'x nfts" where
  "pay_tips cfg origin tips s =
     andthen (ensure_signed origin) (\<lambda>origin. do_pay_tips cfg origin tips s)"

definition create_swap ::
  "('x, 'e) config \<Rightarrow> origin \<Rightarrow> collection_id \<Rightarrow> item_id \<Rightarrow> collection_id
    \<Rightarrow> item_id option \<Rightarrow> price_with_direction option \<Rightarrow> block_number \<Rightarrow> 'x nfts
    \<Rightarrow> 'e call_error + 'x nfts" where
  "create_swap cfg origin offered_collection offered_item desired_collection maybe_desired_item
       maybe_price duration s =
     andthen (ensure_signed origin) (\<lambda>origin.
     do_create_swap cfg origin offered_collection offered_item desired_collection
       maybe_desired_item maybe_price duration s)"

definition cancel_swap ::
  "('x, 'e) config \<Rightarrow> origin \<Rightarrow> collection_id \<Rightarrow> item_id \<Rightarrow> 'x nfts
    \<Rightarrow> 'e call_error + 'x nfts" where
  "cancel_swap cfg origin offered_collection offered_item s =
     andthen (ensure_signed origin) (\<lambda>origin.
     do_cancel_swap cfg origin offered_collection offered_item s)"

definition claim_swap ::
  "('x, 'e) config \<Rightarrow> origin \<Rightarrow> collection_id \<Rightarrow> item_id \<Rightarrow> collection_id \<Rightarrow> item_id
    \<Rightarrow> price_with_direction option \<Rightarrow> 'x nfts \<Rightarrow> 'e call_error + 'x nfts" where
  "claim_swap cfg origin send_collection send_item receive_collection receive_item witness_price s =
     andthen (ensure_signed origin) (\<lambda>origin.
     do_claim_swap cfg origin send_collection send_item receive_collection receive_item
       witness_price s)"

section \<open>Pre-signed data\<close>

definition mint_pre_signed ::
  "('x, 'e) config \<Rightarrow> origin \<Rightarrow> pre_signed_mint \<Rightarrow> signature \<Rightarrow> account_id \<Rightarrow> 'x nfts
    \<Rightarrow> 'e call_error + 'x nfts" where
  "mint_pre_signed cfg origin mint_data signature signer s =
     andthen (ensure_signed origin) (\<lambda>origin.
     andthen (validate_signature cfg (encode_pre_signed_mint cfg mint_data) signature signer) (\<lambda>_.
     do_mint_pre_signed cfg origin mint_data signer s))"

definition set_attributes_pre_signed ::
  "('x, 'e) config \<Rightarrow> origin \<Rightarrow> pre_signed_attributes \<Rightarrow> signature \<Rightarrow> account_id \<Rightarrow> 'x nfts
    \<Rightarrow> 'e call_error + 'x nfts" where
  "set_attributes_pre_signed cfg origin data signature signer s =
     andthen (ensure_signed origin) (\<lambda>origin.
     andthen (validate_signature cfg (encode_pre_signed_attributes cfg data) signature signer) (\<lambda>_.
     do_set_attributes_pre_signed cfg origin data signer s))"

section \<open>The dispatcher\<close>

datatype (plugins only: code) call =
  Create address collection_config
| ForceCreate address collection_config
| Destroy collection_id destroy_witness
| Mint collection_id item_id address "mint_witness option"
| ForceMint collection_id item_id address item_config
| Burn collection_id item_id
| Transfer collection_id item_id address
| Redeposit collection_id "item_id list"
| LockItemTransfer collection_id item_id
| UnlockItemTransfer collection_id item_id
| LockCollection collection_id collection_settings
| TransferOwnership collection_id address
| SetTeam collection_id "address option" "address option" "address option"
| ForceCollectionOwner collection_id address
| ForceCollectionConfig collection_id collection_config
| ApproveTransfer collection_id item_id address "block_number option"
| CancelApproval collection_id item_id address
| ClearAllTransferApprovals collection_id item_id
| LockItemProperties collection_id item_id bool bool
| SetAttribute collection_id "item_id option" attribute_namespace bytes bytes
| ForceSetAttribute "account_id option" collection_id "item_id option" attribute_namespace bytes bytes
| ClearAttribute collection_id "item_id option" attribute_namespace bytes
| ApproveItemAttributes collection_id item_id address
| CancelItemAttributesApproval collection_id item_id address cancel_attributes_approval_witness
| SetMetadata collection_id item_id bytes
| ClearMetadata collection_id item_id
| SetCollectionMetadata collection_id bytes
| ClearCollectionMetadata collection_id
| SetAcceptOwnership "collection_id option"
| SetCollectionMaxSupply collection_id nat
| UpdateMintSettings collection_id mint_settings
| SetPrice collection_id item_id "balance option" "address option"
| BuyItem collection_id item_id balance
| PayTips "item_tip list"
| CreateSwap collection_id item_id collection_id "item_id option" "price_with_direction option" block_number
| CancelSwap collection_id item_id
| ClaimSwap collection_id item_id collection_id item_id "price_with_direction option"
| MintPreSigned pre_signed_mint signature account_id
| SetAttributesPreSigned pre_signed_attributes signature account_id

primrec dispatch ::
  "('x, 'e) config \<Rightarrow> origin \<Rightarrow> call \<Rightarrow> 'x nfts \<Rightarrow> 'e call_error + 'x nfts" where
  "dispatch cfg og (Create a b) = create cfg og a b"
| "dispatch cfg og (ForceCreate a b) = force_create cfg og a b"
| "dispatch cfg og (Destroy a b) = destroy cfg og a b"
| "dispatch cfg og (Mint a b c d) = mint cfg og a b c d"
| "dispatch cfg og (ForceMint a b c d) = force_mint cfg og a b c d"
| "dispatch cfg og (Burn a b) = burn cfg og a b"
| "dispatch cfg og (Transfer a b c) = transfer cfg og a b c"
| "dispatch cfg og (Redeposit a b) = redeposit cfg og a b"
| "dispatch cfg og (LockItemTransfer a b) = lock_item_transfer og a b"
| "dispatch cfg og (UnlockItemTransfer a b) = unlock_item_transfer og a b"
| "dispatch cfg og (LockCollection a b) = lock_collection og a b"
| "dispatch cfg og (TransferOwnership a b) = transfer_ownership cfg og a b"
| "dispatch cfg og (SetTeam a b c d) = set_team cfg og a b c d"
| "dispatch cfg og (ForceCollectionOwner a b) = force_collection_owner cfg og a b"
| "dispatch cfg og (ForceCollectionConfig a b) = force_collection_config cfg og a b"
| "dispatch cfg og (ApproveTransfer a b c d) = approve_transfer cfg og a b c d"
| "dispatch cfg og (CancelApproval a b c) = cancel_approval cfg og a b c"
| "dispatch cfg og (ClearAllTransferApprovals a b) = clear_all_transfer_approvals cfg og a b"
| "dispatch cfg og (LockItemProperties a b c d) = lock_item_properties cfg og a b c d"
| "dispatch cfg og (SetAttribute a b c d e) = set_attribute cfg og a b c d e"
| "dispatch cfg og (ForceSetAttribute a b c d e f) = force_set_attribute cfg og a b c d e f"
| "dispatch cfg og (ClearAttribute a b c d) = clear_attribute cfg og a b c d"
| "dispatch cfg og (ApproveItemAttributes a b c) = approve_item_attributes cfg og a b c"
| "dispatch cfg og (CancelItemAttributesApproval a b c d) =
     cancel_item_attributes_approval cfg og a b c d"
| "dispatch cfg og (SetMetadata a b c) = set_metadata cfg og a b c"
| "dispatch cfg og (ClearMetadata a b) = clear_metadata cfg og a b"
| "dispatch cfg og (SetCollectionMetadata a b) = set_collection_metadata cfg og a b"
| "dispatch cfg og (ClearCollectionMetadata a) = clear_collection_metadata cfg og a"
| "dispatch cfg og (SetAcceptOwnership a) = set_accept_ownership cfg og a"
| "dispatch cfg og (SetCollectionMaxSupply a b) = set_collection_max_supply cfg og a b"
| "dispatch cfg og (UpdateMintSettings a b) = update_mint_settings cfg og a b"
| "dispatch cfg og (SetPrice a b c d) = set_price cfg og a b c d"
| "dispatch cfg og (BuyItem a b c) = buy_item cfg og a b c"
| "dispatch cfg og (PayTips a) = pay_tips cfg og a"
| "dispatch cfg og (CreateSwap a b c d e f) = create_swap cfg og a b c d e f"
| "dispatch cfg og (CancelSwap a b) = cancel_swap cfg og a b"
| "dispatch cfg og (ClaimSwap a b c d e) = claim_swap cfg og a b c d e"
| "dispatch cfg og (MintPreSigned a b c) = mint_pre_signed cfg og a b c"
| "dispatch cfg og (SetAttributesPreSigned a b c) = set_attributes_pre_signed cfg og a b c"

end
