(* ===== verification/Nfts_Registry.thy ===== *)
theory Nfts_Registry
  imports Nfts_Types
begin

text \<open>
  The abstract specification of the NFTs pallet: a registry of who owns what. It forgets balances,
  settings, approvals and the contents of metadata and attributes, and keeps the ownership map,
  the two reverse indexes (\<open>Account\<close>, \<open>CollectionAccount\<close>), which keys every other storage holds, and
  the counters of a collection. \<open>registry_step\<close> are the moves the specification allows, labelled
  with how much a counter can grow; \<open>registry_wf\<close> is what they keep.
\<close>

record summary =
  sm_owner :: account_id
  sm_items :: nat
  sm_metadatas :: nat
  sm_configs :: nat

type_synonym item_key = "collection_id \<times> item_id"

record registry =
  item_owner :: "item_key \<Rightarrow> account_id option"
  coll :: "collection_id \<Rightarrow> summary option"
  held :: "(account_id \<times> collection_id \<times> item_id) set"
  coll_held :: "(account_id \<times> collection_id) set"
  configured :: "item_key set"
  described :: "item_key set"
  priced :: "item_key set"
  offered :: "item_key set"
  attr_approved :: "item_key set"
  coll_configured :: "collection_id set"
  coll_described :: "collection_id set"

section \<open>Operations of the specification\<close>

definition r_transfer ::
  "collection_id \<Rightarrow> item_id \<Rightarrow> account_id \<Rightarrow> account_id \<Rightarrow> registry \<Rightarrow> registry" where
  "r_transfer c i from dest r =
     r\<lparr>item_owner := (item_owner r)((c, i) \<mapsto> dest),
       held := insert (dest, c, i) (held r - {(from, c, i)}),
       priced := priced r - {(c, i)}, offered := offered r - {(c, i)}\<rparr>"

definition r_mint :: "collection_id \<Rightarrow> item_id \<Rightarrow> account_id \<Rightarrow> summary \<Rightarrow> registry \<Rightarrow> registry" where
  "r_mint c i dest d r =
     r\<lparr>item_owner := (item_owner r)((c, i) \<mapsto> dest),
       held := insert (dest, c, i) (held r),
       coll := (coll r)(c \<mapsto> d\<lparr>sm_items := saturating_inc (sm_items d),
         sm_configs := (if (c, i) \<in> configured r then sm_configs d
                        else saturating_inc (sm_configs d))\<rparr>),
       configured := insert (c, i) (configured r)\<rparr>"

definition r_burn ::
  "collection_id \<Rightarrow> item_id \<Rightarrow> bool \<Rightarrow> bool \<Rightarrow> account_id \<Rightarrow> summary \<Rightarrow> registry \<Rightarrow> registry" where
  "r_burn c i drop_config drop_metadata from d r =
     r\<lparr>item_owner := (item_owner r)((c, i) := None),
       held := held r - {(from, c, i)},
       coll := (coll r)(c \<mapsto> d\<lparr>sm_items := saturating_dec (sm_items d),
         sm_configs := (if drop_config then saturating_dec (sm_configs d) else sm_configs d),
         sm_metadatas := (if drop_metadata \<and> (c, i) \<in> described r
                          then saturating_dec (sm_metadatas d) else sm_metadatas d)\<rparr>),
       configured := (if drop_config then configured r - {(c, i)} else configured r),
       described := (if drop_metadata then described r - {(c, i)} else described r),
       priced := priced r - {(c, i)}, offered := offered r - {(c, i)},
       attr_approved := attr_approved r - {(c, i)}\<rparr>"

definition r_create :: "collection_id \<Rightarrow> account_id \<Rightarrow> registry \<Rightarrow> registry" where
  "r_create c own r =
     r\<lparr>coll := (coll r)(c \<mapsto> \<lparr>sm_owner = own, sm_items = 0, sm_metadatas = 0, sm_configs = 0\<rparr>),
       coll_held := insert (own, c) (coll_held r),
       coll_configured := insert c (coll_configured r)\<rparr>"

text \<open>Destroying a collection removes its entries, except that item configurations are only removed
  up to the counter \<open>sm_configs\<close>; \<open>left\<close> are those that stay.\<close>

definition r_destroy ::
  "collection_id \<Rightarrow> item_key set \<Rightarrow> summary \<Rightarrow> registry \<Rightarrow> registry" where
  "r_destroy c left d r =
     r\<lparr>coll := (coll r)(c := None),
       coll_held := coll_held r - {(sm_owner d, c)},
       configured := {k \<in> configured r. fst k \<noteq> c \<or> k \<in> left},
       described := {k \<in> described r. fst k \<noteq> c},
       coll_configured := coll_configured r - {c},
       coll_described := coll_described r - {c}\<rparr>"

definition r_set_owner :: "collection_id \<Rightarrow> account_id \<Rightarrow> summary \<Rightarrow> registry \<Rightarrow> registry" where
  "r_set_owner c new_owner d r =
     r\<lparr>coll := (coll r)(c \<mapsto> d\<lparr>sm_owner := new_owner\<rparr>),
       coll_held := insert (new_owner, c) (coll_held r - {(sm_owner d, c)})\<rparr>"

definition r_describe :: "collection_id \<Rightarrow> item_id \<Rightarrow> summary \<Rightarrow> registry \<Rightarrow> registry" where
  "r_describe c i d r =
     r\<lparr>coll := (coll r)(c \<mapsto> d\<lparr>sm_metadatas := (if (c, i) \<in> described r then sm_metadatas d
                               else saturating_inc (sm_metadatas d))\<rparr>),
       described := insert (c, i) (described r)\<rparr>"

definition r_undescribe :: "collection_id \<Rightarrow> item_id \<Rightarrow> summary \<Rightarrow> registry \<Rightarrow> registry" where
  "r_undescribe c i d r =
     r\<lparr>coll := (coll r)(c \<mapsto> d\<lparr>sm_metadatas := saturating_dec (sm_metadatas d)\<rparr>),
       described := described r - {(c, i)}\<rparr>"

text \<open>Prices, swap offers and attribute approvals may be attached to an existing item and taken
  away at any time; so may the metadata of an existing collection.\<close>

definition r_attach ::
  "item_key set \<Rightarrow> item_key set \<Rightarrow> item_key set \<Rightarrow> collection_id set \<Rightarrow> registry \<Rightarrow> registry" where
  "r_attach p q a m r = r\<lparr>priced := p, offered := q, attr_approved := a, coll_described := m\<rparr>"

definition r_configure :: "collection_id \<Rightarrow> registry \<Rightarrow> registry" where
  "r_configure c r = r\<lparr>coll_configured := insert c (coll_configured r)\<rparr>"

section \<open>Steps\<close>

inductive registry_step :: "nat \<Rightarrow> registry \<Rightarrow> registry \<Rightarrow> bool" where
  transfer: "item_owner r (c, i) = Some from \<Longrightarrow> registry_step 0 r (r_transfer c i from dest r)"
| mint: "item_owner r (c, i) = None \<Longrightarrow> coll r c = Some d \<Longrightarrow> registry_step 1 r (r_mint c i dest d r)"
| burn: "item_owner r (c, i) = Some from \<Longrightarrow> coll r c = Some d \<Longrightarrow> (c, i) \<in> configured r
    \<Longrightarrow> registry_step 0 r (r_burn c i drop_config drop_metadata from d r)"
| create: "coll r c = None \<Longrightarrow> registry_step 0 r (r_create c own r)"
| destroy: "coll r c = Some d \<Longrightarrow> sm_items d = 0
    \<Longrightarrow> (sm_configs d = card {k \<in> configured r. fst k = c} \<Longrightarrow> left = {})
    \<Longrightarrow> registry_step 0 r (r_destroy c left d r)"
| set_owner: "coll r c = Some d \<Longrightarrow> registry_step 0 r (r_set_owner c new_owner d r)"
| describe: "coll r c = Some d \<Longrightarrow> registry_step 1 r (r_describe c i d r)"
| undescribe: "coll r c = Some d \<Longrightarrow> (c, i) \<in> described r \<Longrightarrow> registry_step 0 r (r_undescribe c i d r)"
| attach: "p \<subseteq> priced r \<union> dom (item_owner r) \<Longrightarrow> q \<subseteq> offered r \<union> dom (item_owner r)
    \<Longrightarrow> a \<subseteq> attr_approved r \<union> dom (item_owner r) \<Longrightarrow> m \<subseteq> coll_described r \<union> dom (coll r)
    \<Longrightarrow> registry_step 0 r (r_attach p q a m r)"
| configure: "coll r c = Some d \<Longrightarrow> registry_step 0 r (r_configure c r)"

inductive registry_steps :: "nat \<Rightarrow> registry \<Rightarrow> registry \<Rightarrow> bool" where
  none: "registry_steps 0 r r"
| some: "registry_step m r r' \<Longrightarrow> registry_steps n r' r'' \<Longrightarrow> registry_steps (m + n) r r''"

lemma registry_steps_single: "registry_step m r r' \<Longrightarrow> registry_steps m r r'"
  using registry_steps.some [OF _ registry_steps.none, of m r r'] by simp

lemma registry_steps_trans:
  "registry_steps m r r' \<Longrightarrow> registry_steps n r' r'' \<Longrightarrow> registry_steps (m + n) r r''"
proof (induction rule: registry_steps.induct)
  case (none r)
  then show ?case by simp
next
  case (some m r r' k t)
  then show ?case using registry_steps.some [of m r r' "k + n" r''] by (simp add: add.assoc)
qed

section \<open>Well-formed registries\<close>

definition in_coll :: "collection_id \<Rightarrow> item_key set \<Rightarrow> item_key set" where
  "in_coll c K = {k \<in> K. fst k = c}"

definition registry_index :: "registry \<Rightarrow> bool" where
  "registry_index r \<longleftrightarrow>
     (\<forall>a c i. (a, c, i) \<in> held r \<longleftrightarrow> item_owner r (c, i) = Some a) \<and>
     (\<forall>a c. (a, c) \<in> coll_held r \<longleftrightarrow> map_option sm_owner (coll r c) = Some a)"

definition registry_refs :: "registry \<Rightarrow> bool" where
  "registry_refs r \<longleftrightarrow>
     (\<forall>c i. (c, i) \<in> dom (item_owner r) \<longrightarrow> (c, i) \<in> configured r) \<and>
     (\<forall>c i. (c, i) \<in> configured r \<union> described r \<longrightarrow> c \<in> dom (coll r)) \<and>
     priced r \<union> offered r \<union> attr_approved r \<subseteq> dom (item_owner r) \<and>
     coll_configured r = dom (coll r) \<and> coll_described r \<subseteq> dom (coll r)"

definition registry_counts :: "nat \<Rightarrow> registry \<Rightarrow> bool" where
  "registry_counts n r \<longleftrightarrow>
     (\<forall>c d. coll r c = Some d \<longrightarrow>
        sm_items d = card (in_coll c (dom (item_owner r))) \<and> sm_items d \<le> n \<and>
        sm_metadatas d = card (in_coll c (described r)) \<and> sm_metadatas d \<le> n \<and>
        sm_configs d = card (in_coll c (configured r)) \<and> sm_configs d \<le> n)"

definition registry_wf :: "nat \<Rightarrow> registry \<Rightarrow> bool" where
  "registry_wf n r \<longleftrightarrow> registry_index r \<and> registry_refs r \<and> registry_counts n r"

lemma finite_in_coll [simp]: "finite (in_coll c K)"
  by simp

lemma in_coll_insert: "in_coll c (insert k K) = (if fst k = c then insert k (in_coll c K) else in_coll c K)"
  by (auto simp: in_coll_def)

lemma in_coll_diff: "in_coll c (K - {k}) = in_coll c K - {k}"
  by (auto simp: in_coll_def)

lemma in_coll_mem [simp]: "k \<in> in_coll c K \<longleftrightarrow> k \<in> K \<and> fst k = c"
  by (auto simp: in_coll_def)

lemma in_coll_other: "c' \<noteq> c \<Longrightarrow> in_coll c' {k \<in> K. fst k \<noteq> c} = in_coll c' K"
  by (auto simp: in_coll_def)

lemma card_in_coll_insert:
  "card (in_coll c (insert (c', i) K)) =
     (if c' = c \<and> (c', i) \<notin> K then Suc (card (in_coll c K)) else card (in_coll c K))"
  by (auto simp: in_coll_insert insert_absorb)

lemma card_in_coll_diff:
  "card (in_coll c (K - {(c', i)})) =
     (if c' = c \<and> (c', i) \<in> K then card (in_coll c K) - 1 else card (in_coll c K))"
  by (auto simp: in_coll_diff card_Diff_singleton_if)

lemma in_coll_empty: "in_coll c K = {} \<longleftrightarrow> (\<forall>i. (c, i) \<notin> K)"
  by (auto simp: in_coll_def)

lemmas registry_ops =
  r_transfer_def r_mint_def r_burn_def r_create_def r_destroy_def r_set_owner_def
  r_describe_def r_undescribe_def r_attach_def r_configure_def

lemma registry_step_index: "registry_step m r r' \<Longrightarrow> registry_index r \<Longrightarrow> registry_index r'"
  by (induction rule: registry_step.induct) (auto simp: registry_index_def registry_ops)

lemma registry_step_refs:
  "registry_step m r r' \<Longrightarrow> registry_refs r \<Longrightarrow> registry_counts n r \<Longrightarrow> registry_refs r'"
proof (induction rule: registry_step.induct)
  case (destroy r c d left)
  then have "in_coll c (dom (item_owner r)) = {}"
    by (auto simp: registry_counts_def)
  then have "(c, i) \<notin> dom (item_owner r)" for i by (simp add: in_coll_empty)
  moreover have "left = {}" using destroy by (auto simp: registry_counts_def in_coll_def)
  moreover note destroy(1,2,4)
  ultimately show ?case by (fastforce simp: registry_refs_def registry_ops)
qed (auto simp: registry_refs_def registry_ops dom_def split: if_splits)

text \<open>A new collection starts empty: nothing refers to an unused identifier.\<close>

lemma unused_collection:
  assumes "registry_refs r" and "coll r c = None"
  shows "in_coll c (dom (item_owner r)) = {}" "in_coll c (configured r) = {}"
    "in_coll c (described r) = {}"
  using assms by (fastforce simp: registry_refs_def in_coll_empty)+

lemma registry_counts_mono: "registry_counts n r \<Longrightarrow> n \<le> m \<Longrightarrow> registry_counts m r"
  by (fastforce simp: registry_counts_def)

definition summary_ok :: "nat \<Rightarrow> registry \<Rightarrow> collection_id \<Rightarrow> summary \<Rightarrow> bool" where
  "summary_ok n r c d \<longleftrightarrow>
     sm_items d = card (in_coll c (dom (item_owner r))) \<and> sm_items d \<le> n \<and>
     sm_metadatas d = card (in_coll c (described r)) \<and> sm_metadatas d \<le> n \<and>
     sm_configs d = card (in_coll c (configured r)) \<and> sm_configs d \<le> n"

lemma registry_counts_alt: "registry_counts n r \<longleftrightarrow> (\<forall>c d. coll r c = Some d \<longrightarrow> summary_ok n r c d)"
  by (simp add: registry_counts_def summary_ok_def)

text \<open>One collection at a time: a step that changes the entry of \<open>c\<close> and keys of \<open>c\<close> only.\<close>

lemma registry_counts_update:
  assumes "registry_counts n r" and "summary_ok m r' c d'"
    and "\<And>c'. c' \<noteq> c \<Longrightarrow> coll r' c' = coll r c'" and "coll r' c = Some d'"
    and "\<And>c'. c' \<noteq> c \<Longrightarrow> in_coll c' (dom (item_owner r')) = in_coll c' (dom (item_owner r))"
    and "\<And>c'. c' \<noteq> c \<Longrightarrow> in_coll c' (described r') = in_coll c' (described r)"
    and "\<And>c'. c' \<noteq> c \<Longrightarrow> in_coll c' (configured r') = in_coll c' (configured r)"
    and "n \<le> m"
  shows "registry_counts m r'"
  unfolding registry_counts_alt
proof (intro allI impI)
  fix c' x assume x: "coll r' c' = Some x"
  show "summary_ok m r' c' x"
  proof (cases "c' = c")
    case True
    with x assms(2,4) show ?thesis by simp
  next
    case False
    with x assms(1,3) have "summary_ok n r c' x" by (auto simp: registry_counts_alt)
    with False assms(5-8) show ?thesis by (auto simp: summary_ok_def)
  qed
qed

lemma in_coll_insert_other: "c' \<noteq> c \<Longrightarrow> in_coll c' (insert (c, i) K) = in_coll c' K"
  by (auto simp: in_coll_def)

lemma in_coll_diff_other: "c' \<noteq> c \<Longrightarrow> in_coll c' (K - {(c, i)}) = in_coll c' K"
  by (auto simp: in_coll_def)

lemmas in_coll_frame = in_coll_insert_other in_coll_diff_other in_coll_other

lemma card_in_coll_pos: "(c, i) \<in> K \<Longrightarrow> 0 < card (in_coll c K)"
  by (subst card_gt_0_iff) (auto simp: in_coll_empty)

lemma counts_mint:
  assumes "item_owner r (c, i) = None" "coll r c = Some d" "registry_counts n r" "Suc n \<le> u32_max"
  shows "registry_counts (Suc n) (r_mint c i dest d r)"
proof (rule registry_counts_update [OF assms(3)])
  have ok: "summary_ok n r c d" using assms by (simp add: registry_counts_alt)
  then have "saturating_inc (sm_items d) = Suc (sm_items d)"
    and "saturating_inc (sm_configs d) = Suc (sm_configs d)"
    using assms(4) by (simp_all add: summary_ok_def saturating_inc_exact)
  moreover have "(c, i) \<notin> dom (item_owner r)" using assms(1) by auto
  ultimately show "summary_ok (Suc n) (r_mint c i dest d r) c
      (d\<lparr>sm_items := saturating_inc (sm_items d),
         sm_configs := (if (c, i) \<in> configured r then sm_configs d
                        else saturating_inc (sm_configs d))\<rparr>)"
    using ok by (simp add: summary_ok_def r_mint_def card_in_coll_insert)
qed (simp_all add: r_mint_def in_coll_frame)

lemma counts_burn:
  assumes "item_owner r (c, i) = Some from" "coll r c = Some d" "(c, i) \<in> configured r"
    "registry_counts n r"
  shows "registry_counts n (r_burn c i drop_config drop_metadata from d r)"
proof (rule registry_counts_update [OF assms(4)])
  have ok: "summary_ok n r c d" using assms by (simp add: registry_counts_alt)
  moreover have own: "(c, i) \<in> dom (item_owner r)" using assms(1) by auto
  ultimately show "summary_ok n (r_burn c i drop_config drop_metadata from d r) c
      (d\<lparr>sm_items := saturating_dec (sm_items d),
         sm_configs := (if drop_config then saturating_dec (sm_configs d) else sm_configs d),
         sm_metadatas := (if drop_metadata \<and> (c, i) \<in> described r
                          then saturating_dec (sm_metadatas d) else sm_metadatas d)\<rparr>)"
    using assms(3)
    by (auto simp: summary_ok_def r_burn_def card_in_coll_diff saturating_dec_def)
qed (simp_all add: r_burn_def in_coll_frame)

lemma counts_describe:
  assumes "coll r c = Some d" "registry_counts n r" "Suc n \<le> u32_max"
  shows "registry_counts (Suc n) (r_describe c i d r)"
proof (rule registry_counts_update [OF assms(2)])
  have ok: "summary_ok n r c d" using assms by (simp add: registry_counts_alt)
  then have "saturating_inc (sm_metadatas d) = Suc (sm_metadatas d)"
    using assms(3) by (simp add: summary_ok_def saturating_inc_exact)
  then show "summary_ok (Suc n) (r_describe c i d r) c
      (d\<lparr>sm_metadatas := (if (c, i) \<in> described r then sm_metadatas d
                         else saturating_inc (sm_metadatas d))\<rparr>)"
    using ok by (simp add: summary_ok_def r_describe_def card_in_coll_insert)
qed (simp_all add: r_describe_def in_coll_frame)

lemma counts_undescribe:
  assumes "coll r c = Some d" "(c, i) \<in> described r" "registry_counts n r"
  shows "registry_counts n (r_undescribe c i d r)"
proof (rule registry_counts_update [OF assms(3)])
  have ok: "summary_ok n r c d" using assms by (simp add: registry_counts_alt)
  then show "summary_ok n (r_undescribe c i d r) c
      (d\<lparr>sm_metadatas := saturating_dec (sm_metadatas d)\<rparr>)"
    using assms(2)
    by (auto simp: summary_ok_def r_undescribe_def card_in_coll_diff saturating_dec_def)
qed (simp_all add: r_undescribe_def in_coll_frame)

lemma counts_create:
  assumes "registry_refs r" "coll r c = None" "registry_counts n r"
  shows "registry_counts n (r_create c own r)"
proof (rule registry_counts_update [OF assms(3)])
  show "summary_ok n (r_create c own r) c
      \<lparr>sm_owner = own, sm_items = 0, sm_metadatas = 0, sm_configs = 0\<rparr>"
    using unused_collection [OF assms(1,2)] by (simp add: summary_ok_def r_create_def)
qed (simp_all add: r_create_def)

lemma registry_step_counts:
  "registry_step m r r' \<Longrightarrow> registry_refs r \<Longrightarrow> registry_counts n r \<Longrightarrow> n + m \<le> u32_max
    \<Longrightarrow> registry_counts (n + m) r'"
proof (induction rule: registry_step.induct)
  case (transfer r c i "from" dest)
  then have "dom (item_owner (r_transfer c i from dest r)) = dom (item_owner r)"
    by (auto simp: registry_ops)
  then have "summary_ok n (r_transfer c i from dest r) c' d = summary_ok n r c' d" for c' d
    unfolding summary_ok_def by (simp add: r_transfer_def)
  with transfer show ?case by (simp add: registry_counts_alt r_transfer_def)
next
  case (destroy r c d left)
  have "c' \<noteq> c \<Longrightarrow> in_coll c' {k \<in> configured r. fst k \<noteq> c \<or> k \<in> left} = in_coll c' (configured r)"
    for c' by (auto simp: in_coll_def)
  then have "c' \<noteq> c \<Longrightarrow> summary_ok n (r_destroy c left d r) c' x = summary_ok n r c' x" for c' x
    by (simp add: summary_ok_def r_destroy_def in_coll_other)
  with destroy show ?case by (simp add: registry_counts_alt r_destroy_def)
next
  case (set_owner r c d new_owner)
  then have "summary_ok n r c d" by (simp add: registry_counts_alt)
  then have "summary_ok n (r_set_owner c new_owner d r) c (d\<lparr>sm_owner := new_owner\<rparr>)"
    by (simp add: summary_ok_def r_set_owner_def)
  then show ?case
    using set_owner by (auto intro!: registry_counts_update [of n r n _ c] simp: r_set_owner_def)
next
  case (attach p r q a m)
  have "summary_ok n (r_attach p q a m r) c' d = summary_ok n r c' d" for c' d
    by (simp add: summary_ok_def r_attach_def)
  with attach show ?case by (simp add: registry_counts_alt r_attach_def)
next
  case (configure r c d)
  have "summary_ok n (r_configure c r) c' x = summary_ok n r c' x" for c' x
    by (simp add: summary_ok_def r_configure_def)
  with configure show ?case by (simp add: registry_counts_alt r_configure_def)
qed (simp_all add: counts_mint counts_burn counts_describe counts_undescribe counts_create)

lemma registry_step_wf:
  "registry_step m r r' \<Longrightarrow> registry_wf n r \<Longrightarrow> n + m \<le> u32_max \<Longrightarrow> registry_wf (n + m) r'"
  using registry_step_index registry_step_refs registry_step_counts
  unfolding registry_wf_def by blast

lemma registry_steps_wf:
  "registry_steps m r r' \<Longrightarrow> registry_wf n r \<Longrightarrow> n + m \<le> u32_max \<Longrightarrow> registry_wf (n + m) r'"
proof (induction arbitrary: n rule: registry_steps.induct)
  case (none r)
  then show ?case by simp
next
  case (some m r r' k r'')
  then have "registry_wf (n + m) r'" by (auto intro: registry_step_wf)
  with some.IH [of "n + m"] some.prems show ?case by (simp add: add.assoc)
qed

lemma registry_steps_index: "registry_steps m r r' \<Longrightarrow> registry_index r \<Longrightarrow> registry_index r'"
  by (induction rule: registry_steps.induct) (auto intro: registry_step_index)

lemma registry_wf_mono: "registry_wf n r \<Longrightarrow> n \<le> m \<Longrightarrow> registry_wf m r"
  by (auto simp: registry_wf_def intro: registry_counts_mono)

end
