(* ===== verification/Nfts_Refinement.thy ===== *)
theory Nfts_Refinement
  imports Nfts_Calls Nfts_Registry
begin

text \<open>
  The pallet refines the registry: \<open>registry_of\<close> reads a registry off the storages, and every call
  that succeeds is a short sequence of registry steps. The lemmas follow the modules of the
  pallet; the dispatcher is at the end.
\<close>

section \<open>The abstraction function\<close>

definition summary_of :: "collection_details \<Rightarrow> summary" where
  "summary_of d =
     \<lparr>sm_owner = cd_owner d, sm_items = cd_items d, sm_metadatas = cd_item_metadatas d,
      sm_configs = cd_item_configs d\<rparr>"

definition registry_of :: "'x nfts \<Rightarrow> registry" where
  "registry_of s =
     \<lparr>item_owner = (\<lambda>(c, i). owner c i s),
      coll = (\<lambda>c. map_option summary_of (sget (Collection s) c)),
      held = {k. contains_key (Account s) k},
      coll_held = {k. contains_key (CollectionAccount s) k},
      configured = {k. contains_key (ItemConfigOf s) k},
      described = {k. contains_key (ItemMetadataOf s) k},
      priced = {k. contains_key (ItemPriceOf s) k},
      offered = {k. contains_key (PendingSwapOf s) k},
      attr_approved = {k. contains_key (ItemAttributesApprovalsOf s) k},
      coll_configured = {c. contains_key (CollectionConfigOf s) c},
      coll_described = {c. contains_key (CollectionMetadataOf s) c}\<rparr>"

lemma summary_of_simps [simp]:
  "summary_of (d\<lparr>cd_owner_deposit := b\<rparr>) = summary_of d"
  "summary_of (d\<lparr>cd_attributes := n\<rparr>) = summary_of d"
  "summary_of (d\<lparr>cd_owner := a\<rparr>) = (summary_of d)\<lparr>sm_owner := a\<rparr>"
  "summary_of (d\<lparr>cd_items := n\<rparr>) = (summary_of d)\<lparr>sm_items := n\<rparr>"
  "summary_of (d\<lparr>cd_item_metadatas := n\<rparr>) = (summary_of d)\<lparr>sm_metadatas := n\<rparr>"
  "summary_of (d\<lparr>cd_item_configs := n\<rparr>) = (summary_of d)\<lparr>sm_configs := n\<rparr>"
  "sm_owner (summary_of d) = cd_owner d" "sm_items (summary_of d) = cd_items d"
  "sm_metadatas (summary_of d) = cd_item_metadatas d"
  "sm_configs (summary_of d) = cd_item_configs d"
  by (simp_all add: summary_of_def)

lemma registry_of_fields [simp]:
  "item_owner (registry_of s) (c, i) = map_option it_owner (sget (Item s) (c, i))"
  "coll (registry_of s) c = map_option summary_of (sget (Collection s) c)"
  "k1 \<in> held (registry_of s) \<longleftrightarrow> contains_key (Account s) k1"
  "k2 \<in> coll_held (registry_of s) \<longleftrightarrow> contains_key (CollectionAccount s) k2"
  "k3 \<in> configured (registry_of s) \<longleftrightarrow> contains_key (ItemConfigOf s) k3"
  "k3 \<in> described (registry_of s) \<longleftrightarrow> contains_key (ItemMetadataOf s) k3"
  "k3 \<in> priced (registry_of s) \<longleftrightarrow> contains_key (ItemPriceOf s) k3"
  "k3 \<in> offered (registry_of s) \<longleftrightarrow> contains_key (PendingSwapOf s) k3"
  "k3 \<in> attr_approved (registry_of s) \<longleftrightarrow> contains_key (ItemAttributesApprovalsOf s) k3"
  "c \<in> coll_configured (registry_of s) \<longleftrightarrow> contains_key (CollectionConfigOf s) c"
  "c \<in> coll_described (registry_of s) \<longleftrightarrow> contains_key (CollectionMetadataOf s) c"
  by (simp_all add: registry_of_def owner_def)

text \<open>Writes that the registry does not see.\<close>

lemma registry_of_frame [simp, frame_simps]:
  "registry_of (s\<lparr>ext := x\<rparr>) = registry_of s"
  "registry_of (s\<lparr>events := es\<rparr>) = registry_of s"
  "registry_of (s\<lparr>Attribute := at\<rparr>) = registry_of s"
  "registry_of (s\<lparr>CollectionRoleOf := ro\<rparr>) = registry_of s"
  "registry_of (s\<lparr>OwnershipAcceptance := oa\<rparr>) = registry_of s"
  "registry_of (s\<lparr>NextCollectionId := nc\<rparr>) = registry_of s"
  "registry_of (deposit_event e s) = registry_of s"
  "registry_of (unreserve cfg a b s) = registry_of s"
  "registry_of (upd_ext f s) = registry_of s"
  by (simp_all add: registry_of_def owner_def deposit_event_def unreserve_def upd_ext_def)

lemma registry_of_eqI:
  assumes "\<And>c i. owner c i s = item_owner r (c, i)"
    and "\<And>c. map_option summary_of (sget (Collection s) c) = coll r c"
    and "\<And>k. contains_key (Account s) k \<longleftrightarrow> k \<in> held r"
    and "\<And>k. contains_key (CollectionAccount s) k \<longleftrightarrow> k \<in> coll_held r"
    and "\<And>k. contains_key (ItemConfigOf s) k \<longleftrightarrow> k \<in> configured r"
    and "\<And>k. contains_key (ItemMetadataOf s) k \<longleftrightarrow> k \<in> described r"
    and "\<And>k. contains_key (ItemPriceOf s) k \<longleftrightarrow> k \<in> priced r"
    and "\<And>k. contains_key (PendingSwapOf s) k \<longleftrightarrow> k \<in> offered r"
    and "\<And>k. contains_key (ItemAttributesApprovalsOf s) k \<longleftrightarrow> k \<in> attr_approved r"
    and "\<And>c. contains_key (CollectionConfigOf s) c \<longleftrightarrow> c \<in> coll_configured r"
    and "\<And>c. contains_key (CollectionMetadataOf s) c \<longleftrightarrow> c \<in> coll_described r"
  shows "registry_of s = r"
  by (rule registry.equality) (auto simp: registry_of_def assms)

text \<open>Overwriting an entry with one that has the same summary, owner or key.\<close>

lemma registry_of_Collection:
  "m = Collection s \<Longrightarrow> map_option summary_of (sget (Collection s) c) = Some (summary_of d)
    \<Longrightarrow> registry_of (s\<lparr>Collection := sput c d m\<rparr>) = registry_of s"
  by (rule registry_of_eqI) (auto simp: storage_simps owner_def)

lemma registry_of_Item:
  "m = Item s \<Longrightarrow> map_option it_owner (sget (Item s) k) = Some (it_owner d)
    \<Longrightarrow> registry_of (s\<lparr>Item := sput k d m\<rparr>) = registry_of s"
  by (rule registry_of_eqI) (auto simp: storage_simps owner_def)

lemma registry_of_CollectionConfigOf:
  "m = CollectionConfigOf s \<Longrightarrow> contains_key (CollectionConfigOf s) c
    \<Longrightarrow> registry_of (s\<lparr>CollectionConfigOf := sput c v m\<rparr>) = registry_of s"
  by (rule registry_of_eqI) (auto simp: storage_simps owner_def)

lemma registry_of_ItemConfigOf:
  "m = ItemConfigOf s \<Longrightarrow> contains_key (ItemConfigOf s) k
    \<Longrightarrow> registry_of (s\<lparr>ItemConfigOf := sput k v m\<rparr>) = registry_of s"
  by (rule registry_of_eqI) (auto simp: storage_simps owner_def)

lemmas registry_of_overwrite =
  registry_of_Collection registry_of_Item registry_of_CollectionConfigOf registry_of_ItemConfigOf

lemma contains_keyI: "sget m k = Some v \<Longrightarrow> contains_key m k"
  by (simp add: contains_key_def)

text \<open>Attaching a price, an offer, attribute approvals to an existing item or metadata to an existing
  collection, or taking any of them away.\<close>

lemma sim_attachI:
  assumes "\<And>c i. owner c i s' = owner c i s"
    and "\<And>c. map_option summary_of (sget (Collection s') c) = map_option summary_of (sget (Collection s) c)"
    and "Account s' = Account s" and "CollectionAccount s' = CollectionAccount s"
    and "ItemConfigOf s' = ItemConfigOf s" and "ItemMetadataOf s' = ItemMetadataOf s"
    and "CollectionConfigOf s' = CollectionConfigOf s"
    and "\<And>k. contains_key (ItemPriceOf s') k \<Longrightarrow> contains_key (ItemPriceOf s) k \<or> contains_key (Item s) k"
    and "\<And>k. contains_key (PendingSwapOf s') k \<Longrightarrow> contains_key (PendingSwapOf s) k \<or> contains_key (Item s) k"
    and "\<And>k. contains_key (ItemAttributesApprovalsOf s') k
      \<Longrightarrow> contains_key (ItemAttributesApprovalsOf s) k \<or> contains_key (Item s) k"
    and "\<And>c. contains_key (CollectionMetadataOf s') c
      \<Longrightarrow> contains_key (CollectionMetadataOf s) c \<or> contains_key (Collection s) c"
  shows "registry_steps 0 (registry_of s) (registry_of s')"
proof -
  let ?r = "registry_of s'"
  have "?r = r_attach (priced ?r) (offered ?r) (attr_approved ?r) (coll_described ?r) (registry_of s)"
    by (rule registry_of_eqI) (auto simp: r_attach_def assms(3-7) assms(1) [unfolded owner_def] assms(2) owner_def)
  moreover have "registry_step 0 (registry_of s)
     (r_attach (priced ?r) (offered ?r) (attr_approved ?r) (coll_described ?r) (registry_of s))"
  proof (rule attach)
    show "priced ?r \<subseteq> priced (registry_of s) \<union> dom (item_owner (registry_of s))"
      using assms(8) by (fastforce simp: contains_key_def)
    show "offered ?r \<subseteq> offered (registry_of s) \<union> dom (item_owner (registry_of s))"
      using assms(9) by (fastforce simp: contains_key_def)
    show "attr_approved ?r \<subseteq> attr_approved (registry_of s) \<union> dom (item_owner (registry_of s))"
      using assms(10) by (fastforce simp: contains_key_def)
    show "coll_described ?r \<subseteq> coll_described (registry_of s) \<union> dom (coll (registry_of s))"
      using assms(11) by (fastforce simp: contains_key_def)
  qed
  ultimately show ?thesis by (metis registry_steps_single)
qed

lemma sim_silent: "registry_of s' = registry_of s \<Longrightarrow> registry_steps 0 (registry_of s) (registry_of s')"
  by (simp add: registry_steps.none)

section \<open>Settings, roles and locks\<close>

named_theorems silent \<open>operations the registry does not see\<close>

lemma silent_admin [silent]:
  "do_set_collection_max_supply mo c n s = Inr s' \<Longrightarrow> registry_of s' = registry_of s"
  "do_set_team mo c is ad fr s = Inr s' \<Longrightarrow> registry_of s' = registry_of s"
  "do_update_mint_settings mo c ms s = Inr s' \<Longrightarrow> registry_of s' = registry_of s"
  "do_lock_collection a c ls s = Inr s' \<Longrightarrow> registry_of s' = registry_of s"
  "do_lock_item_transfer a c i s = Inr s' \<Longrightarrow> registry_of s' = registry_of s"
  "do_unlock_item_transfer a c i s = Inr s' \<Longrightarrow> registry_of s' = registry_of s"
  "do_lock_item_properties mo c i lm la s = Inr s' \<Longrightarrow> registry_of s' = registry_of s"
  by (auto simp: do_set_collection_max_supply_def do_set_team_def do_update_mint_settings_def
      do_lock_collection_def do_lock_item_transfer_def do_unlock_item_transfer_def
      do_lock_item_properties_def insert_roles_def Let_def exec_simps registry_of_overwrite
      contains_keyI)

lemma sim_force_collection_config:
  "do_force_collection_config c cc s = Inr s' \<Longrightarrow> registry_steps 0 (registry_of s) (registry_of s')"
proof -
  assume "do_force_collection_config c cc s = Inr s'"
  then obtain d where c: "sget (Collection s) c = Some d"
    and s': "s' = deposit_event (CollectionConfigChanged c)
       (s\<lparr>CollectionConfigOf := sput c cc (CollectionConfigOf s)\<rparr>)"
    by (auto simp: do_force_collection_config_def exec_simps contains_key_def)
  have "registry_of s' = r_configure c (registry_of s)"
    unfolding s' registry_of_frame
    by (rule registry_of_eqI) (auto simp: r_configure_def storage_simps owner_def)
  then show ?thesis
    using registry_steps_single [OF configure [of "registry_of s" c "summary_of d"]] by (simp add: c)
qed

section \<open>Attributes and metadata\<close>

text \<open>What \<open>do_set_attribute\<close> writes: one attribute, the counters of the collection and a
  deposit.\<close>

lemma do_set_attribute_Inr:
  assumes "do_set_attribute cfg a c mi ns k v dp s = Inr s'"
  obtains d d' w t where "sget (Collection s) c = Some d" and "summary_of d' = summary_of d"
    and "only_ext s t"
    and "s' = deposit_event (AttributeSet c mi k v ns)
      (t\<lparr>Attribute := sput (c, mi, ns, k) w (Attribute t), Collection := sput c d' (Collection t)\<rparr>)"
proof -
  show ?thesis
    using assms unfolding do_set_attribute_def Let_def exec_simps
    apply (elim exE conjE)
    apply (drule only_ext_move_deposit)
    apply (rule that)
       apply assumption
      prefer 2
      apply assumption
     prefer 2
     apply (simp only: sum.inject)
     apply (erule sym)
    apply simp
    done
qed

lemma silent_set_attribute [silent]:
  "do_set_attribute cfg a c mi ns k v dp s = Inr s' \<Longrightarrow> registry_of s' = registry_of s"
  by (erule do_set_attribute_Inr, erule only_extE) (simp add: registry_of_Collection)

lemma silent_force_set_attribute [silent]:
  "do_force_set_attribute cfg sa c mi ns k v s = Inr s' \<Longrightarrow> registry_of s' = registry_of s"
  unfolding do_force_set_attribute_def Let_def exec_simps
  by (cases "sget (Attribute s) (c, mi, ns, k)")
     (auto simp: registry_of_Collection unreserve_def upd_ext_def split: option.splits if_splits)

lemma silent_clear_attribute [silent]:
  "do_clear_attribute cfg mo c mi ns k s = Inr s' \<Longrightarrow> registry_of s' = registry_of s"
  unfolding do_clear_attribute_def Let_def exec_simps
  by (elim exE conjE)
     (auto simp: registry_of_Collection unreserve_def upd_ext_def split: option.splits if_splits)

lemma silent_set_attribute_pair [silent]:
  "set_attribute_pair cfg a c i ns dp kv s = Inr s' \<Longrightarrow> registry_of s' = registry_of s"
  by (auto simp: set_attribute_pair_def exec_simps dest: silent)

lemma silent_set_attribute_pairs [silent]:
  "try_fold (set_attribute_pair cfg a c i ns dp) kvs s = Inr s' \<Longrightarrow> registry_of s' = registry_of s"
  by (rule try_fold_invariant [where P = "\<lambda>t. registry_of t = registry_of s"])
     (auto dest: silent_set_attribute_pair)

lemma sim_approve_item_attributes:
  "do_approve_item_attributes cfg a c i dl s = Inr s' \<Longrightarrow> registry_steps 0 (registry_of s) (registry_of s')"
  by (rule sim_attachI)
     (auto simp: do_approve_item_attributes_def exec_simps storage_simps owner_def deposit_event_def
       contains_keyI)

lemma sim_set_attributes_pre_signed:
  assumes "do_set_attributes_pre_signed cfg a data sg s = Inr s'"
  shows "registry_steps 0 (registry_of s) (registry_of s')"
  using assms
  by (auto simp: do_set_attributes_pre_signed_def Let_def exec_simps
      split: attribute_namespace.splits if_splits dest!: silent_set_attribute_pairs
      intro: registry_steps.none sim_approve_item_attributes)

lemma sim_cancel_item_attributes_approval:
  "do_cancel_item_attributes_approval cfg a c i dl w s = Inr s'
    \<Longrightarrow> registry_steps 0 (registry_of s) (registry_of s')"
  by (rule sim_attachI)
     (auto simp: do_cancel_item_attributes_approval_def Let_def exec_simps storage_simps owner_def
       deposit_event_def unreserve_def upd_ext_def contains_keyI split: if_splits)

lemma sim_set_collection_metadata:
  assumes "do_set_collection_metadata cfg mo c data s = Inr s'"
  shows "registry_steps 0 (registry_of s) (registry_of s')"
proof -
  obtain d d' m t where "sget (Collection s) c = Some d" "summary_of d' = summary_of d" "only_ext s t"
    and "s' = deposit_event (CollectionMetadataSet c data)
      (t\<lparr>Collection := sput c d' (Collection t),
         CollectionMetadataOf := sput c m (CollectionMetadataOf t)\<rparr>)"
    using assms unfolding do_set_collection_metadata_def Let_def exec_simps
    apply (elim exE conjE)
    apply (rule that)
       apply assumption
      prefer 3
      apply (simp only: sum.inject)
      apply (erule sym)
     apply simp
    apply (auto intro: only_ext_intros split: if_splits)
    done
  then show ?thesis
    by (elim only_extE, intro sim_attachI)
       (auto simp: storage_simps owner_def deposit_event_def contains_keyI)
qed

lemma sim_clear_collection_metadata:
  "do_clear_collection_metadata cfg mo c s = Inr s' \<Longrightarrow> registry_steps 0 (registry_of s) (registry_of s')"
  by (rule sim_attachI)
     (auto simp: do_clear_collection_metadata_def Let_def exec_simps storage_simps owner_def
       deposit_event_def unreserve_def upd_ext_def)

lemma sim_set_item_metadata:
  assumes "do_set_item_metadata cfg mo c i data md s = Inr s'"
  shows "registry_steps 1 (registry_of s) (registry_of s')"
proof -
  obtain d d' m t where d: "sget (Collection s) c = Some d" and t: "only_ext s t"
    and d': "summary_of d' = (summary_of d)\<lparr>sm_metadatas :=
      (if contains_key (ItemMetadataOf s) (c, i) then cd_item_metadatas d
       else saturating_inc (cd_item_metadatas d))\<rparr>"
    and s': "s' = deposit_event (ItemMetadataSet c i data)
      (t\<lparr>ItemMetadataOf := sput (c, i) m (ItemMetadataOf t),
         Collection := sput c d' (Collection t)\<rparr>)"
    using assms unfolding do_set_item_metadata_def Let_def exec_simps
    apply (elim exE conjE)
    apply (drule only_ext_move_deposit)
    apply (rule that)
       apply assumption
      apply assumption
     prefer 2
     apply (simp only: sum.inject)
     apply (erule sym)
    apply (simp add: contains_key_def)
    done
  have "registry_of s' = r_describe c i (summary_of d) (registry_of s)"
    using t d d' unfolding s' by (elim only_extE, intro registry_of_eqI)
      (auto simp: r_describe_def storage_simps owner_def deposit_event_def)
  then show ?thesis
    using registry_steps_single [OF describe [of "registry_of s" c "summary_of d" i]] by (simp add: d)
qed

lemma sim_clear_item_metadata:
  assumes "do_clear_item_metadata cfg mo c i s = Inr s'"
  shows "registry_steps 0 (registry_of s) (registry_of s')"
proof -
  obtain d d' t where d: "sget (Collection s) c = Some d"
    and i: "contains_key (ItemMetadataOf s) (c, i)"
    and t: "only_ext (s\<lparr>ItemMetadataOf := sdel (c, i) (ItemMetadataOf s)\<rparr>) t"
    and d': "summary_of d' = (summary_of d)\<lparr>sm_metadatas := saturating_dec (cd_item_metadatas d)\<rparr>"
    and s': "s' = deposit_event (ItemMetadataCleared c i) (t\<lparr>Collection := sput c d' (Collection t)\<rparr>)"
    using assms unfolding do_clear_item_metadata_def Let_def exec_simps
    apply (elim exE conjE)
    apply (rule that)
        apply simp
       apply (erule contains_keyI)
      prefer 3
      apply (simp only: sum.inject)
      apply (erule sym)
     apply (rule only_ext_unreserve)
    apply simp
    done
  have "registry_of s' = r_undescribe c i (summary_of d) (registry_of s)"
    using t d d' unfolding s' by (elim only_extE, intro registry_of_eqI)
      (auto simp: r_undescribe_def storage_simps owner_def deposit_event_def)
  then show ?thesis
    using registry_steps_single [OF undescribe [of "registry_of s" c "summary_of d" i]] by (simp add: d i)
qed

section \<open>Items\<close>

lemma sim_transfer:
  assumes "do_transfer cfg c i dest wd s = Inr s'"
    and keeps: "\<And>cd d d'. wd cd d = Inr d' \<Longrightarrow> it_owner d' = it_owner d"
  shows "registry_steps 0 (registry_of s) (registry_of s')"
proof -
  obtain d d' where d: "sget (Item s) (c, i) = Some d" and "it_owner d' = dest"
    and s': "s' = deposit_event (Transferred c i (it_owner d) dest)
       (s\<lparr>Account := sput (dest, c, i) () (sdel (it_owner d, c, i) (Account s)),
          Item := sput (c, i) d' (Item s),
          ItemPriceOf := sdel (c, i) (ItemPriceOf s),
          PendingSwapOf := sdel (c, i) (PendingSwapOf s)\<rparr>)"
    using assms(1) unfolding do_transfer_def Let_def exec_simps
    by (auto dest!: keeps intro!: that)
  then have "registry_of s' = r_transfer c i (it_owner d) dest (registry_of s)"
    by (intro registry_of_eqI) (auto simp: r_transfer_def storage_simps owner_def deposit_event_def)
  then show ?thesis
    using registry_steps_single [OF transfer [of "registry_of s" c i "it_owner d" dest]] by (simp add: d)
qed

lemma sim_set_owner:
  assumes "sget (Collection s) c = Some d"
    and "only_ext s t"
    and "registry_of s' = registry_of (t\<lparr>CollectionAccount := sput (a, c) () (sdel (cd_owner d, c) (CollectionAccount t)),
       Collection := sput c (d\<lparr>cd_owner := a\<rparr>) (Collection t)\<rparr>)"
  shows "registry_steps 0 (registry_of s) (registry_of s')"
proof -
  have "registry_of s' = r_set_owner c a (summary_of d) (registry_of s)"
    unfolding assms(3) using assms(1,2) by (elim only_extE, intro registry_of_eqI)
      (auto simp: r_set_owner_def storage_simps owner_def)
  then show ?thesis
    using registry_steps_single [OF set_owner [of "registry_of s" c "summary_of d" a]] assms(1) by simp
qed

lemma sim_transfer_ownership:
  assumes "do_transfer_ownership cfg a c b s = Inr s'"
  shows "registry_steps 0 (registry_of s) (registry_of s')"
proof -
  from assms obtain d where d: "sget (Collection s) c = Some d"
    and alt: "s' = s \<or> (\<exists>t. repatriate_reserved cfg (cd_owner d) b (cd_owner_deposit d) s = Inr t
      \<and> registry_of s' = registry_of (t\<lparr>CollectionAccount := sput (b, c) () (sdel (cd_owner d, c) (CollectionAccount t)),
        Collection := sput c (d\<lparr>cd_owner := b\<rparr>) (Collection t)\<rparr>))"
    unfolding do_transfer_ownership_def Let_def exec_simps
    by (auto simp: upd_ext_def registry_of_def owner_def deposit_event_def exec_simps split: if_splits)
  then show ?thesis
    by (auto intro: registry_steps.none sim_set_owner [OF d only_ext_currency(2)])
qed

lemma sim_force_collection_owner:
  assumes "do_force_collection_owner cfg c b s = Inr s'"
  shows "registry_steps 0 (registry_of s) (registry_of s')"
proof -
  from assms obtain d where d: "sget (Collection s) c = Some d"
    and alt: "s' = s \<or> (\<exists>t. repatriate_reserved cfg (cd_owner d) b (cd_owner_deposit d) s = Inr t
      \<and> registry_of s' = registry_of (t\<lparr>CollectionAccount := sput (b, c) () (sdel (cd_owner d, c) (CollectionAccount t)),
        Collection := sput c (d\<lparr>cd_owner := b\<rparr>) (Collection t)\<rparr>))"
    unfolding do_force_collection_owner_def Let_def exec_simps
    by (auto simp: exec_simps split: if_splits)
  then show ?thesis
    by (auto intro: registry_steps.none sim_set_owner [OF d only_ext_currency(2)])
qed

lemma silent_items [silent]:
  "do_approve_transfer cfg mo c i dl ml s = Inr s' \<Longrightarrow> registry_of s' = registry_of s"
  "do_cancel_approval cfg mo c i dl s = Inr s' \<Longrightarrow> registry_of s' = registry_of s"
  "do_clear_all_transfer_approvals mo c i s = Inr s' \<Longrightarrow> registry_of s' = registry_of s"
  by (auto simp: do_approve_transfer_def do_cancel_approval_def do_clear_all_transfer_approvals_def
      Let_def exec_simps registry_of_Item)

lemma silent_set_accept_ownership [silent]:
  "do_set_accept_ownership cfg a mc s = Inr s' \<Longrightarrow> registry_of s' = registry_of s"
  by (auto simp: do_set_accept_ownership_def Let_def exec_simps split: if_splits option.splits)

lemma case_option_Inr:
  "(case m of None \<Rightarrow> a | Some v \<Rightarrow> f v) = Inr x \<longleftrightarrow>
     m = None \<and> a = Inr x \<or> (\<exists>v. m = Some v \<and> f v = Inr x)"
  by (simp split: option.splits)

text \<open>What a successful \<open>do_mint\<close> checked and wrote.\<close>

definition minted_details :: "bool \<Rightarrow> collection_details \<Rightarrow> collection_details" where
  "minted_details known d =
     d\<lparr>cd_items := saturating_inc (cd_items d),
       cd_item_configs := (if known then cd_item_configs d
                           else saturating_inc (cd_item_configs d))\<rparr>"

lemma do_mint_Inr:
  assumes "do_mint cfg c i md mt ic wd s = Inr s'"
  shows "\<exists>d cc t cc2 x.
    \<not> contains_key (Item s) (c, i) \<and> sget (Collection s) c = Some d
    \<and> sget (CollectionConfigOf s) c = Some cc \<and> wd d cc s = Inr t
    \<and> pred_option (\<lambda>m. cd_items d < m) (cc_max_supply cc)
    \<and> sget (CollectionConfigOf t) c = Some cc2
    \<and> (let amount = (if collection_config_is_setting_enabled cc2 DepositRequired
                     then item_deposit cfg else 0);
           account = (case md of None \<Rightarrow> cd_owner d | Some a \<Rightarrow> a)
       in currency_reserve cfg account amount (ext t) = Inr x
        \<and> s' = deposit_event (Issued c i mt)
      (t\<lparr>Account := sput (mt, c, i) () (Account t),
         ItemConfigOf := (if contains_key (ItemConfigOf t) (c, i) then ItemConfigOf t
                          else sput (c, i) ic (ItemConfigOf t)),
         ext := x,
         Item := sput (c, i) \<lparr>it_owner = mt, it_approvals = [],
           it_deposit = \<lparr>dep_account = account, dep_amount = amount\<rparr>\<rparr> (Item t),
         Collection := sput c (minted_details (contains_key (ItemConfigOf t) (c, i)) d) (Collection t)\<rparr>))"
  using assms
  by (cases md) (auto simp: do_mint_def Let_def exec_simps case_option_Inr contains_key_def
      minted_details_def split del: if_split)

lemma sim_mint:
  assumes "do_mint cfg c i md mt ic wd s = Inr s'"
    and keeps: "\<And>cd cc t t'. wd cd cc t = Inr t' \<Longrightarrow> registry_of t' = registry_of t"
  shows "registry_steps 1 (registry_of s) (registry_of s')"
proof -
  from do_mint_Inr [OF assms(1)] obtain d t dep x cc
    where i: "sget (Item s) (c, i) = None" and d: "sget (Collection s) c = Some d"
    and t: "wd d cc s = Inr t"
    and s': "s' = deposit_event (Issued c i mt)
      (t\<lparr>Account := sput (mt, c, i) () (Account t),
         ItemConfigOf := (if contains_key (ItemConfigOf t) (c, i) then ItemConfigOf t
                          else sput (c, i) ic (ItemConfigOf t)),
         ext := x,
         Item := sput (c, i) \<lparr>it_owner = mt, it_approvals = [], it_deposit = dep\<rparr> (Item t),
         Collection := sput c (minted_details (contains_key (ItemConfigOf t) (c, i)) d) (Collection t)\<rparr>)"
    by (auto simp: contains_key_def Let_def)
  have "registry_of s' = r_mint c i mt (summary_of d) (registry_of t)"
    unfolding s' by (intro registry_of_eqI)
      (auto simp: r_mint_def storage_simps owner_def deposit_event_def minted_details_def)
  then show ?thesis
    using registry_steps_single [OF mint [of "registry_of s" c i "summary_of d" mt]] i d keeps [OF t] by simp
qed

lemma silent_mint_check:
  "mint_check cfg c a w cd cc s = Inr s' \<Longrightarrow> registry_of s' = registry_of s"
  by (auto simp: mint_check_def Let_def exec_simps case_option_Inr split: mint_type.splits)

lemma sim_mint_pre_signed:
  assumes "do_mint_pre_signed cfg mt data sg s = Inr s'"
  shows "\<exists>k \<le> 2. registry_steps k (registry_of s) (registry_of s')"
proof -
  let ?wd = "\<lambda>d _ s. case psm_mint_price data of
    Some price \<Rightarrow> currency_transfer cfg mt (cd_owner d) price s | None \<Rightarrow> Inr s"
  have keeps: "?wd cd cc t = Inr t' \<Longrightarrow> registry_of t' = registry_of t" for cd cc t t'
    by (auto simp: case_option_Inr exec_simps)
  from assms obtain ic t where t: "do_mint cfg (psm_collection data) (psm_item data) (Some mt) mt ic ?wd s = Inr t"
    and alt: "s' = t \<or> registry_of s' = registry_of t
      \<or> (\<exists>u mo md. registry_of u = registry_of t \<and>
           do_set_item_metadata cfg mo (psm_collection data) (psm_item data) (psm_metadata data) md u = Inr s')"
    unfolding do_mint_pre_signed_def Let_def construct_metadata_def exec_simps case_option_Inr
    by (auto simp: exec_simps split: if_splits dest!: silent_set_attribute_pairs) blast
  have first: "registry_steps 1 (registry_of s) (registry_of t)"
    using sim_mint [OF t keeps] .
  have "registry_steps 0 (registry_of t) (registry_of s') \<or> registry_steps 1 (registry_of t) (registry_of s')"
    using alt by (auto intro: registry_steps.none dest!: sim_set_item_metadata)
  then show ?thesis
    using registry_steps_trans [OF first, of 0] registry_steps_trans [OF first, of 1]
    by (metis one_add_one one_le_numeral add_0_right order_refl)
qed

lemma sim_burn:
  assumes "do_burn cfg c i wd s = Inr s'"
  shows "registry_steps 0 (registry_of s) (registry_of s')"
proof -
  from assms obtain ic cd d where ic: "sget (ItemConfigOf s) (c, i) = Some ic"
    and cd: "sget (Collection s) c = Some cd" and d: "sget (Item s) (c, i) = Some d"
    unfolding do_burn_def Let_def exec_simps by blast
  let ?free = "\<not> item_config_has_disabled_settings ic"
  let ?open = "item_config_is_setting_enabled ic item_setting.UnlockedMetadata"
  have "registry_of s' = r_burn c i ?free ?open (it_owner d) (summary_of cd) (registry_of s)"
    using assms ic cd d unfolding do_burn_def Let_def exec_simps
    apply (cases "sget (ItemMetadataOf s) (c, i)"; cases ?free; cases ?open)
    apply (simp_all add: unreserve_def upd_ext_def contains_key_def split del: if_split)
    apply (elim conjE exE, hypsubst, rule registry_of_eqI;
        simp add: r_burn_def storage_simps owner_def deposit_event_def contains_key_def)+
    done
  then show ?thesis
    using registry_steps_single [OF burn [of "registry_of s" c i "it_owner d" "summary_of cd"]] ic cd d
    by (simp add: contains_keyI)
qed

section \<open>Collections\<close>

lemma sim_create_collection:
  assumes "do_create_collection cfg c own adm cc dep ev s = Inr s'"
  shows "registry_steps 0 (registry_of s) (registry_of s')"
proof -
  from assms have c: "sget (Collection s) c = None"
    by (simp add: do_create_collection_def exec_simps contains_key_def)
  have "registry_of s' = r_create c own (registry_of s)"
    using assms unfolding do_create_collection_def Let_def exec_simps
    by (cases "cc_max_supply cc"; elim exE conjE; hypsubst_thin; simp only: option.case sum.inject;
        hypsubst_thin; simp only: registry_of_frame; intro registry_of_eqI)
      (simp_all add: r_create_def storage_simps owner_def deposit_event_def summary_of_def)
  then show ?thesis
    using registry_steps_single [OF create [of "registry_of s" c own]] c by simp
qed

lemma only_ext_release_item_metadata: "only_ext s (fold (release_item_metadata cfg) es s)"
proof (induction es arbitrary: s)
  case (Cons e es)
  have "only_ext s (release_item_metadata cfg e s)"
    by (auto simp: release_item_metadata_def intro: only_ext_intros split: option.splits)
  then show ?case using only_ext_trans [OF _ Cons.IH] by simp
qed (simp add: only_ext_refl)

lemma only_ext_release_attribute: "only_ext s (fold (release_attribute cfg) es s)"
proof (induction es arbitrary: s)
  case (Cons e es)
  have "only_ext s (release_attribute cfg e s)"
    by (auto simp: release_attribute_def Let_def intro: only_ext_intros split: option.splits)
  then show ?case using only_ext_trans [OF _ Cons.IH] by simp
qed (simp add: only_ext_refl)

lemma only_ext_fields:
  "only_ext s s' \<Longrightarrow> Collection s' = Collection s"
  "only_ext s s' \<Longrightarrow> OwnershipAcceptance s' = OwnershipAcceptance s"
  "only_ext s s' \<Longrightarrow> Account s' = Account s"
  "only_ext s s' \<Longrightarrow> CollectionAccount s' = CollectionAccount s"
  "only_ext s s' \<Longrightarrow> CollectionRoleOf s' = CollectionRoleOf s"
  "only_ext s s' \<Longrightarrow> Item s' = Item s"
  "only_ext s s' \<Longrightarrow> CollectionMetadataOf s' = CollectionMetadataOf s"
  "only_ext s s' \<Longrightarrow> ItemMetadataOf s' = ItemMetadataOf s"
  "only_ext s s' \<Longrightarrow> Attribute s' = Attribute s"
  "only_ext s s' \<Longrightarrow> ItemPriceOf s' = ItemPriceOf s"
  "only_ext s s' \<Longrightarrow> ItemAttributesApprovalsOf s' = ItemAttributesApprovalsOf s"
  "only_ext s s' \<Longrightarrow> NextCollectionId s' = NextCollectionId s"
  "only_ext s s' \<Longrightarrow> PendingSwapOf s' = PendingSwapOf s"
  "only_ext s s' \<Longrightarrow> CollectionConfigOf s' = CollectionConfigOf s"
  "only_ext s s' \<Longrightarrow> ItemConfigOf s' = ItemConfigOf s"
  "only_ext s s' \<Longrightarrow> events s' = events s"
  by (simp_all add: only_ext_def) (auto)

lemmas release_fields [simp] =
  only_ext_fields [OF only_ext_release_item_metadata] only_ext_fields [OF only_ext_release_attribute]

text \<open>What a successful \<open>do_destroy_collection\<close> checked and wrote.\<close>

lemma do_destroy_collection_Inr:
  assumes "do_destroy_collection cfg c w mo s = Inr (w', s')"
  obtains d where "sget (Collection s) c = Some d" "cd_items d = 0"
    "pred_option (\<lambda>a. cd_owner d = a) mo" "w = details_destroy_witness d" "w' = w"
    "ItemMetadataOf s' = remove_prefix (\<lambda>k. fst k = c) (ItemMetadataOf s)"
    "CollectionMetadataOf s' = sdel c (CollectionMetadataOf s)"
    "CollectionRoleOf s' = remove_prefix (\<lambda>k. fst k = c) (CollectionRoleOf s)"
    "Attribute s' = remove_prefix (\<lambda>k. fst k = c) (Attribute s)"
    "CollectionAccount s' = sdel (cd_owner d, c) (CollectionAccount s)"
    "CollectionConfigOf s' = sdel c (CollectionConfigOf s)"
    "ItemConfigOf s' = fst (clear_prefix (\<lambda>k. fst k = c) (cd_item_configs d) (ItemConfigOf s))"
    "Collection s' = sdel c (Collection s)"
    "Item s' = Item s" "Account s' = Account s" "ItemPriceOf s' = ItemPriceOf s"
    "PendingSwapOf s' = PendingSwapOf s" "ItemAttributesApprovalsOf s' = ItemAttributesApprovalsOf s"
    "OwnershipAcceptance s' = OwnershipAcceptance s" "NextCollectionId s' = NextCollectionId s"
    "events s' = events s @ [Destroyed c]"
proof -
  from assms obtain d where d: "sget (Collection s) c = Some d" "cd_items d = 0"
    "pred_option (\<lambda>a. cd_owner d = a) mo" "w = details_destroy_witness d"
    by (auto simp: do_destroy_collection_def exec_simps details_destroy_witness_def)
  show ?thesis
    using assms d(1-3)
    by (intro that [OF d])
      (simp_all add: do_destroy_collection_def Let_def exec_simps d(4) details_destroy_witness_def,
       (elim conjE, hypsubst, simp add: unreserve_def upd_ext_def deposit_event_def)+)
qed

lemma clear_prefix_contains:
  "contains_key (fst (clear_prefix p n m)) k \<Longrightarrow> contains_key m k"
proof -
  assume "contains_key (fst (clear_prefix p n m)) k"
  then have "k \<in> fst ` set (fst (clear_prefix p n m))"
    by (auto simp: contains_key_def sget_def map_of_eq_None_iff)
  then have "k \<in> fst ` set m" using clear_prefix_subset [of p n m] by auto
  then show ?thesis by (simp add: contains_key_def sget_def map_of_eq_None_iff)
qed

lemma sim_destroy_collection:
  assumes "do_destroy_collection cfg c w mo s = Inr (w', s')" and wf: "storage_wf (ItemConfigOf s)"
  shows "registry_steps 0 (registry_of s) (registry_of s')"
  using assms(1)
proof (rule do_destroy_collection_Inr)
  fix d assume d: "sget (Collection s) c = Some d" "cd_items d = 0"
    and s': "ItemConfigOf s' = fst (clear_prefix (\<lambda>k. fst k = c) (cd_item_configs d) (ItemConfigOf s))"
    and rest: "ItemMetadataOf s' = remove_prefix (\<lambda>k. fst k = c) (ItemMetadataOf s)"
      "CollectionMetadataOf s' = sdel c (CollectionMetadataOf s)"
      "CollectionAccount s' = sdel (cd_owner d, c) (CollectionAccount s)"
      "CollectionConfigOf s' = sdel c (CollectionConfigOf s)" "Collection s' = sdel c (Collection s)"
      "Item s' = Item s" "Account s' = Account s" "ItemPriceOf s' = ItemPriceOf s"
      "PendingSwapOf s' = PendingSwapOf s" "ItemAttributesApprovalsOf s' = ItemAttributesApprovalsOf s"
  define left where "left = {k. fst k = c \<and> contains_key (ItemConfigOf s') k}"
  have keys: "contains_key (ItemConfigOf s') k \<longleftrightarrow> contains_key (ItemConfigOf s) k \<and> (fst k \<noteq> c \<or> k \<in> left)" for k
    using clear_prefix_contains [of "\<lambda>k. fst k = c" "cd_item_configs d" "ItemConfigOf s" k]
      clear_prefix_outside [of "\<lambda>k. fst k = c" k "cd_item_configs d" "ItemConfigOf s"]
    by (auto simp: left_def s' contains_key_def)
  have "registry_of s' = r_destroy c left (summary_of d) (registry_of s)"
    by (rule registry_of_eqI) (auto simp: r_destroy_def keys rest owner_def storage_simps)
  moreover have "left = {}" if "cd_item_configs d = card {k \<in> configured (registry_of s). fst k = c}"
  proof -
    have "{k \<in> dom (sget (ItemConfigOf s)). fst k = c} = {k \<in> configured (registry_of s). fst k = c}"
      by (auto simp: contains_key_def)
    then have "length (iter_prefix (\<lambda>k. fst k = c) (ItemConfigOf s)) \<le> cd_item_configs d"
      using that by (simp add: length_iter_prefix [OF wf] st.count_keys_def)
    then have "ItemConfigOf s' = remove_prefix (\<lambda>k. fst k = c) (ItemConfigOf s)"
      by (simp add: s' clear_prefix_all)
    then show ?thesis by (auto simp: left_def storage_simps)
  qed
  ultimately show ?thesis
    using registry_steps_single [OF destroy [of "registry_of s" c "summary_of d" left]] d by simp
qed

section \<open>Trading\<close>

lemma silent_pay_tips [silent]:
  "do_pay_tips cfg a tips s = Inr s' \<Longrightarrow> registry_of s' = registry_of s"
  unfolding do_pay_tips_def
  by (rule try_fold_invariant [where P = "\<lambda>t. registry_of t = registry_of s"])
     (auto simp: pay_tip_def exec_simps)

lemma sim_set_price:
  "do_set_price cfg c i a pr wb s = Inr s' \<Longrightarrow> registry_steps 0 (registry_of s) (registry_of s')"
  by (rule sim_attachI)
     (auto simp: do_set_price_def exec_simps storage_simps owner_def deposit_event_def contains_keyI
       split: option.splits)

lemma sim_create_swap:
  "do_create_swap cfg a c i dc di mp dur s = Inr s' \<Longrightarrow> registry_steps 0 (registry_of s) (registry_of s')"
  by (rule sim_attachI)
     (auto simp: do_create_swap_def Let_def exec_simps storage_simps owner_def deposit_event_def contains_keyI)

lemma sim_cancel_swap:
  "do_cancel_swap cfg a c i s = Inr s' \<Longrightarrow> registry_steps 0 (registry_of s) (registry_of s')"
  by (rule sim_attachI)
     (auto simp: do_cancel_swap_def exec_simps storage_simps owner_def deposit_event_def)

lemma no_details_check_keeps: "no_details_check cd d = Inr d' \<Longrightarrow> it_owner d' = it_owner d"
  by (simp add: no_details_check_def)

lemma sim_buy_item:
  assumes "do_buy_item cfg c i a b s = Inr s'"
  shows "registry_steps 0 (registry_of s) (registry_of s')"
proof -
  from assms obtain x u where "do_transfer cfg c i a no_details_check (s\<lparr>ext := x\<rparr>) = Inr u"
    and "registry_of s' = registry_of u"
    by (auto simp: do_buy_item_def exec_simps)
  with sim_transfer [OF _ no_details_check_keeps] show ?thesis by fastforce
qed

lemma only_ext_swap_payment:
  "(case mp of
      None \<Rightarrow> Inr s
    | Some price \<Rightarrow>
        (case pd_direction price of
           Send \<Rightarrow> on_ext (f price) s
         | Receive \<Rightarrow> on_ext (g price) s)) = Inr t \<Longrightarrow> only_ext s t"
  by (auto intro: only_ext_intros split: option.splits price_direction.splits)

lemma sim_claim_swap:
  assumes "do_claim_swap cfg a c i c2 i2 wp s = Inr s'"
  shows "registry_steps 0 (registry_of s) (registry_of s')"
proof -
  from assms obtain t u v x y where "only_ext s t" and t: "do_transfer cfg c i x no_details_check t = Inr u"
    and u: "do_transfer cfg c2 i2 y no_details_check u = Inr v" and s': "registry_of s' = registry_of v"
    unfolding do_claim_swap_def exec_simps
    by (elim exE conjE) (rule that, rule only_ext_swap_payment, assumption+, auto)
  then have "registry_of t = registry_of s" by (auto elim: only_extE)
  with s' registry_steps_trans [OF sim_transfer [OF t no_details_check_keeps]
      sim_transfer [OF u no_details_check_keeps]]
  show ?thesis by simp
qed

section \<open>The dispatcher\<close>

lemma silent_redeposit_item:
  "registry_of (snd (redeposit_item cfg c dep i p)) = registry_of (snd p)"
proof (cases p)
  case (Pair l s)
  have store: "only_ext s t \<Longrightarrow> sget (Item s) (c, i) = Some d \<Longrightarrow>
      registry_of (t\<lparr>Item := sput (c, i) (d\<lparr>it_deposit := x\<rparr>) (Item t)\<rparr>) = registry_of s" for t d x
    by (elim only_extE) (simp add: registry_of_Item)
  show ?thesis
  proof (cases "sget (Item s) (c, i)")
    case None
    with Pair show ?thesis by (simp add: redeposit_item_def)
  next
    case (Some d)
    let ?old = "dep_amount (it_deposit d)" and ?a = "dep_account (it_deposit d)"
    show ?thesis
      using store [OF only_ext_unreserve [of s cfg] Some]
        store [OF only_ext_currency(1) [of cfg] Some] Pair Some
      by (cases "reserve cfg ?a (dep - ?old) s") (simp_all add: redeposit_item_def Let_def)
  qed
qed

lemma silent_redeposit_items:
  "registry_of (snd (fold (redeposit_item cfg c dep) is p)) = registry_of (snd p)"
  by (induction "is" arbitrary: p) (simp_all add: silent_redeposit_item)

lemma silent_redeposit:
  assumes "redeposit cfg og c is s = Inr s'"
  shows "registry_of s' = registry_of s"
proof -
  from assms obtain dep where
    "s' = deposit_event (Redeposited c (fst (fold (redeposit_item cfg c dep) is ([], s))))
       (snd (fold (redeposit_item cfg c dep) is ([], s)))"
    unfolding redeposit_def Let_def exec_simps split_beta
    by (elim exE conjE) (rule that, simp only: sum.inject, erule sym)
  then show ?thesis
    using silent_redeposit_items [of cfg c dep "is" "([], s)"] by simp
qed

lemma sim_create:
  "create cfg og a cc s = Inr s' \<Longrightarrow> registry_steps 0 (registry_of s) (registry_of s')"
  "force_create cfg og a cc s = Inr s' \<Longrightarrow> registry_steps 0 (registry_of s) (registry_of s')"
  by (auto simp: create_def force_create_def exec_simps set_next_collection_id_def Let_def
      dest: sim_create_collection)

lemma sim_destroy:
  "destroy cfg og c w s = Inr s' \<Longrightarrow> storage_wf (ItemConfigOf s)
    \<Longrightarrow> registry_steps 0 (registry_of s) (registry_of s')"
  by (auto simp: destroy_def exec_simps dest: sim_destroy_collection)

lemma sim_mint_call:
  "Nfts_Calls.mint cfg og c i a w s = Inr s' \<Longrightarrow> registry_steps 1 (registry_of s) (registry_of s')"
  "force_mint cfg og c i a ic s = Inr s' \<Longrightarrow> registry_steps 1 (registry_of s) (registry_of s')"
  by (auto simp: mint_def force_mint_def exec_simps no_mint_check_def
      dest!: sim_mint dest: silent_mint_check)

lemma transfer_check_keeps: "transfer_check a b cd d = Inr d' \<Longrightarrow> d' = d"
  by (auto simp: transfer_check_def exec_simps split: if_splits)

lemma sim_transfer_call:
  "Nfts_Calls.transfer cfg og c i a s = Inr s' \<Longrightarrow> registry_steps 0 (registry_of s) (registry_of s')"
  by (auto simp: transfer_def exec_simps dest!: sim_transfer dest: transfer_check_keeps)

lemmas thin_calls =
  burn_def lock_item_transfer_def unlock_item_transfer_def lock_collection_def
  transfer_ownership_def set_team_def force_collection_owner_def force_collection_config_def
  approve_transfer_def cancel_approval_def clear_all_transfer_approvals_def
  lock_item_properties_def set_attribute_def force_set_attribute_def clear_attribute_def
  approve_item_attributes_def cancel_item_attributes_approval_def set_metadata_def
  clear_metadata_def set_collection_metadata_def clear_collection_metadata_def
  set_accept_ownership_def set_collection_max_supply_def update_mint_settings_def set_price_def
  buy_item_def pay_tips_def create_swap_def cancel_swap_def claim_swap_def mint_pre_signed_def
  set_attributes_pre_signed_def

lemmas sim_rules =
  sim_force_collection_config sim_approve_item_attributes sim_set_attributes_pre_signed
  sim_cancel_item_attributes_approval sim_set_collection_metadata sim_clear_collection_metadata
  sim_clear_item_metadata sim_transfer_ownership sim_force_collection_owner
  sim_burn sim_set_price sim_create_swap sim_cancel_swap sim_buy_item sim_claim_swap
  sim_create sim_transfer_call

lemmas silent_rules = silent [THEN sim_silent] silent_redeposit [THEN sim_silent]

text \<open>Every call that succeeds is at most one mint and one new description of an item, and otherwise
  moves of the registry that grow no counter.\<close>

lemma dispatch_sim:
  assumes "dispatch cfg og call s = Inr s'" and "storage_wf (ItemConfigOf s)"
  shows "\<exists>k \<le> 2. registry_steps k (registry_of s) (registry_of s')"
proof -
  have pick: "registry_steps 0 (registry_of s) (registry_of s') \<Longrightarrow> ?thesis"
    "registry_steps 1 (registry_of s) (registry_of s') \<Longrightarrow> ?thesis"
    by (metis zero_le, metis one_le_numeral)
  show ?thesis
  proof (cases call)
    case (MintPreSigned a b c)
    with assms show ?thesis
      by (auto simp: mint_pre_signed_def exec_simps dest: sim_mint_pre_signed)
  next
    case (Destroy a b)
    with assms show ?thesis by (auto intro: pick(1) sim_destroy)
  next
    case (Mint a b c d)
    with assms show ?thesis by (auto intro: pick(2) sim_mint_call)
  next
    case (ForceMint a b c d)
    with assms show ?thesis by (auto intro: pick(2) sim_mint_call)
  next
    case (SetMetadata a b c)
    with assms show ?thesis
      by (auto simp: set_metadata_def exec_simps intro: pick(2) dest: sim_set_item_metadata)
  qed (insert assms(1), rule pick(1),
       auto simp: thin_calls exec_simps intro: sim_rules silent_rules)
qed

end
