(* ===== verification/Nfts_Effects.thy ===== *)
theory Nfts_Effects
  imports Nfts_Refinement
begin

text \<open>
  What each operation writes of the storages the registry does not see in full: the roles, the
  collection and item configurations, the items themselves and how many items a collection has. \<open>core\<close> is that part of the state;
  the lemmas say which operations keep it and how the others change it, and the invariants of
  the pallet are proved from them.
\<close>

definition item_supply :: "(collection_id, collection_details) storage \<Rightarrow> collection_id \<Rightarrow> nat option" where
  "item_supply m = (\<lambda>c. map_option cd_items (sget m c))"

record core =
  supply_of :: "collection_id \<Rightarrow> nat option"
  roles_of :: "(collection_id \<times> account_id, collection_roles) storage"
  configs_of :: "(collection_id, collection_config) storage"
  item_configs_of :: "(collection_id \<times> item_id, item_config) storage"
  items_of :: "(collection_id \<times> item_id, item_details) storage"

definition core_of :: "'x nfts \<Rightarrow> core" where
  "core_of s =
     \<lparr>supply_of = item_supply (Collection s), roles_of = CollectionRoleOf s,
      configs_of = CollectionConfigOf s, item_configs_of = ItemConfigOf s, items_of = Item s\<rparr>"

lemma core_of_frame [simp]:
  "core_of (s\<lparr>ext := x\<rparr>) = core_of s"
  "core_of (s\<lparr>events := es\<rparr>) = core_of s"
  "core_of (s\<lparr>Attribute := at\<rparr>) = core_of s"
  "core_of (s\<lparr>Collection := cl\<rparr>) = (core_of s)\<lparr>supply_of := item_supply cl\<rparr>"
  "core_of (s\<lparr>Account := ac\<rparr>) = core_of s"
  "core_of (s\<lparr>CollectionAccount := ca\<rparr>) = core_of s"
  "core_of (s\<lparr>CollectionMetadataOf := cm\<rparr>) = core_of s"
  "core_of (s\<lparr>ItemMetadataOf := im\<rparr>) = core_of s"
  "core_of (s\<lparr>ItemPriceOf := ip\<rparr>) = core_of s"
  "core_of (s\<lparr>PendingSwapOf := ps\<rparr>) = core_of s"
  "core_of (s\<lparr>ItemAttributesApprovalsOf := aa\<rparr>) = core_of s"
  "core_of (s\<lparr>OwnershipAcceptance := oa\<rparr>) = core_of s"
  "core_of (s\<lparr>NextCollectionId := nc\<rparr>) = core_of s"
  "core_of (s\<lparr>CollectionRoleOf := r\<rparr>) = (core_of s)\<lparr>roles_of := r\<rparr>"
  "core_of (s\<lparr>CollectionConfigOf := c\<rparr>) = (core_of s)\<lparr>configs_of := c\<rparr>"
  "core_of (s\<lparr>ItemConfigOf := ic\<rparr>) = (core_of s)\<lparr>item_configs_of := ic\<rparr>"
  "core_of (s\<lparr>Item := it\<rparr>) = (core_of s)\<lparr>items_of := it\<rparr>"
  "core_of (deposit_event e s) = core_of s"
  "core_of (unreserve cfg a b s) = core_of s"
  "core_of (upd_ext f s) = core_of s"
  by (simp_all add: core_of_def deposit_event_def unreserve_def upd_ext_def)

lemma core_of_fields [simp]:
  "supply_of (core_of s) = item_supply (Collection s)"
  "roles_of (core_of s) = CollectionRoleOf s" "configs_of (core_of s) = CollectionConfigOf s"
  "item_configs_of (core_of s) = ItemConfigOf s" "items_of (core_of s) = Item s"
  by (simp_all add: core_of_def)

lemma supply_unchanged [simp]:
  "sget m c = Some d \<Longrightarrow> cd_items d' = cd_items d \<Longrightarrow> item_supply (sput c d' m) = item_supply m"
  by (auto simp: item_supply_def storage_simps)

lemma core_of_supply [simp]: "(core_of s)\<lparr>supply_of := item_supply (Collection s)\<rparr> = core_of s"
  by (simp add: core_of_def)

lemma summary_of_items: "summary_of d' = summary_of d \<Longrightarrow> cd_items d' = cd_items d"
  by (simp add: summary_of_def)

lemma upd_ext_only_ext: "only_ext s (upd_ext f s)"
  by (simp add: upd_ext_def only_ext_upd)

lemmas unreserve_fields [simp] =
  only_ext_fields [OF only_ext_unreserve] only_ext_fields [OF upd_ext_only_ext]

lemma core_of_only_ext: "only_ext s t \<Longrightarrow> core_of t = core_of s"
  by (erule only_extE) simp

section \<open>Operations that keep the core\<close>

named_theorems quiet \<open>operations that keep the core\<close>

lemma quiet_set_attribute [quiet]:
  "do_set_attribute cfg a c mi ns k v dp s = Inr s' \<Longrightarrow> core_of s' = core_of s"
  by (erule do_set_attribute_Inr, erule only_extE) (auto dest: summary_of_items)

lemma quiet_force_set_attribute [quiet]:
  "do_force_set_attribute cfg sa c mi ns k v s = Inr s' \<Longrightarrow> core_of s' = core_of s"
  unfolding do_force_set_attribute_def Let_def exec_simps
  by (cases "sget (Attribute s) (c, mi, ns, k)")
     (auto split: option.splits if_splits)

lemma quiet_clear_attribute [quiet]:
  "do_clear_attribute cfg mo c mi ns k s = Inr s' \<Longrightarrow> core_of s' = core_of s"
  unfolding do_clear_attribute_def Let_def exec_simps
  by (elim exE conjE) (auto split: option.splits if_splits)

lemma quiet_set_attribute_pairs [quiet]:
  "try_fold (set_attribute_pair cfg a c i ns dp) kvs s = Inr s' \<Longrightarrow> core_of s' = core_of s"
  by (rule try_fold_invariant [where P = "\<lambda>t. core_of t = core_of s"])
     (auto simp: set_attribute_pair_def exec_simps dest: quiet)

lemma quiet_attribute_approvals [quiet]:
  "do_approve_item_attributes cfg a c i dl s = Inr s' \<Longrightarrow> core_of s' = core_of s"
  "do_cancel_item_attributes_approval cfg a c i dl w s = Inr s' \<Longrightarrow> core_of s' = core_of s"
  by (auto simp: do_approve_item_attributes_def do_cancel_item_attributes_approval_def Let_def
      exec_simps split: if_splits)

lemma quiet_set_attributes_pre_signed [quiet]:
  "do_set_attributes_pre_signed cfg a data sg s = Inr s' \<Longrightarrow> core_of s' = core_of s"
  by (auto simp: do_set_attributes_pre_signed_def Let_def exec_simps
      split: attribute_namespace.splits if_splits dest!: quiet)

lemma quiet_set_item_metadata [quiet]:
  "do_set_item_metadata cfg mo c i data md s = Inr s' \<Longrightarrow> core_of s' = core_of s"
  unfolding do_set_item_metadata_def Let_def exec_simps
  by (elim exE conjE, drule only_ext_move_deposit, elim only_extE, hypsubst, simp only: sum.inject)
     (drule sym, simp)

lemma quiet_clear_metadata [quiet]:
  "do_clear_item_metadata cfg mo c i s = Inr s' \<Longrightarrow> core_of s' = core_of s"
  "do_clear_collection_metadata cfg mo c s = Inr s' \<Longrightarrow> core_of s' = core_of s"
  by (auto simp: do_clear_item_metadata_def do_clear_collection_metadata_def Let_def exec_simps)

lemma quiet_set_collection_metadata [quiet]:
  "do_set_collection_metadata cfg mo c data s = Inr s' \<Longrightarrow> core_of s' = core_of s"
  unfolding do_set_collection_metadata_def Let_def exec_simps
  by (elim exE conjE) (auto split: if_splits simp: exec_simps)

lemma quiet_ownership [quiet]:
  "do_transfer_ownership cfg a c b s = Inr s' \<Longrightarrow> core_of s' = core_of s"
  "do_set_accept_ownership cfg a mc s = Inr s' \<Longrightarrow> core_of s' = core_of s"
  "do_force_collection_owner cfg c b s = Inr s' \<Longrightarrow> core_of s' = core_of s"
  by (auto simp: do_transfer_ownership_def do_set_accept_ownership_def do_force_collection_owner_def
      Let_def exec_simps split: if_splits option.splits)

lemma quiet_pay_tips [quiet]: "do_pay_tips cfg a tips s = Inr s' \<Longrightarrow> core_of s' = core_of s"
  unfolding do_pay_tips_def
  by (rule try_fold_invariant [where P = "\<lambda>t. core_of t = core_of s"])
     (auto simp: pay_tip_def exec_simps)

lemma quiet_trading [quiet]:
  "do_set_price cfg c i a pr wb s = Inr s' \<Longrightarrow> core_of s' = core_of s"
  "do_create_swap cfg a c i dc di mp dur s = Inr s' \<Longrightarrow> core_of s' = core_of s"
  "do_cancel_swap cfg a c i s = Inr s' \<Longrightarrow> core_of s' = core_of s"
  by (auto simp: do_set_price_def do_create_swap_def do_cancel_swap_def Let_def exec_simps
      split: option.splits if_splits)

lemma quiet_mint_check: "mint_check cfg c a w cd cc s = Inr s' \<Longrightarrow> core_of s' = core_of s"
  by (auto simp: mint_check_def Let_def exec_simps case_option_Inr split: mint_type.splits)

section \<open>Steps of the core\<close>

text \<open>The moves the pallet makes on the core. \<open>lim\<close> is the approvals limit; \<open>powers\<close> are the drastic
  moves allowed: overwriting a collection configuration and destroying a collection.\<close>

datatype power = Reconfigure | Demolish

definition assign_roles ::
  "collection_id \<Rightarrow> (account_id \<times> collection_role) list
    \<Rightarrow> (collection_id \<times> account_id, collection_roles) storage
    \<Rightarrow> (collection_id \<times> account_id, collection_roles) storage" where
  "assign_roles c rs m =
     fold (\<lambda>(account, roles). sput (c, account) roles) (group_roles_by_account rs)
       (remove_prefix (\<lambda>k. fst k = c) m)"

inductive core_step :: "nat \<Rightarrow> power set \<Rightarrow> core \<Rightarrow> core \<Rightarrow> bool" for lim :: nat and powers :: "power set" where
  team: "supply_of k c \<noteq> None \<Longrightarrow> distinct (map snd rs) \<Longrightarrow>
    core_step lim powers k (k\<lparr>roles_of := assign_roles c rs (roles_of k)\<rparr>)"
| reconfigure: "Reconfigure \<in> powers \<Longrightarrow> supply_of k c \<noteq> None \<Longrightarrow>
    core_step lim powers k (k\<lparr>configs_of := sput c cc (configs_of k)\<rparr>)"
| cap: "sget (configs_of k) c = Some cc \<Longrightarrow> supply_of k c = Some n \<Longrightarrow> n \<le> m \<Longrightarrow>
    collection_config_is_setting_enabled cc UnlockedMaxSupply \<Longrightarrow>
    core_step lim powers k (k\<lparr>configs_of := sput c (cc\<lparr>cc_max_supply := Some m\<rparr>) (configs_of k)\<rparr>)"
| mint_settings: "sget (configs_of k) c = Some cc \<Longrightarrow>
    core_step lim powers k (k\<lparr>configs_of := sput c (cc\<lparr>cc_mint_settings := ms\<rparr>) (configs_of k)\<rparr>)"
| lock: "sget (configs_of k) c = Some cc \<Longrightarrow> DepositRequired \<notin> set ls \<Longrightarrow>
    core_step lim powers k
      (k\<lparr>configs_of := sput c (fold collection_config_disable_setting ls cc) (configs_of k)\<rparr>)"
| item_lock: "sget (item_configs_of k) j = Some ic \<Longrightarrow>
    (\<And>st. st \<noteq> Transferable \<Longrightarrow> item_settings_is_disabled (ic_settings ic) st \<Longrightarrow>
       item_settings_is_disabled (ic_settings ic') st) \<Longrightarrow>
    core_step lim powers k (k\<lparr>item_configs_of := sput j ic' (item_configs_of k)\<rparr>)"
| item_update: "sget (items_of k) j = Some d \<Longrightarrow>
    length (it_approvals d') \<le> length (it_approvals d) \<or> length (it_approvals d') \<le> lim \<Longrightarrow>
    core_step lim powers k (k\<lparr>items_of := sput j d' (items_of k)\<rparr>)"
| mint: "sget (items_of k) (c, i) = None \<Longrightarrow> supply_of k c = Some n \<Longrightarrow>
    sget (configs_of k) c = Some cc \<Longrightarrow> pred_option (\<lambda>m. n < m) (cc_max_supply cc) \<Longrightarrow>
    it_approvals d = [] \<Longrightarrow>
    core_step lim powers k
      (k\<lparr>item_configs_of := (if contains_key (item_configs_of k) (c, i) then item_configs_of k
                             else sput (c, i) ic (item_configs_of k)),
         items_of := sput (c, i) d (items_of k),
         supply_of := (supply_of k)(c \<mapsto> saturating_inc n)\<rparr>)"
| burn: "sget (items_of k) (c, i) = Some d \<Longrightarrow> supply_of k c = Some n \<Longrightarrow>
    sget (item_configs_of k) (c, i) = Some ic \<Longrightarrow>
    core_step lim powers k
      (k\<lparr>supply_of := (supply_of k)(c \<mapsto> saturating_dec n),
         items_of := sdel (c, i) (items_of k),
         item_configs_of := (if item_config_has_disabled_settings ic then item_configs_of k
                             else sdel (c, i) (item_configs_of k))\<rparr>)"
| create: "supply_of k c = None \<Longrightarrow>
    core_step lim powers k
      (k\<lparr>supply_of := (supply_of k)(c \<mapsto> 0),
         roles_of := sput (c, adm) all_roles (roles_of k),
         configs_of := sput c cc (configs_of k)\<rparr>)"
| destroy: "Demolish \<in> powers \<Longrightarrow> supply_of k c = Some 0 \<Longrightarrow>
    core_step lim powers k
      (k\<lparr>supply_of := (supply_of k)(c := None),
         roles_of := remove_prefix (\<lambda>k. fst k = c) (roles_of k),
         configs_of := sdel c (configs_of k),
         item_configs_of := fst (clear_prefix (\<lambda>k. fst k = c) n (item_configs_of k))\<rparr>)"

definition core_steps :: "nat \<Rightarrow> power set \<Rightarrow> core \<Rightarrow> core \<Rightarrow> bool" where
  "core_steps lim powers = (core_step lim powers)\<^sup>*\<^sup>*"

lemma core_steps_refl: "core_steps lim powers k k"
  by (simp add: core_steps_def)

lemma core_steps_trans: "core_steps lim powers k k' \<Longrightarrow> core_steps lim powers k' k'' \<Longrightarrow> core_steps lim powers k k''"
  unfolding core_steps_def by (rule rtranclp_trans)

lemma core_steps_single: "core_step lim powers k k' \<Longrightarrow> core_steps lim powers k k'"
  unfolding core_steps_def by (rule r_into_rtranclp)

lemma core_steps_invariant:
  assumes "core_steps lim powers k k'" and "P k"
    and "\<And>k k'. core_step lim powers k k' \<Longrightarrow> P k \<Longrightarrow> P k'"
  shows "P k'"
  using assms(1,2) unfolding core_steps_def by (induction rule: rtranclp_induct) (auto intro: assms(3))

section \<open>Operations as steps of the core\<close>

lemma step_set_team:
  assumes "do_set_team mo c iss adm fre s = Inr s'"
  shows "core_step lim f (core_of s) (core_of s')"
proof -
  define rs where "rs = List.map_filter (\<lambda>(account, role). map_option (\<lambda>a. (a, role)) account)
    [(iss, collection_role.Issuer), (adm, Admin), (fre, Freezer)]"
  have "distinct (map snd rs)"
    by (cases iss; cases adm; cases fre) (simp_all add: rs_def map_filter_simps)
  moreover from assms obtain d where "sget (Collection s) c = Some d"
    and "core_of s' = (core_of s)\<lparr>roles_of := assign_roles c rs (roles_of (core_of s))\<rparr>"
    unfolding do_set_team_def Let_def exec_simps rs_def [symmetric]
    by (auto simp: insert_roles_def assign_roles_def)
  ultimately show ?thesis using team [of "core_of s" c rs] by (simp add: item_supply_def)
qed

lemma step_configs:
  "do_set_collection_max_supply mo c n s = Inr s' \<Longrightarrow> core_step lim f (core_of s) (core_of s')"
  "do_update_mint_settings mo c ms s = Inr s' \<Longrightarrow> core_step lim f (core_of s) (core_of s')"
  "do_force_collection_config c cc s = Inr s' \<Longrightarrow> Reconfigure \<in> f \<Longrightarrow> core_step lim f (core_of s) (core_of s')"
  using cap [of "core_of s" c] mint_settings [of "core_of s" c] reconfigure [of f "core_of s" c]
  by (auto simp: do_set_collection_max_supply_def do_update_mint_settings_def
      do_force_collection_config_def exec_simps item_supply_def contains_key_def)

lemma step_lock_collection:
  assumes "do_lock_collection a c ls s = Inr s'"
  shows "core_step lim f (core_of s) (core_of s')"
proof -
  from assms obtain cc where "sget (CollectionConfigOf s) c = Some cc"
    and "\<not> collection_settings_is_disabled ls DepositRequired"
    and "core_of s' = (core_of s)\<lparr>configs_of := sput c (fold collection_config_disable_setting
      (collection_settings_get_disabled ls) cc) (configs_of (core_of s))\<rparr>"
    by (auto simp: do_lock_collection_def Let_def exec_simps)
  moreover have "DepositRequired \<notin> set (collection_settings_get_disabled ls)"
    using calculation(2)
    by (auto simp: collection_settings_get_disabled_def collection_settings_is_disabled_def flags_iter_def)
  ultimately show ?thesis using lock [of "core_of s" c cc] by simp
qed

lemmas item_lockI = item_lock [of "core_of s" for s :: "'x nfts", unfolded core_of_fields]

lemma step_item_locks:
  "do_lock_item_transfer a c i s = Inr s' \<Longrightarrow> core_step lim f (core_of s) (core_of s')"
  "do_unlock_item_transfer a c i s = Inr s' \<Longrightarrow> core_step lim f (core_of s) (core_of s')"
  "do_lock_item_properties mo c i lm la s = Inr s' \<Longrightarrow> core_step lim f (core_of s) (core_of s')"
  by (auto simp: do_lock_item_transfer_def do_unlock_item_transfer_def do_lock_item_properties_def
      Let_def exec_simps intro!: item_lockI)

lemma length_sput: "contains_key m k \<Longrightarrow> length (sput k v m) = length m"
  by (induction m) (auto simp: sput_def contains_key_def sget_def)

lemma length_sput_le: "length (sput k v m) \<le> Suc (length m)"
  by (induction m) (auto simp: sput_def)

lemma bounded_map_insert_length:
  "bounded_map_insert b k v m = Some m' \<Longrightarrow> length m' \<le> length m \<or> length m' \<le> b"
  using length_sput_le [of k v m] length_sput [of m k v]
  by (auto simp: bounded_map_insert_def split: if_splits)

lemma length_sdel_le: "length (sdel k m) \<le> length m"
  by (simp add: sdel_def length_delete_le)

lemma item_updateI:
  "sget (Item s) j = Some d \<Longrightarrow>
    length (it_approvals d') \<le> length (it_approvals d) \<or> length (it_approvals d') \<le> lim \<Longrightarrow>
    core_step lim f (core_of s) ((core_of s)\<lparr>items_of := sput j d' (Item s)\<rparr>)"
  using item_update [of "core_of s" j d d' lim f] by simp

lemma approvals_updateI:
  "sget (Item s) j = Some d \<Longrightarrow> length l \<le> length (it_approvals d) \<or> length l \<le> lim \<Longrightarrow>
    core_step lim f (core_of s) ((core_of s)\<lparr>items_of := sput j (d\<lparr>it_approvals := l\<rparr>) (Item s)\<rparr>)"
  by (rule item_updateI) simp_all

lemma step_approvals:
  "do_approve_transfer cfg mo c i dl ml s = Inr s' \<Longrightarrow> core_step (approvals_limit cfg) f (core_of s) (core_of s')"
  "do_cancel_approval cfg mo c i dl s = Inr s' \<Longrightarrow> core_step lim f (core_of s) (core_of s')"
  "do_clear_all_transfer_approvals mo c i s = Inr s' \<Longrightarrow> core_step lim f (core_of s) (core_of s')"
proof -
  assume "do_approve_transfer cfg mo c i dl ml s = Inr s'"
  then show "core_step (approvals_limit cfg) f (core_of s) (core_of s')"
    by (auto simp: do_approve_transfer_def Let_def exec_simps
        dest!: bounded_map_insert_length intro: approvals_updateI)
qed (auto simp: do_cancel_approval_def do_clear_all_transfer_approvals_def Let_def exec_simps
      intro!: approvals_updateI intro: length_sdel_le)

lemma step_transfer:
  assumes "do_transfer cfg c i dest wd s = Inr s'"
  shows "core_step lim f (core_of s) (core_of s')"
proof -
  from assms obtain d e where "sget (Item s) (c, i) = Some d" and "core_of s' =
      (core_of s)\<lparr>items_of := sput (c, i) (e\<lparr>it_owner := dest, it_approvals := []\<rparr>) (Item s)\<rparr>"
    unfolding do_transfer_def Let_def exec_simps by auto
  then show ?thesis using item_updateI [of s "(c, i)" d "e\<lparr>it_owner := dest, it_approvals := []\<rparr>"] by simp
qed

lemma step_trading:
  "do_buy_item cfg c i a b s = Inr s' \<Longrightarrow> core_steps lim f (core_of s) (core_of s')"
  "do_claim_swap cfg a c i c2 i2 wp s = Inr s' \<Longrightarrow> core_steps lim f (core_of s) (core_of s')"
proof -
  assume "do_buy_item cfg c i a b s = Inr s'"
  then obtain x u where "do_transfer cfg c i a no_details_check (s\<lparr>ext := x\<rparr>) = Inr u"
    and "core_of s' = core_of u"
    by (auto simp: do_buy_item_def exec_simps)
  then show "core_steps lim f (core_of s) (core_of s')"
    using step_transfer [of cfg c i a no_details_check "s\<lparr>ext := x\<rparr>" u] core_steps_single by simp
next
  assume "do_claim_swap cfg a c i c2 i2 wp s = Inr s'"
  then obtain t u v x y where "only_ext s t" and t: "do_transfer cfg c i x no_details_check t = Inr u"
    and u: "do_transfer cfg c2 i2 y no_details_check u = Inr v" and s': "core_of s' = core_of v"
    unfolding do_claim_swap_def exec_simps
    by (elim exE conjE) (rule that, rule only_ext_swap_payment, assumption+, auto)
  then have "core_of t = core_of s" by (simp add: core_of_only_ext)
  with step_transfer [OF t] step_transfer [OF u] s' show "core_steps lim f (core_of s) (core_of s')"
    by (metis core_steps_trans core_steps_single)
qed

lemma item_supply_upd: "item_supply (sput c d m) = (item_supply m)(c \<mapsto> cd_items d)"
  by (auto simp: item_supply_def storage_simps)

lemma step_mint:
  assumes "do_mint cfg c i md mt ic wd s = Inr s'"
    and keeps: "\<And>cd cc t t'. wd cd cc t = Inr t' \<Longrightarrow> core_of t' = core_of t"
  shows "core_step lim f (core_of s) (core_of s')"
proof -
  from do_mint_Inr [OF assms(1)] obtain d t dep x cc
    where i: "sget (Item s) (c, i) = None" and d: "sget (Collection s) c = Some d"
    and cc: "sget (CollectionConfigOf s) c = Some cc" "pred_option (\<lambda>m. cd_items d < m) (cc_max_supply cc)"
    and t: "wd d cc s = Inr t"
    and s': "s' = deposit_event (Issued c i mt)
      (t\<lparr>Account := sput (mt, c, i) () (Account t),
         ItemConfigOf := (if contains_key (ItemConfigOf t) (c, i) then ItemConfigOf t
                          else sput (c, i) ic (ItemConfigOf t)),
         ext := x,
         Item := sput (c, i) \<lparr>it_owner = mt, it_approvals = [], it_deposit = dep\<rparr> (Item t),
         Collection := sput c (minted_details (contains_key (ItemConfigOf t) (c, i)) d) (Collection t)\<rparr>)"
    by (auto simp: contains_key_def Let_def)
  have t: "core_of t = core_of s" by (rule keeps [OF t])
  then have eqs: "ItemConfigOf t = ItemConfigOf s" "Item t = Item s"
      "item_supply (Collection t) = item_supply (Collection s)"
    by (simp_all add: core_of_def)
  have "core_of s' = (core_of s)
     \<lparr>item_configs_of := (if contains_key (ItemConfigOf s) (c, i) then ItemConfigOf s
                         else sput (c, i) ic (ItemConfigOf s)),
      items_of := sput (c, i) \<lparr>it_owner = mt, it_approvals = [], it_deposit = dep\<rparr> (Item s),
      supply_of := (item_supply (Collection s))(c \<mapsto> saturating_inc (cd_items d))\<rparr>"
    unfolding s' by (simp add: t eqs item_supply_upd minted_details_def)
  then show ?thesis
    using mint [of "core_of s" c i "cd_items d" cc, unfolded core_of_fields] i d cc
    by (simp add: item_supply_def)
qed

lemma step_mint_pre_signed:
  assumes "do_mint_pre_signed cfg mt data sg s = Inr s'"
  shows "core_step lim f (core_of s) (core_of s')"
proof -
  let ?wd = "\<lambda>d _ s. case psm_mint_price data of
    Some price \<Rightarrow> currency_transfer cfg mt (cd_owner d) price s | None \<Rightarrow> Inr s"
  have keeps: "?wd cd cc t = Inr t' \<Longrightarrow> core_of t' = core_of t" for cd cc t t'
    by (auto simp: case_option_Inr exec_simps)
  from assms obtain ic t where t: "do_mint cfg (psm_collection data) (psm_item data) (Some mt) mt ic ?wd s = Inr t"
    and "core_of s' = core_of t"
    unfolding do_mint_pre_signed_def Let_def construct_metadata_def exec_simps case_option_Inr
    by (auto simp: exec_simps split: if_splits dest!: quiet)
  then show ?thesis using step_mint [OF t keeps] by simp
qed

lemma step_burn:
  assumes "do_burn cfg c i wd s = Inr s'"
  shows "core_step lim f (core_of s) (core_of s')"
proof -
  from assms obtain ic cd d where ic: "sget (ItemConfigOf s) (c, i) = Some ic"
    and cd: "sget (Collection s) c = Some cd" and d: "sget (Item s) (c, i) = Some d"
    unfolding do_burn_def Let_def exec_simps by blast
  let ?free = "\<not> item_config_has_disabled_settings ic"
  let ?open = "item_config_is_setting_enabled ic item_setting.UnlockedMetadata"
  have "core_of s' = (core_of s)
    \<lparr>supply_of := (item_supply (Collection s))(c \<mapsto> saturating_dec (cd_items cd)),
     items_of := sdel (c, i) (Item s),
     item_configs_of := (if item_config_has_disabled_settings ic then ItemConfigOf s
                         else sdel (c, i) (ItemConfigOf s))\<rparr>"
    using assms ic cd d unfolding do_burn_def Let_def exec_simps
    apply (cases "sget (ItemMetadataOf s) (c, i)"; cases ?free; cases ?open)
    apply (simp_all split del: if_split)
    apply (elim conjE exE, hypsubst,
        simp add: item_supply_upd core_of_def deposit_event_def del: core_of_frame)+
    done
  then show ?thesis
    using burn [of "core_of s" c i d "cd_items cd" ic, unfolded core_of_fields] ic cd d
    by (simp add: item_supply_def)
qed

lemma step_create_collection:
  assumes "do_create_collection cfg c own adm cc dep ev s = Inr s'"
  shows "core_step lim f (core_of s) (core_of s')"
proof -
  from assms have "item_supply (Collection s) c = None"
    by (simp add: do_create_collection_def exec_simps contains_key_def item_supply_def)
  moreover have "core_of s' = (core_of s)\<lparr>supply_of := (item_supply (Collection s))(c \<mapsto> 0),
      roles_of := sput (c, adm) all_roles (CollectionRoleOf s),
      configs_of := sput c cc (CollectionConfigOf s)\<rparr>"
    using assms unfolding do_create_collection_def Let_def exec_simps
    by (auto simp: item_supply_upd split: option.splits)
  ultimately show ?thesis using create [of "core_of s" c lim f cc adm] by simp
qed

lemma step_destroy_collection:
  assumes "do_destroy_collection cfg c w mo s = Inr (w', s')" and f: "Demolish \<in> f"
  shows "core_step lim f (core_of s) (core_of s')"
  using assms(1)
proof (rule do_destroy_collection_Inr)
  fix d assume d: "sget (Collection s) c = Some d" "cd_items d = 0"
    and s': "ItemConfigOf s' = fst (clear_prefix (\<lambda>k. fst k = c) (cd_item_configs d) (ItemConfigOf s))"
      "CollectionRoleOf s' = remove_prefix (\<lambda>k. fst k = c) (CollectionRoleOf s)"
      "CollectionConfigOf s' = sdel c (CollectionConfigOf s)" "Collection s' = sdel c (Collection s)"
      "Item s' = Item s"
  have "item_supply (sdel c (Collection s)) = (item_supply (Collection s))(c := None)"
    by (auto simp: item_supply_def storage_simps)
  then have "core_of s' = (core_of s)\<lparr>supply_of := (item_supply (Collection s))(c := None),
      roles_of := remove_prefix (\<lambda>k. fst k = c) (CollectionRoleOf s),
      configs_of := sdel c (CollectionConfigOf s),
      item_configs_of := fst (clear_prefix (\<lambda>k. fst k = c) (cd_item_configs d) (ItemConfigOf s))\<rparr>"
    by (simp add: core_of_def s')
  then show ?thesis
    using destroy [OF f, of "core_of s" c lim "cd_item_configs d"] d by (simp add: item_supply_def)
qed

lemma step_redeposit_item:
  "core_steps lim f (core_of (snd p)) (core_of (snd (redeposit_item cfg c dep i p)))"
proof (cases p)
  case (Pair l s)
  have store: "core_of t = core_of s \<Longrightarrow> sget (Item s) (c, i) = Some d \<Longrightarrow>
      core_steps lim f (core_of s) (core_of (t\<lparr>Item := sput (c, i) (d\<lparr>it_deposit := x\<rparr>) (Item t)\<rparr>))" for t d x
    using item_updateI [of s "(c, i)" d "d\<lparr>it_deposit := x\<rparr>" lim f] core_of_fields(5) [of t]
    by (auto intro: core_steps_single simp: core_of_fields(5) [of s] simp del: core_of_fields(5))
  show ?thesis
  proof (cases "sget (Item s) (c, i)")
    case None
    with Pair show ?thesis by (simp add: redeposit_item_def core_steps_refl)
  next
    case (Some d)
    let ?old = "dep_amount (it_deposit d)" and ?a = "dep_account (it_deposit d)"
    show ?thesis
      using store [OF core_of_only_ext [OF only_ext_unreserve [of s cfg]] Some]
        store [OF core_of_only_ext [OF only_ext_currency(1) [of cfg]] Some] Pair Some
      by (cases "reserve cfg ?a (dep - ?old) s") (simp_all add: redeposit_item_def Let_def core_steps_refl)
  qed
qed

lemma step_redeposit_items:
  "core_steps lim f (core_of (snd p)) (core_of (snd (fold (redeposit_item cfg c dep) is p)))"
proof (induction "is" arbitrary: p)
  case (Cons i "is")
  then show ?case using core_steps_trans [OF step_redeposit_item Cons.IH] by simp
qed (simp add: core_steps_refl)

lemma step_redeposit:
  assumes "redeposit cfg og c is s = Inr s'"
  shows "core_steps lim f (core_of s) (core_of s')"
proof -
  from assms obtain dep where
    "s' = deposit_event (Redeposited c (fst (fold (redeposit_item cfg c dep) is ([], s))))
       (snd (fold (redeposit_item cfg c dep) is ([], s)))"
    unfolding redeposit_def Let_def exec_simps split_beta
    by (elim exE conjE) (rule that, simp only: sum.inject, erule sym)
  then show ?thesis
    using step_redeposit_items [of lim f "([], s)" cfg c dep "is"] by simp
qed

section \<open>The dispatcher\<close>

lemma step_calls:
  "create cfg og a cc s = Inr s' \<Longrightarrow> core_step lim f (core_of s) (core_of s')"
  "force_create cfg og a cc s = Inr s' \<Longrightarrow> core_step lim f (core_of s) (core_of s')"
  "Nfts_Calls.destroy cfg og c w s = Inr s' \<Longrightarrow> Demolish \<in> f \<Longrightarrow> core_step lim f (core_of s) (core_of s')"
  "Nfts_Calls.mint cfg og c i b mw s = Inr s' \<Longrightarrow> core_step lim f (core_of s) (core_of s')"
  "force_mint cfg og c i b ic s = Inr s' \<Longrightarrow> core_step lim f (core_of s) (core_of s')"
  "Nfts_Calls.transfer cfg og c i b s = Inr s' \<Longrightarrow> core_step lim f (core_of s) (core_of s')"
  by (auto simp: create_def force_create_def destroy_def mint_def force_mint_def transfer_def
      exec_simps set_next_collection_id_def Let_def no_mint_check_def
      dest: step_create_collection step_destroy_collection step_mint quiet_mint_check step_transfer)

lemma core_steps_quiet: "core_of s' = core_of s \<Longrightarrow> core_steps lim f (core_of s) (core_of s')"
  by (simp add: core_steps_refl)

definition powers_of :: "call \<Rightarrow> power set" where
  "powers_of call = (case call of ForceCollectionConfig c cc \<Rightarrow> {Reconfigure} | Destroy c w \<Rightarrow> {Demolish} | _ \<Rightarrow> {})"

lemmas step_rules =
  step_set_team step_configs(1,2) step_lock_collection step_item_locks step_approvals
  step_mint_pre_signed step_burn step_calls(1,2,4-6)

lemma dispatch_core_steps:
  assumes "dispatch cfg og call s = Inr s'"
  shows "core_steps (approvals_limit cfg) (powers_of call) (core_of s) (core_of s')"
proof (cases call)
  case (ForceCollectionConfig c cc)
  with assms show ?thesis
    by (auto simp: force_collection_config_def exec_simps powers_of_def
        intro: core_steps_single step_configs(3))
next
  case (Destroy c w)
  with assms show ?thesis
    by (auto simp: powers_of_def intro: core_steps_single step_calls(3))
qed (insert assms, auto simp: thin_calls exec_simps intro: quiet [THEN core_steps_quiet]
      step_rules [THEN core_steps_single] step_trading step_redeposit)

end
