(* ===== verification/Nfts_Roles.thy ===== *)
theory Nfts_Roles
  imports Nfts_Effects
begin

text \<open>
  Team roles: what \<open>group_roles_by_account\<close> and the loop of \<open>do_set_team\<close> store, and the invariant
  that every role of a collection has at most one holder, from which the three entries that
  \<open>clear_roles\<close> may remove are always enough.
\<close>

section \<open>Grouping roles by account\<close>

lemma entry_add_role_keys: "fst ` set (entry_add_role a r m) = insert a (fst ` set m)"
  by (induction a r m rule: entry_add_role.induct) auto

lemma entry_add_role_sorted:
  "sorted_wrt (<) (map fst m) \<Longrightarrow> sorted_wrt (<) (map fst (entry_add_role a r m))"
proof (induction a r m rule: entry_add_role.induct)
  case (2 account role a roles m)
  then show ?case using entry_add_role_keys [of account role m] by (auto simp flip: set_map)
qed simp

lemma map_of_entry_add_role:
  "sorted_wrt (<) (map fst m) \<Longrightarrow>
    map_of (entry_add_role a r m) =
      (map_of m)(a \<mapsto> collection_roles_add_role (case map_of m a of None \<Rightarrow> collection_roles_none | Some x \<Rightarrow> x) r)"
proof (induction a r m rule: entry_add_role.induct)
  case (2 account role a roles m)
  have "map_of m account = None" if "account < a"
    using 2 that by (force simp: map_of_eq_None_iff)
  with 2 show ?case by (auto simp: fun_eq_iff)
qed (simp add: fun_eq_iff)

lemma has_role_add [simp]:
  "collection_roles_has_role (collection_roles_add_role x r) q \<longleftrightarrow> q = r \<or> collection_roles_has_role x q"
  by (simp add: collection_roles_has_role_def collection_roles_add_role_def cr.contains_insert)

lemma has_role_none [simp]: "\<not> collection_roles_has_role collection_roles_none q"
  by (simp add: collection_roles_has_role_def collection_roles_none_def flags_contains_def)

definition grouped :: "(account_id \<times> collection_role) list \<Rightarrow> (account_id \<times> collection_roles) list \<Rightarrow> bool" where
  "grouped rs m \<longleftrightarrow> sorted_wrt (<) (map fst m) \<and>
     (\<forall>a. map_of m a = None \<longleftrightarrow> (\<forall>r. (a, r) \<notin> set rs)) \<and>
     (\<forall>a x q. map_of m a = Some x \<longrightarrow> (collection_roles_has_role x q \<longleftrightarrow> (a, q) \<in> set rs))"

lemma grouped_add: "grouped rs m \<Longrightarrow> grouped (rs @ [(a, r)]) (entry_add_role a r m)"
  unfolding grouped_def
  by (auto simp: entry_add_role_sorted map_of_entry_add_role split: option.splits if_splits)

lemma grouped_fold:
  "grouped rs m \<Longrightarrow> grouped (rs @ input) (fold (\<lambda>(account, role). entry_add_role account role) input m)"
proof (induction input arbitrary: rs m)
  case (Cons e input)
  obtain a r where e: "e = (a, r)" by (cases e)
  from Cons.IH [OF grouped_add [OF Cons.prems, of a r]] show ?case by (simp add: e)
qed simp

lemma group_roles_grouped: "grouped rs (group_roles_by_account rs)"
  using grouped_fold [of "[]" "[]" rs] by (simp add: group_roles_by_account_def grouped_def)

lemma sorted_distinct_keys: "sorted_wrt (<) (map fst (m :: (account_id \<times> 'b) list)) \<Longrightarrow> distinct (map fst m)"
  by (simp add: strict_sorted_iff)

lemma sget_fold_sput:
  "distinct (map fst l) \<Longrightarrow>
    sget (fold (\<lambda>(a, x). sput (c, a) x) l m) (c', b) =
      (if c' = c \<and> map_of l b \<noteq> None then map_of l b else sget m (c', b))"
proof (induction l arbitrary: m)
  case (Cons e l)
  obtain a x where e: "e = (a, x)" by (cases e)
  with Cons.prems have "map_of l a = None" by (auto simp: map_of_eq_None_iff)
  with Cons e show ?case by (auto simp: storage_simps)
qed simp

lemma storage_wf_fold_sput: "storage_wf m \<Longrightarrow> storage_wf (fold (\<lambda>(a, x). sput (c, a) x) l m)"
  by (induction l arbitrary: m) auto

lemma assign_roles_get:
  "sget (assign_roles c rs m) (c', a) =
    (if c' = c then map_of (group_roles_by_account rs) a else sget m (c', a))"
proof -
  have "distinct (map fst (group_roles_by_account rs))"
    using group_roles_grouped [of rs] by (simp add: grouped_def sorted_distinct_keys)
  then show ?thesis
    by (cases "map_of (group_roles_by_account rs) a")
       (auto simp: assign_roles_def sget_fold_sput storage_simps)
qed

lemma assign_roles_holder:
  "map_of (group_roles_by_account rs) a = Some x \<Longrightarrow> collection_roles_has_role x q \<longleftrightarrow> (a, q) \<in> set rs"
  using group_roles_grouped [of rs] by (auto simp: grouped_def)

lemma assign_roles_some_role:
  "map_of (group_roles_by_account rs) a = Some x \<Longrightarrow> \<exists>q. collection_roles_has_role x q"
  using group_roles_grouped [of rs] unfolding grouped_def by (metis option.distinct(1))

section \<open>The invariant\<close>

definition roles_ok :: "core \<Rightarrow> bool" where
  "roles_ok k \<longleftrightarrow>
     storage_wf (roles_of k) \<and>
     (\<forall>c a x. sget (roles_of k) (c, a) = Some x \<longrightarrow>
        supply_of k c \<noteq> None \<and> (\<exists>q. collection_roles_has_role x q)) \<and>
     (\<forall>c a b x y q. sget (roles_of k) (c, a) = Some x \<longrightarrow> collection_roles_has_role x q \<longrightarrow>
        sget (roles_of k) (c, b) = Some y \<longrightarrow> collection_roles_has_role y q \<longrightarrow> a = b)"

lemma roles_ok_unique:
  "roles_ok k \<Longrightarrow> sget (roles_of k) (c, a) = Some x \<Longrightarrow> collection_roles_has_role x q \<Longrightarrow>
    sget (roles_of k) (c, b) = Some y \<Longrightarrow> collection_roles_has_role y q \<Longrightarrow> a = b"
  by (simp add: roles_ok_def)

lemma roles_ok_some:
  "roles_ok k \<Longrightarrow> sget (roles_of k) (c, a) = Some x \<Longrightarrow> \<exists>q. collection_roles_has_role x q"
  by (simp add: roles_ok_def)

lemma roles_ok_collection:
  "roles_ok k \<Longrightarrow> sget (roles_of k) (c, a) = Some x \<Longrightarrow> supply_of k c \<noteq> None"
  by (simp add: roles_ok_def)

lemma roles_ok_wf: "roles_ok k \<Longrightarrow> storage_wf (roles_of k)"
  by (simp add: roles_ok_def)

lemma storage_wf_assign_roles: "storage_wf m \<Longrightarrow> storage_wf (assign_roles c rs m)"
  by (simp add: assign_roles_def storage_wf_fold_sput)

lemma all_roles_has [simp]: "collection_roles_has_role all_roles q"
  by (cases q) (simp_all add: all_roles_def collection_roles_has_role_def cr.contains_insert)

lemma roles_ok_frame:
  "roles_ok k \<Longrightarrow> roles_of k' = roles_of k \<Longrightarrow> (\<And>c. supply_of k' c = None \<Longrightarrow> supply_of k c = None) \<Longrightarrow> roles_ok k'"
  unfolding roles_ok_def by metis

lemma roles_ok_assign:
  assumes "roles_ok k" and "supply_of k c \<noteq> None" and rs: "distinct (map snd rs)"
  shows "roles_ok (k\<lparr>roles_of := assign_roles c rs (roles_of k)\<rparr>)"
proof -
  have uniq: "(a, q) \<in> set rs \<Longrightarrow> (b, q) \<in> set rs \<Longrightarrow> a = b" for a b q
    using rs by (metis distinct_map inj_on_eq_iff prod.inject snd_conv)
  show ?thesis
    using assms(1,2) unfolding roles_ok_def
    by (auto simp: storage_wf_assign_roles assign_roles_get assign_roles_holder
        dest: assign_roles_some_role uniq)
qed

lemma roles_ok_create:
  "roles_ok k \<Longrightarrow> supply_of k c = None \<Longrightarrow>
    roles_ok (k\<lparr>supply_of := (supply_of k)(c \<mapsto> n), roles_of := sput (c, adm) all_roles (roles_of k), configs_of := cf\<rparr>)"
proof -
  assume k: "roles_ok k" and c: "supply_of k c = None"
  then have "sget (roles_of k) (c, a) = None" for a
    unfolding roles_ok_def by (metis not_None_eq)
  then show ?thesis
    using k unfolding roles_ok_def by (auto simp: storage_simps split: if_splits)
qed

lemma roles_ok_destroy:
  "roles_ok k \<Longrightarrow>
    roles_ok (k\<lparr>supply_of := (supply_of k)(c := None), roles_of := remove_prefix (\<lambda>k. fst k = c) (roles_of k),
      configs_of := cf, item_configs_of := ic\<rparr>)"
  unfolding roles_ok_def by (auto simp: storage_simps split: if_splits)

lemma core_step_roles_ok: "core_step lim f k k' \<Longrightarrow> roles_ok k \<Longrightarrow> roles_ok k'"
  by (induction rule: core_step.induct)
     (auto simp: roles_ok_assign roles_ok_create roles_ok_destroy elim!: roles_ok_frame
       split: if_splits)

text \<open>At most three accounts hold roles in a collection: each holds one and they are disjoint.\<close>

lemma roles_ok_count:
  assumes "roles_ok k"
  shows "length (iter_prefix (\<lambda>k. fst k = c) (roles_of k)) \<le> collection_roles_max_roles"
proof -
  define K where "K = {j \<in> dom (sget (roles_of k)). fst j = c}"
  define has where "has = (\<lambda>j q. \<exists>x. sget (roles_of k) j = Some x \<and> collection_roles_has_role x q)"
  have in_K: "\<exists>a x. j = (c, a) \<and> sget (roles_of k) (c, a) = Some x" if "j \<in> K" for j
    using that by (cases j) (auto simp: K_def)
  have "\<exists>q. has j q" if "j \<in> K" for j
    using in_K [OF that] roles_ok_some [OF assms] unfolding has_def by blast
  then obtain g where g: "\<And>j. j \<in> K \<Longrightarrow> has j (g j)" using bchoice [of K has] by blast
  have "inj_on g K"
  proof (rule inj_onI)
    fix i j assume ij: "i \<in> K" "j \<in> K" "g i = g j"
    from in_K [OF ij(1)] in_K [OF ij(2)] obtain a b where "i = (c, a)" "j = (c, b)" by blast
    moreover from this g [OF ij(1)] g [OF ij(2)] ij(3) have "a = b"
      unfolding has_def by (auto dest: roles_ok_unique [OF assms])
    ultimately show "i = j" by simp
  qed
  moreover have "g ` K \<subseteq> set collection_role_variants" using cr.variants_all by blast
  ultimately have "card K \<le> card (set collection_role_variants)"
    by (rule card_inj_on_le) simp
  also have "\<dots> \<le> collection_roles_max_roles"
    unfolding collection_roles_max_roles_def by (rule card_length)
  finally show ?thesis
    unfolding length_iter_prefix [OF roles_ok_wf [OF assms]] st.count_keys_def K_def .
qed

end
