(* ===== verification/Nfts_Invariants.thy ===== *)
theory Nfts_Invariants
  imports Nfts_Roles
begin

text \<open>
  Invariants of the NFTs pallet over all runs. A run is any sequence of successful calls by any
  origins, with the outside world free to change its own state in between. The locales
  \<open>call_system\<close> and \<open>call_budget\<close> are interpreted on the dispatcher; each invariant comes from the
  refinement (\<open>dispatch_sim\<close>) or from the effect of a call on the core (\<open>dispatch_core_steps\<close>).
\<close>

section \<open>Runs of the pallet\<close>

definition nfts_step ::
  "('x, 'e) config \<Rightarrow> origin \<times> call \<Rightarrow> 'x nfts \<Rightarrow> 'e call_error + 'x nfts" where
  "nfts_step cfg = (\<lambda>(og, call). dispatch cfg og call)"

definition nfts_runs ::
  "('x, 'e) config \<Rightarrow> (origin \<times> call \<Rightarrow> bool) \<Rightarrow> nat \<Rightarrow> 'x nfts \<Rightarrow> 'x nfts \<Rightarrow> bool" where
  "nfts_runs cfg ok = runs (nfts_step cfg) only_ext ok"

lemma nfts_runs_start: "nfts_runs cfg ok 0 s s"
  by (simp add: nfts_runs_def runs.start)

lemma nfts_runs_call:
  assumes "nfts_runs cfg ok n s t" and "ok (og, call)" and "dispatch cfg og call t = Inr u"
  shows "nfts_runs cfg ok (Suc n) s u"
proof -
  have "nfts_step cfg (og, call) t = Inr u" using assms(3) by (simp add: nfts_step_def)
  with assms(1,2) show ?thesis unfolding nfts_runs_def by (blast intro: runs.call)
qed

lemma nfts_runs_world: "nfts_runs cfg ok n s t \<Longrightarrow> only_ext t u \<Longrightarrow> nfts_runs cfg ok n s u"
  unfolding nfts_runs_def by (rule runs.world)

text \<open>The states a chain can reach with \<open>n\<close> successful calls.\<close>

definition reachable :: "('x, 'e) config \<Rightarrow> nat \<Rightarrow> 'x nfts \<Rightarrow> bool" where
  "reachable cfg n s \<longleftrightarrow> (\<exists>x. nfts_runs cfg (\<lambda>_. True) n (nfts_genesis x) s)"

lemma reachable_genesis: "reachable cfg 0 (nfts_genesis x)"
  unfolding reachable_def by (blast intro: nfts_runs_start)

lemma reachable_call:
  assumes "reachable cfg n s" and "dispatch cfg og call s = Inr s'"
  shows "reachable cfg (Suc n) s'"
  using assms unfolding reachable_def by (blast intro: nfts_runs_call)

section \<open>Invariants without a bound\<close>

definition approvals_ok :: "nat \<Rightarrow> core \<Rightarrow> bool" where
  "approvals_ok lim k \<longleftrightarrow> (\<forall>j d. sget (items_of k) j = Some d \<longrightarrow> length (it_approvals d) \<le> lim)"

lemma storage_wf_clear_prefix:
  assumes "storage_wf m"
  shows "storage_wf (fst (clear_prefix p n m))"
  using assms
proof (induction p n m rule: clear_prefix.induct)
  case (2 p limit e m)
  then show ?case
    using clear_prefix_subset [of p limit m]
    by (fastforce simp: storage_wf_def split: nat.splits prod.splits)
qed (simp add: storage_wf_def)

lemma core_step_item_configs:
  "core_step lim f k k' \<Longrightarrow> storage_wf (item_configs_of k) \<Longrightarrow> storage_wf (item_configs_of k')"
  by (induction rule: core_step.induct) (auto simp: storage_wf_clear_prefix)

lemma core_step_approvals: "core_step lim f k k' \<Longrightarrow> approvals_ok lim k \<Longrightarrow> approvals_ok lim k'"
proof (induction rule: core_step.induct)
  case (item_update k j d d')
  then have "length (it_approvals d) \<le> lim" unfolding approvals_ok_def by blast
  with item_update show ?case by (auto simp: approvals_ok_def storage_simps)
qed (auto simp: approvals_ok_def storage_simps split: if_splits)

definition core_ok :: "nat \<Rightarrow> core \<Rightarrow> bool" where
  "core_ok lim k \<longleftrightarrow> storage_wf (item_configs_of k) \<and> approvals_ok lim k \<and> roles_ok k"

lemma core_step_ok: "core_step lim f k k' \<Longrightarrow> core_ok lim k \<Longrightarrow> core_ok lim k'"
  using core_step_item_configs core_step_approvals core_step_roles_ok unfolding core_ok_def by blast

definition nfts_inv :: "('x, 'e) config \<Rightarrow> 'x nfts \<Rightarrow> bool" where
  "nfts_inv cfg s \<longleftrightarrow> core_ok (approvals_limit cfg) (core_of s) \<and> registry_index (registry_of s)"

lemma nfts_inv_wf: "nfts_inv cfg s \<Longrightarrow> storage_wf (ItemConfigOf s)"
  by (simp add: nfts_inv_def core_ok_def)

lemma nfts_inv_genesis: "nfts_inv cfg (nfts_genesis x)"
  by (simp add: nfts_inv_def core_ok_def approvals_ok_def roles_ok_def core_of_def nfts_genesis_def
      registry_index_def registry_of_def owner_def contains_key_def storage_wf_def)

lemma dispatch_inv:
  assumes "nfts_inv cfg s" and "dispatch cfg og call s = Inr s'"
  shows "nfts_inv cfg s'"
proof -
  have "core_ok (approvals_limit cfg) (core_of s')"
    using assms(1) core_steps_invariant [OF dispatch_core_steps [OF assms(2)], of "core_ok (approvals_limit cfg)"]
    by (simp add: nfts_inv_def core_step_ok)
  moreover obtain k where "registry_steps k (registry_of s) (registry_of s')"
    using dispatch_sim [OF assms(2) nfts_inv_wf [OF assms(1)]] by blast
  ultimately show ?thesis
    using assms(1) by (auto simp: nfts_inv_def intro: registry_steps_index)
qed

lemma only_ext_reads: "only_ext s s' \<Longrightarrow> core_of s' = core_of s \<and> registry_of s' = registry_of s"
  by (erule only_extE) simp

interpretation nft: call_system "nfts_step cfg" only_ext "\<lambda>_. True" "nfts_inv cfg"
  for cfg :: "('x, 'e) config"
proof unfold_locales
  fix c :: "origin \<times> call" and s s' :: "'x nfts"
  show "nfts_inv cfg s \<Longrightarrow> nfts_step cfg c s = Inr s' \<Longrightarrow> nfts_inv cfg s'"
    by (cases c) (auto simp: nfts_step_def intro: dispatch_inv)
  show "nfts_inv cfg s \<Longrightarrow> only_ext s s' \<Longrightarrow> nfts_inv cfg s'"
    using only_ext_reads [of s s'] by (simp add: nfts_inv_def)
qed

lemma reachable_inv: "reachable cfg n s \<Longrightarrow> nfts_inv cfg s"
  unfolding reachable_def nfts_runs_def by (auto intro: nft.runs_inv nfts_inv_genesis)

section \<open>Counters\<close>

lemma registry_wf_genesis: "registry_wf 0 (registry_of (nfts_genesis x))"
  by (simp add: registry_wf_def registry_index_def registry_refs_def registry_counts_def nfts_genesis_def
      registry_of_def owner_def contains_key_def dom_def)

interpretation nft_counts: call_budget "nfts_step cfg" only_ext "\<lambda>_. True"
  "\<lambda>m s. nfts_inv cfg s \<and> registry_wf m (registry_of s)" 2 u32_max
  for cfg :: "('x, 'e) config"
proof unfold_locales
  fix c :: "origin \<times> call" and s s' :: "'x nfts" and m :: nat
  assume inv: "nfts_inv cfg s \<and> registry_wf m (registry_of s)" and s': "nfts_step cfg c s = Inr s'"
    and m: "m + 2 \<le> u32_max"
  obtain og call where c: "c = (og, call)" by (cases c)
  with s' have d: "dispatch cfg og call s = Inr s'" by (simp add: nfts_step_def)
  from inv obtain k where "k \<le> 2" and k: "registry_steps k (registry_of s) (registry_of s')"
    using dispatch_sim [OF d] nfts_inv_wf by blast
  then have "registry_wf (m + k) (registry_of s')"
    using registry_steps_wf [OF k, of m] inv m by simp
  then have "registry_wf (m + 2) (registry_of s')"
    by (rule registry_wf_mono) (simp add: \<open>k \<le> 2\<close>)
  with inv d show "nfts_inv cfg s' \<and> registry_wf (m + 2) (registry_of s')" by (auto intro: dispatch_inv)
next
  fix s s' :: "'x nfts" and m :: nat
  assume "nfts_inv cfg s \<and> registry_wf m (registry_of s)" and "only_ext s s'"
  then show "nfts_inv cfg s' \<and> registry_wf m (registry_of s')"
    using only_ext_reads [of s s'] by (simp add: nfts_inv_def)
qed

lemma reachable_wf:
  assumes "reachable cfg n s" and "2 * n \<le> u32_max"
  shows "registry_wf (2 * n) (registry_of s)"
proof -
  from assms(1) obtain x where "runs (nfts_step cfg) only_ext (\<lambda>_. True) n (nfts_genesis x) s"
    by (auto simp: reachable_def nfts_runs_def)
  from nft_counts.runs_budget [OF this, of 0] show ?thesis
    using assms(2) nfts_inv_genesis [of cfg x] registry_wf_genesis [of x] by (simp add: mult.commute)
qed

section \<open>Caps and locks\<close>

text \<open>No collection exceeds its maximum supply, unless the force origin overwrites the configuration.\<close>

definition capped :: "core \<Rightarrow> bool" where
  "capped k \<longleftrightarrow> (\<forall>c n cc m. supply_of k c = Some n \<longrightarrow> sget (configs_of k) c = Some cc \<longrightarrow>
     cc_max_supply cc = Some m \<longrightarrow> n \<le> m)"

lemma fold_disable_max_supply [simp]:
  "cc_max_supply (fold collection_config_disable_setting ls cc) = cc_max_supply cc"
  by (induction ls arbitrary: cc) simp_all

lemma fold_disable_settings:
  "collection_settings_is_disabled (cc_settings (fold collection_config_disable_setting ls cc)) st \<longleftrightarrow>
     st \<in> set ls \<or> collection_settings_is_disabled (cc_settings cc) st"
  by (induction ls arbitrary: cc) auto

lemma core_step_capped: "core_step lim f k k' \<Longrightarrow> Reconfigure \<notin> f \<Longrightarrow> capped k \<Longrightarrow> capped k'"
proof (induction rule: core_step.induct)
  case (mint k c i n cc d ic)
  then show ?case by (auto simp: capped_def saturating_inc_def split: if_splits)
next
  case (burn k c i d n ic)
  then have "sget (configs_of k) c = Some cc \<Longrightarrow> cc_max_supply cc = Some m \<Longrightarrow> n \<le> m" for cc m
    unfolding capped_def by blast
  with burn show ?case by (fastforce simp: capped_def saturating_dec_def split: if_splits)
qed (auto simp: capped_def storage_simps split: if_splits)

interpretation nft_cap: call_system "nfts_step cfg" only_ext
  "\<lambda>(og, call). Reconfigure \<notin> powers_of call" "\<lambda>s. capped (core_of s)"
  for cfg :: "('x, 'e) config"
proof unfold_locales
  fix c :: "origin \<times> call" and s s' :: "'x nfts"
  assume ok: "case c of (og, call) \<Rightarrow> Reconfigure \<notin> powers_of call" and "capped (core_of s)"
    and "nfts_step cfg c s = Inr s'"
  then show "capped (core_of s')"
    by (cases c) (auto simp: nfts_step_def intro: core_steps_invariant [OF dispatch_core_steps] core_step_capped)
next
  fix s s' :: "'x nfts"
  show "capped (core_of s) \<Longrightarrow> only_ext s s' \<Longrightarrow> capped (core_of s')"
    using only_ext_reads [of s s'] by simp
qed

text \<open>A setting once disabled stays disabled as long as the collection is neither destroyed nor
  reconfigured by force.\<close>

definition locked_setting :: "collection_id \<Rightarrow> collection_setting \<Rightarrow> core \<Rightarrow> bool" where
  "locked_setting c st k \<longleftrightarrow> supply_of k c \<noteq> None \<and>
     (\<exists>cc. sget (configs_of k) c = Some cc \<and> collection_settings_is_disabled (cc_settings cc) st)"

lemma core_step_locked_setting:
  "core_step lim f k k' \<Longrightarrow> f = {} \<Longrightarrow> locked_setting c st k \<Longrightarrow> locked_setting c st k'"
  by (induction rule: core_step.induct)
     (auto simp: locked_setting_def storage_simps fold_disable_settings)

interpretation nft_locked: call_system "nfts_step cfg" only_ext
  "\<lambda>(og, call). powers_of call = {}" "\<lambda>s. locked_setting c st (core_of s)"
  for cfg :: "('x, 'e) config" and c st
proof unfold_locales
  fix b :: "origin \<times> call" and s s' :: "'x nfts"
  assume ok: "case b of (og, call) \<Rightarrow> powers_of call = {}" and "locked_setting c st (core_of s)"
    and "nfts_step cfg b s = Inr s'"
  then show "locked_setting c st (core_of s')"
    by (cases b)
       (auto simp: nfts_step_def intro: core_steps_invariant [OF dispatch_core_steps] core_step_locked_setting)
next
  fix s s' :: "'x nfts"
  show "locked_setting c st (core_of s) \<Longrightarrow> only_ext s s' \<Longrightarrow> locked_setting c st (core_of s')"
    using only_ext_reads [of s s'] by simp
qed

text \<open>The metadata and attribute locks of an item outlive even its burning: they go away only with
  the collection.\<close>

definition locked_item :: "collection_id \<Rightarrow> item_id \<Rightarrow> item_setting \<Rightarrow> core \<Rightarrow> bool" where
  "locked_item c i st k \<longleftrightarrow>
     (\<exists>ic. sget (item_configs_of k) (c, i) = Some ic \<and> item_settings_is_disabled (ic_settings ic) st)"

lemma core_step_locked_item:
  "core_step lim f k k' \<Longrightarrow> Demolish \<notin> f \<Longrightarrow> st \<noteq> Transferable \<Longrightarrow> locked_item c i st k \<Longrightarrow> locked_item c i st k'"
  by (induction rule: core_step.induct)
     (auto simp: locked_item_def storage_simps contains_key_def dest: item_disabled_settings)

interpretation nft_locked_item: call_system "nfts_step cfg" only_ext
  "\<lambda>(og, call). Demolish \<notin> powers_of call" "\<lambda>s. st \<noteq> Transferable \<and> locked_item c i st (core_of s)"
  for cfg :: "('x, 'e) config" and c i st
proof unfold_locales
  fix b :: "origin \<times> call" and s s' :: "'x nfts"
  assume ok: "case b of (og, call) \<Rightarrow> Demolish \<notin> powers_of call"
    and "st \<noteq> Transferable \<and> locked_item c i st (core_of s)" and "nfts_step cfg b s = Inr s'"
  then show "st \<noteq> Transferable \<and> locked_item c i st (core_of s')"
    by (cases b)
       (auto simp: nfts_step_def intro: core_steps_invariant [OF dispatch_core_steps] core_step_locked_item)
next
  fix s s' :: "'x nfts"
  show "st \<noteq> Transferable \<and> locked_item c i st (core_of s) \<Longrightarrow> only_ext s s'
      \<Longrightarrow> st \<noteq> Transferable \<and> locked_item c i st (core_of s')"
    using only_ext_reads [of s s'] by simp
qed

end
