(* ===== verification/Nfts_Attribute_Moves.thy ===== *)
theory Nfts_Attribute_Moves
  imports Nfts_Invariants
begin

text \<open>
  What the calls of the pallet do to \<open>Attribute\<close>, which neither the registry nor the core sees. Each
  operation is a move of that storage: it adds attributes of certain collections only, and it keeps
  the marks that the pallet itself sets (namespace \<open>Pallet\<close>, no depositor) unless it is one of the few
  calls that may touch them. From the moves come two invariants: attributes and roles belong to
  existing collections, and an item that was used to claim a mint stays used.
\<close>

section \<open>Moves\<close>

type_synonym attributes = "(attribute_key, bytes \<times> attribute_deposit) storage"

text \<open>An attribute that the pallet set for itself.\<close>

definition marked :: "attributes \<Rightarrow> collection_id \<Rightarrow> item_id option \<Rightarrow> bytes \<Rightarrow> bool" where
  "marked A c mi k \<longleftrightarrow> (\<exists>v d. sget A (c, mi, Pallet, k) = Some (v, d) \<and> ad_account d = None)"

text \<open>\<open>attr_move N T A A'\<close>: new attributes are attributes of the collections in \<open>N\<close>, and the marks of
  all collections outside \<open>T\<close> are kept.\<close>

definition attr_move ::
  "collection_id set \<Rightarrow> collection_id set \<Rightarrow> attributes \<Rightarrow> attributes \<Rightarrow> bool" where
  "attr_move N T A A' \<longleftrightarrow>
     (\<forall>k. contains_key A' k \<longrightarrow> contains_key A k \<or> fst k \<in> N) \<and>
     (\<forall>c mi k. c \<notin> T \<longrightarrow> marked A c mi k \<longrightarrow> marked A' c mi k)"

lemma attr_move_refl: "attr_move N T A A"
  by (simp add: attr_move_def)

lemma attr_move_trans: "attr_move N T A B \<Longrightarrow> attr_move N T B C \<Longrightarrow> attr_move N T A C"
  unfolding attr_move_def by blast

lemma attr_move_mono: "attr_move N T A B \<Longrightarrow> N \<subseteq> N' \<Longrightarrow> attr_move N' T A B"
  unfolding attr_move_def by blast

lemma attr_move_put:
  "c \<in> N \<Longrightarrow> ns = Pallet \<longrightarrow> c \<in> T \<or> \<not> contains_key A (c, mi, ns, k) \<or> ad_account (snd w) = None \<Longrightarrow>
    attr_move N T A (sput (c, mi, ns, k) w A)"
  by (cases w) (auto simp: attr_move_def marked_def contains_key_def storage_simps)

lemma attr_move_del:
  "ns = Pallet \<longrightarrow> c \<in> T \<or> \<not> marked A c mi k \<Longrightarrow> attr_move N T A (sdel (c, mi, ns, k) A)"
  by (auto simp: attr_move_def marked_def contains_key_def storage_simps split: if_splits)

lemma attr_move_remove:
  "(\<And>c mi k. c \<notin> T \<Longrightarrow> \<not> p (c, mi, Pallet, k)) \<Longrightarrow> attr_move N T A (remove_prefix p A)"
  by (auto simp: attr_move_def marked_def contains_key_def storage_simps split: if_splits)

section \<open>Operations that leave the attributes alone\<close>

named_theorems calm \<open>operations that keep Attribute\<close>

lemma calm_admin [calm]:
  "do_force_collection_config c cc s = Inr s' \<Longrightarrow> Attribute s' = Attribute s"
  "do_set_collection_max_supply mo c n s = Inr s' \<Longrightarrow> Attribute s' = Attribute s"
  "do_set_team mo c is ad fr s = Inr s' \<Longrightarrow> Attribute s' = Attribute s"
  "do_update_mint_settings mo c ms s = Inr s' \<Longrightarrow> Attribute s' = Attribute s"
  "do_lock_collection a c ls s = Inr s' \<Longrightarrow> Attribute s' = Attribute s"
  "do_lock_item_transfer a c i s = Inr s' \<Longrightarrow> Attribute s' = Attribute s"
  "do_unlock_item_transfer a c i s = Inr s' \<Longrightarrow> Attribute s' = Attribute s"
  "do_lock_item_properties mo c i lm la s = Inr s' \<Longrightarrow> Attribute s' = Attribute s"
  by (auto simp: do_force_collection_config_def do_set_collection_max_supply_def do_set_team_def
      do_update_mint_settings_def do_lock_collection_def do_lock_item_transfer_def do_unlock_item_transfer_def
      do_lock_item_properties_def insert_roles_def deposit_event_def Let_def exec_simps)

lemma calm_approvals [calm]:
  "do_approve_item_attributes cfg a c i dl s = Inr s' \<Longrightarrow> Attribute s' = Attribute s"
  "do_approve_transfer cfg mo c i dl ml s = Inr s' \<Longrightarrow> Attribute s' = Attribute s"
  "do_cancel_approval cfg mo c i dl s = Inr s' \<Longrightarrow> Attribute s' = Attribute s"
  "do_clear_all_transfer_approvals mo c i s = Inr s' \<Longrightarrow> Attribute s' = Attribute s"
  by (auto simp: do_approve_item_attributes_def do_approve_transfer_def do_cancel_approval_def
      do_clear_all_transfer_approvals_def deposit_event_def Let_def exec_simps)

lemma calm_set_item_metadata [calm]:
  "do_set_item_metadata cfg mo c i data md s = Inr s' \<Longrightarrow> Attribute s' = Attribute s"
  unfolding do_set_item_metadata_def Let_def exec_simps
  by (elim exE conjE, drule only_ext_move_deposit, elim only_extE, hypsubst, simp only: sum.inject)
     (drule sym, simp add: deposit_event_def)

lemma calm_metadata [calm]:
  "do_clear_item_metadata cfg mo c i s = Inr s' \<Longrightarrow> Attribute s' = Attribute s"
  "do_clear_collection_metadata cfg mo c s = Inr s' \<Longrightarrow> Attribute s' = Attribute s"
  by (auto simp: do_clear_item_metadata_def do_clear_collection_metadata_def deposit_event_def Let_def exec_simps)

lemma calm_set_collection_metadata [calm]:
  "do_set_collection_metadata cfg mo c data s = Inr s' \<Longrightarrow> Attribute s' = Attribute s"
  unfolding do_set_collection_metadata_def Let_def exec_simps
  by (elim exE conjE) (auto split: if_splits simp: exec_simps deposit_event_def)

lemma calm_ownership [calm]:
  "do_transfer_ownership cfg a c b s = Inr s' \<Longrightarrow> Attribute s' = Attribute s"
  "do_set_accept_ownership cfg a mc s = Inr s' \<Longrightarrow> Attribute s' = Attribute s"
  "do_force_collection_owner cfg c b s = Inr s' \<Longrightarrow> Attribute s' = Attribute s"
  by (auto simp: do_transfer_ownership_def do_set_accept_ownership_def do_force_collection_owner_def
      deposit_event_def Let_def exec_simps split: if_splits option.splits)

lemma calm_pay_tips [calm]: "do_pay_tips cfg a tips s = Inr s' \<Longrightarrow> Attribute s' = Attribute s"
  unfolding do_pay_tips_def
  by (rule try_fold_invariant [where P = "\<lambda>t. Attribute t = Attribute s"])
     (auto simp: pay_tip_def deposit_event_def exec_simps)

lemma calm_transfer [calm]: "do_transfer cfg c i dest wd s = Inr s' \<Longrightarrow> Attribute s' = Attribute s"
  by (auto simp: do_transfer_def deposit_event_def Let_def exec_simps)

lemma calm_trading [calm]:
  "do_set_price cfg c i a pr wb s = Inr s' \<Longrightarrow> Attribute s' = Attribute s"
  "do_create_swap cfg a c i dc di mp dur s = Inr s' \<Longrightarrow> Attribute s' = Attribute s"
  "do_cancel_swap cfg a c i s = Inr s' \<Longrightarrow> Attribute s' = Attribute s"
  "do_buy_item cfg c i a b s = Inr s' \<Longrightarrow> Attribute s' = Attribute s"
  by (auto simp: do_set_price_def do_create_swap_def do_cancel_swap_def do_buy_item_def deposit_event_def
      Let_def exec_simps split: option.splits if_splits dest!: calm_transfer)

lemma calm_claim_swap [calm]:
  assumes "do_claim_swap cfg a c i c2 i2 wp s = Inr s'"
  shows "Attribute s' = Attribute s"
proof -
  from assms obtain t u v x y where "only_ext s t" and t: "do_transfer cfg c i x no_details_check t = Inr u"
    and u: "do_transfer cfg c2 i2 y no_details_check u = Inr v" and s': "Attribute s' = Attribute v"
    unfolding do_claim_swap_def exec_simps
    by (elim exE conjE) (rule that, rule only_ext_swap_payment, assumption+, auto simp: deposit_event_def)
  then show ?thesis using calm_transfer [OF t] calm_transfer [OF u] by (auto elim: only_extE)
qed

lemma calm_burn [calm]: "do_burn cfg c i wd s = Inr s' \<Longrightarrow> Attribute s' = Attribute s"
  unfolding do_burn_def Let_def exec_simps
  by (elim exE conjE) (auto simp: deposit_event_def split: option.splits if_splits prod.splits)

lemma calm_create_collection [calm]:
  "do_create_collection cfg c own adm cc dep ev s = Inr s' \<Longrightarrow> Attribute s' = Attribute s"
  unfolding do_create_collection_def Let_def exec_simps
  by (auto simp: deposit_event_def split: option.splits)

lemma calm_redeposit_item: "Attribute (snd (redeposit_item cfg c dep i p)) = Attribute (snd p)"
  by (cases p) (auto simp: redeposit_item_def Let_def dest: only_ext_currency only_ext_fields
      split: option.splits sum.splits)

lemma calm_redeposit [calm]:
  assumes "redeposit cfg og c is s = Inr s'"
  shows "Attribute s' = Attribute s"
proof -
  have items: "Attribute (snd (fold (redeposit_item cfg c dep) is p)) = Attribute (snd p)" for dep p
    by (induction "is" arbitrary: p) (simp_all add: calm_redeposit_item)
  from assms show ?thesis
    unfolding redeposit_def Let_def exec_simps split_beta
    by (elim exE conjE) (drule sym, simp add: deposit_event_def items)
qed

section \<open>Operations that write attributes\<close>

text \<open>The namespace \<open>Pallet\<close> is nobody's: no signed account may write in it.\<close>

lemma do_set_attribute_namespace:
  "do_set_attribute cfg a c mi ns k v dp s = Inr s' \<Longrightarrow> ns \<noteq> Pallet"
  by (auto simp: do_set_attribute_def is_valid_namespace_def exec_simps)

lemma move_set_attribute:
  assumes "do_set_attribute cfg a c mi ns k v dp s = Inr s'" and "c \<in> N"
  shows "attr_move N T (Attribute s) (Attribute s')"
proof -
  from assms(1) obtain t w where "only_ext s t" and "Attribute s' = sput (c, mi, ns, k) w (Attribute t)"
    by (rule do_set_attribute_Inr) (simp add: deposit_event_def)
  then have "Attribute s' = sput (c, mi, ns, k) w (Attribute s)" by (simp add: only_ext_fields)
  with do_set_attribute_namespace [OF assms(1)] assms(2) show ?thesis by (simp add: attr_move_put)
qed

lemma move_set_attribute_pairs:
  assumes "try_fold (set_attribute_pair cfg a c i ns dp) kvs s = Inr s'" and "c \<in> N"
  shows "attr_move N T (Attribute s) (Attribute s')"
  using assms(1) attr_move_refl
proof (rule try_fold_invariant [where P = "\<lambda>t. attr_move N T (Attribute s) (Attribute t)", rotated])
  fix kv t t'
  assume t: "attr_move N T (Attribute s) (Attribute t)" and "set_attribute_pair cfg a c i ns dp kv t = Inr t'"
  then obtain k v where "do_set_attribute cfg a c (Some i) ns k v dp t = Inr t'"
    by (auto simp: set_attribute_pair_def exec_simps)
  from attr_move_trans [OF t move_set_attribute [OF this assms(2)]]
  show "attr_move N T (Attribute s) (Attribute t')" .
qed

lemma move_force_set_attribute:
  assumes "do_force_set_attribute cfg sa c mi ns k v s = Inr s'"
  shows "attr_move {c} (if ns = Pallet \<and> sa \<noteq> None then {c} else {}) (Attribute s) (Attribute s')"
proof -
  from assms have "Attribute s' = sput (c, mi, ns, k) (v, \<lparr>ad_account = sa, ad_amount = 0\<rparr>) (Attribute s)"
    unfolding do_force_set_attribute_def Let_def exec_simps
    by (cases "sget (Attribute s) (c, mi, ns, k)") (auto simp: deposit_event_def split: option.splits if_splits)
  then show ?thesis by (simp add: attr_move_put)
qed

lemma move_clear_attribute:
  assumes "do_clear_attribute cfg mo c mi ns k s = Inr s'"
  shows "attr_move {} (if ns = Pallet \<and> mo = None then {c} else {}) (Attribute s) (Attribute s')"
proof -
  from assms have s': "Attribute s' = sdel (c, mi, ns, k) (Attribute s)"
    unfolding do_clear_attribute_def Let_def exec_simps
    by (elim exE conjE) (auto simp: deposit_event_def split: option.splits if_splits)
  have "\<not> marked (Attribute s) c mi k" if "ns = Pallet" "mo \<noteq> None"
    using assms that
    by (auto simp: do_clear_attribute_def is_valid_namespace_def marked_def Let_def exec_simps split: if_splits)
  with s' show ?thesis by (simp add: attr_move_del)
qed

lemma move_cancel_item_attributes_approval:
  "do_cancel_item_attributes_approval cfg a c i dl w s = Inr s' \<Longrightarrow> attr_move N T (Attribute s) (Attribute s')"
  by (auto simp: do_cancel_item_attributes_approval_def Let_def exec_simps deposit_event_def attribute_prefix_def
      intro!: attr_move_remove split: if_splits)

lemma move_set_attributes_pre_signed:
  assumes "do_set_attributes_pre_signed cfg a data sg s = Inr s'" and "psa_collection data \<in> N"
  shows "attr_move N T (Attribute s) (Attribute s')"
proof -
  from assms(1) obtain t u where "Attribute t = Attribute s" and "Attribute s' = Attribute u"
    and "try_fold (set_attribute_pair cfg sg (psa_collection data) (psa_item data) (psa_namespace data) a)
      (psa_attributes data) t = Inr u"
    unfolding do_set_attributes_pre_signed_def Let_def exec_simps
    by (elim exE conjE)
       (rule that, auto simp: deposit_event_def exec_simps split: attribute_namespace.splits if_splits dest: calm)
  with move_set_attribute_pairs [OF this(3) assms(2)] show ?thesis by simp
qed

lemma move_mint_check:
  assumes "mint_check cfg c a w cd cc s = Inr s'"
    and "\<And>g i. contains_key (Account s) (a, g, i) \<Longrightarrow> g \<in> N"
  shows "attr_move N T (Attribute s) (Attribute s')"
  using assms
  by (auto simp: mint_check_def Let_def exec_simps case_option_Inr deposit_event_def
      split: mint_type.splits intro!: attr_move_refl attr_move_put)

lemma do_mint_attributes:
  assumes "do_mint cfg c i md mt ic wd s = Inr s'"
  obtains cd cc t where "contains_key (Collection s) c" "wd cd cc s = Inr t" "Attribute s' = Attribute t"
  using do_mint_Inr [OF assms] by (auto simp: Let_def deposit_event_def contains_key_def)

lemma move_mint_pre_signed:
  assumes "do_mint_pre_signed cfg mt data sg s = Inr s'"
  shows "attr_move {c. contains_key (Collection s) c} T (Attribute s) (Attribute s')"
proof -
  let ?wd = "\<lambda>d _ s. case psm_mint_price data of
    Some price \<Rightarrow> currency_transfer cfg mt (cd_owner d) price s | None \<Rightarrow> Inr s"
  have keeps: "?wd cd cc t = Inr t' \<Longrightarrow> Attribute t' = Attribute t" for cd cc t t'
    by (auto simp: case_option_Inr exec_simps)
  from assms obtain ic t where t: "do_mint cfg (psm_collection data) (psm_item data) (Some mt) mt ic ?wd s = Inr t"
    and alt: "s' = t \<or> (\<exists>u adm. try_fold (set_attribute_pair cfg adm (psm_collection data) (psm_item data)
      CollectionOwner mt) (psm_attributes data) t = Inr u \<and> Attribute s' = Attribute u)"
    unfolding do_mint_pre_signed_def Let_def construct_metadata_def exec_simps case_option_Inr
    by (auto simp: exec_simps split: if_splits dest!: calm_set_item_metadata)
  from t have c: "contains_key (Collection s) (psm_collection data)"
    by (rule do_mint_attributes)
  from t have "Attribute t = Attribute s"
    by (rule do_mint_attributes) (drule keeps, simp)
  with alt c show ?thesis
    using move_set_attribute_pairs [where s = t and N = "{c. contains_key (Collection s) c}" and T = T]
    by (auto intro: attr_move_refl)
qed

section \<open>Calls\<close>

text \<open>The collections a call may give attributes to: those that exist, and those an item of which is
  presented to a mint. The collections whose marks a call may take away: the one it destroys, and
  the one in which the force origin clears a mark or hands it to a depositor.\<close>

definition live :: "'x nfts \<Rightarrow> collection_id set" where
  "live s = {c. contains_key (Collection s) c \<or> (\<exists>a i. contains_key (Account s) (a, c, i))}"

definition unmarks :: "('x, 'e) config \<Rightarrow> origin \<Rightarrow> call \<Rightarrow> collection_id set" where
  "unmarks cfg og call =
     (case call of
        Destroy c w \<Rightarrow> {c}
      | ForceSetAttribute set_as c mi ns k v \<Rightarrow> if ns = Pallet \<and> set_as \<noteq> None then {c} else {}
      | ClearAttribute c mi ns k \<Rightarrow> if ns = Pallet \<and> force_origin cfg og then {c} else {}
      | _ \<Rightarrow> {})"

lemma force_or_signed_None: "force_or_signed cfg og = Inr mo \<Longrightarrow> mo = None \<longleftrightarrow> force_origin cfg og"
  by (cases og) (auto simp: force_or_signed_def exec_simps split: if_splits)

lemma attr_move_same: "A' = A \<Longrightarrow> attr_move N T A A'"
  by (simp add: attr_move_refl)

lemmas calm_moves = calm [THEN attr_move_same]

lemma move_create:
  "create cfg og a cc s = Inr s' \<Longrightarrow> attr_move N T (Attribute s) (Attribute s')"
  "force_create cfg og a cc s = Inr s' \<Longrightarrow> attr_move N T (Attribute s) (Attribute s')"
  by (auto simp: create_def force_create_def exec_simps set_next_collection_id_def Let_def deposit_event_def
      dest!: calm_create_collection intro: attr_move_same)

lemma move_mint:
  assumes "mint cfg og c i l w s = Inr s'" and "live s \<subseteq> N"
  shows "attr_move N T (Attribute s) (Attribute s')"
proof -
  from assms(1) obtain a dest ic where
    m: "do_mint cfg c i (Some a) dest ic (mint_check cfg c a w) s = Inr s'"
    by (auto simp: mint_def exec_simps)
  then obtain cd cc t where t: "mint_check cfg c a w cd cc s = Inr t" and "Attribute s' = Attribute t"
    by (rule do_mint_attributes)
  then show ?thesis using move_mint_check [OF t, of N T] assms(2) by (auto simp: live_def)
qed

lemma move_force_mint:
  "force_mint cfg og c i l ic s = Inr s' \<Longrightarrow> attr_move N T (Attribute s) (Attribute s')"
  by (auto simp: force_mint_def exec_simps no_mint_check_def elim!: do_mint_attributes intro: attr_move_same)

lemma move_destroy:
  "destroy cfg og c w s = Inr s' \<Longrightarrow> attr_move N {c} (Attribute s) (Attribute s')"
  by (auto simp: destroy_def exec_simps elim!: do_destroy_collection_Inr intro!: attr_move_remove)

text \<open>An attribute is written in a collection that the operation has looked up.\<close>

lemma set_attribute_live:
  "do_set_attribute cfg a c mi ns k v dp s = Inr s' \<Longrightarrow> c \<in> live s"
  by (erule do_set_attribute_Inr) (simp add: live_def contains_key_def)

lemma force_set_attribute_live:
  "do_force_set_attribute cfg sa c mi ns k v s = Inr s' \<Longrightarrow> c \<in> live s"
  by (auto simp: do_force_set_attribute_def exec_simps live_def contains_key_def)

lemma dispatch_attr_move:
  fixes cfg :: "('x, 'e) config"
  assumes "dispatch cfg og call s = Inr s'"
    and items: "\<And>c i. contains_key (Item s) (c, i) \<Longrightarrow> c \<in> N" and live: "live s \<subseteq> N"
  shows "attr_move N (unmarks cfg og call) (Attribute s) (Attribute s')"
proof (cases call)
  case (MintPreSigned data sig sg)
  with assms(1) obtain a where "do_mint_pre_signed cfg a data sg s = Inr s'"
    by (auto simp: mint_pre_signed_def exec_simps)
  from move_mint_pre_signed [OF this] show ?thesis by (rule attr_move_mono) (use live in \<open>auto simp: live_def\<close>)
next
  case (SetAttribute c mi ns k v)
  with assms(1) obtain a dp where "do_set_attribute cfg a c mi ns k v dp s = Inr s'"
    by (auto simp: set_attribute_def exec_simps)
  from move_set_attribute [OF this] set_attribute_live [OF this] live show ?thesis by blast
next
  case (ForceSetAttribute sa c mi ns k v)
  with assms(1) have f: "do_force_set_attribute cfg sa c mi ns k v s = Inr s'"
    by (auto simp: force_set_attribute_def exec_simps)
  have "{c} \<subseteq> N" using force_set_attribute_live [OF f] live by blast
  from attr_move_mono [OF move_force_set_attribute [OF f] this] ForceSetAttribute show ?thesis
    by (simp add: unmarks_def)
next
  case (ClearAttribute c mi ns k)
  with assms(1) obtain mo where mo: "force_or_signed cfg og = (Inr mo :: 'e call_error + _)"
    and "do_clear_attribute cfg mo c mi ns k s = Inr s'"
    by (auto simp: clear_attribute_def exec_simps)
  from move_clear_attribute [OF this(2)] ClearAttribute force_or_signed_None [OF mo] show ?thesis
    by (auto simp: unmarks_def elim: attr_move_mono)
next
  case (SetAttributesPreSigned data sig sg)
  with assms(1) obtain a where p: "do_set_attributes_pre_signed cfg a data sg s = Inr s'"
    by (auto simp: set_attributes_pre_signed_def exec_simps)
  then have "contains_key (Item s) (psa_collection data, psa_item data)"
    by (auto simp: do_set_attributes_pre_signed_def Let_def exec_simps contains_key_def)
  from move_set_attributes_pre_signed [OF p items [OF this]] show ?thesis .
qed (insert assms(1), auto simp: thin_calls transfer_def exec_simps unmarks_def
     dest: move_create move_mint [OF _ live] move_force_mint move_destroy
     intro: calm_moves move_cancel_item_attributes_approval)

section \<open>Attributes belong to existing collections\<close>

lemma core_step_keeps_collections:
  "core_step lim f k k' \<Longrightarrow> Demolish \<notin> f \<Longrightarrow> supply_of k c \<noteq> None \<Longrightarrow> supply_of k' c \<noteq> None"
  by (induction rule: core_step.induct) auto

lemma dispatch_keeps_collections:
  assumes "dispatch cfg og call s = Inr s'" and "\<And>w. call \<noteq> Destroy c w" and "contains_key (Collection s) c"
  shows "contains_key (Collection s') c"
proof (cases "\<exists>d w. call = Destroy d w")
  case True
  with assms(1) obtain d w mo w' where "do_destroy_collection cfg d w mo s = Inr (w', s')" and "call = Destroy d w"
    by (auto simp: destroy_def exec_simps)
  with assms(2) [of w] assms(3) show ?thesis by (auto elim!: do_destroy_collection_Inr simp: storage_simps)
next
  case False
  then have "Demolish \<notin> powers_of call" by (auto simp: powers_of_def split: call.splits)
  moreover have "supply_of (core_of s) c \<noteq> None"
    using assms(3) by (simp add: item_supply_def contains_key_def)
  ultimately have "supply_of (core_of s') c \<noteq> None"
    using core_steps_invariant [OF dispatch_core_steps [OF assms(1)], of "\<lambda>k. supply_of k c \<noteq> None"]
      core_step_keeps_collections by metis
  then show ?thesis by (simp add: item_supply_def contains_key_def)
qed

lemma registry_refs_reads:
  assumes "registry_refs (registry_of s)"
  shows "(contains_key (Item s) (c, i) \<longrightarrow> contains_key (ItemConfigOf s) (c, i)) \<and>
    (contains_key (ItemConfigOf s) (c, i) \<or> contains_key (ItemMetadataOf s) (c, i) \<or>
       contains_key (CollectionMetadataOf s) c \<longrightarrow> contains_key (Collection s) c) \<and>
    (contains_key (ItemPriceOf s) (c, i) \<or> contains_key (PendingSwapOf s) (c, i) \<or>
       contains_key (ItemAttributesApprovalsOf s) (c, i) \<longrightarrow> contains_key (Item s) (c, i)) \<and>
    (contains_key (CollectionConfigOf s) c \<longleftrightarrow> contains_key (Collection s) c)"
proof -
  have item: "(c, i) \<in> dom (item_owner (registry_of s)) \<longleftrightarrow> contains_key (Item s) (c, i)"
    by (simp add: dom_def contains_key_def)
  have collection: "c \<in> dom (coll (registry_of s)) \<longleftrightarrow> contains_key (Collection s) c"
    by (simp add: dom_def contains_key_def)
  have "contains_key (CollectionConfigOf s) c \<longleftrightarrow> c \<in> dom (coll (registry_of s))"
    using assms registry_of_fields(10) [of c s] unfolding registry_refs_def by metis
  moreover have "contains_key (Item s) (c, i) \<longrightarrow> contains_key (ItemConfigOf s) (c, i)"
    using assms item unfolding registry_refs_def by simp
  moreover have "contains_key (ItemConfigOf s) (c, i) \<or> contains_key (ItemMetadataOf s) (c, i)
      \<longrightarrow> c \<in> dom (coll (registry_of s))"
    using assms unfolding registry_refs_def by simp
  moreover have "contains_key (CollectionMetadataOf s) c \<longrightarrow> c \<in> dom (coll (registry_of s))"
    using assms registry_of_fields(11) [of c s] unfolding registry_refs_def by blast
  moreover have "contains_key (ItemPriceOf s) (c, i) \<or> contains_key (PendingSwapOf s) (c, i) \<or>
      contains_key (ItemAttributesApprovalsOf s) (c, i) \<longrightarrow> (c, i) \<in> dom (item_owner (registry_of s))"
    using assms registry_of_fields(7-9) [of "(c, i)" s] unfolding registry_refs_def by blast
  ultimately show ?thesis using item collection by blast
qed

definition attributes_ok :: "'x nfts \<Rightarrow> bool" where
  "attributes_ok s \<longleftrightarrow> (\<forall>k. contains_key (Attribute s) k \<longrightarrow> contains_key (Collection s) (fst k))"

lemma registry_wf_collections:
  assumes "registry_wf m (registry_of s)"
  shows "contains_key (Item s) (c, i) \<Longrightarrow> contains_key (Collection s) c" "c \<in> live s \<Longrightarrow> contains_key (Collection s) c"
proof -
  have refs: "registry_refs (registry_of s)" and index: "registry_index (registry_of s)"
    using assms by (simp_all add: registry_wf_def)
  have item: "contains_key (Item s) (c, i) \<Longrightarrow> contains_key (Collection s) c" for c i
    using registry_refs_reads [OF refs, of c i] by blast
  then show "contains_key (Item s) (c, i) \<Longrightarrow> contains_key (Collection s) c" .
  show "c \<in> live s \<Longrightarrow> contains_key (Collection s) c"
    using index item by (force simp: live_def registry_index_def contains_key_def)
qed

lemma dispatch_attributes_ok:
  assumes "dispatch cfg og call s = Inr s'" and "registry_wf m (registry_of s)" and "attributes_ok s"
  shows "attributes_ok s'"
  unfolding attributes_ok_def
proof (intro allI impI)
  fix k assume k: "contains_key (Attribute s') k"
  have "attr_move {c. contains_key (Collection s) c} (unmarks cfg og call) (Attribute s) (Attribute s')"
    using registry_wf_collections [OF assms(2)] by (intro dispatch_attr_move [OF assms(1)]) auto
  then have here: "contains_key (Collection s) (fst k)"
    using k assms(3) unfolding attr_move_def attributes_ok_def by blast
  have "call \<noteq> Destroy (fst k) w" for w
    using assms(1) k
    by (auto simp: destroy_def exec_simps storage_simps contains_key_def elim!: do_destroy_collection_Inr)
  from dispatch_keeps_collections [OF assms(1) this here] show "contains_key (Collection s') (fst k)" .
qed

interpretation nft_attributes: call_budget "nfts_step cfg" only_ext "\<lambda>_. True"
  "\<lambda>m s. (nfts_inv cfg s \<and> registry_wf m (registry_of s)) \<and> attributes_ok s" 2 u32_max
  for cfg :: "('x, 'e) config"
proof unfold_locales
  fix c :: "origin \<times> call" and s s' :: "'x nfts" and m :: nat
  assume inv: "(nfts_inv cfg s \<and> registry_wf m (registry_of s)) \<and> attributes_ok s"
    and s': "nfts_step cfg c s = Inr s'" and m: "m + 2 \<le> u32_max"
  from s' inv have "attributes_ok s'"
    by (cases c) (auto simp: nfts_step_def intro: dispatch_attributes_ok)
  with nft_counts.step_budget [OF _ _ s' m] inv
  show "(nfts_inv cfg s' \<and> registry_wf (m + 2) (registry_of s')) \<and> attributes_ok s'" by simp
next
  fix s s' :: "'x nfts" and m :: nat
  assume "(nfts_inv cfg s \<and> registry_wf m (registry_of s)) \<and> attributes_ok s" and "only_ext s s'"
  then show "(nfts_inv cfg s' \<and> registry_wf m (registry_of s')) \<and> attributes_ok s'"
    using nft_counts.world_budget [of cfg s m s'] by (auto simp: attributes_ok_def only_ext_fields)
qed

lemma reachable_attributes:
  assumes "reachable cfg n s" and "2 * n \<le> u32_max"
  shows "attributes_ok s"
proof -
  from assms(1) obtain x where "runs (nfts_step cfg) only_ext (\<lambda>_. True) n (nfts_genesis x) s"
    by (auto simp: reachable_def nfts_runs_def)
  moreover have "attributes_ok (nfts_genesis x)"
    by (simp add: attributes_ok_def nfts_genesis_def contains_key_def)
  ultimately show ?thesis
    using nft_attributes.runs_budget [of cfg n "nfts_genesis x" s 0] assms(2)
      nfts_inv_genesis [of cfg x] registry_wf_genesis [of x] by (simp add: mult.commute)
qed

section \<open>Marks stay\<close>

interpretation nft_marked: call_system "nfts_step cfg" only_ext
  "\<lambda>(og, call). c \<notin> unmarks cfg og call" "\<lambda>s. marked (Attribute s) c mi k"
  for cfg :: "('x, 'e) config" and c mi k
proof unfold_locales
  fix b :: "origin \<times> call" and s s' :: "'x nfts"
  assume "case b of (og, call) \<Rightarrow> c \<notin> unmarks cfg og call" and "marked (Attribute s) c mi k"
    and "nfts_step cfg b s = Inr s'"
  then show "marked (Attribute s') c mi k"
    using dispatch_attr_move [where N = UNIV and cfg = cfg and s = s and s' = s']
    by (cases b) (auto simp: nfts_step_def attr_move_def)
next
  fix s s' :: "'x nfts"
  show "marked (Attribute s) c mi k \<Longrightarrow> only_ext s s' \<Longrightarrow> marked (Attribute s') c mi k"
    by (simp add: only_ext_fields)
qed

end
