(* ===== verification/Nfts_Example.thy ===== *)
theory Nfts_Example
  imports Nfts_Calls
begin

text \<open>
  A concrete configuration of the pallet and a short history on it: a ledger with free and
  reserved balances for the currency, one-byte addresses and signatures that carry the signed
  data. It shows that what is assumed of the code outside the pallet can be met, and it is the
  input of the witnesses.
\<close>

record ledger =
  height :: nat
  free :: "(account_id, balance) storage"
  reserved :: "(account_id, balance) storage"
  consumers :: "(account_id, nat) storage"

definition amount_of :: "(account_id, nat) storage \<Rightarrow> account_id \<Rightarrow> nat" where
  "amount_of m a = (case sget m a of None \<Rightarrow> 0 | Some n \<Rightarrow> n)"

definition ledger_reserve :: "account_id \<Rightarrow> balance \<Rightarrow> ledger \<Rightarrow> nat + ledger" where
  "ledger_reserve a n x =
     (if n \<le> amount_of (free x) a
      then Inr (x\<lparr>free := sput a (amount_of (free x) a - n) (free x),
                  reserved := sput a (amount_of (reserved x) a + n) (reserved x)\<rparr>)
      else Inl 0)"

definition ledger_unreserve :: "account_id \<Rightarrow> balance \<Rightarrow> ledger \<Rightarrow> ledger" where
  "ledger_unreserve a n x =
     (let m = min n (amount_of (reserved x) a)
      in x\<lparr>free := sput a (amount_of (free x) a + m) (free x),
           reserved := sput a (amount_of (reserved x) a - m) (reserved x)\<rparr>)"

definition ledger_repatriate :: "account_id \<Rightarrow> account_id \<Rightarrow> balance \<Rightarrow> ledger \<Rightarrow> nat + ledger" where
  "ledger_repatriate a b n x =
     (let m = min n (amount_of (reserved x) a);
          r = sput a (amount_of (reserved x) a - m) (reserved x)
      in Inr (x\<lparr>reserved := sput b (amount_of r b + m) r\<rparr>))"

definition ledger_transfer :: "account_id \<Rightarrow> account_id \<Rightarrow> balance \<Rightarrow> ledger \<Rightarrow> nat + ledger" where
  "ledger_transfer a b n x =
     (if n \<le> amount_of (free x) a
      then (let f = sput a (amount_of (free x) a - n) (free x)
            in Inr (x\<lparr>free := sput b (amount_of f b + n) f\<rparr>))
      else Inl 1)"

definition demo_cfg :: "(ledger, nat) config" where
  "demo_cfg =
     \<lparr>collection_deposit = 10, item_deposit = 5, metadata_deposit_base = 3,
      attribute_deposit_base = 2, deposit_per_byte = 1, string_limit = 50, key_limit = 50,
      value_limit = 50, approvals_limit = 2, item_attributes_approvals_limit = 2, max_tips = 10,
      max_deadline_duration = 100, max_attributes_per_call = 4, features = 0,
      initial_value = Some 0, increment = (\<lambda>c. if c = 4294967295 then None else Some (c + 1)),
      force_origin = (\<lambda>og. og = Root),
      create_origin = (\<lambda>og _. case og of Signed a \<Rightarrow> Some a | _ \<Rightarrow> None),
      is_locked = (\<lambda>_ _ _. False),
      currency_reserve = ledger_reserve, currency_unreserve = ledger_unreserve,
      currency_repatriate_reserved = ledger_repatriate,
      currency_transfer_keep_alive = ledger_transfer,
      inc_consumers = (\<lambda>a x. Inr (x\<lparr>consumers := sput a (amount_of (consumers x) a + 1) (consumers x)\<rparr>)),
      dec_consumers = (\<lambda>a x. x\<lparr>consumers := sput a (amount_of (consumers x) a - 1) (consumers x)\<rparr>),
      block_number = height,
      lookup = (\<lambda>l. case l of [b] \<Rightarrow> Inr (ucast b) | _ \<Rightarrow> Inl 2),
      verify = (\<lambda>sig data a. case sig of [] \<Rightarrow> False | b # d \<Rightarrow> ucast b = a \<and> d = data),
      encode_pallet_attribute =
        (\<lambda>p. case p of UsedToClaim c \<Rightarrow> 0 # le_bytes 4 c | TransferDisabled \<Rightarrow> [1]),
      encode_pre_signed_mint = (\<lambda>d. le_bytes 4 (psm_collection d) @ le_bytes 4 (psm_item d)),
      encode_pre_signed_attributes =
        (\<lambda>d. le_bytes 4 (psa_collection d) @ le_bytes 4 (psa_item d))\<rparr>"

definition demo_config :: collection_config where
  "demo_config = \<lparr>cc_settings = 0, cc_max_supply = Some 2, cc_mint_settings = mint_settings_default\<rparr>"

definition demo_start :: "ledger nfts" where
  "demo_start = nfts_genesis \<lparr>height = 1, free = [(1, 1000), (2, 1000), (3, 1000)],
     reserved = [], consumers = []\<rparr>"

section \<open>Evaluation\<close>

lemmas pallet_eval =
  owner_def collection_owner_def bytes_prefix_def bytes_suffix_def validate_signature_def
  set_next_collection_id_def get_collection_config_def get_item_config_def
  get_default_item_settings_def is_pallet_feature_enabled_def do_force_collection_config_def
  do_set_collection_max_supply_def has_role_def find_account_by_role_def
  group_roles_by_account_def clear_roles_def insert_roles_def do_set_team_def
  do_update_mint_settings_def do_lock_collection_def do_lock_item_transfer_def
  do_unlock_item_transfer_def do_lock_item_properties_def as_u32_def move_deposit_def
  item_attributes_approvals_def is_valid_namespace_def construct_attribute_key_def
  construct_attribute_value_def has_system_attribute_def do_set_attribute_def
  do_force_set_attribute_def do_approve_item_attributes_def set_attribute_pair_def
  do_set_attributes_pre_signed_def do_clear_attribute_def attribute_prefix_def
  do_cancel_item_attributes_approval_def construct_metadata_def metadata_deposit_def
  do_set_item_metadata_def do_clear_item_metadata_def do_set_collection_metadata_def
  do_clear_collection_metadata_def do_transfer_def do_transfer_ownership_def
  do_set_accept_ownership_def do_force_collection_owner_def do_approve_transfer_def
  do_cancel_approval_def do_clear_all_transfer_approvals_def do_mint_def do_mint_pre_signed_def
  do_burn_def  do_create_collection_def release_item_metadata_def
  release_attribute_def do_destroy_collection_def no_details_check_def pay_tip_def
  do_pay_tips_def do_set_price_def do_buy_item_def do_create_swap_def do_cancel_swap_def
  do_claim_swap_def force_or_signed_def ensure_force_def do_lookup_def do_lookup_opt_def
  next_collection_def create_def force_create_def destroy_def mint_check_def mint_def
  no_mint_check_def force_mint_def burn_check_def burn_def transfer_check_def transfer_def
  redeposit_item_def redeposit_def lock_item_transfer_def unlock_item_transfer_def
  lock_collection_def transfer_ownership_def set_team_def force_collection_owner_def
  force_collection_config_def approve_transfer_def cancel_approval_def
  clear_all_transfer_approvals_def lock_item_properties_def set_attribute_def
  force_set_attribute_def clear_attribute_def approve_item_attributes_def
  cancel_item_attributes_approval_def set_metadata_def clear_metadata_def
  set_collection_metadata_def clear_collection_metadata_def set_accept_ownership_def
  set_collection_max_supply_def update_mint_settings_def set_price_def buy_item_def pay_tips_def
  create_swap_def cancel_swap_def claim_swap_def mint_pre_signed_def
  set_attributes_pre_signed_def

lemmas types_eval =
  collection_setting_variants_def collection_settings_all_enabled_def
  collection_settings_is_disabled_def collection_settings_get_disabled_def
  item_setting_variants_def item_settings_all_enabled_def item_settings_is_disabled_def
  pallet_feature_variants_def pallet_features_is_enabled_def collection_role_variants_def
  collection_roles_none_def collection_roles_has_role_def collection_roles_add_role_def
  collection_roles_max_roles_def details_destroy_witness_def mint_settings_default_def
  collection_config_is_setting_enabled_def collection_config_has_disabled_setting_def
  collection_config_disable_setting_def collection_config_enable_setting_def
  item_config_is_setting_enabled_def item_config_has_disabled_setting_def
  item_config_has_disabled_settings_def item_config_disable_setting_def
  item_config_enable_setting_def nfts_genesis_def deposit_event_def on_ext_def upd_ext_def
  reserve_def unreserve_def repatriate_reserved_def currency_transfer_def now_def
  bounded_map_insert_def bounded_set_insert_def bounded_vec_def

lemmas ledger_eval =
  amount_of_def ledger_reserve_def ledger_unreserve_def ledger_repatriate_def ledger_transfer_def
  demo_cfg_def demo_config_def demo_start_def

lemmas storage_eval =
  sget_def sput_def sdel_def contains_key_def iter_prefix_def remove_prefix_def

lemmas flags_eval =
  flags_contains_def flags_insert_def flags_remove_def flags_iter_def flags_all_def

lemmas arith_eval =
  saturating_inc_def saturating_dec_def saturating_add_def saturating_sub_def saturating_mul_def
  block_saturating_add_def u32_max_def u128_max_def

lemma all_roles_eval: "all_roles = 7"
  unfolding all_roles_def flags_insert_def by (simp add: set_bit_eq_or)

lemmas eval =
  pallet_eval types_eval ledger_eval storage_eval flags_eval arith_eval all_roles_eval Let_def

section \<open>A short history\<close>

text \<open>Account 1 creates collection 0 and mints item 7 to account 2, who lets account 3 transfer it.\<close>

definition demo_state :: "ledger nfts" where
  "demo_state =
     \<lparr>Collection =
        [(0, \<lparr>cd_owner = 1, cd_owner_deposit = 10, cd_items = 1, cd_item_metadatas = 0,
              cd_item_configs = 1, cd_attributes = 0\<rparr>)],
      OwnershipAcceptance = [], Account = [((2, 0, 7), ())],
      CollectionAccount = [((1, 0), ())], CollectionRoleOf = [((0, 1), 7)],
      Item =
        [((0, 7), \<lparr>it_owner = 2, it_approvals = [(3, Some 21)],
                   it_deposit = \<lparr>dep_account = 1, dep_amount = 5\<rparr>\<rparr>)],
      CollectionMetadataOf = [], ItemMetadataOf = [], Attribute = [], ItemPriceOf = [],
      ItemAttributesApprovalsOf = [], NextCollectionId = Some 1, PendingSwapOf = [],
      CollectionConfigOf = [(0, demo_config)],
      ItemConfigOf = [((0, 7), \<lparr>ic_settings = 0\<rparr>)],
      events =
        [Created 0 1 1, CollectionMaxSupplySet 0 2, NextCollectionIdIncremented (Some 1),
         Issued 0 7 2, TransferApproved 0 7 2 3 (Some 21)],
      ext = \<lparr>height = 1, free = [(1, 985), (2, 1000), (3, 1000)], reserved = [(1, 15)],
             consumers = []\<rparr>\<rparr>"

lemma demo_play:
  "andthen (dispatch demo_cfg (Signed 1) (Create [1] demo_config) demo_start)
     (\<lambda>s. andthen (dispatch demo_cfg (Signed 1) (Mint 0 7 [2] None) s)
     (dispatch demo_cfg (Signed 2) (ApproveTransfer 0 7 [3] (Some 20)))) = Inr demo_state"
  by (simp add: eval demo_state_def)

end
