(* ===== verification/Nfts_Safety.thy ===== *)
theory Nfts_Safety
  imports Nfts_Attribute_Moves Nfts_Example
begin

text \<open>
  The properties of the NFTs pallet that hold over all runs, each with a witness on the history of
  \<open>Nfts_Example\<close>: the pallet refines the registry, its indexes, counters and references are exact,
  destroying a collection leaves nothing behind, team roles have one holder, supplies stay under
  their caps and locks stay locked.
\<close>

section \<open>The example is reachable\<close>

lemma demo_reachable: "reachable demo_cfg 3 demo_state"
proof -
  from demo_play obtain s1 s2 where
    "dispatch demo_cfg (Signed 1) (Create [1] demo_config) demo_start = Inr s1"
    "dispatch demo_cfg (Signed 1) (Mint 0 7 [2] None) s1 = Inr s2"
    "dispatch demo_cfg (Signed 2) (ApproveTransfer 0 7 [3] (Some 20)) s2 = Inr demo_state"
    unfolding andthen_Inr by blast
  then have "reachable demo_cfg (Suc (Suc (Suc 0))) demo_state"
    unfolding demo_start_def by (blast intro: reachable_call reachable_genesis)
  then show ?thesis by (simp add: numeral_3_eq_3)
qed

lemma small_budget: "n \<le> 100 \<Longrightarrow> 2 * n \<le> u32_max"
  by (simp add: u32_max_def)

section \<open>Refinement\<close>

text \<open>C1: every successful call of the pallet, by any origin, in any state a chain can reach, is a
  sequence of moves of the abstract registry (who owns what, with its indexes and counters), and
  grows no counter by more than two.\<close>

theorem dispatch_refines_registry:
  assumes "reachable cfg n s" and "dispatch cfg og call s = Inr s'"
  shows "\<exists>k \<le> 2. registry_steps k (registry_of s) (registry_of s')"
  using dispatch_sim [OF assms(2)] nfts_inv_wf [OF reachable_inv [OF assms(1)]] by blast

theorem dispatch_refines_registry_witness:
  "\<exists>s'. dispatch demo_cfg (Signed 3) (Transfer 0 7 [3]) demo_state = Inr s' \<and>
     (\<exists>k \<le> 2. registry_steps k (registry_of demo_state) (registry_of s'))"
proof -
  obtain s' where s': "dispatch demo_cfg (Signed 3) (Transfer 0 7 [3]) demo_state = Inr s'"
    by (simp add: eval demo_state_def)
  with dispatch_refines_registry [OF demo_reachable s'] show ?thesis by blast
qed

section \<open>Indexes, counters and references\<close>

text \<open>C2: in every reachable state the reverse indexes agree with the records: \<open>Account\<close> lists
  exactly the items each account owns, \<open>CollectionAccount\<close> exactly the collections.\<close>

theorem reachable_indexes:
  assumes "reachable cfg n s"
  shows "(contains_key (Account s) (a, c, i) \<longleftrightarrow> owner c i s = Some a) \<and>
    (contains_key (CollectionAccount s) (a, c) \<longleftrightarrow> collection_owner c s = Some a)"
  using reachable_inv [OF assms]
  by (auto simp: nfts_inv_def registry_index_def owner_def collection_owner_def option.map_comp comp_def)

theorem reachable_indexes_witness:
  "contains_key (Account demo_state) (2, 0, 7) \<and> owner 0 7 demo_state = Some 2 \<and>
   contains_key (CollectionAccount demo_state) (1, 0) \<and> collection_owner 0 demo_state = Some 1"
proof -
  have "owner 0 7 demo_state = Some 2" "collection_owner 0 demo_state = Some 1"
    by (simp_all add: eval demo_state_def)
  with reachable_indexes [OF demo_reachable, of 2 0 7] reachable_indexes [OF demo_reachable, of 1 0 7]
  show ?thesis by simp
qed

text \<open>C3: as long as fewer than \<open>2 ^ 31\<close> calls have succeeded, the counters of a collection are
  exact: its items, its item metadata and its item configurations are counted correctly, so the
  saturating arithmetic never hides a lost update.\<close>

theorem reachable_counters:
  assumes "reachable cfg n s" and "2 * n \<le> u32_max" and "sget (Collection s) c = Some d"
  shows "cd_items d = card {i. contains_key (Item s) (c, i)} \<and>
    cd_item_metadatas d = card {i. contains_key (ItemMetadataOf s) (c, i)} \<and>
    cd_item_configs d = card {i. contains_key (ItemConfigOf s) (c, i)}"
proof -
  have in_coll: "card (in_coll c K) = card {i. (c, i) \<in> K}" for K :: "item_key set"
  proof -
    have "in_coll c K = Pair c ` {i. (c, i) \<in> K}" by (auto simp: in_coll_def)
    then show ?thesis by (simp add: card_image inj_on_def)
  qed
  have "summary_ok (2 * n) (registry_of s) c (summary_of d)"
    using reachable_wf [OF assms(1,2)] assms(3) by (simp add: registry_wf_def registry_counts_alt)
  then show ?thesis
    by (simp add: summary_ok_def in_coll dom_def contains_key_def)
qed

theorem reachable_counters_witness:
  "sget (Collection demo_state) 0 \<noteq> None \<and> card {i. contains_key (Item demo_state) (0, i)} = 1"
proof -
  obtain d where d: "sget (Collection demo_state) 0 = Some d" "cd_items d = 1"
    by (simp add: eval demo_state_def)
  show ?thesis using reachable_counters [OF demo_reachable _ d(1)] d small_budget [of 3] by simp
qed

text \<open>C4: what every entry refers to. An item has a configuration; prices, swap offers and attribute
  approvals are kept only for items that exist; configurations and metadata of items (which may
  outlive an item that was burned while locked), metadata, roles and attributes of whatever kind are
  kept only in collections that exist; and a collection exists exactly when its configuration
  does.\<close>

theorem reachable_references:
  assumes "reachable cfg n s" and "2 * n \<le> u32_max"
  shows "(contains_key (Item s) (c, i) \<longrightarrow> contains_key (ItemConfigOf s) (c, i)) \<and>
    (contains_key (ItemConfigOf s) (c, i) \<or> contains_key (ItemMetadataOf s) (c, i) \<or>
       contains_key (CollectionMetadataOf s) c \<or> contains_key (CollectionRoleOf s) (c, a) \<or>
       contains_key (Attribute s) (c, mi, ns, k) \<longrightarrow> contains_key (Collection s) c) \<and>
    (contains_key (ItemPriceOf s) (c, i) \<or> contains_key (PendingSwapOf s) (c, i) \<or>
       contains_key (ItemAttributesApprovalsOf s) (c, i) \<longrightarrow> contains_key (Item s) (c, i)) \<and>
    (contains_key (CollectionConfigOf s) c \<longleftrightarrow> contains_key (Collection s) c)"
proof -
  have "registry_refs (registry_of s)"
    using reachable_wf [OF assms] by (simp add: registry_wf_def)
  moreover have "contains_key (CollectionRoleOf s) (c, a) \<Longrightarrow> contains_key (Collection s) c"
    using roles_ok_collection [of "core_of s" c a] reachable_inv [OF assms(1)]
    by (auto simp: nfts_inv_def core_ok_def item_supply_def contains_key_def)
  moreover have "contains_key (Attribute s) (c, mi, ns, k) \<Longrightarrow> contains_key (Collection s) c"
    using reachable_attributes [OF assms] by (auto simp: attributes_ok_def)
  ultimately show ?thesis using registry_refs_reads [of s c i] by blast
qed

theorem reachable_references_witness:
  "contains_key (Item demo_state) (0, 7) \<and> contains_key (ItemConfigOf demo_state) (0, 7) \<and>
   contains_key (CollectionRoleOf demo_state) (0, 1) \<and> contains_key (Collection demo_state) 0"
proof -
  have "contains_key (Item demo_state) (0, 7)" "contains_key (CollectionRoleOf demo_state) (0, 1)"
    by (simp_all add: eval demo_state_def)
  with reachable_references [OF demo_reachable small_budget, of 0 7 1] show ?thesis by simp
qed

section \<open>Destroying a collection\<close>

definition collection_gone :: "collection_id \<Rightarrow> 'x nfts \<Rightarrow> bool" where
  "collection_gone c s \<longleftrightarrow>
     sget (Collection s) c = None \<and> sget (CollectionConfigOf s) c = None \<and>
     sget (CollectionMetadataOf s) c = None \<and>
     (\<forall>a. \<not> contains_key (CollectionAccount s) (a, c)) \<and>
     (\<forall>a. \<not> contains_key (CollectionRoleOf s) (c, a)) \<and>
     (\<forall>a i. \<not> contains_key (Account s) (a, c, i)) \<and>
     (\<forall>i. \<not> contains_key (Item s) (c, i) \<and> \<not> contains_key (ItemConfigOf s) (c, i) \<and>
        \<not> contains_key (ItemMetadataOf s) (c, i) \<and> \<not> contains_key (ItemPriceOf s) (c, i) \<and>
        \<not> contains_key (PendingSwapOf s) (c, i) \<and> \<not> contains_key (ItemAttributesApprovalsOf s) (c, i)) \<and>
     (\<forall>mi ns k. \<not> contains_key (Attribute s) (c, mi, ns, k))"

lemma destroy_Inr:
  assumes "dispatch cfg og (Destroy c w) s = Inr s'"
  obtains w' mo where "do_destroy_collection cfg c w mo s = Inr (w', s')"
  using assms by (auto simp: destroy_def exec_simps)

text \<open>C5: a successful \<open>destroy\<close> leaves no entry keyed by the collection, in any of the thirteen
  storages with such keys: no record, configuration, metadata, role, attribute, item, price, offer,
  approval or index entry. What it does not touch are the entries that only name the collection:
  \<open>OwnershipAcceptance\<close>, keyed by account, and the swap offers of items of other collections.\<close>

theorem destroy_leaves_nothing:
  assumes "reachable cfg n s" and "2 * n + 2 \<le> u32_max" and "dispatch cfg og (Destroy c w) s = Inr s'"
  shows "collection_gone c s' \<and> OwnershipAcceptance s' = OwnershipAcceptance s \<and>
    PendingSwapOf s' = PendingSwapOf s"
proof -
  have s': "reachable cfg (Suc n) s'" by (rule reachable_call [OF assms(1,3)])
  have bound: "2 * Suc n \<le> u32_max" using assms(2) by simp
  from assms(3) obtain mo w' where "do_destroy_collection cfg c w mo s = Inr (w', s')"
    by (rule destroy_Inr)
  then have gone: "sget (Collection s') c = None"
    "sget (CollectionConfigOf s') c = None" "sget (CollectionMetadataOf s') c = None"
    "\<And>a. \<not> contains_key (CollectionRoleOf s') (c, a)" "\<And>mi ns k. \<not> contains_key (Attribute s') (c, mi, ns, k)"
    and kept: "OwnershipAcceptance s' = OwnershipAcceptance s" "PendingSwapOf s' = PendingSwapOf s"
    by (auto elim!: do_destroy_collection_Inr simp: storage_simps)
  then have none: "\<not> contains_key (Collection s') c" by (simp add: contains_key_def)
  have refs: "registry_refs (registry_of s')"
    using reachable_wf [OF s' bound] by (simp add: registry_wf_def)
  note reads = registry_refs_reads [OF refs]
  have index: "registry_index (registry_of s')"
    using reachable_inv [OF s'] by (simp add: nfts_inv_def)
  have item: "\<not> contains_key (Item s') (c, i)" for i using reads [of c i] none by blast
  then have "\<not> contains_key (Account s') (a, c, i)" for a i
    using index by (auto simp: registry_index_def contains_key_def)
  moreover have "\<not> contains_key (CollectionAccount s') (a, c)" for a
    using index gone(1) by (auto simp: registry_index_def)
  ultimately show ?thesis
    unfolding collection_gone_def using gone kept item none reads [of c] by blast
qed

definition demo_burnt :: "ledger nfts" where
  "demo_burnt = (case dispatch demo_cfg (Signed 2) (Burn 0 7) demo_state of Inr s \<Rightarrow> s | Inl _ \<Rightarrow> demo_state)"

lemma demo_burn: "dispatch demo_cfg (Signed 2) (Burn 0 7) demo_state = Inr demo_burnt"
  unfolding demo_burnt_def by (simp add: eval demo_state_def)

theorem destroy_leaves_nothing_witness:
  "\<exists>s'. dispatch demo_cfg (Signed 1) (Destroy 0 \<lparr>dw_item_metadatas = 0, dw_item_configs = 0,
     dw_attributes = 0\<rparr>) demo_burnt = Inr s' \<and> collection_gone 0 s'"
proof -
  obtain s' where s': "dispatch demo_cfg (Signed 1) (Destroy 0 \<lparr>dw_item_metadatas = 0,
      dw_item_configs = 0, dw_attributes = 0\<rparr>) demo_burnt = Inr s'"
    unfolding demo_burnt_def by (simp add: eval demo_state_def)
  have "reachable demo_cfg (Suc 3) demo_burnt" by (rule reachable_call [OF demo_reachable demo_burn])
  from destroy_leaves_nothing [OF this _ s'] s' show ?thesis by (simp add: u32_max_def)
qed

section \<open>Roles, approvals, caps and locks\<close>

lemma reachable_clear_roles:
  assumes "reachable cfg n s"
  shows "clear_roles c s = Inr (s\<lparr>CollectionRoleOf := remove_prefix (\<lambda>k. fst k = c) (CollectionRoleOf s)\<rparr>)"
proof -
  have ok: "roles_ok (core_of s)"
    using reachable_inv [OF assms] by (simp add: nfts_inv_def core_ok_def)
  have "clear_prefix (\<lambda>k. fst k = c) collection_roles_max_roles (CollectionRoleOf s) =
      (remove_prefix (\<lambda>k. fst k = c) (CollectionRoleOf s), False)"
    using clear_prefix_all [OF roles_ok_count [OF ok, of c]] by simp
  then show ?thesis by (simp add: clear_roles_Inr)
qed

text \<open>C6: in every reachable state each role of a collection has at most one holder, so the team
  can always be replaced: clearing the roles never runs into its limit of three entries.\<close>

theorem reachable_roles:
  assumes "reachable cfg n s"
  shows "(has_role c a r s \<longrightarrow> has_role c b r s \<longrightarrow> a = b) \<and>
    clear_roles c s = Inr (s\<lparr>CollectionRoleOf := remove_prefix (\<lambda>k. fst k = c) (CollectionRoleOf s)\<rparr>)"
proof -
  have ok: "roles_ok (core_of s)"
    using reachable_inv [OF assms] by (simp add: nfts_inv_def core_ok_def)
  have "has_role c a r s \<longrightarrow> has_role c b r s \<longrightarrow> a = b"
    using roles_ok_unique [OF ok] by (auto simp: has_role_def split: option.splits)
  with reachable_clear_roles [OF assms, of c] show ?thesis by simp
qed

theorem reachable_roles_witness:
  "has_role 0 1 Admin demo_state \<and>
   clear_roles 0 demo_state = Inr (demo_state\<lparr>CollectionRoleOf := []\<rparr>)"
proof -
  have "has_role 0 1 Admin demo_state" by (simp add: eval demo_state_def)
  moreover have "remove_prefix (\<lambda>k. fst k = 0) (CollectionRoleOf demo_state) = []"
    by (simp add: eval demo_state_def)
  ultimately show ?thesis using reachable_roles [OF demo_reachable, of 0 1 Admin 1] by simp
qed

lemma find_SomeD: "List.find P xs = Some x \<Longrightarrow> x \<in> set xs \<and> P x"
  by (induction xs) (auto split: if_splits)

text \<open>\<open>find_account_by_role\<close> does not depend on the iteration order of the storage: in every
  reachable state it returns an account exactly when that account has the role.\<close>

theorem find_account_by_role_exact:
  assumes "reachable cfg n s"
  shows "find_account_by_role c r s = Some a \<longleftrightarrow> has_role c a r s"
proof -
  have ok: "roles_ok (core_of s)"
    using reachable_inv [OF assms] by (simp add: nfts_inv_def core_ok_def)
  have mem: "((c, a), x) \<in> set (CollectionRoleOf s) \<longleftrightarrow> sget (CollectionRoleOf s) (c, a) = Some x" for a x
    using roles_ok_wf [OF ok] by (simp add: sget_def storage_wf_def map_of_eq_Some_iff)
  show ?thesis
  proof
    assume "find_account_by_role c r s = Some a"
    then obtain x where "((c, a), x) \<in> set (CollectionRoleOf s)" "collection_roles_has_role x r"
      by (auto simp: find_account_by_role_def iter_prefix_def dest!: find_SomeD)
    then show "has_role c a r s" by (simp add: mem has_role_def)
  next
    assume a: "has_role c a r s"
    then obtain x where x: "sget (CollectionRoleOf s) (c, a) = Some x" "collection_roles_has_role x r"
      by (auto simp: has_role_def split: option.splits)
    let ?l = "iter_prefix (\<lambda>k. fst k = c) (CollectionRoleOf s)"
    have "List.find (\<lambda>e. collection_roles_has_role (snd e) r) ?l \<noteq> None"
      using x by (auto simp: find_None_iff iter_prefix_def mem [symmetric])
    then obtain e where e: "List.find (\<lambda>e. collection_roles_has_role (snd e) r) ?l = Some e" by blast
    then have "e \<in> set ?l" "collection_roles_has_role (snd e) r"
      by (auto dest: find_SomeD)
    then have "e = ((c, snd (fst e)), snd e)" "sget (CollectionRoleOf s) (c, snd (fst e)) = Some (snd e)"
      using mem [of "snd (fst e)" "snd e"] by (auto simp: iter_prefix_def prod_eq_iff)
    then have "snd (fst e) = a"
      using roles_ok_unique [OF ok _ \<open>collection_roles_has_role (snd e) r\<close>] x by simp
    with e show "find_account_by_role c r s = Some a" by (simp add: find_account_by_role_def)
  qed
qed

theorem find_account_by_role_exact_witness:
  "find_account_by_role 0 Freezer demo_state = Some 1 \<and> find_account_by_role 5 Freezer demo_state \<noteq> Some 1"
proof -
  have "has_role 0 1 Freezer demo_state" "\<not> has_role 5 1 Freezer demo_state"
    by (simp_all add: eval demo_state_def)
  then show ?thesis using find_account_by_role_exact [OF demo_reachable] by simp
qed

text \<open>C7: no item ever has more transfer approvals than \<open>ApprovalsLimit\<close>.\<close>

theorem approvals_bounded:
  assumes "reachable cfg n s" and "sget (Item s) (c, i) = Some d"
  shows "length (it_approvals d) \<le> approvals_limit cfg"
  using reachable_inv [OF assms(1)] assms(2) by (auto simp: nfts_inv_def core_ok_def approvals_ok_def)

theorem approvals_bounded_witness:
  "\<exists>d. sget (Item demo_state) (0, 7) = Some d \<and> it_approvals d \<noteq> [] \<and> length (it_approvals d) \<le> 2"
proof -
  obtain d where d: "sget (Item demo_state) (0, 7) = Some d" "it_approvals d \<noteq> []"
    by (simp add: eval demo_state_def)
  with approvals_bounded [OF demo_reachable d(1)] show ?thesis by (simp add: demo_cfg_def)
qed

text \<open>C8: without forced reconfiguration no run ever takes a collection above its maximum supply,
  however it is minted (by the issuer, publicly, by holders of another collection, pre-signed or
  by force) and however the cap itself is changed in between.\<close>

theorem supply_capped:
  assumes "nfts_runs cfg (\<lambda>(og, call). \<forall>c cc. call \<noteq> ForceCollectionConfig c cc) n (nfts_genesis x) s"
    and "sget (Collection s) c = Some d" and "sget (CollectionConfigOf s) c = Some cc"
    and "cc_max_supply cc = Some m"
  shows "cd_items d \<le> m"
proof -
  let ?ok = "\<lambda>(og :: origin, call). Reconfigure \<notin> powers_of call"
  have "(\<lambda>(og :: origin, call). \<forall>c cc. call \<noteq> ForceCollectionConfig c cc) = ?ok"
    by (auto simp: fun_eq_iff powers_of_def split: call.splits)
  then have "runs (nfts_step cfg) only_ext ?ok n (nfts_genesis x) s"
    using assms(1) by (simp add: nfts_runs_def)
  moreover have "capped (core_of (nfts_genesis x))"
    by (simp add: capped_def core_of_def nfts_genesis_def item_supply_def)
  ultimately have "capped (core_of s)" by (rule nft_cap.runs_inv)
  with assms(2-4) show ?thesis by (auto simp: capped_def item_supply_def)
qed

theorem supply_capped_witness:
  "\<exists>d. sget (Collection demo_state) 0 = Some d \<and> cd_items d = 1 \<and> cd_items d \<le> 2"
proof -
  let ?ok = "\<lambda>(og :: origin, call). \<forall>c cc. call \<noteq> ForceCollectionConfig c cc"
  from demo_play obtain s1 s2 where
    "dispatch demo_cfg (Signed 1) (Create [1] demo_config) demo_start = Inr s1"
    "dispatch demo_cfg (Signed 1) (Mint 0 7 [2] None) s1 = Inr s2"
    "dispatch demo_cfg (Signed 2) (ApproveTransfer 0 7 [3] (Some 20)) s2 = Inr demo_state"
    unfolding andthen_Inr by blast
  then have "nfts_runs demo_cfg ?ok (Suc (Suc (Suc 0))) demo_start demo_state"
    by (elim nfts_runs_call [rotated 2]) (auto intro: nfts_runs_start)
  then have run: "nfts_runs demo_cfg ?ok 3 demo_start demo_state" by (simp add: numeral_3_eq_3)
  obtain d where d: "sget (Collection demo_state) 0 = Some d" "cd_items d = 1"
    by (simp add: eval demo_state_def)
  have cc: "sget (CollectionConfigOf demo_state) 0 = Some demo_config" "cc_max_supply demo_config = Some 2"
    by (simp_all add: demo_state_def sget_def demo_config_def)
  from supply_capped [OF run [unfolded demo_start_def] d(1) cc] d show ?thesis by simp
qed

text \<open>C9: locking is one-way. Once a setting of a collection is disabled, every run of calls by
  anyone that neither destroys a collection nor forces a configuration leaves it disabled.\<close>

theorem collection_lock_permanent:
  assumes "nfts_runs cfg (\<lambda>(og, call). \<forall>c cc w. call \<noteq> ForceCollectionConfig c cc \<and> call \<noteq> Destroy c w) n s s'"
    and "contains_key (Collection s) c" and "sget (CollectionConfigOf s) c = Some cc"
    and "collection_config_has_disabled_setting cc st"
  shows "\<exists>cc'. sget (CollectionConfigOf s') c = Some cc' \<and> collection_config_has_disabled_setting cc' st"
proof -
  let ?ok = "\<lambda>(og :: origin, call). powers_of call = {}"
  have "(\<lambda>(og :: origin, call). \<forall>c cc w. call \<noteq> ForceCollectionConfig c cc \<and> call \<noteq> Destroy c w) = ?ok"
    by (auto simp: fun_eq_iff powers_of_def split: call.splits)
  then have "runs (nfts_step cfg) only_ext ?ok n s s'"
    using assms(1) by (simp add: nfts_runs_def)
  moreover have "locked_setting c st (core_of s)"
    using assms(2-4) by (auto simp: locked_setting_def item_supply_def contains_key_def
        collection_config_has_disabled_setting_def)
  ultimately have "locked_setting c st (core_of s')" by (rule nft_locked.runs_inv)
  then show ?thesis by (simp add: locked_setting_def collection_config_has_disabled_setting_def)
qed

definition demo_locked :: "ledger nfts" where
  "demo_locked = (case dispatch demo_cfg (Signed 1) (LockCollection 0 1) demo_state of Inr s \<Rightarrow> s | Inl _ \<Rightarrow> demo_state)"

theorem collection_lock_permanent_witness:
  "\<exists>cc'. sget (CollectionConfigOf (demo_locked\<lparr>ext := ext demo_start\<rparr>)) 0 = Some cc' \<and>
     collection_config_has_disabled_setting cc' TransferableItems"
proof -
  have "only_ext demo_locked (demo_locked\<lparr>ext := ext demo_start\<rparr>)" by (rule only_ext_upd)
  then have run: "nfts_runs demo_cfg (\<lambda>(og, call). \<forall>c cc w. call \<noteq> ForceCollectionConfig c cc \<and> call \<noteq> Destroy c w)
      0 demo_locked (demo_locked\<lparr>ext := ext demo_start\<rparr>)"
    by (rule nfts_runs_world [OF nfts_runs_start])
  obtain cc where "contains_key (Collection demo_locked) 0" "sget (CollectionConfigOf demo_locked) 0 = Some cc"
    "collection_config_has_disabled_setting cc TransferableItems"
    by (simp add: demo_locked_def eval demo_state_def set_bit_eq_or)
  then show ?thesis by (rule collection_lock_permanent [OF run])
qed

text \<open>C10: the metadata and attribute locks of an item are one-way for everybody, the force origin
  included, and survive burning and re-minting the item: only destroying a collection ends them.\<close>

theorem item_lock_permanent:
  assumes "nfts_runs cfg (\<lambda>(og, call). \<forall>c w. call \<noteq> Destroy c w) n s s'"
    and "sget (ItemConfigOf s) (c, i) = Some ic" and "item_config_has_disabled_setting ic st"
    and "st \<noteq> Transferable"
  shows "\<exists>ic'. sget (ItemConfigOf s') (c, i) = Some ic' \<and> item_config_has_disabled_setting ic' st"
proof -
  let ?ok = "\<lambda>(og :: origin, call). Demolish \<notin> powers_of call"
  have "(\<lambda>(og :: origin, call). \<forall>c w. call \<noteq> Destroy c w) = ?ok"
    by (auto simp: fun_eq_iff powers_of_def split: call.splits)
  then have "runs (nfts_step cfg) only_ext ?ok n s s'"
    using assms(1) by (simp add: nfts_runs_def)
  moreover have "st \<noteq> Transferable \<and> locked_item c i st (core_of s)"
    using assms(2-4) by (simp add: locked_item_def item_config_has_disabled_setting_def)
  ultimately have "st \<noteq> Transferable \<and> locked_item c i st (core_of s')"
    by (rule nft_locked_item.runs_inv)
  then show ?thesis by (simp add: locked_item_def item_config_has_disabled_setting_def)
qed

definition demo_item_locked :: "ledger nfts" where
  "demo_item_locked =
     (case dispatch demo_cfg (Signed 1) (LockItemProperties 0 7 True False) demo_state of
        Inr s \<Rightarrow> s | Inl _ \<Rightarrow> demo_state)"

theorem item_lock_permanent_witness:
  "\<exists>s' ic'. dispatch demo_cfg (Signed 2) (Burn 0 7) demo_item_locked = Inr s' \<and>
     sget (ItemConfigOf s') (0, 7) = Some ic' \<and>
     item_config_has_disabled_setting ic' item_setting.UnlockedMetadata"
proof -
  obtain s' where s': "dispatch demo_cfg (Signed 2) (Burn 0 7) demo_item_locked = Inr s'"
    by (simp add: demo_item_locked_def eval demo_state_def set_bit_eq_or)
  have run: "nfts_runs demo_cfg (\<lambda>(og, call). \<forall>c w. call \<noteq> Destroy c w) (Suc 0) demo_item_locked s'"
    using nfts_runs_call [OF nfts_runs_start _ s'] by simp
  obtain ic where "sget (ItemConfigOf demo_item_locked) (0, 7) = Some ic"
    "item_config_has_disabled_setting ic item_setting.UnlockedMetadata"
    by (simp add: demo_item_locked_def eval demo_state_def set_bit_eq_or)
  from item_lock_permanent [OF run this] s' show ?thesis by blast
qed

end
