(* ===== verification/Nfts_Behaviour.thy ===== *)
theory Nfts_Behaviour
  imports Nfts_Safety
begin

text \<open>
  What single calls of the NFTs pallet do and refuse: who can move an item, the effect of sales,
  swaps, mints and team changes, and the errors of the guards.
\<close>

section \<open>Who can take an item from its owner\<close>

definition approved :: "('x, 'e) config \<Rightarrow> account_id \<Rightarrow> collection_id \<Rightarrow> item_id \<Rightarrow> 'x nfts \<Rightarrow> bool" where
  "approved cfg b c i s \<longleftrightarrow>
     (case sget (Item s) (c, i) of
        None \<Rightarrow> False
      | Some d \<Rightarrow>
          (case sget (it_approvals d) b of
             None \<Rightarrow> False
           | Some deadline \<Rightarrow> pred_option (\<lambda>t. now cfg s \<le> t) deadline))"

definition may_take ::
  "('x, 'e) config \<Rightarrow> origin \<Rightarrow> call \<Rightarrow> collection_id \<Rightarrow> item_id \<Rightarrow> account_id \<Rightarrow> 'x nfts \<Rightarrow> bool" where
  "may_take cfg og call c i a s \<longleftrightarrow>
     (case call of
        Transfer c' i' l \<Rightarrow>
          (c', i') = (c, i) \<and> (\<exists>b. og = Signed b \<and> (b = a \<or> approved cfg b c i s))
      | Burn c' i' \<Rightarrow> (c', i') = (c, i) \<and> (og = Signed a \<or> force_origin cfg og)
      | BuyItem c' i' bid \<Rightarrow>
          (c', i') = (c, i) \<and> (\<exists>p w. sget (ItemPriceOf s) (c, i) = Some (p, w) \<and> p \<le> bid \<and>
            (\<exists>b. og = Signed b \<and> (w = None \<or> w = Some b)))
      | ClaimSwap c1 i1 c2 i2 p \<Rightarrow>
          (c1, i1) = (c, i) \<and> og = Signed a \<or>
          (c2, i2) = (c, i) \<and> (\<exists>sw. sget (PendingSwapOf s) (c, i) = Some sw \<and>
            now cfg s \<le> sw_deadline sw \<and> sw_price sw = p \<and> sw_desired_collection sw = c1)
      | _ \<Rightarrow> False)"

lemma owner_silent: "registry_of s' = registry_of s \<Longrightarrow> owner c i s' = owner c i s"
  using registry_of_fields(1) [of s' c i] registry_of_fields(1) [of s c i] by (simp add: owner_def)

lemma owner_quiet: "core_of s' = core_of s \<Longrightarrow> owner c i s' = owner c i s"
  using core_of_fields(5) [of s'] core_of_fields(5) [of s] unfolding owner_def by metis

lemma owner_transfer:
  assumes "do_transfer cfg c i dest no_details_check s = Inr s'"
  shows "owner c' i' s' = (if (c', i') = (c, i) then Some dest else owner c' i' s)"
  using assms
  by (auto simp: do_transfer_def Let_def exec_simps no_details_check_def owner_def deposit_event_def storage_simps)

lemma ensure_signed_Inr [exec_simps]: "ensure_signed og = Inr a \<longleftrightarrow> og = Signed a"
  by (cases og) auto

lemma do_lookup_Inr [exec_simps]: "do_lookup cfg l = Inr a \<longleftrightarrow> lookup cfg l = Inr a"
  by (simp add: do_lookup_def split: sum.splits)

lemma transfer_check_Inr [exec_simps]:
  "transfer_check b t cd d = Inr d' \<longleftrightarrow> d' = d \<and> (it_owner d = b \<or>
     (\<exists>deadline. sget (it_approvals d) b = Some deadline \<and> pred_option (\<lambda>x. t \<le> x) deadline))"
  by (auto simp: transfer_check_def exec_simps)

lemma transfer_Inr:
  assumes "transfer cfg og c i l s = Inr s'"
  obtains b dest d where "og = Signed b" "lookup cfg l = Inr dest" "sget (Item s) (c, i) = Some d"
    "it_owner d = b \<or> approved cfg b c i s"
    "s' = deposit_event (Transferred c i (it_owner d) dest)
       (s\<lparr>Account := sput (dest, c, i) () (sdel (it_owner d, c, i) (Account s)),
          Item := sput (c, i) (d\<lparr>it_owner := dest, it_approvals := []\<rparr>) (Item s),
          ItemPriceOf := sdel (c, i) (ItemPriceOf s),
          PendingSwapOf := sdel (c, i) (PendingSwapOf s)\<rparr>)"
  using assms by (auto simp: transfer_def do_transfer_def Let_def exec_simps approved_def)

lemma burn_Inr:
  fixes cfg :: "('x, 'e) config"
  assumes "burn cfg og c i s = Inr s'"
  obtains d where "sget (Item s) (c, i) = Some d" "og = Signed (it_owner d) \<or> force_origin cfg og"
proof -
  from assms obtain mo d where "force_or_signed cfg og = (Inr mo :: 'e call_error + _)"
    and d: "sget (Item s) (c, i) = Some d" and "burn_check mo d = (Inr () :: 'e call_error + _)"
    unfolding burn_def do_burn_def Let_def exec_simps by auto
  then have "og = Signed (it_owner d) \<or> force_origin cfg og"
    by (auto simp: force_or_signed_def burn_check_def exec_simps split: if_splits)
  with d show ?thesis by (rule that)
qed

lemma owner_burn:
  assumes "do_burn cfg c i wd s = Inr s'"
  shows "owner c' i' s' = (if (c', i') = (c, i) then None else owner c' i' s)"
proof -
  from assms obtain ic cd d where ic: "sget (ItemConfigOf s) (c, i) = Some ic"
    and cd: "sget (Collection s) c = Some cd" and d: "sget (Item s) (c, i) = Some d"
    unfolding do_burn_def Let_def exec_simps by blast
  have "Item s' = sdel (c, i) (Item s)"
    using assms ic cd d unfolding do_burn_def Let_def exec_simps
    apply (cases "sget (ItemMetadataOf s) (c, i)"; cases "item_config_is_setting_enabled ic item_setting.UnlockedMetadata")
    apply (simp_all split del: if_split)
    apply (elim conjE exE, hypsubst, simp add: deposit_event_def)+
    done
  then show ?thesis by (auto simp: owner_def storage_simps)
qed

lemma owner_mint:
  assumes "do_mint cfg c i md mt ic wd s = Inr s'"
    and "\<And>cd cc t t'. wd cd cc t = Inr t' \<Longrightarrow> core_of t' = core_of t"
    and "owner c' i' s = Some a"
  shows "owner c' i' s' = Some a"
proof -
  from do_mint_Inr [OF assms(1)] obtain d cc t w where i: "\<not> contains_key (Item s) (c, i)"
    and t: "wd d cc s = Inr t" and s': "Item s' = sput (c, i) w (Item t)"
    by (auto simp: Let_def deposit_event_def)
  have "Item t = Item s" using core_of_fields(5) [of t] assms(2) [OF t] by simp
  with s' i assms(3) show ?thesis by (auto simp: owner_def storage_simps contains_key_def)
qed

lemma do_transfer_ext: "do_transfer cfg c i dest no_details_check s = Inr s' \<Longrightarrow> ext s' = ext s"
  by (auto simp: do_transfer_def Let_def exec_simps no_details_check_def deposit_event_def)

text \<open>Who pays whom when a swap is claimed: with \<open>Send\<close> the creator of the offer pays, with \<open>Receive\<close>
  the one who claims it.\<close>

definition swap_paid ::
  "('x, 'e) config \<Rightarrow> account_id \<Rightarrow> account_id \<Rightarrow> price_with_direction option \<Rightarrow> 'x \<Rightarrow> 'x \<Rightarrow> bool" where
  "swap_paid cfg claimer creator p x y \<longleftrightarrow>
     (case p of
        None \<Rightarrow> y = x
      | Some price \<Rightarrow>
          (case pd_direction price of
             Send \<Rightarrow> currency_transfer_keep_alive cfg creator claimer (pd_amount price) x = Inr y
           | Receive \<Rightarrow> currency_transfer_keep_alive cfg claimer creator (pd_amount price) x = Inr y))"

lemma swap_payment_paid:
  "(case mp of
      None \<Rightarrow> Inr s
    | Some price \<Rightarrow>
        (case pd_direction price of
           Send \<Rightarrow> on_ext (currency_transfer_keep_alive cfg b a (pd_amount price)) s
         | Receive \<Rightarrow> on_ext (currency_transfer_keep_alive cfg a b (pd_amount price)) s)) = Inr t
   \<Longrightarrow> only_ext s t \<and> swap_paid cfg a b mp (ext s) (ext t)"
  by (auto simp: exec_simps swap_paid_def only_ext_refl only_ext_upd
      split: option.splits price_direction.splits)

lemma claim_swap_Inr:
  assumes "do_claim_swap cfg a c1 i1 c2 i2 p s = Inr s'"
  obtains d1 d2 sw where "sget (Item s) (c1, i1) = Some d1" "it_owner d1 = a"
    "sget (Item s) (c2, i2) = Some d2" "sget (PendingSwapOf s) (c2, i2) = Some sw"
    "sw_desired_collection sw = c1" "sw_price sw = p" "now cfg s \<le> sw_deadline sw"
    "pred_option (\<lambda>i. i = i1) (sw_desired_item sw)"
    "swap_paid cfg a (it_owner d2) p (ext s) (ext s')"
    "\<And>c i. owner c i s' = (if (c, i) = (c2, i2) then Some a
       else if (c, i) = (c1, i1) then Some (it_owner d2) else owner c i s)"
proof -
  from assms obtain d1 d2 sw t u v where facts: "sget (Item s) (c1, i1) = Some d1" "it_owner d1 = a"
    "sget (Item s) (c2, i2) = Some d2" "sget (PendingSwapOf s) (c2, i2) = Some sw"
    "sw_desired_collection sw = c1" "sw_price sw = p" "now cfg s \<le> sw_deadline sw"
    "pred_option (\<lambda>i. i = i1) (sw_desired_item sw)"
    and paid: "only_ext s t \<and> swap_paid cfg (it_owner d1) (it_owner d2) (sw_price sw) (ext s) (ext t)"
    and t: "do_transfer cfg c1 i1 (it_owner d2) no_details_check t = Inr u"
    and u: "do_transfer cfg c2 i2 (it_owner d1) no_details_check u = Inr v"
    and s': "s' = deposit_event (SwapClaimed c1 i1 (it_owner d1) c2 i2 (it_owner d2) (sw_price sw) (sw_deadline sw)) v"
    unfolding do_claim_swap_def exec_simps
    apply (elim exE conjE)
    apply (rule that)
               apply assumption+
       apply (rule swap_payment_paid)
       apply assumption+
    apply (simp only: sum.inject)
    done
  have "owner c i t = owner c i s" for c i
    using paid by (auto elim!: only_extE simp: owner_def)
  then have "owner c i s' = (if (c, i) = (c2, i2) then Some a
      else if (c, i) = (c1, i1) then Some (it_owner d2) else owner c i s)" for c i
    using owner_transfer [OF t] owner_transfer [OF u] facts(2)
    by (simp add: s' owner_def deposit_event_def)
  moreover have "ext s' = ext t"
    using do_transfer_ext [OF t] do_transfer_ext [OF u] by (simp add: s' deposit_event_def)
  ultimately show ?thesis using facts paid by (intro that) auto
qed

lemma buy_item_Inr:
  assumes "do_buy_item cfg c i b bid s = Inr s'"
  obtains d price w where "sget (Item s) (c, i) = Some d" "it_owner d \<noteq> b"
    "sget (ItemPriceOf s) (c, i) = Some (price, w)" "price \<le> bid" "w = None \<or> w = Some b"
    "currency_transfer_keep_alive cfg b (it_owner d) price (ext s) = Inr (ext s')"
    "sget (Item s') (c, i) = Some (d\<lparr>it_owner := b, it_approvals := []\<rparr>)"
    "ItemPriceOf s' = sdel (c, i) (ItemPriceOf s)" "PendingSwapOf s' = sdel (c, i) (PendingSwapOf s)"
    "\<And>k. k \<noteq> (c, i) \<Longrightarrow> sget (Item s') k = sget (Item s) k"
proof -
  from assms obtain d price w x u where facts: "sget (Item s) (c, i) = Some d" "it_owner d \<noteq> b"
    "sget (ItemPriceOf s) (c, i) = Some (price, w)" "price \<le> bid" "pred_option (\<lambda>a. a = b) w"
    and x: "currency_transfer_keep_alive cfg b (it_owner d) price (ext s) = Inr x"
    and u: "do_transfer cfg c i b no_details_check (s\<lparr>ext := x\<rparr>) = Inr u"
    and s': "s' = deposit_event (ItemBought c i price (it_owner d) b) u"
    by (auto simp: do_buy_item_def exec_simps)
  from u facts(1) have "ext u = x" "sget (Item u) (c, i) = Some (d\<lparr>it_owner := b, it_approvals := []\<rparr>)"
    "ItemPriceOf u = sdel (c, i) (ItemPriceOf s)" "PendingSwapOf u = sdel (c, i) (PendingSwapOf s)"
    "\<And>k. k \<noteq> (c, i) \<Longrightarrow> sget (Item u) k = sget (Item s) k"
    by (auto simp: do_transfer_def Let_def exec_simps no_details_check_def deposit_event_def storage_simps
        split: if_splits)
  moreover have "w = None \<or> w = Some b" using facts(5) by (cases w) auto
  ultimately show ?thesis using facts x by (intro that) (auto simp: s' deposit_event_def)
qed

lemma owner_create: "do_create_collection cfg c own adm cc dep ev s = Inr s' \<Longrightarrow> Item s' = Item s"
  by (auto simp: do_create_collection_def Let_def exec_simps deposit_event_def split: option.splits)

lemma owner_create_call:
  "create cfg og a cc s = Inr s' \<Longrightarrow> Item s' = Item s"
  "force_create cfg og a cc s = Inr s' \<Longrightarrow> Item s' = Item s"
  by (auto simp: create_def force_create_def exec_simps set_next_collection_id_def Let_def deposit_event_def
      dest: owner_create)

lemma owner_mint_call:
  "mint cfg og c i b mw s = Inr s' \<Longrightarrow> owner c' i' s = Some a \<Longrightarrow> owner c' i' s' = Some a"
  "force_mint cfg og c i b ic s = Inr s' \<Longrightarrow> owner c' i' s = Some a \<Longrightarrow> owner c' i' s' = Some a"
  by (auto simp: mint_def force_mint_def exec_simps no_mint_check_def dest: owner_mint quiet_mint_check)

lemma owner_mint_pre_signed:
  assumes "do_mint_pre_signed cfg mt data sg s = Inr s'" and "owner c i s = Some a"
  shows "owner c i s' = Some a"
proof -
  let ?wd = "\<lambda>d _ s. case psm_mint_price data of
    Some price \<Rightarrow> currency_transfer cfg mt (cd_owner d) price s | None \<Rightarrow> Inr s"
  have keeps: "?wd cd cc t = Inr t' \<Longrightarrow> core_of t' = core_of t" for cd cc t t'
    by (auto simp: case_option_Inr exec_simps)
  from assms(1) obtain ic t where t: "do_mint cfg (psm_collection data) (psm_item data) (Some mt) mt ic ?wd s = Inr t"
    and "core_of s' = core_of t"
    unfolding do_mint_pre_signed_def Let_def construct_metadata_def exec_simps case_option_Inr
    by (auto simp: exec_simps split: if_splits dest!: quiet)
  then have "owner c i s' = owner c i t" by (intro owner_quiet)
  also have "\<dots> = Some a" by (rule owner_mint [OF t keeps assms(2)])
  finally show ?thesis .
qed

lemma owner_destroy: "destroy cfg og c w s = Inr s' \<Longrightarrow> Item s' = Item s"
  by (auto simp: destroy_def exec_simps elim: do_destroy_collection_Inr)

lemma owner_other_calls:
  "do_force_collection_config c cc s = Inr s' \<Longrightarrow> Item s' = Item s"
  by (auto simp: do_force_collection_config_def exec_simps deposit_event_def)

lemma owner_same_item: "Item s' = Item s \<Longrightarrow> owner c i s' = owner c i s"
  by (simp add: owner_def)

definition same_owners :: "'x nfts \<Rightarrow> 'x nfts \<Rightarrow> bool" where
  "same_owners s s' \<longleftrightarrow> (\<forall>c i. owner c i s' = owner c i s)"

lemma same_ownersI:
  "registry_of s' = registry_of s \<Longrightarrow> same_owners s s'"
  "core_of s' = core_of s \<Longrightarrow> same_owners s s'"
  "Item s' = Item s \<Longrightarrow> same_owners s s'"
  unfolding same_owners_def by (blast intro: owner_silent owner_quiet owner_same_item)+

lemmas owner_keeps =
  silent [THEN same_ownersI(1)] silent_redeposit [THEN same_ownersI(1)]
  quiet [THEN same_ownersI(2)] owner_create_call [THEN same_ownersI(3)]
  owner_destroy [THEN same_ownersI(3)] owner_other_calls [THEN same_ownersI(3)]

text \<open>C15: an item leaves its owner only with the owner's consent. Whatever call is made and whoever
  makes it, if the item is no longer owned by \<open>a\<close> afterwards then the call was a transfer by \<open>a\<close> or
  by a delegate whose approval has not expired, a burn by \<open>a\<close> or the force origin, a purchase at no
  less than the price set for the item by an allowed buyer, or a swap: one claimed by \<open>a\<close>, or the
  claim of an offer pending for the item, before its deadline and at its price.\<close>

theorem owner_consent:
  assumes "dispatch cfg og call s = Inr s'" and "owner c i s = Some a" and "owner c i s' \<noteq> Some a"
  shows "may_take cfg og call c i a s"
proof (cases call)
  case (Transfer c' i' l)
  with assms(1) have "transfer cfg og c' i' l s = Inr s'" by simp
  then show ?thesis
    by (rule transfer_Inr)
       (use assms(2,3) Transfer in \<open>auto simp: may_take_def owner_def deposit_event_def storage_simps split: if_splits\<close>)
next
  case (Burn c' i')
  with assms(1) have b: "burn cfg og c' i' s = Inr s'" by simp
  then have "owner c i s' = owner c i s \<or> (c', i') = (c, i)"
    by (auto simp: burn_def exec_simps dest!: owner_burn [where c' = c and i' = i] split: if_splits)
  with b assms(2,3) Burn show ?thesis
    by (auto elim!: burn_Inr simp: may_take_def owner_def)
next
  case (BuyItem c' i' bid)
  with assms(1) obtain b where og: "og = Signed b" and b: "do_buy_item cfg c' i' b bid s = Inr s'"
    by (auto simp: buy_item_def exec_simps)
  from b show ?thesis
    by (rule buy_item_Inr)
       (use assms(2,3) BuyItem og in \<open>cases "(c, i) = (c', i')"; auto simp: may_take_def owner_def split: option.splits\<close>)
next
  case (ClaimSwap c1 i1 c2 i2 p)
  with assms(1) obtain b where og: "og = Signed b" and b: "do_claim_swap cfg b c1 i1 c2 i2 p s = Inr s'"
    by (auto simp: claim_swap_def exec_simps)
  from b show ?thesis
    by (rule claim_swap_Inr)
       (use assms(2,3) ClaimSwap og in \<open>auto simp: may_take_def owner_def split: if_splits\<close>)
next
  case (MintPreSigned data sig sg)
  with assms show ?thesis by (auto simp: mint_pre_signed_def exec_simps dest: owner_mint_pre_signed)
qed (insert assms, auto simp: thin_calls exec_simps dest!: owner_keeps dest: owner_mint_call
      simp: same_owners_def)

theorem owner_consent_witness:
  "\<exists>s'. dispatch demo_cfg (Signed 3) (Transfer 0 7 [3]) demo_state = Inr s' \<and>
     owner 0 7 demo_state = Some 2 \<and> owner 0 7 s' = Some 3 \<and>
     may_take demo_cfg (Signed 3) (Transfer 0 7 [3]) 0 7 2 demo_state"
proof -
  obtain s' where s': "dispatch demo_cfg (Signed 3) (Transfer 0 7 [3]) demo_state = Inr s'"
    "owner 0 7 demo_state = Some 2" "owner 0 7 s' = Some 3"
    by (simp add: eval demo_state_def)
  with owner_consent [OF s'(1,2)] show ?thesis by simp
qed

section \<open>Sales and swaps\<close>

text \<open>C16: buying pays the seller exactly the asking price, whatever higher bid was offered, and gives
  the buyer the item with no approvals, price or swap offer of the old owner left on it; no other
  item changes.\<close>

theorem buy_item_effect:
  assumes "dispatch cfg (Signed b) (BuyItem c i bid) s = Inr s'"
  shows "\<exists>seller price w. owner c i s = Some seller \<and> seller \<noteq> b \<and>
    sget (ItemPriceOf s) (c, i) = Some (price, w) \<and> price \<le> bid \<and> (w = None \<or> w = Some b) \<and>
    currency_transfer_keep_alive cfg b seller price (ext s) = Inr (ext s') \<and>
    map_option (\<lambda>d. (it_owner d, it_approvals d)) (sget (Item s') (c, i)) = Some (b, []) \<and>
    sget (ItemPriceOf s') (c, i) = None \<and> sget (PendingSwapOf s') (c, i) = None \<and>
    (\<forall>k. k \<noteq> (c, i) \<longrightarrow> sget (Item s') k = sget (Item s) k)"
proof -
  from assms have "do_buy_item cfg c i b bid s = Inr s'" by (simp add: buy_item_def)
  then show ?thesis by (rule buy_item_Inr) (auto simp: owner_def)
qed

definition demo_priced :: "ledger nfts" where
  "demo_priced = demo_state\<lparr>ItemPriceOf := [((0, 7), (40, None))]\<rparr>"

theorem buy_item_effect_witness:
  "\<exists>s'. dispatch demo_cfg (Signed 3) (BuyItem 0 7 50) demo_priced = Inr s' \<and>
     currency_transfer_keep_alive demo_cfg 3 2 40 (ext demo_priced) = Inr (ext s') \<and>
     sget (ItemPriceOf s') (0, 7) = None"
proof -
  obtain s' where s': "dispatch demo_cfg (Signed 3) (BuyItem 0 7 50) demo_priced = Inr s'"
    by (simp add: eval demo_state_def demo_priced_def)
  have "owner 0 7 demo_priced = Some 2" "sget (ItemPriceOf demo_priced) (0, 7) = Some (40, None)"
    by (simp_all add: eval demo_state_def demo_priced_def)
  with buy_item_effect [OF s'] s' show ?thesis by auto
qed

text \<open>C17: claiming a swap exchanges the two items between their owners, moves exactly the agreed
  price in the agreed direction, and changes the owner of no other item.\<close>

theorem claim_swap_exchanges:
  assumes "dispatch cfg (Signed a) (ClaimSwap c1 i1 c2 i2 p) s = Inr s'"
  shows "\<exists>b sw. owner c1 i1 s = Some a \<and> owner c2 i2 s = Some b \<and>
    sget (PendingSwapOf s) (c2, i2) = Some sw \<and> sw_price sw = p \<and> now cfg s \<le> sw_deadline sw \<and>
    swap_paid cfg a b p (ext s) (ext s') \<and>
    owner c2 i2 s' = Some a \<and> ((c1, i1) \<noteq> (c2, i2) \<longrightarrow> owner c1 i1 s' = Some b) \<and>
    (\<forall>c i. (c, i) \<noteq> (c1, i1) \<longrightarrow> (c, i) \<noteq> (c2, i2) \<longrightarrow> owner c i s' = owner c i s)"
proof -
  from assms have "do_claim_swap cfg a c1 i1 c2 i2 p s = Inr s'" by (simp add: claim_swap_def)
  then show ?thesis by (rule claim_swap_Inr) (auto simp: owner_def)
qed

definition demo_offer :: "ledger nfts" where
  "demo_offer = demo_state\<lparr>
     Item := ((0, 8), \<lparr>it_owner = 3, it_approvals = [], it_deposit = \<lparr>dep_account = 1, dep_amount = 5\<rparr>\<rparr>) # Item demo_state,
     ItemConfigOf := ((0, 8), \<lparr>ic_settings = 0\<rparr>) # ItemConfigOf demo_state,
     PendingSwapOf := [((0, 7), \<lparr>sw_desired_collection = 0, sw_desired_item = None,
       sw_price = Some \<lparr>pd_amount = 30, pd_direction = Receive\<rparr>, sw_deadline = 9\<rparr>)]\<rparr>"

theorem claim_swap_exchanges_witness:
  "\<exists>s'. dispatch demo_cfg (Signed 3) (ClaimSwap 0 8 0 7 (Some \<lparr>pd_amount = 30, pd_direction = Receive\<rparr>)) demo_offer = Inr s' \<and>
     owner 0 7 s' = Some 3 \<and> owner 0 8 s' = Some 2 \<and>
     ledger_transfer 3 2 30 (ext demo_offer) = Inr (ext s')"
proof -
  obtain s' where s': "dispatch demo_cfg (Signed 3) (ClaimSwap 0 8 0 7 (Some \<lparr>pd_amount = 30, pd_direction = Receive\<rparr>)) demo_offer = Inr s'"
    by (simp add: eval demo_state_def demo_offer_def)
  have "owner 0 7 demo_offer = Some 2" by (simp add: eval demo_state_def demo_offer_def)
  with claim_swap_exchanges [OF s'] s' show ?thesis by (auto simp: swap_paid_def demo_cfg_def)
qed

section \<open>Minting\<close>

text \<open>The part of \<open>mint_check\<close> that is specific to \<open>HolderOf\<close>: it needs an owned item that was not used
  yet, and marks it as used.\<close>

lemma mint_check_holder:
  fixes cfg :: "('x, 'e) config"
  assumes "mint_check cfg c a (Some mw) d cc s = Inr t"
    and "ms_mint_type (cc_mint_settings cc) = HolderOf g" and "mw_owned_item mw = Some item"
  obtains key where "contains_key (Account s) (a, g, item)"
    "construct_attribute_key cfg (encode_pallet_attribute cfg (UsedToClaim c)) = (Inr key :: 'e call_error + bytes)"
    "\<not> contains_key (Attribute s) (g, Some item, Pallet, key)"
    "marked (Attribute t) g (Some item) key"
  using assms
  by (auto simp: mint_check_def Let_def exec_simps case_option_Inr construct_attribute_key_def
      deposit_event_def storage_simps marked_def)

lemma mint_Inr:
  fixes cfg :: "('x, 'e) config"
  assumes "mint cfg (Signed a) c i l w s = Inr s'"
  obtains d cc t where "sget (CollectionConfigOf s) c = Some cc" "mint_check cfg c a w d cc s = Inr t"
    "Attribute s' = Attribute t" "CollectionConfigOf s' = CollectionConfigOf s"
proof -
  from assms obtain dest ds where
    m: "do_mint cfg c i (Some a) dest \<lparr>ic_settings = ds\<rparr> (mint_check cfg c a w) s = Inr s'"
    by (auto simp: mint_def exec_simps)
  from do_mint_Inr [OF m] obtain d cc t where t: "sget (CollectionConfigOf s) c = Some cc"
    "mint_check cfg c a w d cc s = Inr t" "Attribute s' = Attribute t"
    and "CollectionConfigOf s' = CollectionConfigOf t"
    by (auto simp: Let_def deposit_event_def)
  moreover have "CollectionConfigOf t = CollectionConfigOf s"
    using core_of_fields(3) [of t] quiet_mint_check [OF t(2)] by simp
  ultimately show ?thesis using that by simp
qed

text \<open>C18: an item of the gating collection \<open>g\<close> can be used to claim a mint into \<open>c\<close> only once. After a
  successful mint into a \<open>HolderOf g\<close> collection, let any calls succeed, by anyone, except those that
  may remove the pallet's mark (\<open>unmarks\<close>: destroying \<open>g\<close>, the force origin clearing an attribute of \<open>g\<close> in the
  namespace \<open>Pallet\<close> or setting one there with a depositor): whenever \<open>c\<close> is then gated by
  \<open>g\<close>, a mint that presents the same item is refused, whoever owns that item by then.\<close>

theorem holder_mints_once:
  fixes cfg :: "('x, 'e) config"
  assumes "dispatch cfg (Signed a) (Mint c i l (Some mw)) s = Inr s'"
    and "sget (CollectionConfigOf s) c = Some cc" and "ms_mint_type (cc_mint_settings cc) = HolderOf g"
    and "mw_owned_item mw = Some item"
    and "nfts_runs cfg (\<lambda>(og, call). g \<notin> unmarks cfg og call) n s' s''"
    and "sget (CollectionConfigOf s'') c = Some cc'" and "ms_mint_type (cc_mint_settings cc') = HolderOf g"
    and "mw_owned_item mw' = Some item"
  shows "contains_key (Account s) (a, g, item) \<and>
    (\<exists>e. dispatch cfg og (Mint c i' l' (Some mw')) s'' = Inl e)"
proof -
  from assms(1) have "mint cfg (Signed a) c i l (Some mw) s = Inr s'" by simp
  then obtain d t where check: "mint_check cfg c a (Some mw) d cc s = Inr t"
    and attr: "Attribute s' = Attribute t"
    by (rule mint_Inr) (use assms(2) in simp)
  from check assms(3,4) obtain key where own: "contains_key (Account s) (a, g, item)"
    and key: "construct_attribute_key cfg (encode_pallet_attribute cfg (UsedToClaim c)) = (Inr key :: 'e call_error + bytes)"
    and "marked (Attribute t) g (Some item) key"
    by (rule mint_check_holder)
  then have "marked (Attribute s') g (Some item) key" by (simp add: attr)
  with assms(5) have "marked (Attribute s'') g (Some item) key"
    unfolding nfts_runs_def by (rule nft_marked.runs_inv)
  then have claimed: "contains_key (Attribute s'') (g, Some item, Pallet, key)"
    by (auto simp: marked_def contains_key_def)
  have False if "dispatch cfg og (Mint c i' l' (Some mw')) s'' = Inr u" for u
  proof -
    from that obtain b where "mint cfg (Signed b) c i' l' (Some mw') s'' = Inr u"
      by (auto simp: mint_def exec_simps)
    then obtain d2 t2 where "mint_check cfg c b (Some mw') d2 cc' s'' = Inr t2"
      by (rule mint_Inr) (use assms(6) in simp)
    from this assms(7,8) show False
      by (rule mint_check_holder) (use key claimed in simp)
  qed
  then have "\<exists>e. dispatch cfg og (Mint c i' l' (Some mw')) s'' = Inl e"
    by (cases "dispatch cfg og (Mint c i' l' (Some mw')) s''") auto
  with own show ?thesis by simp
qed

definition holder_config :: collection_config where
  "holder_config = demo_config\<lparr>cc_max_supply := None, cc_mint_settings := mint_settings_default\<lparr>ms_mint_type := HolderOf 0\<rparr>\<rparr>"

definition demo_holder :: "ledger nfts" where
  "demo_holder = demo_state\<lparr>CollectionConfigOf := [(0, holder_config)]\<rparr>"

definition demo_ticket :: mint_witness where
  "demo_ticket = \<lparr>mw_owned_item = Some 7, mw_mint_price = None\<rparr>"

definition demo_claimed :: "ledger nfts" where
  "demo_claimed =
     (case dispatch demo_cfg (Signed 2) (Mint 0 8 [2] (Some demo_ticket)) demo_holder of
        Inr s \<Rightarrow> s | Inl _ \<Rightarrow> demo_holder)"

theorem holder_mints_once_witness:
  "\<exists>s e. dispatch demo_cfg (Signed 2) (Transfer 0 7 [3]) demo_claimed = Inr s \<and> owner 0 7 s = Some 3 \<and>
     dispatch demo_cfg (Signed 3) (Mint 0 9 [3] (Some demo_ticket)) s = Inl e"
proof -
  note demo = eval demo_state_def demo_holder_def holder_config_def demo_ticket_def
  have minted: "dispatch demo_cfg (Signed 2) (Mint 0 8 [2] (Some demo_ticket)) demo_holder = Inr demo_claimed"
    unfolding demo_claimed_def by (simp add: demo)
  obtain s where s: "dispatch demo_cfg (Signed 2) (Transfer 0 7 [3]) demo_claimed = Inr s"
    "owner 0 7 s = Some 3" "sget (CollectionConfigOf s) 0 = Some holder_config"
    unfolding demo_claimed_def by (simp add: demo)
  have run: "nfts_runs demo_cfg (\<lambda>(og, call). 0 \<notin> unmarks demo_cfg og call) (Suc 0) demo_claimed s"
    by (rule nfts_runs_call [OF nfts_runs_start _ s(1)]) (simp add: unmarks_def)
  have cc: "sget (CollectionConfigOf demo_holder) 0 = Some holder_config"
    "ms_mint_type (cc_mint_settings holder_config) = HolderOf 0" "mw_owned_item demo_ticket = Some 7"
    by (simp_all add: demo)
  from holder_mints_once [OF minted cc run s(3) cc(2,3), of "Signed 3" 9 "[3]"] s show ?thesis by blast
qed

section \<open>Teams and origins\<close>

text \<open>C34: after \<open>set_team\<close> the roles of the collection are exactly the accounts given (an account may
  get several roles, a role left out has no holder), and no role of another collection changes.\<close>

theorem set_team_effect:
  assumes "do_set_team mo c iss adm fre s = Inr s'"
  shows "(has_role c a collection_role.Issuer s' \<longleftrightarrow> iss = Some a) \<and>
    (has_role c a Admin s' \<longleftrightarrow> adm = Some a) \<and> (has_role c a Freezer s' \<longleftrightarrow> fre = Some a) \<and>
    (c' \<noteq> c \<longrightarrow> has_role c' a r s' = has_role c' a r s)"
proof -
  define rs where "rs = List.map_filter (\<lambda>(account, role). map_option (\<lambda>a. (a, role)) account)
    [(iss, collection_role.Issuer), (adm, Admin), (fre, Freezer)]"
  have roles: "CollectionRoleOf s' = assign_roles c rs (CollectionRoleOf s)"
    using assms unfolding do_set_team_def Let_def exec_simps rs_def [symmetric]
    by (auto simp: insert_roles_def assign_roles_def deposit_event_def)
  have "has_role c a q s' \<longleftrightarrow> (a, q) \<in> set rs" for q
  proof (cases "map_of (group_roles_by_account rs) a")
    case None
    with group_roles_grouped [of rs] have "(a, q) \<notin> set rs" unfolding grouped_def by blast
    with None show ?thesis by (simp add: has_role_def roles assign_roles_get)
  next
    case (Some x)
    then show ?thesis by (simp add: has_role_def roles assign_roles_get assign_roles_holder)
  qed
  moreover have "set rs = {(x, collection_role.Issuer) | x. iss = Some x} \<union> {(x, Admin) | x. adm = Some x} \<union>
      {(x, Freezer) | x. fre = Some x}"
    by (cases iss; cases adm; cases fre) (auto simp: rs_def map_filter_simps)
  moreover have "c' \<noteq> c \<Longrightarrow> has_role c' a r s' = has_role c' a r s"
    by (simp add: has_role_def roles assign_roles_get)
  ultimately show ?thesis by auto
qed

theorem set_team_effect_witness:
  "\<exists>s'. do_set_team (Some 1) 0 (Some 2) (Some 2) None demo_state = (Inr s' :: nat call_error + _) \<and>
     has_role 0 2 collection_role.Issuer s' \<and> has_role 0 2 Admin s' \<and> \<not> has_role 0 1 Freezer s'"
proof -
  obtain s' where s': "do_set_team (Some 1) 0 (Some 2) (Some 2) None demo_state = (Inr s' :: nat call_error + _)"
    by (simp add: eval demo_state_def map_filter_simps)
  from set_team_effect [OF s', of 2] set_team_effect [OF s', of 1] s' show ?thesis by simp
qed

text \<open>The calls reserved to the force origin are refused to everybody else before they look at
  anything, and the calls of ordinary users need a signed origin.\<close>

theorem origins_checked:
  assumes "\<not> force_origin cfg og"
  shows "dispatch cfg og (ForceCreate l cc) s = Inl BadOrigin \<and>
    dispatch cfg og (ForceCollectionOwner c l) s = Inl BadOrigin \<and>
    dispatch cfg og (ForceCollectionConfig c cc) s = Inl BadOrigin \<and>
    dispatch cfg og (ForceSetAttribute sa c mi ns k v) s = Inl BadOrigin \<and>
    dispatch cfg Root (Transfer c i l) s = Inl BadOrigin \<and> dispatch cfg Root (BuyItem c i p) s = Inl BadOrigin \<and>
    dispatch cfg NoOrigin (Mint c i l w) s = Inl BadOrigin \<and>
    dispatch cfg NoOrigin (ClaimSwap c i c2 i2 sp) s = Inl BadOrigin"
  using assms
  by (simp add: force_create_def force_collection_owner_def force_collection_config_def
      force_set_attribute_def ensure_force_def transfer_def buy_item_def mint_def claim_swap_def)

theorem origins_checked_witness:
  "dispatch demo_cfg (Signed 1) (ForceCollectionConfig 0 demo_config) demo_state = Inl BadOrigin"
proof -
  have "\<not> force_origin demo_cfg (Signed 1)" by (simp add: demo_cfg_def)
  from origins_checked [OF this, of _ demo_config demo_state 0] show ?thesis by blast
qed

section \<open>Destroying a collection\<close>

lemma clear_roles_same:
  "CollectionRoleOf t = CollectionRoleOf s \<Longrightarrow>
    (\<exists>s'. clear_roles c t = (Inr s' :: 'e call_error + _)) = (\<exists>s'. clear_roles c s = (Inr s' :: 'e call_error + _))"
  by (simp add: clear_roles_Inr)

lemma no_items_counted:
  assumes "reachable cfg n s" and "2 * n \<le> u32_max" and "sget (Collection s) c = Some d"
  shows "cd_items d = 0 \<longleftrightarrow> (\<forall>i. \<not> contains_key (Item s) (c, i))"
proof -
  have "summary_ok (2 * n) (registry_of s) c (summary_of d)"
    using reachable_wf [OF assms(1,2)] assms(3) by (simp add: registry_wf_def registry_counts_alt)
  then have "cd_items d = card (in_coll c (dom (item_owner (registry_of s))))" by (simp add: summary_ok_def)
  then show ?thesis by (auto simp: in_coll_def dom_def contains_key_def)
qed

text \<open>The guards of \<open>destroy\<close> in the order of the code; \<open>None\<close> when they all pass.\<close>

definition destroy_refusal ::
  "account_id option \<Rightarrow> collection_id \<Rightarrow> destroy_witness \<Rightarrow> 'x nfts \<Rightarrow> nfts_error option" where
  "destroy_refusal maybe_owner c w s =
     (case sget (Collection s) c of
        None \<Rightarrow> Some UnknownCollection
      | Some d \<Rightarrow>
          if maybe_owner \<noteq> None \<and> maybe_owner \<noteq> Some (cd_owner d) then Some NoPermission
          else if \<exists>i. contains_key (Item s) (c, i) then Some CollectionNotEmpty
          else if w \<noteq> details_destroy_witness d then Some BadWitness
          else None)"

lemma destroy_witness_eq:
  "w = details_destroy_witness d \<longleftrightarrow> cd_attributes d = dw_attributes w \<and>
     cd_item_metadatas d = dw_item_metadatas w \<and> cd_item_configs d = dw_item_configs w"
  by (cases w) (auto simp: details_destroy_witness_def)

lemma do_destroy_collection_exact:
  fixes cfg :: "('x, 'e) config"
  assumes "reachable cfg n s" and "2 * n \<le> u32_max"
  shows "case destroy_refusal mo c w s of
      None \<Rightarrow> \<exists>w' s'. do_destroy_collection cfg c w mo s = Inr (w', s')
    | Some e \<Rightarrow> do_destroy_collection cfg c w mo s = Inl (Module e)"
proof (cases "sget (Collection s) c")
  case None
  then show ?thesis by (simp add: destroy_refusal_def do_destroy_collection_def)
next
  case (Some d)
  note items = no_items_counted [OF assms Some]
  show ?thesis
  proof (cases "destroy_refusal mo c w s")
    case None
    then have pass: "pred_option (\<lambda>a. cd_owner d = a) mo" "cd_items d = 0" "w = details_destroy_witness d"
      using Some items by (auto simp: destroy_refusal_def split: if_splits option.splits)
    let ?t = "(fold (release_item_metadata cfg) (iter_prefix (\<lambda>k. fst k = c) (ItemMetadataOf s))
        (s\<lparr>ItemMetadataOf := remove_prefix (\<lambda>k. fst k = c) (ItemMetadataOf s)\<rparr>))
        \<lparr>CollectionMetadataOf := sdel c (CollectionMetadataOf s)\<rparr>"
    have "\<exists>t'. clear_roles c ?t = (Inr t' :: 'e call_error + _)"
      using reachable_clear_roles [OF assms(1), of c] clear_roles_same [of ?t s c] by auto
    with pass Some None show ?thesis
      by (auto simp: do_destroy_collection_def details_destroy_witness_def Let_def ensure_def)
  next
    case (Some e)
    with \<open>sget (Collection s) c = Some d\<close> items show ?thesis
      by (auto simp: do_destroy_collection_def destroy_refusal_def destroy_witness_eq ensure_def
          split: if_splits option.splits)
  qed
qed

text \<open>C36: \<open>destroy\<close> is decided by its documented errors: a collection that exists can be destroyed by the
  force origin or its owner as soon as it has no items, with the witness that its record gives, and
  then the call always succeeds, whatever roles, attributes, metadata and configurations are left;
  otherwise it is refused with the first of the errors that applies.\<close>

theorem destroy_exact:
  assumes "reachable cfg n s" and "2 * n \<le> u32_max"
  shows "case force_or_signed cfg og of
      Inl e \<Rightarrow> dispatch cfg og (Destroy c w) s = Inl e
    | Inr mo \<Rightarrow>
        (case destroy_refusal mo c w s of
           None \<Rightarrow> \<exists>s'. dispatch cfg og (Destroy c w) s = Inr s'
         | Some e \<Rightarrow> dispatch cfg og (Destroy c w) s = Inl (Module e))"
proof (cases "force_or_signed cfg og")
  case (Inr mo)
  with do_destroy_collection_exact [OF assms, where mo = mo and c = c and w = w] show ?thesis
    by (auto simp: destroy_def split: option.splits)
qed (simp add: destroy_def)

theorem destroy_exact_witness:
  "dispatch demo_cfg (Signed 1) (Destroy 0 \<lparr>dw_item_metadatas = 0, dw_item_configs = 1, dw_attributes = 0\<rparr>) demo_state =
     Inl (Module CollectionNotEmpty)"
proof -
  have "contains_key (Item demo_state) (0, 7)" by (simp add: eval demo_state_def)
  then have "\<exists>i. contains_key (Item demo_state) (0, i)" ..
  moreover obtain d where "sget (Collection demo_state) 0 = Some d" "cd_owner d = 1"
    by (simp add: sget_def demo_state_def)
  ultimately have "destroy_refusal (Some 1) 0 w demo_state = Some CollectionNotEmpty" for w
    by (simp add: destroy_refusal_def)
  moreover have "force_or_signed demo_cfg (Signed 1) = Inr (Some 1)"
    by (simp add: force_or_signed_def demo_cfg_def)
  ultimately show ?thesis using destroy_exact [OF demo_reachable small_budget, of "Signed 1" 0] by simp
qed

section \<open>Pre-signed data\<close>

text \<open>C35: a pre-signed mint succeeds only if the signature is the signer's on the very data (or on the
  data wrapped in the tags that wallets add), the signer is the issuer of the collection, the
  deadline has not passed and the caller is the account the data is meant for, if it names one;
  the caller then owns the new item.\<close>

theorem mint_pre_signed_guards:
  assumes "dispatch cfg og (MintPreSigned data sig signer) s = Inr s'"
  shows "\<exists>a. og = Signed a \<and>
    (verify cfg sig (encode_pre_signed_mint cfg data) signer \<or>
     verify cfg sig (bytes_prefix @ encode_pre_signed_mint cfg data @ bytes_suffix) signer) \<and>
    has_role (psm_collection data) signer collection_role.Issuer s \<and> now cfg s \<le> psm_deadline data \<and>
    (psm_only_account data = None \<or> psm_only_account data = Some a) \<and>
    owner (psm_collection data) (psm_item data) s = None \<and>
    owner (psm_collection data) (psm_item data) s' = Some a"
proof -
  from assms obtain a where og: "og = Signed a"
    and v: "validate_signature cfg (encode_pre_signed_mint cfg data) sig signer = Inr ()"
    and m: "do_mint_pre_signed cfg a data signer s = Inr s'"
    by (auto simp: mint_pre_signed_def exec_simps)
  let ?wd = "\<lambda>d _ s. case psm_mint_price data of
    Some price \<Rightarrow> currency_transfer cfg a (cd_owner d) price s | None \<Rightarrow> Inr s"
  from m obtain ic t where t: "do_mint cfg (psm_collection data) (psm_item data) (Some a) a ic ?wd s = Inr t"
    and core: "core_of s' = core_of t"
    and guards: "has_role (psm_collection data) signer collection_role.Issuer s" "now cfg s \<le> psm_deadline data"
      "pred_option (\<lambda>x. x = a) (psm_only_account data)"
    unfolding do_mint_pre_signed_def Let_def construct_metadata_def exec_simps case_option_Inr
    by (auto simp: exec_simps split: if_splits dest!: quiet)
  from do_mint_Inr [OF t] have "owner (psm_collection data) (psm_item data) s = None"
    "owner (psm_collection data) (psm_item data) t = Some a"
    by (auto simp: Let_def owner_def deposit_event_def contains_key_def)
  moreover have "owner (psm_collection data) (psm_item data) s' = owner (psm_collection data) (psm_item data) t"
    by (rule owner_quiet [OF core])
  moreover have "psm_only_account data = None \<or> psm_only_account data = Some a"
    using guards(3) by (cases "psm_only_account data") auto
  ultimately show ?thesis
    using og v guards(1,2) by (auto simp: validate_signature_def Let_def exec_simps split: if_splits)
qed

definition demo_voucher :: pre_signed_mint where
  "demo_voucher = \<lparr>psm_collection = 0, psm_item = 8, psm_attributes = [([1], [2])], psm_metadata = [9],
     psm_only_account = Some 3, psm_deadline = 5, psm_mint_price = Some 11\<rparr>"

theorem mint_pre_signed_guards_witness:
  "\<exists>s'. dispatch demo_cfg (Signed 3) (MintPreSigned demo_voucher [1, 0, 0, 0, 0, 8, 0, 0, 0] 1) demo_state = Inr s' \<and>
     owner 0 8 s' = Some 3"
proof -
  obtain s' where s': "dispatch demo_cfg (Signed 3) (MintPreSigned demo_voucher [1, 0, 0, 0, 0, 8, 0, 0, 0] 1) demo_state = Inr s'"
    by (simp add: eval demo_state_def demo_voucher_def le_bytes_4)
  from mint_pre_signed_guards [OF s'] s' show ?thesis by (auto simp: demo_voucher_def)
qed

end
