(* ===== verification/Nfts_Nonfungibles.thy ===== *)
theory Nfts_Nonfungibles
  imports Nfts_Behaviour
begin

text \<open>
  The \<open>nonfungibles_v2\<close> traits of the NFTs pallet (\<open>pallets/nfts/src/impl_nonfungibles.rs\<close>), through
  which other pallets inspect and change items without an origin, and the migration of the storage
  from version 0 to 1 (\<open>pallets/nfts/src/migration.rs\<close>). Names carry the prefix \<open>nf_\<close> where the
  trait method has the name of a dispatchable.
\<close>

section \<open>Inspect\<close>

definition nf_owner :: "collection_id \<Rightarrow> item_id \<Rightarrow> 'x nfts \<Rightarrow> account_id option" where
  "nf_owner collection item s = map_option it_owner (sget (Item s) (collection, item))"

definition nf_collection_owner :: "collection_id \<Rightarrow> 'x nfts \<Rightarrow> account_id option" where
  "nf_collection_owner collection s = map_option cd_owner (sget (Collection s) collection)"

text \<open>\<open>BoundedSlice::try_from(key).ok()?\<close>: a key beyond the limit is no attribute.\<close>

definition bounded_slice :: "nat \<Rightarrow> bytes \<Rightarrow> bytes option" where
  "bounded_slice limit key = (if length key \<le> limit then Some key else None)"

definition nf_attribute :: "('x, 'e) config \<Rightarrow> collection_id \<Rightarrow> item_id \<Rightarrow> bytes \<Rightarrow> 'x nfts \<Rightarrow> bytes option" where
  "nf_attribute cfg collection item key s =
     (if key = [] then map_option im_data (sget (ItemMetadataOf s) (collection, item))
      else Option.bind (bounded_slice (key_limit cfg) key) (\<lambda>key.
        map_option fst (sget (Attribute s) (collection, Some item, CollectionOwner, key))))"

definition nf_custom_attribute ::
  "('x, 'e) config \<Rightarrow> account_id \<Rightarrow> collection_id \<Rightarrow> item_id \<Rightarrow> bytes \<Rightarrow> 'x nfts \<Rightarrow> bytes option" where
  "nf_custom_attribute cfg account collection item key s =
     (let namespace = (case sget (Account s) (account, collection, item) of
        Some _ \<Rightarrow> ItemOwner | None \<Rightarrow> attribute_namespace.Account account) in
      Option.bind (bounded_slice (key_limit cfg) key) (\<lambda>key.
        map_option fst (sget (Attribute s) (collection, Some item, namespace, key))))"

definition nf_system_attribute ::
  "('x, 'e) config \<Rightarrow> collection_id \<Rightarrow> item_id option \<Rightarrow> bytes \<Rightarrow> 'x nfts \<Rightarrow> bytes option" where
  "nf_system_attribute cfg collection item key s =
     Option.bind (bounded_slice (key_limit cfg) key) (\<lambda>key.
       map_option fst (sget (Attribute s) (collection, item, Pallet, key)))"

definition nf_collection_attribute :: "('x, 'e) config \<Rightarrow> collection_id \<Rightarrow> bytes \<Rightarrow> 'x nfts \<Rightarrow> bytes option" where
  "nf_collection_attribute cfg collection key s =
     (if key = [] then map_option cm_data (sget (CollectionMetadataOf s) collection)
      else Option.bind (bounded_slice (key_limit cfg) key) (\<lambda>key.
        map_option fst (sget (Attribute s) (collection, None, CollectionOwner, key))))"

definition nf_can_transfer :: "('x, 'e) config \<Rightarrow> collection_id \<Rightarrow> item_id \<Rightarrow> 'x nfts \<Rightarrow> bool" where
  "nf_can_transfer cfg collection item s =
     (if has_system_attribute cfg collection item TransferDisabled s = Inr True then False
      else case (sget (CollectionConfigOf s) collection, sget (ItemConfigOf s) (collection, item)) of
        (Some cc, Some ic) \<Rightarrow>
          collection_config_is_setting_enabled cc TransferableItems \<and> item_config_is_setting_enabled ic Transferable
      | _ \<Rightarrow> False)"

definition nf_is_issuer :: "collection_id \<Rightarrow> account_id \<Rightarrow> 'x nfts \<Rightarrow> bool" where
  "nf_is_issuer collection who s = has_role collection who collection_role.Issuer s"

definition nf_is_admin :: "collection_id \<Rightarrow> account_id \<Rightarrow> 'x nfts \<Rightarrow> bool" where
  "nf_is_admin collection who s = has_role collection who Admin s"

definition nf_is_freezer :: "collection_id \<Rightarrow> account_id \<Rightarrow> 'x nfts \<Rightarrow> bool" where
  "nf_is_freezer collection who s = has_role collection who Freezer s"

section \<open>Create and destroy\<close>

definition nf_create_collection ::
  "('x, 'e) config \<Rightarrow> account_id \<Rightarrow> account_id \<Rightarrow> collection_config \<Rightarrow> 'x nfts
     \<Rightarrow> 'e call_error + collection_id \<times> 'x nfts" where
  "nf_create_collection cfg who admin config s =
     ensure (\<not> collection_config_has_disabled_setting config DepositRequired) (Module WrongSetting) (
     ok_or (next_collection cfg s) (Module UnknownCollection) (\<lambda>collection.
     andthen (do_create_collection cfg collection who admin config (collection_deposit cfg)
       (Created collection who admin) s) (\<lambda>s.
     Inr (collection, set_next_collection_id cfg collection s))))"

definition nf_create_collection_with_id ::
  "('x, 'e) config \<Rightarrow> collection_id \<Rightarrow> account_id \<Rightarrow> account_id \<Rightarrow> collection_config \<Rightarrow> 'x nfts
     \<Rightarrow> 'e call_error + 'x nfts" where
  "nf_create_collection_with_id cfg collection who admin config s =
     ensure (\<not> collection_config_has_disabled_setting config DepositRequired) (Module WrongSetting) (
     do_create_collection cfg collection who admin config (collection_deposit cfg) (Created collection who admin) s)"

definition nf_get_destroy_witness :: "collection_id \<Rightarrow> 'x nfts \<Rightarrow> destroy_witness option" where
  "nf_get_destroy_witness collection s = map_option details_destroy_witness (sget (Collection s) collection)"

definition nf_destroy ::
  "('x, 'e) config \<Rightarrow> collection_id \<Rightarrow> destroy_witness \<Rightarrow> account_id option \<Rightarrow> 'x nfts
     \<Rightarrow> 'e call_error + destroy_witness \<times> 'x nfts" where
  "nf_destroy cfg collection witness maybe_check_owner s =
     do_destroy_collection cfg collection witness maybe_check_owner s"

section \<open>Mutate\<close>

definition nf_mint_into ::
  "('x, 'e) config \<Rightarrow> collection_id \<Rightarrow> item_id \<Rightarrow> account_id \<Rightarrow> item_config \<Rightarrow> bool \<Rightarrow> 'x nfts
     \<Rightarrow> 'e call_error + 'x nfts" where
  "nf_mint_into cfg collection item who item_config deposit_collection_owner s =
     do_mint cfg collection item (if deposit_collection_owner then None else Some who) who item_config
       (\<lambda>_ _ s. Inr s) s"

definition nf_burn ::
  "('x, 'e) config \<Rightarrow> collection_id \<Rightarrow> item_id \<Rightarrow> account_id option \<Rightarrow> 'x nfts \<Rightarrow> 'e call_error + 'x nfts" where
  "nf_burn cfg collection item maybe_check_owner s =
     do_burn cfg collection item (\<lambda>d.
       case maybe_check_owner of
         Some check_owner \<Rightarrow> if it_owner d \<noteq> check_owner then Inl (Module NoPermission) else Inr ()
       | None \<Rightarrow> Inr ()) s"

definition nf_set_attribute ::
  "('x, 'e) config \<Rightarrow> collection_id \<Rightarrow> item_id \<Rightarrow> bytes \<Rightarrow> bytes \<Rightarrow> 'x nfts \<Rightarrow> 'e call_error + 'x nfts" where
  "nf_set_attribute cfg collection item key v s =
     andthen (construct_attribute_key cfg key) (\<lambda>key.
     andthen (construct_attribute_value cfg v) (\<lambda>v.
     do_force_set_attribute cfg None collection (Some item) Pallet key v s))"

text \<open>The typed variants encode key and value first; the encoders belong to the caller's types.\<close>

definition nf_set_typed_attribute ::
  "('x, 'e) config \<Rightarrow> ('k \<Rightarrow> bytes) \<Rightarrow> ('v \<Rightarrow> bytes) \<Rightarrow> collection_id \<Rightarrow> item_id \<Rightarrow> 'k \<Rightarrow> 'v \<Rightarrow> 'x nfts
     \<Rightarrow> 'e call_error + 'x nfts" where
  "nf_set_typed_attribute cfg enc_k enc_v collection item key v s =
     nf_set_attribute cfg collection item (enc_k key) (enc_v v) s"

definition nf_set_collection_attribute ::
  "('x, 'e) config \<Rightarrow> collection_id \<Rightarrow> bytes \<Rightarrow> bytes \<Rightarrow> 'x nfts \<Rightarrow> 'e call_error + 'x nfts" where
  "nf_set_collection_attribute cfg collection key v s =
     andthen (construct_attribute_key cfg key) (\<lambda>key.
     andthen (construct_attribute_value cfg v) (\<lambda>v.
     do_force_set_attribute cfg None collection None Pallet key v s))"

definition nf_set_typed_collection_attribute ::
  "('x, 'e) config \<Rightarrow> ('k \<Rightarrow> bytes) \<Rightarrow> ('v \<Rightarrow> bytes) \<Rightarrow> collection_id \<Rightarrow> 'k \<Rightarrow> 'v \<Rightarrow> 'x nfts
     \<Rightarrow> 'e call_error + 'x nfts" where
  "nf_set_typed_collection_attribute cfg enc_k enc_v collection key v s =
     nf_set_collection_attribute cfg collection (enc_k key) (enc_v v) s"

definition nf_set_item_metadata ::
  "('x, 'e) config \<Rightarrow> account_id option \<Rightarrow> collection_id \<Rightarrow> item_id \<Rightarrow> bytes \<Rightarrow> 'x nfts \<Rightarrow> 'e call_error + 'x nfts" where
  "nf_set_item_metadata cfg who collection item data s =
     andthen (construct_metadata cfg data) (\<lambda>data. do_set_item_metadata cfg who collection item data None s)"

definition nf_set_collection_metadata ::
  "('x, 'e) config \<Rightarrow> account_id option \<Rightarrow> collection_id \<Rightarrow> bytes \<Rightarrow> 'x nfts \<Rightarrow> 'e call_error + 'x nfts" where
  "nf_set_collection_metadata cfg who collection data s =
     andthen (construct_metadata cfg data) (\<lambda>data. do_set_collection_metadata cfg who collection data s)"

definition nf_clear_attribute ::
  "('x, 'e) config \<Rightarrow> collection_id \<Rightarrow> item_id \<Rightarrow> bytes \<Rightarrow> 'x nfts \<Rightarrow> 'e call_error + 'x nfts" where
  "nf_clear_attribute cfg collection item key s =
     andthen (construct_attribute_key cfg key) (\<lambda>key.
     do_clear_attribute cfg None collection (Some item) Pallet key s)"

definition nf_clear_typed_attribute ::
  "('x, 'e) config \<Rightarrow> ('k \<Rightarrow> bytes) \<Rightarrow> collection_id \<Rightarrow> item_id \<Rightarrow> 'k \<Rightarrow> 'x nfts \<Rightarrow> 'e call_error + 'x nfts" where
  "nf_clear_typed_attribute cfg enc_k collection item key s = nf_clear_attribute cfg collection item (enc_k key) s"

definition nf_clear_collection_attribute ::
  "('x, 'e) config \<Rightarrow> collection_id \<Rightarrow> bytes \<Rightarrow> 'x nfts \<Rightarrow> 'e call_error + 'x nfts" where
  "nf_clear_collection_attribute cfg collection key s =
     andthen (construct_attribute_key cfg key) (\<lambda>key. do_clear_attribute cfg None collection None Pallet key s)"

definition nf_clear_typed_collection_attribute ::
  "('x, 'e) config \<Rightarrow> ('k \<Rightarrow> bytes) \<Rightarrow> collection_id \<Rightarrow> 'k \<Rightarrow> 'x nfts \<Rightarrow> 'e call_error + 'x nfts" where
  "nf_clear_typed_collection_attribute cfg enc_k collection key s =
     nf_clear_collection_attribute cfg collection (enc_k key) s"

definition nf_clear_item_metadata ::
  "('x, 'e) config \<Rightarrow> account_id option \<Rightarrow> collection_id \<Rightarrow> item_id \<Rightarrow> 'x nfts \<Rightarrow> 'e call_error + 'x nfts" where
  "nf_clear_item_metadata cfg who collection item s = do_clear_item_metadata cfg who collection item s"

definition nf_clear_collection_metadata ::
  "('x, 'e) config \<Rightarrow> account_id option \<Rightarrow> collection_id \<Rightarrow> 'x nfts \<Rightarrow> 'e call_error + 'x nfts" where
  "nf_clear_collection_metadata cfg who collection s = do_clear_collection_metadata cfg who collection s"

section \<open>Transfer and trading\<close>

definition nf_transfer ::
  "('x, 'e) config \<Rightarrow> collection_id \<Rightarrow> item_id \<Rightarrow> account_id \<Rightarrow> 'x nfts \<Rightarrow> 'e call_error + 'x nfts" where
  "nf_transfer cfg collection item destination s = do_transfer cfg collection item destination no_details_check s"

definition nf_disable_transfer ::
  "('x, 'e) config \<Rightarrow> collection_id \<Rightarrow> item_id \<Rightarrow> 'x nfts \<Rightarrow> 'e call_error + 'x nfts" where
  "nf_disable_transfer cfg collection item s =
     andthen (has_system_attribute cfg collection item TransferDisabled s) (\<lambda>transfer_disabled.
     if transfer_disabled then Inl (Module ItemLocked)
     else nf_set_attribute cfg collection item (encode_pallet_attribute cfg TransferDisabled) [] s)"

definition nf_enable_transfer ::
  "('x, 'e) config \<Rightarrow> collection_id \<Rightarrow> item_id \<Rightarrow> 'x nfts \<Rightarrow> 'e call_error + 'x nfts" where
  "nf_enable_transfer cfg collection item s =
     nf_clear_attribute cfg collection item (encode_pallet_attribute cfg TransferDisabled) s"

definition nf_buy_item ::
  "('x, 'e) config \<Rightarrow> collection_id \<Rightarrow> item_id \<Rightarrow> account_id \<Rightarrow> balance \<Rightarrow> 'x nfts \<Rightarrow> 'e call_error + 'x nfts" where
  "nf_buy_item cfg collection item buyer bid_price s = do_buy_item cfg collection item buyer bid_price s"

definition nf_set_price ::
  "('x, 'e) config \<Rightarrow> collection_id \<Rightarrow> item_id \<Rightarrow> account_id \<Rightarrow> balance option \<Rightarrow> account_id option \<Rightarrow> 'x nfts
     \<Rightarrow> 'e call_error + 'x nfts" where
  "nf_set_price cfg collection item sender price whitelisted_buyer s =
     do_set_price cfg collection item sender price whitelisted_buyer s"

definition nf_item_price :: "collection_id \<Rightarrow> item_id \<Rightarrow> 'x nfts \<Rightarrow> balance option" where
  "nf_item_price collection item s = map_option fst (sget (ItemPriceOf s) (collection, item))"

section \<open>Enumeration\<close>

definition nf_collections :: "'x nfts \<Rightarrow> collection_id list" where
  "nf_collections s = map fst (Collection s)"

definition nf_items :: "collection_id \<Rightarrow> 'x nfts \<Rightarrow> item_id list" where
  "nf_items collection s = map (snd \<circ> fst) (iter_prefix (\<lambda>(c, i). c = collection) (Item s))"

definition nf_owned :: "account_id \<Rightarrow> 'x nfts \<Rightarrow> (collection_id \<times> item_id) list" where
  "nf_owned who s = map (snd \<circ> fst) (iter_prefix (\<lambda>(a, c, i). a = who) (Account s))"

definition nf_owned_in_collection :: "collection_id \<Rightarrow> account_id \<Rightarrow> 'x nfts \<Rightarrow> item_id list" where
  "nf_owned_in_collection collection who s =
     map (snd \<circ> snd \<circ> fst) (iter_prefix (\<lambda>(a, c, i). a = who \<and> c = collection) (Account s))"

section \<open>Migration\<close>

record old_collection_details =
  ocd_owner :: account_id
  ocd_owner_deposit :: balance
  ocd_items :: nat
  ocd_item_metadatas :: nat
  ocd_attributes :: nat

definition migrate_to_v1 :: "old_collection_details \<Rightarrow> nat \<Rightarrow> collection_details" where
  "migrate_to_v1 old item_configs =
     \<lparr>cd_owner = ocd_owner old, cd_owner_deposit = ocd_owner_deposit old, cd_items = ocd_items old,
      cd_item_metadatas = ocd_item_metadatas old, cd_item_configs = item_configs,
      cd_attributes = ocd_attributes old\<rparr>"

text \<open>\<open>translate\<close> rewrites every stored collection from the old layout, which is what the storage holds at
  version 0. The result is the weight as database reads and writes, the storage version and the state.\<close>

definition count_item_configs :: "collection_id \<Rightarrow> 'x nfts \<Rightarrow> nat" where
  "count_item_configs key s = as_u32 (length (iter_prefix (\<lambda>(c, i). c = key) (ItemConfigOf s)))"

definition on_runtime_upgrade ::
  "nat \<Rightarrow> nat \<Rightarrow> (collection_id, old_collection_details) storage \<Rightarrow> 'x nfts \<Rightarrow> (nat \<times> nat) \<times> nat \<times> 'x nfts" where
  "on_runtime_upgrade in_code_version on_chain_version old s =
     (if on_chain_version = 0 \<and> in_code_version = 1
      then let translated = length old;
               configs_iterated = sum_list (map (\<lambda>(key, _). count_item_configs key s) old)
           in ((translated + configs_iterated + 1, translated + 1), in_code_version,
               s\<lparr>Collection := map (\<lambda>(key, old_value). (key, migrate_to_v1 old_value (count_item_configs key s))) old\<rparr>)
      else ((1, 0), on_chain_version, s))"

section \<open>Properties\<close>

lemma contains_key_keys: "contains_key m k \<longleftrightarrow> k \<in> fst ` set m"
  by (simp add: contains_key_def sget_def map_of_eq_None_iff)

lemma owner_key: "owner c i s \<noteq> None \<longleftrightarrow> contains_key (Item s) (c, i)"
  by (simp add: owner_def contains_key_def)

text \<open>C37: \<open>can_transfer\<close> is honest: in a reachable state another pallet can transfer an existing item exactly
  when \<open>can_transfer\<close> says so and the locker does not hold the item; nothing else can make the
  transfer fail.\<close>

theorem can_transfer_exact:
  assumes "reachable cfg n s" and "2 * n \<le> u32_max"
    and "length (encode_pallet_attribute cfg TransferDisabled) \<le> key_limit cfg"
  shows "(\<exists>s'. nf_transfer cfg c i dest s = Inr s') \<longleftrightarrow>
    nf_owner c i s \<noteq> None \<and> nf_can_transfer cfg c i s \<and> \<not> is_locked cfg (ext s) c i"
proof (cases "sget (Item s) (c, i)")
  case None
  then show ?thesis by (simp add: nf_transfer_def do_transfer_def nf_owner_def exec_simps)
next
  case (Some d)
  have refs: "registry_refs (registry_of s)"
    using reachable_wf [OF assms(1,2)] by (simp add: registry_wf_def)
  have "contains_key (Item s) (c, i)" using Some by (simp add: contains_key_def)
  with registry_refs_reads [OF refs, of c i] obtain ic cd cc where
    "sget (ItemConfigOf s) (c, i) = Some ic" "sget (Collection s) c = Some cd" "sget (CollectionConfigOf s) c = Some cc"
    by (auto simp: contains_key_def)
  with Some assms(3) show ?thesis
    by (auto simp: nf_transfer_def do_transfer_def nf_owner_def nf_can_transfer_def has_system_attribute_def
        construct_attribute_key_def bounded_vec_def get_collection_config_def get_item_config_def
        no_details_check_def Let_def ensure_def)
qed

theorem can_transfer_exact_witness:
  "nf_can_transfer demo_cfg 0 7 demo_state \<and> (\<exists>s'. nf_transfer demo_cfg 0 7 9 demo_state = Inr s')"
proof -
  have "length (encode_pallet_attribute demo_cfg TransferDisabled) \<le> key_limit demo_cfg"
    by (simp add: demo_cfg_def)
  from can_transfer_exact [OF demo_reachable small_budget this, of 0 7 9] show ?thesis
    by (simp add: nf_owner_def nf_can_transfer_def eval demo_state_def)
qed

text \<open>C39: enumeration is exact: in a reachable state the items listed as owned by an account, in all
  collections or in one, the items of a collection and the collections are exactly those that exist
  with that owner.\<close>

theorem enumeration_exact:
  assumes "reachable cfg n s"
  shows "set (nf_owned a s) = {(c, i). nf_owner c i s = Some a} \<and>
    set (nf_owned_in_collection c a s) = {i. nf_owner c i s = Some a} \<and>
    set (nf_items c s) = {i. nf_owner c i s \<noteq> None} \<and>
    set (nf_collections s) = {c. nf_collection_owner c s \<noteq> None}"
proof -
  have index: "(a, c, i) \<in> fst ` set (Account s) \<longleftrightarrow> nf_owner c i s = Some a" for a c i
    using reachable_inv [OF assms]
    by (auto simp: nfts_inv_def registry_index_def owner_def nf_owner_def contains_key_keys)
  have items: "(c, i) \<in> fst ` set (Item s) \<longleftrightarrow> nf_owner c i s \<noteq> None" for c i
    unfolding contains_key_keys [symmetric] by (simp add: contains_key_def nf_owner_def)
  have colls: "c \<in> fst ` set (Collection s) \<longleftrightarrow> nf_collection_owner c s \<noteq> None" for c
    unfolding contains_key_keys [symmetric] by (simp add: contains_key_def nf_collection_owner_def)
  show ?thesis
    unfolding index [symmetric] items [symmetric] colls [symmetric]
    by (auto simp: nf_owned_def nf_owned_in_collection_def nf_items_def nf_collections_def iter_prefix_def
        intro!: image_eqI)
qed

theorem enumeration_exact_witness:
  "nf_owned 2 demo_state = [(0, 7)] \<and> nf_owner 0 7 demo_state = Some 2 \<and> set (nf_items 0 demo_state) = {7}"
proof -
  have "set (nf_owned 2 demo_state) = {(c, i). nf_owner c i demo_state = Some 2}"
    using enumeration_exact [OF demo_reachable] by blast
  moreover have "nf_owned 2 demo_state = [(0, 7)]" by (simp add: nf_owned_def eval demo_state_def)
  moreover have "nf_items 0 demo_state = [7]" by (simp add: nf_items_def eval demo_state_def)
  ultimately show ?thesis by auto
qed

lemma nf_disable_transfer_Inr:
  fixes cfg :: "('x, 'e) config"
  assumes "nf_disable_transfer cfg c i s = Inr s1"
  obtains key d where "construct_attribute_key cfg (encode_pallet_attribute cfg TransferDisabled) = (Inr key :: 'e call_error + bytes)"
    "sget (Collection s) c = Some d" "sget (Attribute s) (c, Some i, Pallet, key) = None"
    "s1 = deposit_event (AttributeSet c (Some i) key [] Pallet)
       (s\<lparr>Attribute := sput (c, Some i, Pallet, key) ([], \<lparr>ad_account = None, ad_amount = 0\<rparr>) (Attribute s),
          Collection := sput c (d\<lparr>cd_attributes := saturating_inc (cd_attributes d)\<rparr>) (Collection s)\<rparr>)"
  using assms
  by (cases "sget (Attribute s) (c, Some i, Pallet, encode_pallet_attribute cfg TransferDisabled)")
     (auto simp: nf_disable_transfer_def nf_set_attribute_def has_system_attribute_def do_force_set_attribute_def
       exec_simps construct_attribute_key_def construct_attribute_value_def contains_key_def Let_def split: if_splits)

text \<open>C38: disabling the transfer of an item stops every transfer of it until it is enabled again: after
  \<open>disable_transfer\<close> the item cannot be transferred, \<open>can_transfer\<close> says so and a second disable is
  refused; \<open>enable_transfer\<close> then succeeds and restores every attribute and the answer of
  \<open>can_transfer\<close>, without touching owners or configurations.\<close>

theorem disable_enable_transfer:
  fixes cfg :: "('x, 'e) config"
  assumes "nf_disable_transfer cfg c i s = Inr s1"
  shows "\<not> nf_can_transfer cfg c i s1 \<and> (\<exists>e. nf_transfer cfg c i dest s1 = Inl e) \<and>
    nf_disable_transfer cfg c i s1 = Inl (Module ItemLocked) \<and>
    (\<exists>s2. nf_enable_transfer cfg c i s1 = Inr s2 \<and> nf_can_transfer cfg c i s2 = nf_can_transfer cfg c i s \<and>
      sget (Attribute s2) = sget (Attribute s) \<and> Item s2 = Item s \<and> Account s2 = Account s \<and>
      ItemConfigOf s2 = ItemConfigOf s)"
proof -
  from nf_disable_transfer_Inr [OF assms] obtain key d
    where key: "construct_attribute_key cfg (encode_pallet_attribute cfg TransferDisabled) = (Inr key :: 'e call_error + bytes)"
    and d: "sget (Collection s) c = Some d" and free: "sget (Attribute s) (c, Some i, Pallet, key) = None"
    and s1: "s1 = deposit_event (AttributeSet c (Some i) key [] Pallet)
       (s\<lparr>Attribute := sput (c, Some i, Pallet, key) ([], \<lparr>ad_account = None, ad_amount = 0\<rparr>) (Attribute s),
          Collection := sput c (d\<lparr>cd_attributes := saturating_inc (cd_attributes d)\<rparr>) (Collection s)\<rparr>)"
    by blast
  have locked: "has_system_attribute cfg c i TransferDisabled s1 = (Inr True :: 'e call_error + bool)"
    by (simp add: has_system_attribute_def key s1 deposit_event_def contains_key_def storage_simps)
  have unlocked: "has_system_attribute cfg c i TransferDisabled s = (Inr False :: 'e call_error + bool)"
    by (simp add: has_system_attribute_def key contains_key_def free)
  have coll: "sget (Collection s1) c \<noteq> None" by (simp add: s1 deposit_event_def storage_simps)
  then have refused: "\<exists>e. nf_transfer cfg c i dest s1 = Inl e"
    by (auto simp: nf_transfer_def do_transfer_def locked ensure_def)
  let ?s2 = "deposit_event (AttributeCleared c (Some i) key Pallet)
    (s1\<lparr>Attribute := sdel (c, Some i, Pallet, key) (Attribute s1),
       Collection := sput c (d\<lparr>cd_attributes := saturating_dec (saturating_inc (cd_attributes d))\<rparr>) (Collection s1)\<rparr>)"
  have enabled: "nf_enable_transfer cfg c i s1 = (Inr ?s2 :: 'e call_error + _)"
    by (simp add: nf_enable_transfer_def nf_clear_attribute_def key do_clear_attribute_def s1 deposit_event_def
        storage_simps Let_def)
  have attrs: "sget (Attribute ?s2) = sget (Attribute s)"
    using free by (auto simp: fun_eq_iff s1 deposit_event_def storage_simps)
  have "has_system_attribute cfg c i TransferDisabled ?s2 = (Inr False :: 'e call_error + bool)"
    unfolding has_system_attribute_def by (simp add: key contains_key_def attrs free del: not_None_eq)
  then have "nf_can_transfer cfg c i ?s2 = nf_can_transfer cfg c i s"
    unfolding nf_can_transfer_def unlocked by (simp add: s1 deposit_event_def)
  with refused enabled attrs locked show ?thesis
    by (auto simp: nf_can_transfer_def nf_disable_transfer_def s1 deposit_event_def)
qed

theorem disable_enable_transfer_witness:
  "\<exists>s1 s2. nf_disable_transfer demo_cfg 0 7 demo_state = Inr s1 \<and> \<not> nf_can_transfer demo_cfg 0 7 s1 \<and>
     nf_enable_transfer demo_cfg 0 7 s1 = Inr s2 \<and> nf_can_transfer demo_cfg 0 7 s2"
proof -
  obtain s1 where s1: "nf_disable_transfer demo_cfg 0 7 demo_state = Inr s1"
    by (simp add: nf_disable_transfer_def nf_set_attribute_def eval demo_state_def)
  have "nf_can_transfer demo_cfg 0 7 demo_state" by (simp add: nf_can_transfer_def eval demo_state_def)
  with disable_enable_transfer [OF s1] s1 show ?thesis by metis
qed

lemma length_prefix_card:
  assumes "storage_wf m"
  shows "length (iter_prefix (\<lambda>(c, i). c = key) m) = card {i. contains_key m (key, i)}"
proof -
  let ?l = "iter_prefix (\<lambda>(c, i). c = key) m"
  have "distinct (map fst ?l)"
    using assms distinct_map_filter by (auto simp: storage_wf_def iter_prefix_def)
  moreover have "set (map fst ?l) = Pair key ` {i. contains_key m (key, i)}"
    by (force simp: iter_prefix_def contains_key_keys)
  ultimately have "length (map fst ?l) = card (Pair key ` {i. contains_key m (key, i)})"
    by (metis distinct_card)
  then show ?thesis by (simp add: card_image inj_on_def)
qed

text \<open>C40: the migration to version 1 keeps every collection with its owner, deposit and old counters and sets
  the new counter to the number of item configurations of the collection; it runs once: the storage
  version becomes 1, and at version 1 the upgrade changes nothing.\<close>

theorem migration_exact:
  assumes "storage_wf (ItemConfigOf s)" and "\<And>c. card {i. contains_key (ItemConfigOf s) (c, i)} \<le> u32_max"
    and "on_runtime_upgrade 1 0 old s = (weight, ver, s')"
  shows "ver = 1 \<and> length (Collection s') = length old \<and>
    sget (Collection s') c = map_option (\<lambda>d. \<lparr>cd_owner = ocd_owner d, cd_owner_deposit = ocd_owner_deposit d,
      cd_items = ocd_items d, cd_item_metadatas = ocd_item_metadatas d,
      cd_item_configs = card {i. contains_key (ItemConfigOf s) (c, i)}, cd_attributes = ocd_attributes d\<rparr>) (sget old c) \<and>
    snd (snd (on_runtime_upgrade 1 ver old' s')) = s'"
proof -
  have exact: "count_item_configs c s = card {i. contains_key (ItemConfigOf s) (c, i)}" for c
  proof -
    have "card {i. contains_key (ItemConfigOf s) (c, i)} < 2 ^ 32" using assms(2) [of c] by (simp add: u32_max_def)
    then show ?thesis by (simp add: count_item_configs_def length_prefix_card [OF assms(1)] as_u32_def)
  qed
  have s': "s' = s\<lparr>Collection := map (\<lambda>(key, old_value). (key, migrate_to_v1 old_value (count_item_configs key s))) old\<rparr>"
    and "ver = 1"
    using assms(3) by (auto simp: on_runtime_upgrade_def Let_def)
  moreover have "map_of (map (\<lambda>(key, v). (key, f key v)) xs) k = map_option (f k) (map_of xs k)" for f :: "collection_id \<Rightarrow> old_collection_details \<Rightarrow> collection_details" and xs k
    by (induction xs) auto
  ultimately show ?thesis
    by (simp add: sget_def exact migrate_to_v1_def on_runtime_upgrade_def)
qed

theorem migration_exact_witness:
  "\<exists>w s'. on_runtime_upgrade 1 0
      [(0, \<lparr>ocd_owner = 1, ocd_owner_deposit = 10, ocd_items = 1, ocd_item_metadatas = 0, ocd_attributes = 0\<rparr>)]
      demo_state = (w, 1, s') \<and>
    map_option cd_item_configs (sget (Collection s') 0) = Some 1"
proof -
  let ?old = "[(0, \<lparr>ocd_owner = 1, ocd_owner_deposit = 10, ocd_items = 1, ocd_item_metadatas = 0, ocd_attributes = 0\<rparr>)]"
  have keys: "contains_key (ItemConfigOf demo_state) (c, i) \<longleftrightarrow> c = 0 \<and> i = 7" for c i
    by (auto simp: demo_state_def contains_key_def sget_def)
  have card: "card {i. contains_key (ItemConfigOf demo_state) (c, i)} = (if c = 0 then 1 else 0)" for c
    by (simp add: keys)
  obtain w v s' where up: "on_runtime_upgrade 1 0 ?old demo_state = (w, v, s')" by (metis prod_cases3)
  have "storage_wf (ItemConfigOf demo_state)" by (simp add: storage_wf_def demo_state_def)
  moreover have "card {i. contains_key (ItemConfigOf demo_state) (c, i)} \<le> u32_max" for c
    by (simp add: card u32_max_def)
  ultimately have "v = 1 \<and> map_option cd_item_configs (sget (Collection s') 0) = Some 1"
    using migration_exact [OF _ _ up, of 0] card by (simp add: sget_def)
  with up show ?thesis by blast
qed

end
