(* ===== verification/Nfts_Deposits.thy ===== *)
theory Nfts_Deposits
  imports Nfts_Safety
begin

text \<open>
  Deposits of the NFTs pallet: what an attribute and an item cost, and that undoing a write gives back
  exactly what it took, to whoever paid it.
\<close>

section \<open>Attributes\<close>

text \<open>The deposit of an attribute, zero where the collection owner's attributes are free.\<close>

definition attribute_price ::
  "('x, 'e) config \<Rightarrow> collection_config \<Rightarrow> attribute_namespace \<Rightarrow> bytes \<Rightarrow> bytes \<Rightarrow> balance" where
  "attribute_price cfg cc namespace key v =
     (if collection_config_is_setting_enabled cc DepositRequired \<or> namespace \<noteq> CollectionOwner
      then saturating_add (saturating_mul (deposit_per_byte cfg) (as_u32 (length key + length v)))
             (attribute_deposit_base cfg)
      else 0)"

definition pays_as_owner :: "attribute_namespace \<Rightarrow> account_id \<Rightarrow> collection_details \<Rightarrow> bool" where
  "pays_as_owner namespace depositor d \<longleftrightarrow> namespace = CollectionOwner \<and> cd_owner d = depositor"

definition count_attribute ::
  "attribute_namespace \<Rightarrow> account_id \<Rightarrow> balance \<Rightarrow> collection_details \<Rightarrow> collection_details" where
  "count_attribute namespace depositor price d =
     (let d = d\<lparr>cd_attributes := saturating_inc (cd_attributes d)\<rparr> in
      if pays_as_owner namespace depositor d
      then d\<lparr>cd_owner_deposit := saturating_add (cd_owner_deposit d) price\<rparr> else d)"

definition attribute_unlocked ::
  "collection_config \<Rightarrow> collection_id \<Rightarrow> item_id option \<Rightarrow> attribute_namespace \<Rightarrow> 'x nfts \<Rightarrow> 'e call_error + unit" where
  "attribute_unlocked cc c mi ns s =
     (if ns = CollectionOwner
      then (case mi of
              None \<Rightarrow>
                ensure (collection_config_is_setting_enabled cc collection_setting.UnlockedAttributes)
                  (Module LockedCollectionAttributes) (Inr ())
            | Some item \<Rightarrow>
                andthen (get_item_config c item s) (\<lambda>ic.
                ensure (\<not> item_config_has_disabled_setting ic item_setting.UnlockedAttributes)
                  (Module LockedItemAttributes) (Inr ())))
      else Inr ())"

text \<open>Setting an attribute that is not there yet.\<close>

lemma do_set_attribute_new:
  assumes "sget (Attribute s) (c, mi, ns, k) = None"
  shows "do_set_attribute cfg origin c mi ns k v dep s =
    ensure (is_pallet_feature_enabled cfg Attributes) (Module MethodDisabled) (
    andthen (is_valid_namespace origin ns c mi s) (\<lambda>valid.
    ensure valid (Module NoPermission) (
    andthen (get_collection_config c s) (\<lambda>cc.
    andthen (attribute_unlocked cc c mi ns s) (\<lambda>_.
    ok_or (sget (Collection s) c) (Module UnknownCollection) (\<lambda>d.
    let price = attribute_price cfg cc ns k v in
    andthen (reserve cfg dep price s) (\<lambda>s.
    Inr (deposit_event (AttributeSet c mi k v ns)
      (s\<lparr>Attribute := sput (c, mi, ns, k)
           (v, \<lparr>ad_account = if pays_as_owner ns dep d then None else Some dep, ad_amount = price\<rparr>) (Attribute s),
         Collection := sput c (count_attribute ns dep price d) (Collection s)\<rparr>)))))))))"
  unfolding do_set_attribute_def attribute_unlocked_def
  by (simp add: assms move_deposit_def attribute_price_def pays_as_owner_def count_attribute_def Let_def
      cong: if_cong)

lemma set_new_attribute:
  fixes cfg :: "('x, 'e) config"
  assumes "do_set_attribute cfg origin c mi ns k v dep s = Inr s1"
    and "sget (Attribute s) (c, mi, ns, k) = None"
    and "sget (Collection s) c = Some d" and "sget (CollectionConfigOf s) c = Some cc"
    and p: "p = attribute_price cfg cc ns k v"
  shows "\<exists>x. currency_reserve cfg dep p (ext s) = Inr x \<and>
      s1 = deposit_event (AttributeSet c mi k v ns)
        (s\<lparr>ext := x,
           Attribute := sput (c, mi, ns, k)
             (v, \<lparr>ad_account = if pays_as_owner ns dep d then None else Some dep, ad_amount = p\<rparr>) (Attribute s),
           Collection := sput c (count_attribute ns dep p d) (Collection s)\<rparr>)"
    and "is_valid_namespace origin ns c mi s = (Inr True :: 'e call_error + bool)"
    and "attribute_unlocked cc c mi ns s = (Inr () :: 'e call_error + unit)"
  using assms(1) unfolding do_set_attribute_new [OF assms(2)]
  by (auto simp: exec_simps assms(3,4) p Let_def reserve_def on_ext_def split: sum.splits)

text \<open>Who set an attribute may clear it.\<close>

lemma clear_attribute_allowed:
  fixes cfg :: "('x, 'e) config"
  assumes "is_valid_namespace origin ns c mi s = (Inr True :: 'e call_error + bool)"
    and "attribute_unlocked cc c mi ns s = (Inr () :: 'e call_error + unit)"
    and "sget (CollectionConfigOf s) c = Some cc" and "sget (Attribute s) (c, mi, ns, k) = Some (v, ad)"
    and "sget (Collection s) c = Some d"
  shows "do_clear_attribute cfg (Some origin) c mi ns k s = do_clear_attribute cfg None c mi ns k s"
proof -
  have valid: "is_valid_namespace origin ns c mi (s\<lparr>Attribute := m\<rparr>) = (Inr True :: 'e call_error + bool)" for m
    using assms(1) by (simp add: is_valid_namespace_def has_role_def item_attributes_approvals_def
        split: attribute_namespace.splits option.splits)
  have admin: "ns = CollectionOwner \<Longrightarrow> has_role c origin Admin s"
    using assms(1) by (simp add: is_valid_namespace_def)
  show ?thesis
    using assms(2,3,4) admin
    by (auto simp: do_clear_attribute_def valid attribute_unlocked_def get_collection_config_def get_item_config_def
        has_role_def Let_def exec_simps split: option.splits)
qed

lemma count_attribute_undone:
  assumes "cd_attributes d < u32_max" and "cd_owner_deposit d + p \<le> u128_max"
  shows "(let d = (count_attribute ns dep p d)\<lparr>cd_attributes := saturating_dec (cd_attributes (count_attribute ns dep p d))\<rparr> in
      if pays_as_owner ns dep d then d\<lparr>cd_owner_deposit := saturating_sub (cd_owner_deposit d) p\<rparr> else d) = d"
  using assms
  by (simp add: count_attribute_def Let_def pays_as_owner_def saturating_inc_exact saturating_dec_def saturating_sub_def
      saturating_add_def)

lemma clear_attribute_forced:
  fixes cfg :: "('x, 'e) config"
  assumes "sget (Attribute s) (c, mi, ns, k) = Some (v, \<lparr>ad_account = a, ad_amount = p\<rparr>)"
    and "sget (Collection s) c = Some d'" and "a = (if pays_as_owner ns dep d' then None else Some dep)"
  defines "d \<equiv> d'\<lparr>cd_attributes := saturating_dec (cd_attributes d')\<rparr>"
  shows "do_clear_attribute cfg None c mi ns k s =
    Inr (deposit_event (AttributeCleared c mi k ns)
      (s\<lparr>Attribute := sdel (c, mi, ns, k) (Attribute s), ext := currency_unreserve cfg dep p (ext s),
         Collection := sput c
           (if pays_as_owner ns dep d then d\<lparr>cd_owner_deposit := saturating_sub (cd_owner_deposit d) p\<rparr> else d)
           (Collection s)\<rparr>))"
  using assms
  by (auto simp: do_clear_attribute_def Let_def pays_as_owner_def unreserve_def upd_ext_def)

text \<open>C19: an attribute can be taken back: whoever may set a new attribute, in any namespace and paid by
  anyone, may clear it again, and then every attribute, every collection with its counters and its
  owner's deposit, and every other storage is as it was before, and the depositor has exactly the
  amount unreserved that was reserved.\<close>

theorem set_clear_attribute_roundtrip:
  fixes cfg :: "('x, 'e) config"
  assumes "do_set_attribute cfg origin c mi ns k v dep s = Inr s1"
    and "sget (Attribute s) (c, mi, ns, k) = None"
    and "sget (Collection s) c = Some d" and "sget (CollectionConfigOf s) c = Some cc"
    and "cd_attributes d < u32_max" and "cd_owner_deposit d + attribute_price cfg cc ns k v \<le> u128_max"
  shows "\<exists>s2 x. do_clear_attribute cfg (Some origin) c mi ns k s1 = Inr s2 \<and>
    currency_reserve cfg dep (attribute_price cfg cc ns k v) (ext s) = Inr x \<and>
    ext s2 = currency_unreserve cfg dep (attribute_price cfg cc ns k v) x \<and>
    sget (Attribute s2) = sget (Attribute s) \<and> sget (Collection s2) = sget (Collection s) \<and>
    s2\<lparr>Attribute := Attribute s, Collection := Collection s, ext := ext s, events := events s\<rparr> = s"
proof -
  let ?p = "attribute_price cfg cc ns k v" and ?d = "count_attribute ns dep (attribute_price cfg cc ns k v) d"
  let ?a = "if pays_as_owner ns dep d then None else Some dep"
  note new = set_new_attribute [OF assms(1-4) refl]
  from new(1) obtain x where x: "currency_reserve cfg dep ?p (ext s) = Inr x"
    and s1: "s1 = deposit_event (AttributeSet c mi k v ns)
        (s\<lparr>ext := x, Attribute := sput (c, mi, ns, k) (v, \<lparr>ad_account = ?a, ad_amount = ?p\<rparr>) (Attribute s),
           Collection := sput c ?d (Collection s)\<rparr>)"
    by blast
  have attr: "sget (Attribute s1) (c, mi, ns, k) = Some (v, \<lparr>ad_account = ?a, ad_amount = ?p\<rparr>)"
    and coll: "sget (Collection s1) c = Some ?d" and cc: "sget (CollectionConfigOf s1) c = Some cc"
    using assms(4) by (simp_all add: s1 deposit_event_def storage_simps)
  have same: "pays_as_owner ns dep ?d = pays_as_owner ns dep d"
    by (simp add: count_attribute_def pays_as_owner_def Let_def)
  have valid: "is_valid_namespace origin ns c mi s1 = (Inr True :: 'e call_error + bool)"
    using new(2)
    by (simp add: s1 deposit_event_def is_valid_namespace_def has_role_def item_attributes_approvals_def
        split: attribute_namespace.splits option.splits)
  have unlocked: "attribute_unlocked cc c mi ns s1 = (Inr () :: 'e call_error + unit)"
    using new(3)
    by (simp add: s1 deposit_event_def attribute_unlocked_def get_item_config_def split: option.splits if_splits)
  note undone = count_attribute_undone [OF assms(5,6), of ns dep, unfolded Let_def]
  let ?s2 = "deposit_event (AttributeCleared c mi k ns)
      (s1\<lparr>Attribute := sdel (c, mi, ns, k) (Attribute s1), ext := currency_unreserve cfg dep ?p (ext s1),
          Collection := sput c d (Collection s1)\<rparr>)"
  have "do_clear_attribute cfg (Some origin) c mi ns k s1 = Inr ?s2"
    unfolding clear_attribute_allowed [OF valid unlocked cc attr coll]
    using clear_attribute_forced [OF attr coll, of dep cfg] undone by (simp add: same)
  moreover have "ext ?s2 = currency_unreserve cfg dep ?p x" by (simp add: s1 deposit_event_def)
  moreover have "sget (Attribute ?s2) = sget (Attribute s)" "sget (Collection ?s2) = sget (Collection s)"
    using assms(2,3) by (auto simp: fun_eq_iff s1 deposit_event_def storage_simps)
  moreover have "?s2\<lparr>Attribute := Attribute s, Collection := Collection s, ext := ext s, events := events s\<rparr> = s"
    by (simp add: s1 deposit_event_def)
  ultimately show ?thesis using x by blast
qed

theorem set_clear_attribute_roundtrip_witness:
  "\<exists>s1 s2. do_set_attribute demo_cfg 1 0 (Some 7) CollectionOwner [1] [2, 3] 1 demo_state = Inr s1 \<and>
     do_clear_attribute demo_cfg (Some 1) 0 (Some 7) CollectionOwner [1] s1 = Inr s2 \<and>
     sget (Attribute s2) = sget (Attribute demo_state) \<and> ext s2 = ext demo_state"
proof -
  obtain s1 where s1: "do_set_attribute demo_cfg 1 0 (Some 7) CollectionOwner [1] [2, 3] 1 demo_state = Inr s1"
    by (simp add: eval demo_state_def)
  obtain d where d: "sget (Collection demo_state) 0 = Some d" "cd_attributes d < u32_max" "cd_owner_deposit d = 10"
    by (simp add: sget_def demo_state_def u32_max_def)
  have cc: "sget (CollectionConfigOf demo_state) 0 = Some demo_config"
    and new: "sget (Attribute demo_state) (0, Some 7, CollectionOwner, [1]) = None"
    by (simp_all add: sget_def demo_state_def)
  have p: "attribute_price demo_cfg demo_config CollectionOwner [1] [2, 3] = 5"
    by (simp add: attribute_price_def eval)
  from set_clear_attribute_roundtrip [OF s1 new d(1) cc d(2)] d(3) obtain s2 x
    where "do_clear_attribute demo_cfg (Some 1) 0 (Some 7) CollectionOwner [1] s1 = Inr s2"
      and "sget (Attribute s2) = sget (Attribute demo_state)"
      and x: "currency_reserve demo_cfg 1 5 (ext demo_state) = Inr x" "ext s2 = currency_unreserve demo_cfg 1 5 x"
    by (auto simp: p u128_max_def)
  moreover have "ext s2 = ext demo_state"
    using x by (auto simp: demo_state_def ledger_eval storage_eval Let_def)
  ultimately show ?thesis using s1 by blast
qed

section \<open>Items\<close>

text \<open>A new item of an all-unlocked configuration, as \<open>do_mint\<close> writes it.\<close>

definition mint_price :: "('x, 'e) config \<Rightarrow> collection_config \<Rightarrow> balance" where
  "mint_price cfg cc = (if collection_config_is_setting_enabled cc DepositRequired then item_deposit cfg else 0)"

definition count_item :: "collection_details \<Rightarrow> collection_details" where
  "count_item d =
     d\<lparr>cd_items := saturating_inc (cd_items d), cd_item_configs := saturating_inc (cd_item_configs d)\<rparr>"

definition uncount_item :: "collection_details \<Rightarrow> collection_details" where
  "uncount_item d =
     d\<lparr>cd_items := saturating_dec (cd_items d), cd_item_configs := saturating_dec (cd_item_configs d)\<rparr>"

lemma uncount_count_item:
  "cd_items d < u32_max \<Longrightarrow> cd_item_configs d < u32_max \<Longrightarrow> uncount_item (count_item d) = d"
  by (simp add: count_item_def uncount_item_def saturating_inc_exact saturating_dec_def)

lemma mint_new_item:
  assumes "do_mint cfg c i md who ic no_mint_check s = Inr s1" and "sget (ItemConfigOf s) (c, i) = None"
    and "sget (Collection s) c = Some d" and "sget (CollectionConfigOf s) c = Some cc"
    and "p = mint_price cfg cc" and "payer = (case md of None \<Rightarrow> cd_owner d | Some a \<Rightarrow> a)"
  shows "\<exists>x. currency_reserve cfg payer p (ext s) = Inr x \<and>
    s1 = deposit_event (Issued c i who)
      (s\<lparr>Account := sput (who, c, i) () (Account s), ItemConfigOf := sput (c, i) ic (ItemConfigOf s), ext := x,
         Item := sput (c, i) \<lparr>it_owner = who, it_approvals = [], it_deposit = \<lparr>dep_account = payer, dep_amount = p\<rparr>\<rparr> (Item s),
         Collection := sput c (count_item d) (Collection s)\<rparr>)"
    and "\<not> contains_key (Item s) (c, i)"
  using assms(1)
  by (auto simp: do_mint_def no_mint_check_def exec_simps assms(2-6) get_collection_config_def Let_def reserve_def
      on_ext_def mint_price_def count_item_def split: sum.splits option.splits)

lemma burn_unlocked_item:
  assumes "\<not> is_locked cfg (ext s) c i" and "has_system_attribute cfg c i TransferDisabled s = Inr False"
    and "sget (ItemConfigOf s) (c, i) = Some \<lparr>ic_settings = 0\<rparr>" and "sget (ItemMetadataOf s) (c, i) = None"
    and "sget (Collection s) c = Some d" and "sget (Item s) (c, i) = Some it" and "check it = Inr ()"
  shows "do_burn cfg c i check s =
    Inr (deposit_event (Burned c i (it_owner it))
      (s\<lparr>ext := currency_unreserve cfg (dep_account (it_deposit it)) (dep_amount (it_deposit it)) (ext s),
         Collection := sput c (uncount_item d) (Collection s), Item := sdel (c, i) (Item s),
         Account := sdel (it_owner it, c, i) (Account s), ItemPriceOf := sdel (c, i) (ItemPriceOf s),
         PendingSwapOf := sdel (c, i) (PendingSwapOf s),
         ItemAttributesApprovalsOf := sdel (c, i) (ItemAttributesApprovalsOf s),
         ItemConfigOf := sdel (c, i) (ItemConfigOf s)\<rparr>))"
  using assms
  by (simp add: do_burn_def get_item_config_def item_config_has_disabled_settings_def uncount_item_def
      unreserve_def upd_ext_def Let_def ensure_def)

text \<open>Two states with the same entries in every storage; the order in which a storage lists them and
  the events may differ.\<close>

definition same_entries :: "'x nfts \<Rightarrow> 'x nfts \<Rightarrow> bool" where
  "same_entries s t \<longleftrightarrow>
     sget (Collection s) = sget (Collection t) \<and> sget (OwnershipAcceptance s) = sget (OwnershipAcceptance t) \<and>
     sget (Account s) = sget (Account t) \<and> sget (CollectionAccount s) = sget (CollectionAccount t) \<and>
     sget (CollectionRoleOf s) = sget (CollectionRoleOf t) \<and> sget (Item s) = sget (Item t) \<and>
     sget (CollectionMetadataOf s) = sget (CollectionMetadataOf t) \<and>
     sget (ItemMetadataOf s) = sget (ItemMetadataOf t) \<and> sget (Attribute s) = sget (Attribute t) \<and>
     sget (ItemPriceOf s) = sget (ItemPriceOf t) \<and>
     sget (ItemAttributesApprovalsOf s) = sget (ItemAttributesApprovalsOf t) \<and>
     NextCollectionId s = NextCollectionId t \<and> sget (PendingSwapOf s) = sget (PendingSwapOf t) \<and>
     sget (CollectionConfigOf s) = sget (CollectionConfigOf t) \<and> sget (ItemConfigOf s) = sget (ItemConfigOf t)"

lemma sget_sdel_absent: "sget m k = None \<Longrightarrow> sget (sdel k m) = sget m"
  by (auto simp: fun_eq_iff storage_simps)

lemma sget_sdel_sput_absent: "sget m k = None \<Longrightarrow> sget (sdel k (sput k v m)) = sget m"
  by (auto simp: fun_eq_iff storage_simps)

lemma sget_sput_sput_same: "sget m k = Some v \<Longrightarrow> sget (sput k v (sput k w m)) = sget m"
  by (auto simp: fun_eq_iff storage_simps)

lemmas undo_storage = sget_sdel_absent sget_sdel_sput_absent sget_sput_sput_same

text \<open>Nothing is recorded of an item that does not exist.\<close>

lemma absent_item:
  assumes "reachable cfg n s" and "2 * n \<le> u32_max" and "\<not> contains_key (Item s) (c, i)"
  shows "sget (Account s) (a, c, i) = None" and "sget (ItemPriceOf s) (c, i) = None"
    and "sget (PendingSwapOf s) (c, i) = None" and "sget (ItemAttributesApprovalsOf s) (c, i) = None"
proof -
  have wf: "registry_wf (2 * n) (registry_of s)" by (rule reachable_wf [OF assms(1,2)])
  then have "\<not> contains_key (ItemPriceOf s) (c, i) \<and> \<not> contains_key (PendingSwapOf s) (c, i) \<and>
      \<not> contains_key (ItemAttributesApprovalsOf s) (c, i)"
    using registry_refs_reads [of s c i] assms(3) unfolding registry_wf_def by blast
  then show "sget (ItemPriceOf s) (c, i) = None"
    "sget (PendingSwapOf s) (c, i) = None" "sget (ItemAttributesApprovalsOf s) (c, i) = None"
    by (simp_all only: contains_key_def not_not)
  have "\<not> contains_key (Account s) (a, c, i)"
    using reachable_inv [OF assms(1)] assms(3)
    by (auto simp: nfts_inv_def registry_index_def owner_def contains_key_def)
  then show "sget (Account s) (a, c, i) = None" by (simp only: contains_key_def not_not)
qed

lemma counters_have_room:
  assumes "reachable cfg n s" and "2 * n < u32_max" and "sget (Collection s) c = Some d"
  shows "cd_items d < u32_max" and "cd_item_configs d < u32_max"
proof -
  have "summary_ok (2 * n) (registry_of s) c (summary_of d)"
    using reachable_wf [OF assms(1)] assms(2,3) by (simp add: registry_wf_def registry_counts_alt)
  then show "cd_items d < u32_max" "cd_item_configs d < u32_max"
    using assms(2) by (auto simp: summary_ok_def)
qed

lemma mint_burn_item:
  assumes mint: "do_mint cfg c i md who \<lparr>ic_settings = 0\<rparr> no_mint_check s = Inr s1"
    and fresh: "sget (ItemConfigOf s) (c, i) = None" "sget (ItemMetadataOf s) (c, i) = None"
      "sget (Account s) (who, c, i) = None" "sget (ItemPriceOf s) (c, i) = None"
      "sget (PendingSwapOf s) (c, i) = None" "sget (ItemAttributesApprovalsOf s) (c, i) = None"
    and d: "sget (Collection s) c = Some d" "cd_items d < u32_max" "cd_item_configs d < u32_max"
    and cc: "sget (CollectionConfigOf s) c = Some cc"
    and payer: "payer = (case md of None \<Rightarrow> cd_owner d | Some a \<Rightarrow> a)"
    and free: "\<not> is_locked cfg (ext s1) c i" "has_system_attribute cfg c i TransferDisabled s = Inr False"
    and check: "\<And>it. it_owner it = who \<Longrightarrow> check it = Inr ()"
  shows "\<exists>s2 x. do_burn cfg c i check s1 = Inr s2 \<and>
    currency_reserve cfg payer (mint_price cfg cc) (ext s) = Inr x \<and>
    ext s2 = currency_unreserve cfg payer (mint_price cfg cc) x \<and> same_entries s2 s"
proof -
  let ?it = "\<lparr>it_owner = who, it_approvals = [],
    it_deposit = \<lparr>dep_account = payer, dep_amount = mint_price cfg cc\<rparr>\<rparr>"
  note new = mint_new_item [OF mint fresh(1) d(1) cc refl payer]
  from new(1) obtain x where x: "currency_reserve cfg payer (mint_price cfg cc) (ext s) = Inr x"
    and s1: "s1 = deposit_event (Issued c i who)
      (s\<lparr>Account := sput (who, c, i) () (Account s),
         ItemConfigOf := sput (c, i) \<lparr>ic_settings = 0\<rparr> (ItemConfigOf s), ext := x,
         Item := sput (c, i) ?it (Item s), Collection := sput c (count_item d) (Collection s)\<rparr>)"
    by blast
  have item: "sget (Item s) (c, i) = None" using new(2) by (simp add: contains_key_def)
  have "has_system_attribute cfg c i TransferDisabled s1 = Inr False"
    using free(2) by (simp add: s1 deposit_event_def has_system_attribute_def)
  moreover have "sget (ItemConfigOf s1) (c, i) = Some \<lparr>ic_settings = 0\<rparr>" "sget (ItemMetadataOf s1) (c, i) = None"
    "sget (Collection s1) c = Some (count_item d)" "sget (Item s1) (c, i) = Some ?it"
    using fresh(2) by (simp_all add: s1 deposit_event_def storage_simps)
  moreover have "check ?it = Inr ()" by (rule check) simp
  ultimately obtain s2 where burn: "do_burn cfg c i check s1 = Inr s2"
    and s2: "s2 = deposit_event (Burned c i who)
      (s1\<lparr>ext := currency_unreserve cfg payer (mint_price cfg cc) (ext s1),
         Collection := sput c d (Collection s1), Item := sdel (c, i) (Item s1),
         Account := sdel (who, c, i) (Account s1), ItemPriceOf := sdel (c, i) (ItemPriceOf s1),
         PendingSwapOf := sdel (c, i) (PendingSwapOf s1),
         ItemAttributesApprovalsOf := sdel (c, i) (ItemAttributesApprovalsOf s1),
         ItemConfigOf := sdel (c, i) (ItemConfigOf s1)\<rparr>)"
    using burn_unlocked_item [OF free(1)] uncount_count_item [OF d(2,3)] by simp
  have "same_entries s2 s"
    using fresh item d(1) by (simp add: same_entries_def s2 s1 deposit_event_def undo_storage)
  moreover have "ext s2 = currency_unreserve cfg payer (mint_price cfg cc) x"
    by (simp add: s2 s1 deposit_event_def)
  ultimately show ?thesis using burn x by blast
qed

text \<open>The mints that can be undone: a forced mint with all item settings unlocked, paid for by the
  collection owner, and a mint by the issuer or by the public where the default item settings are all
  unlocked, paid for by the caller. A mint by holders of another collection leaves a mark on the item
  that was presented and is not one of them.\<close>

definition undoable_mint ::
  "collection_id \<Rightarrow> item_id \<Rightarrow> address \<Rightarrow> collection_details \<Rightarrow> collection_config \<Rightarrow> origin \<Rightarrow> call
    \<Rightarrow> account_id \<Rightarrow> bool" where
  "undoable_mint c i l d cc og call payer \<longleftrightarrow>
     (case call of
        ForceMint c' i' l' ic \<Rightarrow> (c', i', l') = (c, i, l) \<and> ic_settings ic = 0 \<and> payer = cd_owner d
      | Mint c' i' l' w \<Rightarrow> (c', i', l') = (c, i, l) \<and> og = Signed payer \<and>
          ms_default_item_settings (cc_mint_settings cc) = 0 \<and>
          (case ms_mint_type (cc_mint_settings cc) of HolderOf g \<Rightarrow> False | _ \<Rightarrow> True)
      | _ \<Rightarrow> False)"

text \<open>The price of a mint, which goes from the caller to the collection owner and stays there.\<close>

definition price_paid ::
  "('x, 'e) config \<Rightarrow> collection_details \<Rightarrow> collection_config \<Rightarrow> call \<Rightarrow> account_id \<Rightarrow> 'x \<Rightarrow> 'x \<Rightarrow> bool" where
  "price_paid cfg d cc call payer x y \<longleftrightarrow>
     (case call of
        Mint c i l w \<Rightarrow>
          (case ms_price (cc_mint_settings cc) of
             None \<Rightarrow> y = x
           | Some p \<Rightarrow> currency_transfer_keep_alive cfg payer (cd_owner d) p x = Inr y)
      | _ \<Rightarrow> y = x)"

lemma do_mint_paid:
  assumes "wd d cc s = Inr (s\<lparr>ext := y\<rparr>)" and "sget (Collection s) c = Some d"
    and "sget (CollectionConfigOf s) c = Some cc"
  shows "do_mint cfg c i md who ic wd s = do_mint cfg c i md who ic no_mint_check (s\<lparr>ext := y\<rparr>)"
  using assms by (simp add: do_mint_def no_mint_check_def get_collection_config_def Let_def ensure_def)

lemma mint_check_paid:
  assumes "mint_check cfg c a w d cc s = Inr t"
    and "case ms_mint_type (cc_mint_settings cc) of HolderOf g \<Rightarrow> False | _ \<Rightarrow> True"
  shows "\<exists>y. t = s\<lparr>ext := y\<rparr> \<and> (case ms_price (cc_mint_settings cc) of
      None \<Rightarrow> y = ext s
    | Some p \<Rightarrow> currency_transfer_keep_alive cfg a (cd_owner d) p (ext s) = Inr y)"
proof -
  have "s\<lparr>ext := ext s\<rparr> = s" by simp
  with assms show ?thesis
    by (cases "ms_price (cc_mint_settings cc)")
       (auto simp: mint_check_def Let_def exec_simps currency_transfer_def split: mint_type.splits)
qed

lemma undoable_mint_paid:
  fixes cfg :: "('x, 'e) config"
  assumes "undoable_mint c i l d cc og call payer" and "dispatch cfg og call s = Inr s1"
    and "lookup cfg l = Inr who" and "sget (Collection s) c = Some d" and "sget (CollectionConfigOf s) c = Some cc"
  shows "\<exists>y md. price_paid cfg d cc call payer (ext s) y \<and> payer = (case md of None \<Rightarrow> cd_owner d | Some a \<Rightarrow> a) \<and>
    do_mint cfg c i md who \<lparr>ic_settings = 0\<rparr> no_mint_check (s\<lparr>ext := y\<rparr>) = Inr s1"
proof (cases call)
  case (ForceMint c' i' l' ic)
  with assms have "ic = \<lparr>ic_settings = 0\<rparr>" "do_mint cfg c i None who ic no_mint_check s = Inr s1" "payer = cd_owner d"
    by (auto simp: undoable_mint_def force_mint_def do_lookup_def exec_simps)
  then show ?thesis using ForceMint by (intro exI [of _ "ext s"] exI [of _ None]) (simp add: price_paid_def)
next
  case (Mint c' i' l' w)
  with assms have m: "do_mint cfg c i (Some payer) who \<lparr>ic_settings = 0\<rparr> (mint_check cfg c payer w) s = Inr s1"
    and ty: "case ms_mint_type (cc_mint_settings cc) of HolderOf g \<Rightarrow> False | _ \<Rightarrow> True"
    by (auto simp: undoable_mint_def mint_def do_lookup_def get_default_item_settings_def
        get_collection_config_def exec_simps)
  from do_mint_Inr [OF m] assms(4,5) obtain t where "mint_check cfg c payer w d cc s = Inr t" by auto
  from mint_check_paid [OF this ty] this obtain y where "mint_check cfg c payer w d cc s = Inr (s\<lparr>ext := y\<rparr>)"
    and "price_paid cfg d cc call payer (ext s) y"
    by (auto simp: price_paid_def Mint)
  with m do_mint_paid [where wd = "mint_check cfg c payer w", OF this(1) assms(4,5)] show ?thesis
    by (intro exI [of _ y] exI [of _ "Some payer"]) simp
qed (use assms(1) in \<open>simp_all add: undoable_mint_def\<close>)

text \<open>C20: minting can be undone. In every reachable state, when an item of which no configuration or
  metadata is left over is minted with all settings unlocked, by force, by the issuer or by the
  public (\<open>undoable_mint\<close>), its owner can burn it at once unless the locker holds the item or its transfer
  was disabled; then every storage has exactly the entries it had before, counters and indexes
  included, and whoever paid the deposit has exactly that amount unreserved. The price of the mint, if
  there is one, stays with the collection owner.\<close>

theorem mint_burn_roundtrip:
  fixes cfg :: "('x, 'e) config"
  assumes "reachable cfg n s" and "2 * n < u32_max"
    and "sget (Collection s) c = Some d" and "sget (CollectionConfigOf s) c = Some cc"
    and "undoable_mint c i l d cc og call payer"
    and "dispatch cfg og call s = Inr s1" and "lookup cfg l = Inr who"
    and "sget (ItemConfigOf s) (c, i) = None" and "sget (ItemMetadataOf s) (c, i) = None"
    and "\<not> is_locked cfg (ext s1) c i" and "has_system_attribute cfg c i TransferDisabled s = Inr False"
  shows "\<exists>s2 x y. price_paid cfg d cc call payer (ext s) y \<and>
    currency_reserve cfg payer (mint_price cfg cc) y = Inr x \<and>
    dispatch cfg (Signed who) (Burn c i) s1 = Inr s2 \<and>
    ext s2 = currency_unreserve cfg payer (mint_price cfg cc) x \<and> same_entries s2 s"
proof -
  from undoable_mint_paid [OF assms(5-7,3,4)] obtain y md where paid: "price_paid cfg d cc call payer (ext s) y"
    and payer: "payer = (case md of None \<Rightarrow> cd_owner d | Some a \<Rightarrow> a)"
    and mint: "do_mint cfg c i md who \<lparr>ic_settings = 0\<rparr> no_mint_check (s\<lparr>ext := y\<rparr>) = Inr s1" by blast
  let ?t = "s\<lparr>ext := y\<rparr>"
  from do_mint_Inr [OF mint] have absent: "\<not> contains_key (Item s) (c, i)" by auto
  note absent = absent_item [OF assms(1) less_imp_le [OF assms(2)] absent]
  note room = counters_have_room [OF assms(1-3)]
  have t: "sget (ItemConfigOf ?t) (c, i) = None" "sget (ItemMetadataOf ?t) (c, i) = None"
    "sget (Account ?t) (who, c, i) = None" "sget (ItemPriceOf ?t) (c, i) = None"
    "sget (PendingSwapOf ?t) (c, i) = None" "sget (ItemAttributesApprovalsOf ?t) (c, i) = None"
    "sget (Collection ?t) c = Some d" "sget (CollectionConfigOf ?t) c = Some cc"
    "has_system_attribute cfg c i TransferDisabled ?t = Inr False"
    using assms(3,4,8,9,11) absent by (simp_all add: has_system_attribute_def)
  obtain mo where mo: "force_or_signed cfg (Signed who) = Inr mo"
      "\<And>it. it_owner it = who \<Longrightarrow> burn_check mo it = (Inr () :: 'e call_error + unit)"
    by (cases "force_origin cfg (Signed who)")
      (auto simp: force_or_signed_def burn_check_def ensure_def)
  then have burn: "dispatch cfg (Signed who) (Burn c i) s1 = do_burn cfg c i (burn_check mo) s1"
    by (simp add: burn_def)
  have "\<exists>s2 x. do_burn cfg c i (burn_check mo) s1 = Inr s2 \<and>
      currency_reserve cfg payer (mint_price cfg cc) (ext ?t) = Inr x \<and>
      ext s2 = currency_unreserve cfg payer (mint_price cfg cc) x \<and> same_entries s2 ?t"
    by (rule mint_burn_item [OF mint t(1-7) room t(8) payer assms(10) t(9) mo(2)])
  then show ?thesis unfolding burn using paid by (auto simp: same_entries_def)
qed

theorem mint_burn_roundtrip_witness:
  "\<exists>s1 s2. dispatch demo_cfg (Signed 1) (Mint 0 8 [2] None) demo_state = Inr s1 \<and>
     dispatch demo_cfg (Signed 2) (Burn 0 8) s1 = Inr s2 \<and> same_entries s2 demo_state"
proof -
  obtain s1 where s1: "dispatch demo_cfg (Signed 1) (Mint 0 8 [2] None) demo_state = Inr s1"
    by (simp add: eval demo_state_def)
  obtain d where d: "sget (Collection demo_state) 0 = Some d" by (simp add: eval demo_state_def)
  have "sget (CollectionConfigOf demo_state) 0 = Some demo_config"
    "undoable_mint 0 8 [2] d demo_config (Signed 1) (Mint 0 8 [2] None) 1"
    by (simp_all add: eval demo_state_def undoable_mint_def)
  moreover have "lookup demo_cfg [2] = Inr 2" "sget (ItemConfigOf demo_state) (0, 8) = None"
    "sget (ItemMetadataOf demo_state) (0, 8) = None" "\<not> is_locked demo_cfg (ext s1) 0 8"
    "has_system_attribute demo_cfg 0 8 TransferDisabled demo_state = Inr False"
    by (simp_all add: eval demo_state_def)
  ultimately show ?thesis
    using mint_burn_roundtrip [OF demo_reachable _ d _ _ s1] s1 by (fastforce simp: u32_max_def)
qed

end
