(* ===== verification/Runtime_Queries.thy ===== *)
theory Runtime_Queries
  imports Nfts_Nonfungibles Nfts_Deposits
begin

text \<open>
  What the runtimes answer to the outside: the runtime API of the NFTs pallet (\<open>impl NftsApi for
  Runtime\<close> in \<open>runtime/devnet/src/lib.rs\<close>, declared in \<open>pallets/nfts/runtime-api\<close>), and the filters of
  incoming cross-chain messages that the runtime defines itself
  (\<open>runtime/devnet/src/config/xcm.rs\<close>). Locations are modelled as far as those filters look at them.
\<close>

section \<open>The runtime API of the NFTs pallet\<close>

definition api_owner :: "collection_id \<Rightarrow> item_id \<Rightarrow> 'x nfts \<Rightarrow> account_id option" where
  "api_owner collection item s = nf_owner collection item s"

definition api_collection_owner :: "collection_id \<Rightarrow> 'x nfts \<Rightarrow> account_id option" where
  "api_collection_owner collection s = nf_collection_owner collection s"

definition api_attribute :: "('x, 'e) config \<Rightarrow> collection_id \<Rightarrow> item_id \<Rightarrow> bytes \<Rightarrow> 'x nfts \<Rightarrow> bytes option" where
  "api_attribute cfg collection item key s = nf_attribute cfg collection item key s"

definition api_custom_attribute ::
  "('x, 'e) config \<Rightarrow> account_id \<Rightarrow> collection_id \<Rightarrow> item_id \<Rightarrow> bytes \<Rightarrow> 'x nfts \<Rightarrow> bytes option" where
  "api_custom_attribute cfg account collection item key s = nf_custom_attribute cfg account collection item key s"

definition api_system_attribute ::
  "('x, 'e) config \<Rightarrow> collection_id \<Rightarrow> item_id option \<Rightarrow> bytes \<Rightarrow> 'x nfts \<Rightarrow> bytes option" where
  "api_system_attribute cfg collection item key s = nf_system_attribute cfg collection item key s"

definition api_collection_attribute :: "('x, 'e) config \<Rightarrow> collection_id \<Rightarrow> bytes \<Rightarrow> 'x nfts \<Rightarrow> bytes option" where
  "api_collection_attribute cfg collection key s = nf_collection_attribute cfg collection key s"

text \<open>What an attribute call wrote, whatever was there before.\<close>

lemma set_attribute_stores:
  assumes "do_set_attribute cfg origin c mi ns k v dep s = Inr s'"
  shows "(\<exists>a. sget (Attribute s') (c, mi, ns, k) = Some (v, a)) \<and> Account s' = Account s"
proof -
  have moved: "Account s1 = Account s \<and> Attribute s1 = Attribute s" if "move_deposit cfg o1 a1 d1 p1 s = Inr s1"
    for o1 a1 d1 p1 s1
    using that by (auto simp: move_deposit_def reserve_def unreserve_def on_ext_def upd_ext_def
        split: if_splits option.splits sum.splits)
  from assms show ?thesis
    unfolding do_set_attribute_def Let_def exec_simps
    by (auto dest!: moved simp: deposit_event_def storage_simps)
qed

text \<open>Which question of the API reads an attribute back: the collection's and its items' attributes by
  their keys; an item owner's as that account's; a delegate's as that account's, unless the delegate
  owns the item, whose own attributes then hide those written as a delegate.\<close>

lemma attribute_read_back:
  assumes "do_set_attribute cfg origin c mi ns k v dep s = Inr s'" and "length k \<le> key_limit cfg" and "k \<noteq> []"
  shows "ns = CollectionOwner \<Longrightarrow> mi = None \<Longrightarrow> api_collection_attribute cfg c k s' = Some v"
    and "ns = CollectionOwner \<Longrightarrow> mi = Some i \<Longrightarrow> api_attribute cfg c i k s' = Some v"
    and "ns = ItemOwner \<Longrightarrow> mi = Some i \<Longrightarrow> contains_key (Account s) (a, c, i) \<Longrightarrow>
      api_custom_attribute cfg a c i k s' = Some v"
    and "ns = attribute_namespace.Account a \<Longrightarrow> mi = Some i \<Longrightarrow> \<not> contains_key (Account s) (a, c, i) \<Longrightarrow>
      api_custom_attribute cfg a c i k s' = Some v"
  using set_attribute_stores [OF assms(1)] assms(2,3)
  by (auto simp: api_collection_attribute_def nf_collection_attribute_def api_attribute_def nf_attribute_def
      api_custom_attribute_def nf_custom_attribute_def bounded_slice_def contains_key_def
      split: option.splits)

section \<open>Filters of cross-chain messages\<close>

datatype body_id = Executive | OtherBody bytes

datatype junction = Parachain u32 | Plurality body_id | OtherJunction bytes

record location =
  loc_parents :: nat
  loc_interior :: "junction list"

datatype fungibility = Fungible balance | NonFungible bytes

record xcm_asset =
  asset_id :: location
  asset_fun :: fungibility

definition RelayLocation :: location where
  "RelayLocation = \<lparr>loc_parents = 1, loc_interior = []\<rparr>"

definition AssetHub :: location where
  "AssetHub = \<lparr>loc_parents = 1, loc_interior = [Parachain 1000]\<rparr>"

definition parent_or_parents_executive :: "location \<Rightarrow> bool" where
  "parent_or_parents_executive l \<longleftrightarrow>
     (case (loc_parents l, loc_interior l) of
        (n, []) \<Rightarrow> n = 1
      | (n, [Plurality b]) \<Rightarrow> n = 1 \<and> b = Executive
      | _ \<Rightarrow> False)"

definition native_asset_from :: "location \<Rightarrow> xcm_asset \<Rightarrow> location \<Rightarrow> bool" where
  "native_asset_from loc asset origin \<longleftrightarrow>
     loc = origin \<and> (case asset_fun asset of Fungible _ \<Rightarrow> asset_id asset = RelayLocation | NonFungible _ \<Rightarrow> False)"

text \<open>\<open>TrustedReserves\<close>: \<open>NativeAsset\<close> of \<open>xcm-builder\<close> is outside code and a parameter.\<close>

definition trusted_reserves :: "(xcm_asset \<Rightarrow> location \<Rightarrow> bool) \<Rightarrow> xcm_asset \<Rightarrow> location \<Rightarrow> bool" where
  "trusted_reserves native_asset asset origin \<longleftrightarrow> native_asset asset origin \<or> native_asset_from AssetHub asset origin"

text \<open>Free execution is for the relay chain and its executive body only; apart from what \<open>NativeAsset\<close>
  admits, only the relay chain's token is trusted, and only from the asset hub.\<close>

lemma unpaid_execution_exact:
  "parent_or_parents_executive l \<longleftrightarrow>
     loc_parents l = 1 \<and> (loc_interior l = [] \<or> loc_interior l = [Plurality Executive])"
proof (cases "loc_interior l")
  case (Cons j js)
  then show ?thesis
    by (cases js) (auto simp: parent_or_parents_executive_def split: junction.splits)
qed (simp add: parent_or_parents_executive_def)

lemma trusted_reserves_exact:
  "trusted_reserves native_asset asset origin \<longleftrightarrow> native_asset asset origin \<or>
     origin = AssetHub \<and> (\<exists>n. asset = \<lparr>asset_id = RelayLocation, asset_fun = Fungible n\<rparr>)"
  by (cases asset) (auto simp: trusted_reserves_def native_asset_from_def split: fungibility.splits)

end
