(* ===== verification/Primitives.thy ===== *)
theory Primitives
  imports Bitflags
begin

text \<open>
  The crate \<open>pop-primitives\<close> (\<open>primitives/src/lib.rs\<close>): the error type that the runtime and the
  contracts share, its SCALE codec as derived from the enum (one byte for the discriminant written
  in the source, then the fields), and the conversions between an error and the \<open>u32\<close> status code
  that crosses the chain extension.
\<close>

section \<open>Types\<close>

type_synonym token_id = u32

datatype token_error =
  FundsUnavailable | OnlyProvider | BelowMinimum | CannotCreate | UnknownAsset | Frozen
| Unsupported | CannotCreateHold | NotExpendable | Blocked

datatype arithmetic_error = Underflow | Overflow | DivisionByZero

datatype transactional_error = LimitReached | NoLayer

datatype pop_error =
  Other
| CannotLookup
| BadOrigin
| Module (pe_index: u8) (pe_error: "u8 \<times> u8")
| ConsumerRemaining
| NoProviders
| TooManyConsumers
| Token token_error
| Arithmetic arithmetic_error
| Transactional transactional_error
| Exhausted
| Corruption
| Unavailable
| RootNotAllowed
| DecodingFailed
| Unknown (pe_dispatch_error_index: u8) (pe_error_index: u8) (pe_sub_error: u8)

text \<open>The variants of the inner enums in the order of their indexes.\<close>

definition token_error_variants :: "token_error list" where
  "token_error_variants =
     [FundsUnavailable, OnlyProvider, BelowMinimum, CannotCreate, UnknownAsset, Frozen,
      Unsupported, CannotCreateHold, NotExpendable, Blocked]"

definition arithmetic_error_variants :: "arithmetic_error list" where
  "arithmetic_error_variants = [Underflow, Overflow, DivisionByZero]"

definition transactional_error_variants :: "transactional_error list" where
  "transactional_error_variants = [LimitReached, NoLayer]"

section \<open>The derived codec\<close>

text \<open>A fieldless enum is one byte: the position of the variant. An index beyond the last variant
  does not decode.\<close>

fun variant_index :: "'v list \<Rightarrow> 'v \<Rightarrow> nat" where
  "variant_index [] v = 0"
| "variant_index (x # xs) v = (if x = v then 0 else Suc (variant_index xs v))"

definition variant_at :: "'v list \<Rightarrow> u8 \<Rightarrow> 'v option" where
  "variant_at vs b = (if unat b < length vs then Some (vs ! unat b) else None)"

fun error_encode :: "pop_error \<Rightarrow> u8 list" where
  "error_encode Other = [0]"
| "error_encode CannotLookup = [1]"
| "error_encode BadOrigin = [2]"
| "error_encode (Module i (a, b)) = [3, i, a, b]"
| "error_encode ConsumerRemaining = [4]"
| "error_encode NoProviders = [5]"
| "error_encode TooManyConsumers = [6]"
| "error_encode (Token e) = [7, of_nat (variant_index token_error_variants e)]"
| "error_encode (Arithmetic e) = [8, of_nat (variant_index arithmetic_error_variants e)]"
| "error_encode (Transactional e) = [9, of_nat (variant_index transactional_error_variants e)]"
| "error_encode Exhausted = [10]"
| "error_encode Corruption = [11]"
| "error_encode Unavailable = [12]"
| "error_encode RootNotAllowed = [13]"
| "error_encode DecodingFailed = [254]"
| "error_encode (Unknown d i e) = [255, d, i, e]"

text \<open>Decoding reads from the front and leaves the rest; the caller ignores what is left.\<close>

definition decode_inner :: "('v \<Rightarrow> pop_error) \<Rightarrow> 'v list \<Rightarrow> u8 list \<Rightarrow> pop_error option" where
  "decode_inner c vs input = (case input of [] \<Rightarrow> None | b # _ \<Rightarrow> map_option c (variant_at vs b))"

definition error_decode :: "u8 list \<Rightarrow> pop_error option" where
  "error_decode input =
     (case input of
        [] \<Rightarrow> None
      | t # rest \<Rightarrow>
          if t = 0 then Some Other
          else if t = 1 then Some CannotLookup
          else if t = 2 then Some BadOrigin
          else if t = 3 then (case rest of i # a # b # _ \<Rightarrow> Some (Module i (a, b)) | _ \<Rightarrow> None)
          else if t = 4 then Some ConsumerRemaining
          else if t = 5 then Some NoProviders
          else if t = 6 then Some TooManyConsumers
          else if t = 7 then decode_inner Token token_error_variants rest
          else if t = 8 then decode_inner Arithmetic arithmetic_error_variants rest
          else if t = 9 then decode_inner Transactional transactional_error_variants rest
          else if t = 10 then Some Exhausted
          else if t = 11 then Some Corruption
          else if t = 12 then Some Unavailable
          else if t = 13 then Some RootNotAllowed
          else if t = 254 then Some DecodingFailed
          else if t = 255 then (case rest of d # i # e # _ \<Rightarrow> Some (Unknown d i e) | _ \<Rightarrow> None)
          else None)"

section \<open>Status codes\<close>

text \<open>\<open>Vec::resize(4, 0)\<close>: cut or pad with zeros.\<close>

definition resize :: "nat \<Rightarrow> 'a \<Rightarrow> 'a list \<Rightarrow> 'a list" where
  "resize n v xs = take n xs @ replicate (n - length xs) v"

definition error_from_u32 :: "u32 \<Rightarrow> pop_error" where
  "error_from_u32 value =
     (case error_decode (le_bytes 4 value) of Some e \<Rightarrow> e | None \<Rightarrow> DecodingFailed)"

definition error_to_u32 :: "pop_error \<Rightarrow> u32" where
  "error_to_u32 value = from_le_bytes (resize 4 0 (error_encode value))"

section \<open>Lemmas\<close>

lemma variant_index_less: "v \<in> set vs \<Longrightarrow> variant_index vs v < length vs"
  by (induction vs) auto

lemma nth_variant_index: "v \<in> set vs \<Longrightarrow> vs ! variant_index vs v = v"
  by (induction vs) auto

lemma variant_at_index:
  assumes "v \<in> set vs" and "length vs \<le> 256"
  shows "variant_at vs (of_nat (variant_index vs v)) = Some v"
proof -
  from assms have "unat (of_nat (variant_index vs v) :: u8) = variant_index vs v"
    using variant_index_less [OF assms(1)] by (simp add: unsigned_of_nat take_bit_eq_mod)
  with assms show ?thesis by (simp add: variant_at_def variant_index_less nth_variant_index)
qed

lemma token_variants_complete: "e \<in> set token_error_variants"
  by (cases e) (simp_all add: token_error_variants_def)

lemma arithmetic_variants_complete: "e \<in> set arithmetic_error_variants"
  by (cases e) (simp_all add: arithmetic_error_variants_def)

lemma transactional_variants_complete: "e \<in> set transactional_error_variants"
  by (cases e) (simp_all add: transactional_error_variants_def)

lemmas variants_complete =
  token_variants_complete arithmetic_variants_complete transactional_variants_complete

lemma variants_short:
  "length token_error_variants \<le> 256" "length arithmetic_error_variants \<le> 256"
  "length transactional_error_variants \<le> 256"
  by (simp_all add: token_error_variants_def arithmetic_error_variants_def transactional_error_variants_def)

lemma error_decode_encode: "error_decode (error_encode e @ rest) = Some e"
  by (cases e rule: error_encode.cases)
     (simp_all add: error_decode_def decode_inner_def variant_at_index variants_complete variants_short)

lemma length_error_encode: "length (error_encode e) \<le> 4"
  by (cases e rule: error_encode.cases) simp_all

lemma resize_short: "length xs \<le> n \<Longrightarrow> resize n v xs = xs @ replicate (n - length xs) v"
  by (simp add: resize_def)

lemma le_bytes_error_to_u32: "le_bytes 4 (error_to_u32 e) = error_encode e @ replicate (4 - length (error_encode e)) 0"
proof -
  let ?bs = "error_encode e @ replicate (4 - length (error_encode e)) 0"
  have "length ?bs = 4" using length_error_encode [of e] by simp
  then show ?thesis
    using le_bytes_from_le_bytes [where bs = ?bs and 'w = 32] length_error_encode [of e]
    by (simp add: error_to_u32_def resize_short)
qed

lemma error_from_to: "error_from_u32 (error_to_u32 e) = e"
  by (simp add: error_from_u32_def le_bytes_error_to_u32 error_decode_encode)

lemma error_to_u32_inject: "error_to_u32 e = error_to_u32 f \<longleftrightarrow> e = f"
  by (metis error_from_to)

lemma decode_inner_fails:
  "decode_inner c vs (b # rest) = None \<longleftrightarrow> length vs \<le> unat b"
  "(\<And>v. c v \<noteq> DecodingFailed) \<Longrightarrow> decode_inner c vs (b # rest) \<noteq> Some DecodingFailed"
  by (auto simp: decode_inner_def variant_at_def)

section \<open>Properties\<close>

text \<open>C24: every error survives the trip through its status code, so distinct errors have distinct
  codes and none of the four bytes is lost.\<close>

theorem error_status_roundtrip:
  "error_from_u32 (error_to_u32 e) = e \<and> (error_to_u32 e = error_to_u32 f \<longleftrightarrow> e = f) \<and>
   take (length (error_encode e)) (le_bytes 4 (error_to_u32 e)) = error_encode e"
  by (simp add: error_from_to error_to_u32_inject le_bytes_error_to_u32)

text \<open>The only status codes a contract reads as \<open>DecodingFailed\<close> are the code of that error itself,
  whatever follows its first byte, and those that the codec refuses: an unknown discriminant, or a
  token, arithmetic or transactional error with an index beyond its enum.\<close>

theorem undecodable_status_codes:
  "error_from_u32 c = DecodingFailed \<longleftrightarrow>
     (let b0 = unat (le_bytes 4 c ! 0); b1 = unat (le_bytes 4 c ! 1) in
        14 \<le> b0 \<and> b0 \<le> 254 \<or> b0 = 7 \<and> 10 \<le> b1 \<or> b0 = 8 \<and> 3 \<le> b1 \<or> b0 = 9 \<and> 2 \<le> b1)"
proof -
  define t where "t = (ucast c :: u8)"
  define b where "b = (ucast (drop_bit 8 c) :: u8)"
  have "unat t < 256" using unsigned_less [of t] by simp
  then have "unat t \<in> {0, 1, 2, 3, 4, 5, 6, 10, 11, 12, 13, 255} \<or> unat t \<in> {7, 8, 9, 254} \<or>
      14 \<le> unat t \<and> unat t < 254"
    by simp arith
  then consider "t \<in> {0, 1, 2, 3, 4, 5, 6, 10, 11, 12, 13, 255}" | "t \<in> {7, 8, 9, 254}" |
    "14 \<le> unat t" "unat t < 254"
    by (auto simp: word_unat_eq_iff)
  then show ?thesis
  proof cases
    case 3
    then show ?thesis
      by (simp add: error_from_u32_def le_bytes_4 t_def [symmetric] error_decode_def word_unat_eq_iff)
  qed (auto simp: error_from_u32_def le_bytes_4 t_def [symmetric] b_def [symmetric] error_decode_def
      decode_inner_def variant_at_def token_error_variants_def arithmetic_error_variants_def
      transactional_error_variants_def split: option.splits)
qed

end
