(* ===== verification/Versioning.thy ===== *)
theory Versioning
  imports Primitives
begin

text \<open>
  The versioned types of the chain extension (\<open>runtime/devnet/src/config/api/versioning.rs\<close>, which
  the testnet runtime repeats word for word): calls, reads, results and errors carry a version
  byte, and version zero maps every \<open>DispatchError\<close> of the runtime to a \<open>pop_primitives\<close> error. The
  datatype \<open>dispatch_error\<close> has the variants of \<open>sp_runtime::DispatchError\<close> that the source
  matches on.
\<close>

section \<open>Errors of the runtime\<close>

record module_error =
  me_index :: u8
  me_error :: "u8 \<times> u8 \<times> u8 \<times> u8"
  me_message :: "string option"

datatype sp_token_error =
  FundsUnavailable | OnlyProvider | BelowMinimum | CannotCreate | UnknownAsset | Frozen
| Unsupported | CannotCreateHold | NotExpendable | Blocked

datatype sp_arithmetic_error = Underflow | Overflow | DivisionByZero

datatype sp_transactional_error = LimitReached | NoLayer

datatype dispatch_error =
  Other string
| CannotLookup
| BadOrigin
| Module module_error
| ConsumerRemaining
| NoProviders
| TooManyConsumers
| Token sp_token_error
| Arithmetic sp_arithmetic_error
| Transactional sp_transactional_error
| Exhausted
| Corruption
| Unavailable
| RootNotAllowed

text \<open>\<open><crate::Contracts as PalletInfoAccess>::index()\<close>, the index that \<open>construct_runtime\<close> gives
  \<open>pallet_contracts\<close>, and \<open>DECODING_FAILED_ERROR\<close> of \<open>pallets/api/src/extension.rs\<close>.\<close>

definition contracts_index :: u8 where
  "contracts_index = 40"

definition DECODING_FAILED_ERROR :: "u8 \<times> u8 \<times> u8 \<times> u8" where
  "DECODING_FAILED_ERROR = (11, 0, 0, 0)"

text \<open>\<open>pallet_contracts::Error::<Runtime>::DecodingFailed.into()\<close>.\<close>

definition contracts_decoding_failed :: dispatch_error where
  "contracts_decoding_failed =
     dispatch_error.Module \<lparr>me_index = contracts_index, me_error = DECODING_FAILED_ERROR,
       me_message = Some ''DecodingFailed''\<rparr>"

section \<open>Version zero of the errors\<close>

fun V0Error_token :: "sp_token_error \<Rightarrow> token_error" where
  "V0Error_token sp_token_error.FundsUnavailable = token_error.FundsUnavailable"
| "V0Error_token sp_token_error.OnlyProvider = token_error.OnlyProvider"
| "V0Error_token sp_token_error.BelowMinimum = token_error.BelowMinimum"
| "V0Error_token sp_token_error.CannotCreate = token_error.CannotCreate"
| "V0Error_token sp_token_error.UnknownAsset = token_error.UnknownAsset"
| "V0Error_token sp_token_error.Frozen = token_error.Frozen"
| "V0Error_token sp_token_error.Unsupported = token_error.Unsupported"
| "V0Error_token sp_token_error.CannotCreateHold = token_error.CannotCreateHold"
| "V0Error_token sp_token_error.NotExpendable = token_error.NotExpendable"
| "V0Error_token sp_token_error.Blocked = token_error.Blocked"

fun V0Error_arithmetic :: "sp_arithmetic_error \<Rightarrow> arithmetic_error" where
  "V0Error_arithmetic sp_arithmetic_error.Underflow = arithmetic_error.Underflow"
| "V0Error_arithmetic sp_arithmetic_error.Overflow = arithmetic_error.Overflow"
| "V0Error_arithmetic sp_arithmetic_error.DivisionByZero = arithmetic_error.DivisionByZero"

fun V0Error_transactional :: "sp_transactional_error \<Rightarrow> transactional_error" where
  "V0Error_transactional sp_transactional_error.LimitReached = transactional_error.LimitReached"
| "V0Error_transactional sp_transactional_error.NoLayer = transactional_error.NoLayer"

fun V0Error_from :: "dispatch_error \<Rightarrow> pop_error" where
  "V0Error_from (dispatch_error.Other _) = pop_error.Other"
| "V0Error_from dispatch_error.CannotLookup = pop_error.CannotLookup"
| "V0Error_from dispatch_error.BadOrigin = pop_error.BadOrigin"
| "V0Error_from (dispatch_error.Module m) =
     (if me_index m = contracts_index \<and> me_error m = DECODING_FAILED_ERROR then DecodingFailed
      else (case me_error m of (e0, e1, _, _) \<Rightarrow> pop_error.Module (me_index m) (e0, e1)))"
| "V0Error_from dispatch_error.ConsumerRemaining = pop_error.ConsumerRemaining"
| "V0Error_from dispatch_error.NoProviders = pop_error.NoProviders"
| "V0Error_from dispatch_error.TooManyConsumers = pop_error.TooManyConsumers"
| "V0Error_from (dispatch_error.Token e) = pop_error.Token (V0Error_token e)"
| "V0Error_from (dispatch_error.Arithmetic e) = pop_error.Arithmetic (V0Error_arithmetic e)"
| "V0Error_from (dispatch_error.Transactional e) = pop_error.Transactional (V0Error_transactional e)"
| "V0Error_from dispatch_error.Exhausted = pop_error.Exhausted"
| "V0Error_from dispatch_error.Corruption = pop_error.Corruption"
| "V0Error_from dispatch_error.Unavailable = pop_error.Unavailable"
| "V0Error_from dispatch_error.RootNotAllowed = pop_error.RootNotAllowed"

datatype versioned_error = V0 pop_error

definition versioned_error_try_from :: "dispatch_error \<Rightarrow> u8 \<Rightarrow> dispatch_error + versioned_error" where
  "versioned_error_try_from error version =
     (if version = 0 then Inr (versioned_error.V0 (V0Error_from error)) else Inl contracts_decoding_failed)"

fun versioned_error_to_u32 :: "versioned_error \<Rightarrow> u32" where
  "versioned_error_to_u32 (versioned_error.V0 error) = error_to_u32 error"

section \<open>Versioned calls, reads and results\<close>

datatype 'c versioned_runtime_call = V0 'c

fun runtime_call_from :: "'c versioned_runtime_call \<Rightarrow> 'c" where
  "runtime_call_from (versioned_runtime_call.V0 call) = call"

datatype 'r versioned_runtime_read = V0 'r

fun runtime_read_from :: "'r versioned_runtime_read \<Rightarrow> 'r" where
  "runtime_read_from (versioned_runtime_read.V0 read) = read"

datatype 'r versioned_runtime_result = V0 'r

definition versioned_runtime_result_try_from ::
  "'r \<Rightarrow> u8 \<Rightarrow> dispatch_error + 'r versioned_runtime_result" where
  "versioned_runtime_result_try_from result version =
     (if version = 0 then Inr (versioned_runtime_result.V0 result) else Inl contracts_decoding_failed)"

fun versioned_runtime_result_into :: "('r \<Rightarrow> bytes) \<Rightarrow> 'r versioned_runtime_result \<Rightarrow> bytes" where
  "versioned_runtime_result_into encode (versioned_runtime_result.V0 result) = encode result"

section \<open>What the conversion keeps\<close>

text \<open>The status code of a failed call under version zero.\<close>

definition v0_status :: "dispatch_error \<Rightarrow> u32" where
  "v0_status e = versioned_error_to_u32 (versioned_error.V0 (V0Error_from e))"

lemma V0Error_token_inject: "V0Error_token a = V0Error_token b \<longleftrightarrow> a = b"
  by (cases a; cases b) simp_all

lemma V0Error_arithmetic_inject: "V0Error_arithmetic a = V0Error_arithmetic b \<longleftrightarrow> a = b"
  by (cases a; cases b) simp_all

lemma V0Error_transactional_inject: "V0Error_transactional a = V0Error_transactional b \<longleftrightarrow> a = b"
  by (cases a; cases b) simp_all

text \<open>What is forgotten: the message of \<open>Other\<close> and of a module error, and the last two bytes of the
  error of a module, except in the one error that has a code of its own.\<close>

fun forget :: "dispatch_error \<Rightarrow> dispatch_error" where
  "forget (dispatch_error.Other _) = dispatch_error.Other []"
| "forget (dispatch_error.Module m) =
     (if me_index m = contracts_index \<and> me_error m = DECODING_FAILED_ERROR then contracts_decoding_failed
      else (case me_error m of (e0, e1, _, _) \<Rightarrow>
        dispatch_error.Module \<lparr>me_index = me_index m, me_error = (e0, e1, 255, 255), me_message = None\<rparr>))"
| "forget e = e"

lemma V0Error_from_eq_iff: "V0Error_from a = V0Error_from b \<longleftrightarrow> forget a = forget b"
  by (cases a; cases b)
     (auto simp: V0Error_token_inject V0Error_arithmetic_inject V0Error_transactional_inject
       contracts_decoding_failed_def DECODING_FAILED_ERROR_def split: prod.splits)

lemma error_to_u32_Other: "error_to_u32 pop_error.Other = 0"
  by (simp add: error_to_u32_def resize_def numeral_eq_Suc)

lemma error_to_u32_zero: "error_to_u32 e = 0 \<longleftrightarrow> e = pop_error.Other"
  using error_to_u32_inject [of e pop_error.Other] by (simp add: error_to_u32_Other)

lemma V0Error_from_Other: "V0Error_from e = pop_error.Other \<longleftrightarrow> (\<exists>m. e = dispatch_error.Other m)"
  by (cases e) (auto split: prod.splits)

section \<open>Properties\<close>

text \<open>Under version zero two runtime errors reach a contract as the same status code exactly when
  they differ only in what the code deliberately drops: the text messages and, for module errors
  other than the decoding failure of the contracts pallet, the third and fourth error byte.\<close>

theorem v0_status_lossless:
  "v0_status a = v0_status b \<longleftrightarrow> forget a = forget b"
  by (simp add: v0_status_def error_to_u32_inject V0Error_from_eq_iff)

text \<open>The contract can recover the version-zero error from the status code, a failure has the code
  zero exactly when it is \<open>DispatchError::Other\<close>, and the decoding error of the contracts pallet
  reads back as \<open>DecodingFailed\<close>.\<close>

theorem versioned_error_codes:
  "error_from_u32 (v0_status e) = V0Error_from e \<and>
   (v0_status e = 0 \<longleftrightarrow> (\<exists>m. e = dispatch_error.Other m)) \<and>
   error_from_u32 (v0_status contracts_decoding_failed) = DecodingFailed"
  by (simp add: v0_status_def error_from_to error_to_u32_zero V0Error_from_Other
      contracts_decoding_failed_def)

end
