(* ===== verification/Fungibles.thy ===== *)
theory Fungibles
  imports Versioning
begin

text \<open>
  The fungibles pallet (\<open>pallets/api/src/fungibles/mod.rs\<close> and \<open>weights.rs\<close>): the calls that
  contracts reach through the chain extension, each over a call of \<open>pallet_assets\<close>, and the state
  reads. \<open>pallet_assets\<close>, the address lookup and the database weights are outside the repository:
  they are fields of the record \<open>fungibles_config\<close>, over an external state \<open>'x\<close>. A dispatchable that
  fails leaves the state as it was (FRAME runs it in a storage layer), so a failure carries only
  the error and, where the source attaches one, the weight it used up.
\<close>

section \<open>Weights\<close>

record weight =
  ref_time :: nat
  proof_size :: nat

definition u64_max :: nat where
  "u64_max = 2 ^ 64 - 1"

definition from_parts :: "nat \<Rightarrow> nat \<Rightarrow> weight" where
  "from_parts r p = \<lparr>ref_time = r, proof_size = p\<rparr>"

definition weight_saturating_add :: "weight \<Rightarrow> weight \<Rightarrow> weight" where
  "weight_saturating_add v w =
     from_parts (min (ref_time v + ref_time w) u64_max) (min (proof_size v + proof_size w) u64_max)"

definition weight_saturating_mul :: "weight \<Rightarrow> nat \<Rightarrow> weight" where
  "weight_saturating_mul w n = from_parts (min (ref_time w * n) u64_max) (min (proof_size w * n) u64_max)"

definition weight_le :: "weight \<Rightarrow> weight \<Rightarrow> bool" where
  "weight_le v w \<longleftrightarrow> ref_time v \<le> ref_time w \<and> proof_size v \<le> proof_size w"

section \<open>Configuration\<close>

record 'x fungibles_config =
  unlookup :: "account_id \<Rightarrow> address"
  assets_transfer_keep_alive :: "origin \<Rightarrow> token_id \<Rightarrow> address \<Rightarrow> balance \<Rightarrow> 'x \<Rightarrow> dispatch_error + 'x"
  assets_transfer_approved ::
    "origin \<Rightarrow> token_id \<Rightarrow> address \<Rightarrow> address \<Rightarrow> balance \<Rightarrow> 'x \<Rightarrow> dispatch_error + 'x"
  assets_approve_transfer :: "origin \<Rightarrow> token_id \<Rightarrow> address \<Rightarrow> balance \<Rightarrow> 'x \<Rightarrow> dispatch_error + 'x"
  assets_cancel_approval :: "origin \<Rightarrow> token_id \<Rightarrow> address \<Rightarrow> 'x \<Rightarrow> dispatch_error + 'x"
  assets_create :: "origin \<Rightarrow> token_id \<Rightarrow> address \<Rightarrow> balance \<Rightarrow> 'x \<Rightarrow> dispatch_error + 'x"
  assets_start_destroy :: "origin \<Rightarrow> token_id \<Rightarrow> 'x \<Rightarrow> dispatch_error + 'x"
  assets_set_metadata :: "origin \<Rightarrow> token_id \<Rightarrow> bytes \<Rightarrow> bytes \<Rightarrow> u8 \<Rightarrow> 'x \<Rightarrow> dispatch_error + 'x"
  assets_clear_metadata :: "origin \<Rightarrow> token_id \<Rightarrow> 'x \<Rightarrow> dispatch_error + 'x"
  assets_mint :: "origin \<Rightarrow> token_id \<Rightarrow> address \<Rightarrow> balance \<Rightarrow> 'x \<Rightarrow> dispatch_error + 'x"
  assets_burn :: "origin \<Rightarrow> token_id \<Rightarrow> address \<Rightarrow> balance \<Rightarrow> 'x \<Rightarrow> dispatch_error + 'x"
  assets_total_supply :: "token_id \<Rightarrow> 'x \<Rightarrow> balance"
  assets_balance :: "token_id \<Rightarrow> account_id \<Rightarrow> 'x \<Rightarrow> balance"
  assets_allowance :: "token_id \<Rightarrow> account_id \<Rightarrow> account_id \<Rightarrow> 'x \<Rightarrow> balance"
  assets_name :: "token_id \<Rightarrow> 'x \<Rightarrow> bytes"
  assets_symbol :: "token_id \<Rightarrow> 'x \<Rightarrow> bytes"
  assets_decimals :: "token_id \<Rightarrow> 'x \<Rightarrow> u8"
  assets_asset_exists :: "token_id \<Rightarrow> 'x \<Rightarrow> bool"
  assets_unapproved :: dispatch_error
  assets_balance_low :: dispatch_error
  assets_weight_transfer_keep_alive :: weight
  assets_weight_transfer_approved :: weight
  assets_weight_approve_transfer :: weight
  assets_weight_create :: weight
  assets_weight_start_destroy :: weight
  assets_weight_set_metadata :: "nat \<Rightarrow> nat \<Rightarrow> weight"
  assets_weight_clear_metadata :: weight
  assets_weight_mint :: weight
  assets_weight_burn :: weight
  db_reads :: "nat \<Rightarrow> weight"
  db_writes :: "nat \<Rightarrow> weight"

subsection \<open>\<open>SubstrateWeight\<close>\<close>

definition weight_approve :: "'x fungibles_config \<Rightarrow> nat \<Rightarrow> nat \<Rightarrow> weight" where
  "weight_approve cfg a c =
     weight_saturating_add
       (weight_saturating_add
         (weight_saturating_add
           (weight_saturating_add
             (weight_saturating_add
               (weight_saturating_add (from_parts 2877551 3675)
                 (weight_saturating_mul (from_parts 24846938 0) a))
               (weight_saturating_mul (from_parts 38375510 0) c))
             (db_reads cfg 2))
           (db_reads cfg (min (1 * c) u64_max)))
         (db_writes cfg 2))
       (db_writes cfg (min (1 * c) u64_max))"

definition weight_total_supply :: "'x fungibles_config \<Rightarrow> weight" where
  "weight_total_supply cfg = weight_saturating_add (from_parts 2000000 3675) (db_reads cfg 1)"

definition weight_balance_of :: "'x fungibles_config \<Rightarrow> weight" where
  "weight_balance_of cfg = weight_saturating_add (from_parts 3000000 3599) (db_reads cfg 1)"

definition weight_allowance :: "'x fungibles_config \<Rightarrow> weight" where
  "weight_allowance cfg = weight_saturating_add (from_parts 5000000 3613) (db_reads cfg 1)"

definition weight_token_name :: "'x fungibles_config \<Rightarrow> weight" where
  "weight_token_name cfg = weight_saturating_add (from_parts 2000000 3605) (db_reads cfg 1)"

definition weight_token_symbol :: "'x fungibles_config \<Rightarrow> weight" where
  "weight_token_symbol cfg = weight_saturating_add (from_parts 2000000 3605) (db_reads cfg 1)"

definition weight_token_decimals :: "'x fungibles_config \<Rightarrow> weight" where
  "weight_token_decimals cfg = weight_saturating_add (from_parts 2000000 3605) (db_reads cfg 1)"

definition weight_token_exists :: "'x fungibles_config \<Rightarrow> weight" where
  "weight_token_exists cfg = weight_saturating_add (from_parts 2000000 3675) (db_reads cfg 1)"

section \<open>State reads\<close>

datatype fungibles_read =
  TotalSupply token_id
| BalanceOf token_id account_id
| Allowance token_id account_id account_id
| TokenName token_id
| TokenSymbol token_id
| TokenDecimals token_id
| TokenExists token_id

datatype fungibles_read_result =
  TotalSupply balance
| BalanceOf balance
| Allowance balance
| TokenName "bytes option"
| TokenSymbol "bytes option"
| TokenDecimals u8
| TokenExists bool

text \<open>Balances are 16 little-endian bytes; the codec of a byte string (its compact length, then the
  bytes) belongs to the SCALE library and is a parameter.\<close>

definition encode_balance :: "balance \<Rightarrow> bytes" where
  "encode_balance n = le_bytes 16 (of_nat n :: 128 word)"

definition encode_option :: "('a \<Rightarrow> bytes) \<Rightarrow> 'a option \<Rightarrow> bytes" where
  "encode_option enc v = (case v of None \<Rightarrow> [0] | Some x \<Rightarrow> 1 # enc x)"

fun read_result_encode :: "(bytes \<Rightarrow> bytes) \<Rightarrow> fungibles_read_result \<Rightarrow> bytes" where
  "read_result_encode enc_vec (fungibles_read_result.TotalSupply r) = encode_balance r"
| "read_result_encode enc_vec (fungibles_read_result.BalanceOf r) = encode_balance r"
| "read_result_encode enc_vec (fungibles_read_result.Allowance r) = encode_balance r"
| "read_result_encode enc_vec (fungibles_read_result.TokenName r) = encode_option enc_vec r"
| "read_result_encode enc_vec (fungibles_read_result.TokenSymbol r) = encode_option enc_vec r"
| "read_result_encode enc_vec (fungibles_read_result.TokenDecimals r) = [r]"
| "read_result_encode enc_vec (fungibles_read_result.TokenExists r) = [if r then 1 else 0]"

fun fungibles_read_weight :: "'x fungibles_config \<Rightarrow> fungibles_read \<Rightarrow> weight" where
  "fungibles_read_weight cfg (fungibles_read.TotalSupply _) = weight_total_supply cfg"
| "fungibles_read_weight cfg (fungibles_read.BalanceOf _ _) = weight_balance_of cfg"
| "fungibles_read_weight cfg (fungibles_read.Allowance _ _ _) = weight_allowance cfg"
| "fungibles_read_weight cfg (fungibles_read.TokenName _) = weight_token_name cfg"
| "fungibles_read_weight cfg (fungibles_read.TokenSymbol _) = weight_token_symbol cfg"
| "fungibles_read_weight cfg (fungibles_read.TokenDecimals _) = weight_token_decimals cfg"
| "fungibles_read_weight cfg (fungibles_read.TokenExists _) = weight_token_exists cfg"

text \<open>\<open>Some(v).filter(|v| !v.is_empty())\<close>.\<close>

definition non_empty :: "bytes \<Rightarrow> bytes option" where
  "non_empty v = (if v \<noteq> [] then Some v else None)"

fun fungibles_read_state :: "'x fungibles_config \<Rightarrow> fungibles_read \<Rightarrow> 'x \<Rightarrow> fungibles_read_result" where
  "fungibles_read_state cfg (fungibles_read.TotalSupply token) x =
     fungibles_read_result.TotalSupply (assets_total_supply cfg token x)"
| "fungibles_read_state cfg (fungibles_read.BalanceOf token own) x =
     fungibles_read_result.BalanceOf (assets_balance cfg token own x)"
| "fungibles_read_state cfg (fungibles_read.Allowance token own spender) x =
     fungibles_read_result.Allowance (assets_allowance cfg token own spender x)"
| "fungibles_read_state cfg (fungibles_read.TokenName token) x =
     fungibles_read_result.TokenName (non_empty (assets_name cfg token x))"
| "fungibles_read_state cfg (fungibles_read.TokenSymbol token) x =
     fungibles_read_result.TokenSymbol (non_empty (assets_symbol cfg token x))"
| "fungibles_read_state cfg (fungibles_read.TokenDecimals token) x =
     fungibles_read_result.TokenDecimals (assets_decimals cfg token x)"
| "fungibles_read_state cfg (fungibles_read.TokenExists token) x =
     fungibles_read_result.TokenExists (assets_asset_exists cfg token x)"

section \<open>Calls\<close>

datatype fungibles_event =
  Approval token_id account_id account_id balance
| Transfer token_id "account_id option" "account_id option" balance
| Created token_id account_id account_id

record 'x fungibles =
  f_ext :: 'x
  f_events :: "fungibles_event list"

definition f_deposit_event :: "fungibles_event \<Rightarrow> 'x fungibles \<Rightarrow> 'x fungibles" where
  "f_deposit_event e s = s\<lparr>f_events := f_events s @ [e]\<rparr>"

text \<open>A call of \<open>pallet_assets\<close> from this pallet.\<close>

definition on_assets :: "('x \<Rightarrow> dispatch_error + 'x) \<Rightarrow> 'x fungibles \<Rightarrow> dispatch_error + 'x fungibles" where
  "on_assets f s = (case f (f_ext s) of Inl e \<Rightarrow> Inl e | Inr x \<Rightarrow> Inr (s\<lparr>f_ext := x\<rparr>))"

definition signer_of :: "origin \<Rightarrow> dispatch_error + account_id" where
  "signer_of og = (case og of Signed a \<Rightarrow> Inr a | _ \<Rightarrow> Inl dispatch_error.BadOrigin)"

text \<open>\<open>DispatchErrorWithPostInfo\<close> is the error with the weight that was used, if it is known;
  \<open>with_weight\<close> attaches it, the \<open>?\<close> operator on a bare error leaves it open. On success
  \<open>PostDispatchInfo\<close> is the actual weight, if it is known.\<close>

type_synonym post_error = "dispatch_error \<times> weight option"

definition with_weight :: "weight \<Rightarrow> dispatch_error + 'a \<Rightarrow> post_error + 'a" where
  "with_weight w r = (case r of Inl e \<Rightarrow> Inl (e, Some w) | Inr v \<Rightarrow> Inr v)"

definition no_weight :: "dispatch_error + 'a \<Rightarrow> post_error + 'a" where
  "no_weight r = (case r of Inl e \<Rightarrow> Inl (e, None) | Inr v \<Rightarrow> Inr v)"

definition fungibles_transfer ::
  "'x fungibles_config \<Rightarrow> origin \<Rightarrow> token_id \<Rightarrow> account_id \<Rightarrow> balance \<Rightarrow> 'x fungibles
     \<Rightarrow> dispatch_error + 'x fungibles" where
  "fungibles_transfer cfg og token to value s =
     andthen (signer_of og) (\<lambda>from.
     andthen (on_assets (assets_transfer_keep_alive cfg og token (unlookup cfg to) value) s) (\<lambda>s.
     Inr (f_deposit_event (Transfer token (Some from) (Some to) value) s)))"

definition fungibles_transfer_from ::
  "'x fungibles_config \<Rightarrow> origin \<Rightarrow> token_id \<Rightarrow> account_id \<Rightarrow> account_id \<Rightarrow> balance \<Rightarrow> 'x fungibles
     \<Rightarrow> dispatch_error + 'x fungibles" where
  "fungibles_transfer_from cfg og token from to value s =
     andthen (on_assets (assets_transfer_approved cfg og token (unlookup cfg from) (unlookup cfg to) value) s) (\<lambda>s.
     Inr (f_deposit_event (Transfer token (Some from) (Some to) value) s))"

definition fungibles_approve ::
  "'x fungibles_config \<Rightarrow> origin \<Rightarrow> token_id \<Rightarrow> account_id \<Rightarrow> balance \<Rightarrow> 'x fungibles
     \<Rightarrow> post_error + weight option \<times> 'x fungibles" where
  "fungibles_approve cfg og token spender value s =
     andthen (with_weight (weight_approve cfg 0 0) (signer_of og)) (\<lambda>own.
     let current_allowance = assets_allowance cfg token own spender (f_ext s) in
     andthen
       (if value = current_allowance then Inr (weight_approve cfg 0 0, s)
        else if current_allowance < value then
          andthen (with_weight (weight_approve cfg 1 0)
            (on_assets (assets_approve_transfer cfg og token (unlookup cfg spender)
              (saturating_sub value current_allowance)) s)) (\<lambda>s.
          Inr (weight_approve cfg 1 0, s))
        else
          andthen (with_weight (weight_approve cfg 0 1)
            (on_assets (assets_cancel_approval cfg og token (unlookup cfg spender)) s)) (\<lambda>s.
          if value = 0 then Inr (weight_approve cfg 0 1, s)
          else
            andthen (no_weight
              (on_assets (assets_approve_transfer cfg og token (unlookup cfg spender) value) s)) (\<lambda>s.
            Inr (weight_approve cfg 1 1, s))))
       (\<lambda>(weight, s). Inr (Some weight, f_deposit_event (Approval token own spender value) s)))"

definition fungibles_increase_allowance ::
  "'x fungibles_config \<Rightarrow> origin \<Rightarrow> token_id \<Rightarrow> account_id \<Rightarrow> balance \<Rightarrow> 'x fungibles
     \<Rightarrow> post_error + weight option \<times> 'x fungibles" where
  "fungibles_increase_allowance cfg og token spender value s =
     andthen (with_weight (weight_approve cfg 0 0) (signer_of og)) (\<lambda>own.
     andthen (with_weight (assets_weight_approve_transfer cfg)
       (on_assets (assets_approve_transfer cfg og token (unlookup cfg spender) value) s)) (\<lambda>s.
     let value = assets_allowance cfg token own spender (f_ext s) in
     Inr (None, f_deposit_event (Approval token own spender value) s)))"

definition fungibles_decrease_allowance ::
  "'x fungibles_config \<Rightarrow> origin \<Rightarrow> token_id \<Rightarrow> account_id \<Rightarrow> balance \<Rightarrow> 'x fungibles
     \<Rightarrow> post_error + weight option \<times> 'x fungibles" where
  "fungibles_decrease_allowance cfg og token spender value s =
     andthen (with_weight (weight_approve cfg 0 0) (signer_of og)) (\<lambda>own.
     if value = 0 then Inr (Some (weight_approve cfg 0 0), s)
     else
       let current_allowance = assets_allowance cfg token own spender (f_ext s) in
       andthen (if value \<le> current_allowance then Inr (current_allowance - value)
                else Inl (assets_unapproved cfg, None)) (\<lambda>new_allowance.
       andthen (with_weight (weight_approve cfg 0 1)
         (on_assets (assets_cancel_approval cfg og token (unlookup cfg spender)) s)) (\<lambda>s.
       andthen
         (if new_allowance = 0 then Inr (weight_approve cfg 0 1, s)
          else
            andthen (no_weight
              (on_assets (assets_approve_transfer cfg og token (unlookup cfg spender) new_allowance) s)) (\<lambda>s.
            Inr (weight_approve cfg 1 1, s)))
         (\<lambda>(weight, s).
            Inr (Some weight, f_deposit_event (Approval token own spender new_allowance) s)))))"

definition fungibles_create ::
  "'x fungibles_config \<Rightarrow> origin \<Rightarrow> token_id \<Rightarrow> account_id \<Rightarrow> balance \<Rightarrow> 'x fungibles
     \<Rightarrow> dispatch_error + 'x fungibles" where
  "fungibles_create cfg og token admin min_balance s =
     andthen (signer_of og) (\<lambda>creator.
     andthen (on_assets (assets_create cfg og token (unlookup cfg admin) min_balance) s) (\<lambda>s.
     Inr (f_deposit_event (Created token creator admin) s)))"

definition fungibles_start_destroy ::
  "'x fungibles_config \<Rightarrow> origin \<Rightarrow> token_id \<Rightarrow> 'x fungibles \<Rightarrow> dispatch_error + 'x fungibles" where
  "fungibles_start_destroy cfg og token s = on_assets (assets_start_destroy cfg og token) s"

definition fungibles_set_metadata ::
  "'x fungibles_config \<Rightarrow> origin \<Rightarrow> token_id \<Rightarrow> bytes \<Rightarrow> bytes \<Rightarrow> u8 \<Rightarrow> 'x fungibles
     \<Rightarrow> dispatch_error + 'x fungibles" where
  "fungibles_set_metadata cfg og token name symbol decimals s =
     on_assets (assets_set_metadata cfg og token name symbol decimals) s"

definition fungibles_clear_metadata ::
  "'x fungibles_config \<Rightarrow> origin \<Rightarrow> token_id \<Rightarrow> 'x fungibles \<Rightarrow> dispatch_error + 'x fungibles" where
  "fungibles_clear_metadata cfg og token s = on_assets (assets_clear_metadata cfg og token) s"

definition fungibles_mint ::
  "'x fungibles_config \<Rightarrow> origin \<Rightarrow> token_id \<Rightarrow> account_id \<Rightarrow> balance \<Rightarrow> 'x fungibles
     \<Rightarrow> dispatch_error + 'x fungibles" where
  "fungibles_mint cfg og token account value s =
     andthen (on_assets (assets_mint cfg og token (unlookup cfg account) value) s) (\<lambda>s.
     Inr (f_deposit_event (Transfer token None (Some account) value) s))"

definition fungibles_burn ::
  "'x fungibles_config \<Rightarrow> origin \<Rightarrow> token_id \<Rightarrow> account_id \<Rightarrow> balance \<Rightarrow> 'x fungibles
     \<Rightarrow> post_error + weight option \<times> 'x fungibles" where
  "fungibles_burn cfg og token account value s =
     (let current_balance = assets_balance cfg token account (f_ext s) in
      if current_balance < value then Inl (assets_balance_low cfg, Some (weight_balance_of cfg))
      else
        andthen (no_weight (on_assets (assets_burn cfg og token (unlookup cfg account) value) s)) (\<lambda>s.
        Inr (None, f_deposit_event (Transfer token (Some account) None value) s)))"

text \<open>The \<open>Call\<close> enum that the pallet macro builds from the dispatchables, its dispatch, and the weights
  that the \<open>#[pallet::weight]\<close> attributes declare.\<close>

datatype fungibles_call =
  Transfer token_id account_id balance
| TransferFrom token_id account_id account_id balance
| Approve token_id account_id balance
| IncreaseAllowance token_id account_id balance
| DecreaseAllowance token_id account_id balance
| Create token_id account_id balance
| StartDestroy token_id
| SetMetadata token_id bytes bytes u8
| ClearMetadata token_id
| Mint token_id account_id balance
| Burn token_id account_id balance

definition plain :: "dispatch_error + 'x fungibles \<Rightarrow> post_error + weight option \<times> 'x fungibles" where
  "plain r = (case r of Inl e \<Rightarrow> Inl (e, None) | Inr s \<Rightarrow> Inr (None, s))"

fun fungibles_dispatch ::
  "'x fungibles_config \<Rightarrow> origin \<Rightarrow> fungibles_call \<Rightarrow> 'x fungibles
     \<Rightarrow> post_error + weight option \<times> 'x fungibles" where
  "fungibles_dispatch cfg og (fungibles_call.Transfer token to value) s =
     plain (fungibles_transfer cfg og token to value s)"
| "fungibles_dispatch cfg og (TransferFrom token from to value) s =
     plain (fungibles_transfer_from cfg og token from to value s)"
| "fungibles_dispatch cfg og (Approve token spender value) s =
     fungibles_approve cfg og token spender value s"
| "fungibles_dispatch cfg og (IncreaseAllowance token spender value) s =
     fungibles_increase_allowance cfg og token spender value s"
| "fungibles_dispatch cfg og (DecreaseAllowance token spender value) s =
     fungibles_decrease_allowance cfg og token spender value s"
| "fungibles_dispatch cfg og (Create token admin min_balance) s =
     plain (fungibles_create cfg og token admin min_balance s)"
| "fungibles_dispatch cfg og (StartDestroy token) s = plain (fungibles_start_destroy cfg og token s)"
| "fungibles_dispatch cfg og (SetMetadata token name symbol decimals) s =
     plain (fungibles_set_metadata cfg og token name symbol decimals s)"
| "fungibles_dispatch cfg og (ClearMetadata token) s = plain (fungibles_clear_metadata cfg og token s)"
| "fungibles_dispatch cfg og (Mint token account value) s =
     plain (fungibles_mint cfg og token account value s)"
| "fungibles_dispatch cfg og (Burn token account value) s =
     fungibles_burn cfg og token account value s"

fun fungibles_call_weight :: "'x fungibles_config \<Rightarrow> fungibles_call \<Rightarrow> weight" where
  "fungibles_call_weight cfg (fungibles_call.Transfer _ _ _) = assets_weight_transfer_keep_alive cfg"
| "fungibles_call_weight cfg (TransferFrom _ _ _ _) = assets_weight_transfer_approved cfg"
| "fungibles_call_weight cfg (Approve _ _ _) = weight_approve cfg 1 1"
| "fungibles_call_weight cfg (IncreaseAllowance _ _ _) = weight_approve cfg 1 0"
| "fungibles_call_weight cfg (DecreaseAllowance _ _ _) = weight_approve cfg 1 1"
| "fungibles_call_weight cfg (Create _ _ _) = assets_weight_create cfg"
| "fungibles_call_weight cfg (StartDestroy _) = assets_weight_start_destroy cfg"
| "fungibles_call_weight cfg (SetMetadata _ name symbol _) =
     assets_weight_set_metadata cfg (length name) (length symbol)"
| "fungibles_call_weight cfg (ClearMetadata _) = assets_weight_clear_metadata cfg"
| "fungibles_call_weight cfg (Mint _ _ _) = assets_weight_mint cfg"
| "fungibles_call_weight cfg (Burn _ _ _) =
     from_parts (ref_time (weight_balance_of cfg) + ref_time (assets_weight_burn cfg))
       (proof_size (weight_balance_of cfg) + proof_size (assets_weight_burn cfg))"

section \<open>What \<open>pallet_assets\<close> promises\<close>

text \<open>The allowances as one abstract book, and the documented effect of the two calls that change
  approvals: \<open>approve_transfer\<close> adds to an existing approval of the signer, \<open>cancel_approval\<close> removes
  it. Allowances are \<open>u128\<close>.\<close>

definition book :: "'x fungibles_config \<Rightarrow> 'x fungibles \<Rightarrow> token_id \<times> account_id \<times> account_id \<Rightarrow> balance" where
  "book cfg s = (\<lambda>(token, own, spender). assets_allowance cfg token own spender (f_ext s))"

definition approvals_contract :: "'x fungibles_config \<Rightarrow> bool" where
  "approvals_contract cfg \<longleftrightarrow>
     (\<forall>s own token spender value x'.
        assets_approve_transfer cfg (Signed own) token (unlookup cfg spender) value (f_ext s) = Inr x' \<longrightarrow>
        book cfg (s\<lparr>f_ext := x'\<rparr>) = (book cfg s)((token, own, spender) :=
          saturating_add (book cfg s (token, own, spender)) value)) \<and>
     (\<forall>s own token spender x'.
        assets_cancel_approval cfg (Signed own) token (unlookup cfg spender) (f_ext s) = Inr x' \<longrightarrow>
        book cfg (s\<lparr>f_ext := x'\<rparr>) = (book cfg s)((token, own, spender) := 0))"

lemma with_weight_Inr [exec_simps]: "with_weight w r = Inr v \<longleftrightarrow> r = Inr v"
  by (simp add: with_weight_def split: sum.splits)

lemma no_weight_Inr [exec_simps]: "no_weight r = Inr v \<longleftrightarrow> r = Inr v"
  by (simp add: no_weight_def split: sum.splits)

lemma signer_of_Inr [exec_simps]: "signer_of og = Inr a \<longleftrightarrow> og = Signed a"
  by (simp add: signer_of_def split: origin.splits)

lemma plain_Inr [exec_simps]: "plain r = Inr (w, s) \<longleftrightarrow> w = None \<and> r = Inr s"
  by (auto simp: plain_def split: sum.splits)

lemma on_assets_Inr [exec_simps]: "on_assets f s = Inr s' \<longleftrightarrow> (\<exists>x. f (f_ext s) = Inr x \<and> s' = s\<lparr>f_ext := x\<rparr>)"
  by (auto simp: on_assets_def split: sum.splits)

lemma book_deposit_event [simp]: "book cfg (f_deposit_event e s) = book cfg s"
  by (simp add: book_def f_deposit_event_def)

lemma f_events_deposit [simp]: "f_events (f_deposit_event e s) = f_events s @ [e]"
  by (simp add: f_deposit_event_def)

lemma f_ext_deposit [simp]: "f_ext (f_deposit_event e s) = f_ext s"
  by (simp add: f_deposit_event_def)

lemma approve_step:
  assumes "approvals_contract cfg"
    and "on_assets (assets_approve_transfer cfg (Signed own) token (unlookup cfg spender) value) s = Inr s'"
  shows "book cfg s' = (book cfg s)((token, own, spender) := saturating_add (book cfg s (token, own, spender)) value)"
    and "f_events s' = f_events s"
  using assms by (auto simp: approvals_contract_def exec_simps)

lemma cancel_step:
  assumes "approvals_contract cfg"
    and "on_assets (assets_cancel_approval cfg (Signed own) token (unlookup cfg spender)) s = Inr s'"
  shows "book cfg s' = (book cfg s)((token, own, spender) := 0)" and "f_events s' = f_events s"
  using assms by (auto simp: approvals_contract_def exec_simps)

end
