(* ===== verification/Runtime_Prices.thy ===== *)
theory Runtime_Prices
  imports Nfts_Example Fungibles
begin

text \<open>
  What the runtimes charge: the units and the deposit function of \<open>runtime/common/src/lib.rs\<close> and
  \<open>runtime/mainnet/src/lib.rs\<close>, the constants that configure the NFTs pallet
  (\<open>runtime/devnet/src/config/assets.rs\<close>), and the fee polynomials of the runtimes. Deposits are
  computed in \<open>u128\<close> words as the source does; \<open>Perbill::from_rational\<close> and the evaluation of a fee
  polynomial belong to outside code.
\<close>

section \<open>Units and deposits\<close>

type_synonym u128 = "128 word"

definition MILLISECS_PER_BLOCK :: nat where "MILLISECS_PER_BLOCK = 6000"
definition MINUTES :: block_number where "MINUTES = 60000 div MILLISECS_PER_BLOCK"
definition HOURS :: block_number where "HOURS = MINUTES * 60"
definition DAYS :: block_number where "DAYS = HOURS * 24"

definition UNIT :: u128 where "UNIT = 10000000000"
definition MILLIUNIT :: u128 where "MILLIUNIT = UNIT div 1000"
definition MICROUNIT :: u128 where "MICROUNIT = UNIT div 1000000"
definition EXISTENTIAL_DEPOSIT :: u128 where "EXISTENTIAL_DEPOSIT = MILLIUNIT"
definition CENTS :: u128 where "CENTS = MILLIUNIT * 10"
definition MILLICENTS :: u128 where "MILLICENTS = CENTS div 1000"
definition TRANSACTION_BYTE_FEE :: u128 where "TRANSACTION_BYTE_FEE = MILLICENTS div 2"

definition deposit :: "u32 \<Rightarrow> u32 \<Rightarrow> u128" where
  "deposit items bytes = (ucast items * UNIT + ucast bytes * (5 * MILLIUNIT div 100)) div 10"

definition mainnet_deposit :: "u32 \<Rightarrow> u32 \<Rightarrow> u128" where
  "mainnet_deposit items bytes = (ucast items * 20 * UNIT + ucast bytes * 100 * MILLICENTS) div 100"

section \<open>The NFTs pallet in the runtime\<close>

text \<open>The constants of \<open>impl pallet_nfts::Config for Runtime\<close>; the other fields are the outside pallets.\<close>

definition pallet_features_all_enabled :: pallet_features where
  "pallet_features_all_enabled = 0"

definition runtime_nfts :: "('x, 'e) config \<Rightarrow> ('x, 'e) config" where
  "runtime_nfts cfg = cfg
     \<lparr>collection_deposit := unat (10 * UNIT), item_deposit := unat (UNIT div 100),
      metadata_deposit_base := unat (deposit 1 129), attribute_deposit_base := unat (deposit 1 0),
      deposit_per_byte := unat (deposit 0 1), string_limit := 256, key_limit := 64, value_limit := 256,
      approvals_limit := 20, item_attributes_approvals_limit := 30, max_tips := 10,
      max_deadline_duration := 12 * 30 * DAYS, max_attributes_per_call := 10,
      features := pallet_features_all_enabled\<rparr>"

section \<open>Fees\<close>

record fee_coefficient =
  fc_degree :: nat
  fc_negative :: bool
  fc_frac :: nat
  fc_integer :: nat

text \<open>\<open>ExtrinsicBaseWeight\<close> of the devnet and testnet runtimes: 125,000 nanoseconds of 1,000 units.\<close>

definition ExtrinsicBaseWeight :: weight where
  "ExtrinsicBaseWeight = from_parts (min (1000 * 125000) u64_max) 0"

definition linear_fee :: "(nat \<Rightarrow> nat \<Rightarrow> nat) \<Rightarrow> nat \<Rightarrow> nat \<Rightarrow> fee_coefficient list" where
  "linear_fee from_rational p q =
     [\<lparr>fc_degree = 1, fc_negative = False, fc_frac = from_rational (p mod q) q, fc_integer = p div q\<rparr>]"

definition WeightToFee_polynomial :: "(nat \<Rightarrow> nat \<Rightarrow> nat) \<Rightarrow> fee_coefficient list" where
  "WeightToFee_polynomial from_rational =
     (let p = unat (MILLIUNIT div 10); q = 100 * ref_time ExtrinsicBaseWeight in linear_fee from_rational p q)"

definition RefTimeToFee_polynomial :: "(nat \<Rightarrow> nat \<Rightarrow> nat) \<Rightarrow> weight \<Rightarrow> fee_coefficient list" where
  "RefTimeToFee_polynomial from_rational base_weight =
     (let p = unat CENTS; q = 200 * ref_time base_weight in linear_fee from_rational p q)"

definition ProofSizeToFee_polynomial :: "(nat \<Rightarrow> nat \<Rightarrow> nat) \<Rightarrow> fee_coefficient list" where
  "ProofSizeToFee_polynomial from_rational = (let p = unat CENTS; q = 20000 in linear_fee from_rational p q)"

definition mainnet_weight_to_fee ::
  "(nat \<Rightarrow> nat \<Rightarrow> nat) \<Rightarrow> (fee_coefficient list \<Rightarrow> nat \<Rightarrow> balance) \<Rightarrow> weight \<Rightarrow> weight \<Rightarrow> balance" where
  "mainnet_weight_to_fee from_rational eval base_weight w =
     (let time_poly = RefTimeToFee_polynomial from_rational base_weight;
          proof_poly = ProofSizeToFee_polynomial from_rational in
      max (eval time_poly (ref_time w)) (eval proof_poly (proof_size w)))"

text \<open>What is documented of the outside code where no rounding is involved: a rational with a whole number
  of billionths is that number, and a linear coefficient adds its integer part and its billionths of
  the argument.\<close>

definition fee_arithmetic :: "(nat \<Rightarrow> nat \<Rightarrow> nat) \<Rightarrow> (fee_coefficient list \<Rightarrow> nat \<Rightarrow> balance) \<Rightarrow> bool" where
  "fee_arithmetic from_rational eval \<longleftrightarrow>
     (\<forall>p q. 0 < q \<and> p \<le> q \<and> q dvd p * 10 ^ 9 \<longrightarrow> from_rational p q = p * 10 ^ 9 div q) \<and>
     (\<forall>f i x. 10 ^ 9 dvd f * x \<and> i * x + f * x div 10 ^ 9 \<le> u128_max \<longrightarrow>
        eval [\<lparr>fc_degree = 1, fc_negative = False, fc_frac = f, fc_integer = i\<rparr>] x = i * x + f * x div 10 ^ 9)"

section \<open>Lemmas\<close>

lemma units: "UNIT = 10000000000" "MILLIUNIT = 10000000" "MICROUNIT = 10000" "CENTS = 100000000" "MILLICENTS = 100000"
  by (simp_all add: UNIT_def MILLIUNIT_def MICROUNIT_def CENTS_def MILLICENTS_def)

lemma unat_linear:
  fixes x y :: u32
  assumes "a < 2 ^ 64" and "b < 2 ^ 64"
  shows "unat (ucast x * of_nat a + ucast y * of_nat b :: u128) = unat x * a + unat y * b"
proof -
  have "unat x < 2 ^ 32" "unat y < 2 ^ 32" using unsigned_less [of x] unsigned_less [of y] by simp_all
  then have "unat x * a \<le> 2 ^ 32 * 2 ^ 64" "unat y * b \<le> 2 ^ 32 * 2 ^ 64"
    using assms by (intro mult_le_mono; simp)+
  then have "unat x * a + unat y * b < 2 ^ 128" by simp
  then have "unat (of_nat (unat x * a + unat y * b) :: u128) = unat x * a + unat y * b"
    unfolding unsigned_of_nat by (simp add: take_bit_nat_eq_self)
  then show ?thesis by simp
qed

text \<open>Both deposit functions are linear and nothing overflows or is rounded.\<close>

lemma unat_deposit: "unat (deposit i b) = unat i * 10 ^ 9 + unat b * 50000"
proof -
  have "deposit i b = (ucast i * of_nat (10 ^ 10) + ucast b * of_nat 500000) div 10"
    by (simp add: deposit_def units)
  then have "unat (deposit i b) = (unat i * 10 ^ 10 + unat b * 500000) div 10"
    using unat_linear [of "10 ^ 10" 500000 i b] by (simp add: unat_div)
  then show ?thesis by simp
qed

lemma unat_mainnet_deposit: "unat (mainnet_deposit i b) = unat i * (2 * 10 ^ 9) + unat b * 100000"
proof -
  have "mainnet_deposit i b = (ucast i * of_nat (2 * 10 ^ 11) + ucast b * of_nat (10 ^ 7)) div 100"
    by (simp add: mainnet_deposit_def units mult.commute)
  then have "unat (mainnet_deposit i b) = (unat i * (2 * 10 ^ 11) + unat b * 10 ^ 7) div 100"
    using unat_linear [of "2 * 10 ^ 11" "10 ^ 7" i b] by (simp add: unat_div)
  then show ?thesis by simp
qed

lemma eval_linear:
  assumes "fee_arithmetic from_rational eval" and "0 < q" and "q dvd (p mod q) * 10 ^ 9"
    and "10 ^ 9 dvd (p mod q) * 10 ^ 9 div q * x"
    and "(p div q) * x + (p mod q) * 10 ^ 9 div q * x div 10 ^ 9 \<le> u128_max"
  shows "eval (linear_fee from_rational p q) x = (p div q) * x + (p mod q) * 10 ^ 9 div q * x div 10 ^ 9"
  using assms by (simp add: fee_arithmetic_def linear_fee_def)

section \<open>Properties\<close>

text \<open>The deposit functions of the runtimes are computed without overflow and without rounding, so that
  a price is the price of the items plus the price of the bytes; and the deposit that the NFTs pallet
  computes for metadata, configured as in the runtime, is the runtime's price of the stored item
  with its data.\<close>

theorem deposits_price_storage:
  "unat (deposit i b) = unat i * 10 ^ 9 + unat b * 50000 \<and>
   unat (mainnet_deposit i b) = unat i * (2 * 10 ^ 9) + unat b * 100000 \<and>
   (length data \<le> string_limit (runtime_nfts cfg) \<longrightarrow>
      metadata_deposit (runtime_nfts cfg) data = unat (deposit 1 (129 + of_nat (length data))))"
proof -
  have "metadata_deposit (runtime_nfts cfg) data = unat (deposit 1 (129 + of_nat (length data)))"
    if "length data \<le> 256"
  proof -
    have "unat (of_nat (129 + length data) :: u32) = 129 + length data"
      unfolding unsigned_of_nat using that by (simp add: take_bit_nat_eq_self)
    then show ?thesis
      using that by (simp add: metadata_deposit_def runtime_nfts_def unat_deposit saturating_add_def saturating_mul_def
          as_u32_def u128_max_def)
  qed
  then show ?thesis by (simp add: unat_deposit unat_mainnet_deposit runtime_nfts_def)
qed

theorem deposits_price_storage_witness:
  "metadata_deposit (runtime_nfts demo_cfg) [1, 2, 3] = unat (deposit 1 132)"
  using deposits_price_storage [of 0 0 "[1, 2, 3]" demo_cfg]
  by (simp add: runtime_nfts_def)

text \<open>C30: what the weight fee comes to: on the devnet and testnet runtimes the base weight of an extrinsic
  costs a thousandth of a \<open>MILLIUNIT\<close> (the source announces a tenth); on mainnet a byte of proof costs
  5,000, which is one cent for 20,000 bytes, and the fee is never below the price of the proof.\<close>

theorem weight_fees:
  assumes "fee_arithmetic from_rational eval" and "proof_size w \<le> u64_max"
  shows "eval (WeightToFee_polynomial from_rational) (ref_time ExtrinsicBaseWeight) = unat MILLIUNIT div 1000 \<and>
    eval (ProofSizeToFee_polynomial from_rational) (proof_size w) = 5000 * proof_size w \<and>
    5000 * proof_size w \<le> mainnet_weight_to_fee from_rational eval base_weight w"
proof -
  have base: "ref_time ExtrinsicBaseWeight = 125000000"
    by (simp add: ExtrinsicBaseWeight_def from_parts_def u64_max_def)
  have "eval (WeightToFee_polynomial from_rational) (ref_time ExtrinsicBaseWeight) = unat MILLIUNIT div 1000"
    using eval_linear [OF assms(1), of 12500000000 1000000 125000000]
    by (simp add: WeightToFee_polynomial_def Let_def base units u128_max_def)
  moreover have "eval (ProofSizeToFee_polynomial from_rational) (proof_size w) = 5000 * proof_size w"
    using eval_linear [OF assms(1), of 20000 100000000 "proof_size w"] assms(2)
    by (simp add: ProofSizeToFee_polynomial_def Let_def units u64_max_def u128_max_def)
  ultimately show ?thesis by (simp add: mainnet_weight_to_fee_def Let_def)
qed

definition demo_from_rational :: "nat \<Rightarrow> nat \<Rightarrow> nat" where
  "demo_from_rational p q = p * 10 ^ 9 div q"

definition demo_eval :: "fee_coefficient list \<Rightarrow> nat \<Rightarrow> balance" where
  "demo_eval cs x = min u128_max (sum_list (map (\<lambda>c. fc_integer c * x + fc_frac c * x div 10 ^ 9) cs))"

theorem weight_fees_witness:
  "demo_eval (WeightToFee_polynomial demo_from_rational) 125000000 = 10000 \<and>
   5000 * 100 \<le> mainnet_weight_to_fee demo_from_rational demo_eval (from_parts 1 0) (from_parts 7 100)"
proof -
  have "fee_arithmetic demo_from_rational demo_eval"
    by (simp add: fee_arithmetic_def demo_from_rational_def demo_eval_def)
  from weight_fees [OF this, of "from_parts 7 100" "from_parts 1 0"] show ?thesis
    by (simp add: from_parts_def u64_max_def ExtrinsicBaseWeight_def units)
qed

end
