(* ===== verification/Runtime_Calls.thy ===== *)
theory Runtime_Calls
  imports Nfts_Calls Fungibles
begin

text \<open>
  The calls of the runtimes (\<open>RuntimeCall\<close>, built from the pallets listed in
  \<open>runtime/devnet/src/lib.rs\<close>) as far as the source takes them apart: the NFTs and fungibles calls
  are the modelled ones, the calls of outside pallets that a filter names are constructors with
  their encoded arguments, and every other call is its pallet index and encoding. With them the
  tables of the pallets of the three runtimes, the
  base call filter of the runtimes and the proxy filters (\<open>runtime/*/src/config/proxy.rs\<close>,
  \<open>runtime/common/src/lib.rs\<close>).
\<close>

datatype balances_call =
  ForceAdjustTotalIssuance bytes | ForceSetBalance bytes | ForceTransfer bytes | ForceUnreserve bytes
| OtherBalances bytes

datatype assets_call =
  AssetsCreate bytes | AssetsStartDestroy bytes | AssetsDestroyAccounts bytes | AssetsDestroyApprovals bytes
| AssetsFinishDestroy bytes | AssetsTransferOwnership bytes | AssetsSetTeam bytes | AssetsSetMetadata bytes
| AssetsClearMetadata bytes | AssetsSetMinBalance bytes | AssetsMint bytes | AssetsBurn bytes | AssetsFreeze bytes
| AssetsBlock bytes | AssetsThaw bytes | AssetsFreezeAsset bytes | AssetsThawAsset bytes | AssetsTouchOther bytes
| AssetsRefundOther bytes | OtherAssets bytes

datatype proxy_call = RejectAnnouncement bytes | OtherProxy bytes

datatype runtime_call =
  Balances balances_call
| CollatorSelection bytes
| Proxy proxy_call
| Multisig bytes
| Utility bytes
| Nfts call
| Assets assets_call
| Fungibles fungibles_call
| OtherCall u8 bytes

section \<open>The pallets of the runtimes\<close>

text \<open>The pallets of a runtime with their indexes, in the order of declaration. A call is encoded with
  the index of its pallet first, so a runtime decodes no call of a pallet it does not have.\<close>

type_synonym pallet_table = "(string \<times> u8) list"

definition devnet_pallets :: pallet_table where
  "devnet_pallets =
     [(''System'', 0), (''ParachainSystem'', 1), (''Timestamp'', 2), (''ParachainInfo'', 3), (''Balances'', 10),
      (''TransactionPayment'', 11), (''Sudo'', 15), (''Authorship'', 20), (''CollatorSelection'', 21),
      (''Session'', 22), (''Aura'', 23), (''AuraExt'', 24), (''Scheduler'', 28), (''Preimage'', 29),
      (''XcmpQueue'', 30), (''PolkadotXcm'', 31), (''CumulusXcm'', 32), (''MessageQueue'', 33), (''Ismp'', 38),
      (''IsmpParachain'', 39), (''Contracts'', 40), (''Proxy'', 41), (''Multisig'', 42), (''Utility'', 43),
      (''Nfts'', 50), (''NftFractionalization'', 51), (''Assets'', 52), (''Fungibles'', 150)]"

definition testnet_pallets :: pallet_table where
  "testnet_pallets =
     [(''System'', 0), (''ParachainSystem'', 1), (''Timestamp'', 2), (''ParachainInfo'', 3), (''Balances'', 10),
      (''TransactionPayment'', 11), (''Sudo'', 15), (''Authorship'', 20), (''CollatorSelection'', 21),
      (''Session'', 22), (''Aura'', 23), (''AuraExt'', 24), (''Scheduler'', 28), (''Preimage'', 29),
      (''XcmpQueue'', 30), (''PolkadotXcm'', 31), (''CumulusXcm'', 32), (''MessageQueue'', 33),
      (''Contracts'', 40), (''Proxy'', 41), (''Multisig'', 42), (''Utility'', 43),
      (''Nfts'', 50), (''NftFractionalization'', 51), (''Assets'', 52), (''Fungibles'', 150)]"

definition mainnet_pallets :: pallet_table where
  "mainnet_pallets =
     [(''System'', 0), (''ParachainSystem'', 1), (''Timestamp'', 2), (''ParachainInfo'', 3), (''Balances'', 10),
      (''TransactionPayment'', 11), (''Sudo'', 15), (''Authorship'', 20), (''CollatorSelection'', 21),
      (''Session'', 22), (''Aura'', 23), (''AuraExt'', 24), (''Scheduler'', 28), (''Preimage'', 29),
      (''XcmpQueue'', 30), (''PolkadotXcm'', 31), (''CumulusXcm'', 32), (''MessageQueue'', 33),
      (''Proxy'', 41), (''Multisig'', 42), (''Utility'', 43)]"

section \<open>The base call filter\<close>

text \<open>\<open>FilteredCalls\<close>, and \<open>BaseCallFilter = EverythingBut<FilteredCalls>\<close>.\<close>

fun filtered_calls_contains :: "runtime_call \<Rightarrow> bool" where
  "filtered_calls_contains (Balances (ForceAdjustTotalIssuance _)) = True"
| "filtered_calls_contains (Balances (ForceSetBalance _)) = True"
| "filtered_calls_contains (Balances (ForceTransfer _)) = True"
| "filtered_calls_contains (Balances (ForceUnreserve _)) = True"
| "filtered_calls_contains _ = False"

definition base_call_filter :: "runtime_call \<Rightarrow> bool" where
  "base_call_filter c \<longleftrightarrow> \<not> filtered_calls_contains c"

section \<open>Proxies\<close>

datatype proxy_type = Any | NonTransfer | CancelProxy | Assets | AssetOwner | AssetManager | Collator

definition proxy_type_default :: proxy_type where
  "proxy_type_default = Any"

definition proxy_is_superset :: "proxy_type \<Rightarrow> proxy_type \<Rightarrow> bool" where
  "proxy_is_superset s o' =
     (if s = o' then True
      else case (s, o') of
        (Any, _) \<Rightarrow> True
      | (_, Any) \<Rightarrow> False
      | (proxy_type.Assets, AssetOwner) \<Rightarrow> True
      | (proxy_type.Assets, AssetManager) \<Rightarrow> True
      | (NonTransfer, Collator) \<Rightarrow> True
      | _ \<Rightarrow> False)"

fun is_batch_or_multisig :: "runtime_call \<Rightarrow> bool" where
  "is_batch_or_multisig (Utility _) = True"
| "is_batch_or_multisig (Multisig _) = True"
| "is_batch_or_multisig _ = False"

fun asset_owner_call :: "runtime_call \<Rightarrow> bool" where
  "asset_owner_call (runtime_call.Assets c) =
     (case c of AssetsCreate _ \<Rightarrow> True | AssetsStartDestroy _ \<Rightarrow> True | AssetsDestroyAccounts _ \<Rightarrow> True
      | AssetsDestroyApprovals _ \<Rightarrow> True | AssetsFinishDestroy _ \<Rightarrow> True | AssetsTransferOwnership _ \<Rightarrow> True
      | AssetsSetTeam _ \<Rightarrow> True | AssetsSetMetadata _ \<Rightarrow> True | AssetsClearMetadata _ \<Rightarrow> True
      | AssetsSetMinBalance _ \<Rightarrow> True | _ \<Rightarrow> False)"
| "asset_owner_call (Nfts c) =
     (case c of call.Create _ _ \<Rightarrow> True | Destroy _ _ \<Rightarrow> True | Redeposit _ _ \<Rightarrow> True
      | TransferOwnership _ _ \<Rightarrow> True | SetTeam _ _ _ _ \<Rightarrow> True | SetCollectionMaxSupply _ _ \<Rightarrow> True
      | LockCollection _ _ \<Rightarrow> True | _ \<Rightarrow> False)"
| "asset_owner_call c = is_batch_or_multisig c"

fun asset_manager_call :: "runtime_call \<Rightarrow> bool" where
  "asset_manager_call (runtime_call.Assets c) =
     (case c of AssetsMint _ \<Rightarrow> True | AssetsBurn _ \<Rightarrow> True | AssetsFreeze _ \<Rightarrow> True | AssetsBlock _ \<Rightarrow> True
      | AssetsThaw _ \<Rightarrow> True | AssetsFreezeAsset _ \<Rightarrow> True | AssetsThawAsset _ \<Rightarrow> True
      | AssetsTouchOther _ \<Rightarrow> True | AssetsRefundOther _ \<Rightarrow> True | _ \<Rightarrow> False)"
| "asset_manager_call (Nfts c) =
     (case c of ForceMint _ _ _ _ \<Rightarrow> True | UpdateMintSettings _ _ \<Rightarrow> True | MintPreSigned _ _ _ \<Rightarrow> True
      | SetAttributesPreSigned _ _ _ \<Rightarrow> True | LockItemTransfer _ _ \<Rightarrow> True | UnlockItemTransfer _ _ \<Rightarrow> True
      | LockItemProperties _ _ _ _ \<Rightarrow> True | call.SetMetadata _ _ _ \<Rightarrow> True | call.ClearMetadata _ _ \<Rightarrow> True
      | SetCollectionMetadata _ _ \<Rightarrow> True | ClearCollectionMetadata _ \<Rightarrow> True | _ \<Rightarrow> False)"
| "asset_manager_call c = is_batch_or_multisig c"

text \<open>\<open>InstanceFilter::filter\<close> of the devnet and testnet runtimes.\<close>

fun proxy_filter :: "proxy_type \<Rightarrow> runtime_call \<Rightarrow> bool" where
  "proxy_filter Any c = True"
| "proxy_filter NonTransfer c =
     (\<not> (case c of Balances _ \<Rightarrow> True | runtime_call.Assets _ \<Rightarrow> True | Nfts _ \<Rightarrow> True | _ \<Rightarrow> False))"
| "proxy_filter CancelProxy c =
     (case c of Proxy (RejectAnnouncement _) \<Rightarrow> True | _ \<Rightarrow> is_batch_or_multisig c)"
| "proxy_filter proxy_type.Assets c =
     (case c of runtime_call.Assets _ \<Rightarrow> True | Nfts _ \<Rightarrow> True | _ \<Rightarrow> is_batch_or_multisig c)"
| "proxy_filter AssetOwner c = asset_owner_call c"
| "proxy_filter AssetManager c = asset_manager_call c"
| "proxy_filter Collator c = (case c of CollatorSelection _ \<Rightarrow> True | _ \<Rightarrow> is_batch_or_multisig c)"

text \<open>The mainnet runtime has no assets and NFTs pallets; its filter names fewer calls.\<close>

fun mainnet_proxy_filter :: "proxy_type \<Rightarrow> runtime_call \<Rightarrow> bool" where
  "mainnet_proxy_filter Any c = True"
| "mainnet_proxy_filter NonTransfer c = (\<not> (case c of Balances _ \<Rightarrow> True | _ \<Rightarrow> False))"
| "mainnet_proxy_filter CancelProxy c =
     (case c of Proxy (RejectAnnouncement _) \<Rightarrow> True | _ \<Rightarrow> is_batch_or_multisig c)"
| "mainnet_proxy_filter proxy_type.Assets c = is_batch_or_multisig c"
| "mainnet_proxy_filter AssetOwner c = is_batch_or_multisig c"
| "mainnet_proxy_filter AssetManager c = is_batch_or_multisig c"
| "mainnet_proxy_filter Collator c = (case c of CollatorSelection _ \<Rightarrow> True | _ \<Rightarrow> is_batch_or_multisig c)"

section \<open>Properties\<close>

lemma superset_filter: "proxy_is_superset a b \<Longrightarrow> proxy_filter b c \<Longrightarrow> proxy_filter a c"
  by (cases a; cases b)
     (auto simp: proxy_is_superset_def elim!: asset_owner_call.elims asset_manager_call.elims
       is_batch_or_multisig.elims split: runtime_call.splits)

lemma superset_mainnet_filter: "proxy_is_superset a b \<Longrightarrow> mainnet_proxy_filter b c \<Longrightarrow> mainnet_proxy_filter a c"
  by (cases a; cases b)
     (auto simp: proxy_is_superset_def elim!: is_batch_or_multisig.elims split: runtime_call.splits)

text \<open>C31: the order on proxy types is sound: a proxy that is declared a superset of another can make every
  call the other can, on the devnet and testnet runtimes and on mainnet, so that a proxy can never
  gain rights by creating a proxy of a type it covers.\<close>

theorem proxy_superset_sound:
  assumes "proxy_is_superset a b"
  shows "(proxy_filter b c \<longrightarrow> proxy_filter a c) \<and> (mainnet_proxy_filter b c \<longrightarrow> mainnet_proxy_filter a c)"
  using superset_filter [OF assms] superset_mainnet_filter [OF assms] by blast

theorem proxy_superset_sound_witness:
  "proxy_filter proxy_type.Assets (Nfts (LockCollection 0 0)) \<and> proxy_is_superset proxy_type.Assets AssetOwner"
proof -
  have sup: "proxy_is_superset proxy_type.Assets AssetOwner" by (simp add: proxy_is_superset_def)
  have "proxy_filter AssetOwner (Nfts (LockCollection 0 0))" by simp
  with proxy_superset_sound [OF sup] sup show ?thesis by blast
qed

text \<open>The order on proxy types is a partial order with \<open>Any\<close>, the default, on top.\<close>

theorem proxy_superset_order:
  "proxy_is_superset a a \<and> proxy_is_superset proxy_type_default a \<and>
   (proxy_is_superset a b \<and> proxy_is_superset b a \<longleftrightarrow> a = b) \<and>
   (proxy_is_superset a b \<and> proxy_is_superset b c \<longrightarrow> proxy_is_superset a c)"
  by (cases a; cases b; cases c) (simp_all add: proxy_is_superset_def proxy_type_default_def)

theorem proxy_superset_order_witness:
  "proxy_is_superset Any proxy_type.Assets \<and> proxy_is_superset proxy_type.Assets AssetOwner \<and>
   proxy_is_superset Any AssetOwner"
  using proxy_superset_order [of Any proxy_type.Assets AssetOwner] by (simp add: proxy_is_superset_def)

text \<open>A proxy of type \<open>NonTransfer\<close> is kept from the balances, assets and NFTs pallets, but not from the
  transfers of the fungibles pallet, which move the same assets.\<close>

lemma non_transfer_filter:
  "\<not> proxy_filter NonTransfer (Balances b)" "\<not> proxy_filter NonTransfer (runtime_call.Assets a)"
  "\<not> proxy_filter NonTransfer (Nfts n)"
  "proxy_filter NonTransfer (Fungibles (fungibles_call.Transfer token to amount))"
  by simp_all

end
