(* ===== verification/Runtime_Pallets.thy ===== *)
theory Runtime_Pallets
  imports Runtime_Queries Runtime_Prices Runtime_Calls
begin

text \<open>
  The three runtimes side by side: what the tables of their pallets (in \<open>Runtime_Calls\<close>) say of calls, the base
  call filters and the proxy filter that testnet and mainnet declare for themselves, the testnet's
  configuration of the NFTs pallet and of fees, and the trusted reserves of all three. The properties
  say where the runtimes agree, so that what is proved of devnet's definitions holds of the others.
\<close>

section \<open>Pallets\<close>

text \<open>The pallet a call belongs to: the name of its variant of \<open>RuntimeCall\<close>.\<close>

fun pallet_of :: "pallet_table \<Rightarrow> runtime_call \<Rightarrow> string option" where
  "pallet_of t (Balances _) = Some ''Balances''"
| "pallet_of t (CollatorSelection _) = Some ''CollatorSelection''"
| "pallet_of t (Proxy _) = Some ''Proxy''"
| "pallet_of t (Multisig _) = Some ''Multisig''"
| "pallet_of t (Utility _) = Some ''Utility''"
| "pallet_of t (Nfts _) = Some ''Nfts''"
| "pallet_of t (runtime_call.Assets _) = Some ''Assets''"
| "pallet_of t (runtime_call.Fungibles _) = Some ''Fungibles''"
| "pallet_of t (OtherCall m _) = map_option fst (find (\<lambda>p. snd p = m) t)"

definition has_pallet :: "pallet_table \<Rightarrow> runtime_call \<Rightarrow> bool" where
  "has_pallet t c \<longleftrightarrow> (case pallet_of t c of None \<Rightarrow> False | Some p \<Rightarrow> map_of t p \<noteq> None)"

section \<open>Call filters of testnet and mainnet\<close>

definition testnet_filtered_calls_contains :: "runtime_call \<Rightarrow> bool" where
  "testnet_filtered_calls_contains c =
     (case c of
        Balances b \<Rightarrow>
          (case b of ForceAdjustTotalIssuance _ \<Rightarrow> True | ForceSetBalance _ \<Rightarrow> True | ForceTransfer _ \<Rightarrow> True
           | ForceUnreserve _ \<Rightarrow> True | _ \<Rightarrow> False)
      | _ \<Rightarrow> False)"

definition testnet_base_call_filter :: "runtime_call \<Rightarrow> bool" where
  "testnet_base_call_filter c \<longleftrightarrow> \<not> testnet_filtered_calls_contains c"

definition mainnet_filtered_calls_contains :: "runtime_call \<Rightarrow> bool" where
  "mainnet_filtered_calls_contains c =
     (case c of
        Balances b \<Rightarrow>
          (case b of ForceAdjustTotalIssuance _ \<Rightarrow> True | ForceSetBalance _ \<Rightarrow> True | ForceTransfer _ \<Rightarrow> True
           | ForceUnreserve _ \<Rightarrow> True | _ \<Rightarrow> False)
      | _ \<Rightarrow> False)"

definition mainnet_base_call_filter :: "runtime_call \<Rightarrow> bool" where
  "mainnet_base_call_filter c \<longleftrightarrow> \<not> mainnet_filtered_calls_contains c"

text \<open>\<open>InstanceFilter::filter\<close> of \<open>runtime/testnet/src/config/proxy.rs\<close>, arm by arm.\<close>

definition testnet_proxy_filter :: "proxy_type \<Rightarrow> runtime_call \<Rightarrow> bool" where
  "testnet_proxy_filter self c =
     (case self of
        Any \<Rightarrow> True
      | NonTransfer \<Rightarrow> \<not> (case c of Balances _ \<Rightarrow> True | runtime_call.Assets _ \<Rightarrow> True | Nfts _ \<Rightarrow> True | _ \<Rightarrow> False)
      | CancelProxy \<Rightarrow>
          (case c of Proxy p \<Rightarrow> (case p of RejectAnnouncement _ \<Rightarrow> True | _ \<Rightarrow> False)
           | Utility _ \<Rightarrow> True | Multisig _ \<Rightarrow> True | _ \<Rightarrow> False)
      | proxy_type.Assets \<Rightarrow>
          (case c of runtime_call.Assets _ \<Rightarrow> True | Utility _ \<Rightarrow> True | Multisig _ \<Rightarrow> True | Nfts _ \<Rightarrow> True
           | _ \<Rightarrow> False)
      | AssetOwner \<Rightarrow>
          (case c of
             runtime_call.Assets a \<Rightarrow>
               (case a of AssetsCreate _ \<Rightarrow> True | AssetsStartDestroy _ \<Rightarrow> True | AssetsDestroyAccounts _ \<Rightarrow> True
                | AssetsDestroyApprovals _ \<Rightarrow> True | AssetsFinishDestroy _ \<Rightarrow> True
                | AssetsTransferOwnership _ \<Rightarrow> True | AssetsSetTeam _ \<Rightarrow> True | AssetsSetMetadata _ \<Rightarrow> True
                | AssetsClearMetadata _ \<Rightarrow> True | AssetsSetMinBalance _ \<Rightarrow> True | _ \<Rightarrow> False)
           | Nfts n \<Rightarrow>
               (case n of call.Create _ _ \<Rightarrow> True | Destroy _ _ \<Rightarrow> True | Redeposit _ _ \<Rightarrow> True
                | TransferOwnership _ _ \<Rightarrow> True | SetTeam _ _ _ _ \<Rightarrow> True | SetCollectionMaxSupply _ _ \<Rightarrow> True
                | LockCollection _ _ \<Rightarrow> True | _ \<Rightarrow> False)
           | Utility _ \<Rightarrow> True | Multisig _ \<Rightarrow> True | _ \<Rightarrow> False)
      | AssetManager \<Rightarrow>
          (case c of
             runtime_call.Assets a \<Rightarrow>
               (case a of AssetsMint _ \<Rightarrow> True | AssetsBurn _ \<Rightarrow> True | AssetsFreeze _ \<Rightarrow> True | AssetsBlock _ \<Rightarrow> True
                | AssetsThaw _ \<Rightarrow> True | AssetsFreezeAsset _ \<Rightarrow> True | AssetsThawAsset _ \<Rightarrow> True
                | AssetsTouchOther _ \<Rightarrow> True | AssetsRefundOther _ \<Rightarrow> True | _ \<Rightarrow> False)
           | Nfts n \<Rightarrow>
               (case n of ForceMint _ _ _ _ \<Rightarrow> True | UpdateMintSettings _ _ \<Rightarrow> True | MintPreSigned _ _ _ \<Rightarrow> True
                | SetAttributesPreSigned _ _ _ \<Rightarrow> True | LockItemTransfer _ _ \<Rightarrow> True
                | UnlockItemTransfer _ _ \<Rightarrow> True | LockItemProperties _ _ _ _ \<Rightarrow> True
                | call.SetMetadata _ _ _ \<Rightarrow> True | call.ClearMetadata _ _ \<Rightarrow> True
                | SetCollectionMetadata _ _ \<Rightarrow> True | ClearCollectionMetadata _ \<Rightarrow> True | _ \<Rightarrow> False)
           | Utility _ \<Rightarrow> True | Multisig _ \<Rightarrow> True | _ \<Rightarrow> False)
      | Collator \<Rightarrow>
          (case c of CollatorSelection _ \<Rightarrow> True | Utility _ \<Rightarrow> True | Multisig _ \<Rightarrow> True | _ \<Rightarrow> False))"

section \<open>Configuration of testnet and trusted reserves\<close>

definition testnet_nfts :: "('x, 'e) config \<Rightarrow> ('x, 'e) config" where
  "testnet_nfts cfg = cfg
     \<lparr>approvals_limit := 20, attribute_deposit_base := unat (deposit 1 0), collection_deposit := unat (10 * UNIT),
      deposit_per_byte := unat (deposit 0 1), features := pallet_features_all_enabled,
      item_attributes_approvals_limit := 30, item_deposit := unat (UNIT div 100), key_limit := 64,
      max_attributes_per_call := 10, max_deadline_duration := 12 * 30 * DAYS, max_tips := 10,
      metadata_deposit_base := unat (deposit 1 129), string_limit := 256, value_limit := 256\<rparr>"

definition testnet_ExtrinsicBaseWeight :: weight where
  "testnet_ExtrinsicBaseWeight = from_parts (min (1000 * 125000) u64_max) 0"

definition testnet_WeightToFee_polynomial :: "(nat \<Rightarrow> nat \<Rightarrow> nat) \<Rightarrow> fee_coefficient list" where
  "testnet_WeightToFee_polynomial from_rational =
     (let p = unat (MILLIUNIT div 10); q = 100 * ref_time testnet_ExtrinsicBaseWeight in
      [\<lparr>fc_degree = 1, fc_negative = False, fc_frac = from_rational (p mod q) q, fc_integer = p div q\<rparr>])"

definition testnet_native_asset_from :: "location \<Rightarrow> xcm_asset \<Rightarrow> location \<Rightarrow> bool" where
  "testnet_native_asset_from loc asset origin \<longleftrightarrow>
     loc = origin \<and> (case asset_fun asset of Fungible _ \<Rightarrow> asset_id asset = RelayLocation | NonFungible _ \<Rightarrow> False)"

definition mainnet_native_asset_from :: "location \<Rightarrow> xcm_asset \<Rightarrow> location \<Rightarrow> bool" where
  "mainnet_native_asset_from loc asset origin \<longleftrightarrow>
     loc = origin \<and> (case asset_fun asset of Fungible _ \<Rightarrow> asset_id asset = RelayLocation | NonFungible _ \<Rightarrow> False)"

section \<open>Where the runtimes agree\<close>

lemmas pallet_tables = devnet_pallets_def testnet_pallets_def mainnet_pallets_def

text \<open>A table names each pallet once and gives each index once.\<close>

definition unambiguous :: "pallet_table \<Rightarrow> bool" where
  "unambiguous t \<longleftrightarrow> distinct (map fst t) \<and> distinct (map snd t)"

lemma pallet_tables_unambiguous:
  "unambiguous devnet_pallets" "unambiguous testnet_pallets" "unambiguous mainnet_pallets"
  by (simp_all add: unambiguous_def pallet_tables)

lemma testnet_pallets_devnet:
  "testnet_pallets = filter (\<lambda>p. fst p \<notin> {''Ismp'', ''IsmpParachain''}) devnet_pallets"
  by (simp add: pallet_tables)

lemma mainnet_pallets_testnet:
  "mainnet_pallets =
     filter (\<lambda>p. fst p \<notin> {''Contracts'', ''Nfts'', ''NftFractionalization'', ''Assets'', ''Fungibles''}) testnet_pallets"
  by (simp add: pallet_tables)

text \<open>In tables that agree, an index means the same pallet wherever it is used.\<close>

lemma same_index_same_pallet:
  assumes "unambiguous t" and "set u \<subseteq> set t" and "(p, m) \<in> set u" and "(q, m) \<in> set t"
  shows "p = q"
proof -
  have "inj_on snd (set t)" using assms(1) by (simp add: unambiguous_def distinct_map)
  from inj_onD [OF this, of "(p, m)" "(q, m)"] assms(2-4) show ?thesis by auto
qed

lemma testnet_base_call_filter_eq: "testnet_base_call_filter c = base_call_filter c"
  by (cases c rule: filtered_calls_contains.cases)
     (simp_all add: testnet_base_call_filter_def testnet_filtered_calls_contains_def base_call_filter_def)

lemma mainnet_base_call_filter_eq: "mainnet_base_call_filter c = base_call_filter c"
  by (cases c rule: filtered_calls_contains.cases)
     (simp_all add: mainnet_base_call_filter_def mainnet_filtered_calls_contains_def base_call_filter_def)

lemma testnet_proxy_filter_eq: "testnet_proxy_filter p c = proxy_filter p c"
  by (cases p; cases c) (simp_all add: testnet_proxy_filter_def split: proxy_call.splits)

lemma mainnet_calls:
  "has_pallet mainnet_pallets c \<Longrightarrow>
    (\<forall>x. c \<noteq> Nfts x) \<and> (\<forall>x. c \<noteq> runtime_call.Assets x) \<and> (\<forall>x. c \<noteq> runtime_call.Fungibles x)"
  by (auto simp: has_pallet_def mainnet_pallets_def)

lemma mainnet_proxy_filter_eq:
  "has_pallet mainnet_pallets c \<Longrightarrow> mainnet_proxy_filter p c = proxy_filter p c"
  by (drule mainnet_calls, cases p; cases c) auto

lemma testnet_nfts_eq: "testnet_nfts cfg = runtime_nfts cfg"
  by (simp add: testnet_nfts_def runtime_nfts_def)

lemma testnet_fees_eq: "testnet_WeightToFee_polynomial f = WeightToFee_polynomial f"
  by (simp add: testnet_WeightToFee_polynomial_def WeightToFee_polynomial_def linear_fee_def Let_def
      testnet_ExtrinsicBaseWeight_def ExtrinsicBaseWeight_def)

lemma native_asset_from_eq:
  "testnet_native_asset_from = native_asset_from" "mainnet_native_asset_from = native_asset_from"
  by (auto simp: fun_eq_iff testnet_native_asset_from_def mainnet_native_asset_from_def native_asset_from_def)

text \<open>C32: the runtimes agree on calls. A pallet index means one pallet: no runtime gives an index or a name
  twice, and a pallet of mainnet or testnet has the same index on devnet, where no other pallet has
  it. The base call filters are the same on all three. A proxy of a given type may make the same
  calls on devnet and testnet, and on mainnet the same among the calls of the pallets that mainnet
  has.\<close>

theorem runtimes_agree_on_calls:
  "(\<forall>t \<in> {devnet_pallets, testnet_pallets, mainnet_pallets}. unambiguous t \<and>
      (\<forall>p q m. (p, m) \<in> set t \<and> (q, m) \<in> set devnet_pallets \<longrightarrow> p = q) \<and> set t \<subseteq> set devnet_pallets) \<and>
   testnet_base_call_filter c = base_call_filter c \<and> mainnet_base_call_filter c = base_call_filter c \<and>
   testnet_proxy_filter a c = proxy_filter a c \<and>
   (has_pallet mainnet_pallets c \<longrightarrow> mainnet_proxy_filter a c = proxy_filter a c)"
proof -
  have sub: "set t \<subseteq> set devnet_pallets" if "t \<in> {devnet_pallets, testnet_pallets, mainnet_pallets}" for t
    using that by (auto simp: mainnet_pallets_testnet testnet_pallets_devnet)
  have "unambiguous t \<and> (\<forall>p q m. (p, m) \<in> set t \<and> (q, m) \<in> set devnet_pallets \<longrightarrow> p = q) \<and>
      set t \<subseteq> set devnet_pallets" if "t \<in> {devnet_pallets, testnet_pallets, mainnet_pallets}" for t
    using that sub [OF that] pallet_tables_unambiguous same_index_same_pallet [OF pallet_tables_unambiguous(1) sub [OF that]]
    by blast
  then show ?thesis
    by (simp add: testnet_base_call_filter_eq mainnet_base_call_filter_eq testnet_proxy_filter_eq
        mainnet_proxy_filter_eq)
qed

theorem runtimes_agree_on_calls_witness:
  "has_pallet mainnet_pallets (Utility []) \<and> mainnet_proxy_filter Collator (Utility []) \<and>
   \<not> has_pallet mainnet_pallets (Nfts (LockCollection 0 0)) \<and>
   proxy_filter AssetOwner (Nfts (LockCollection 0 0)) \<and> \<not> mainnet_proxy_filter AssetOwner (Nfts (LockCollection 0 0))"
proof -
  have util: "has_pallet mainnet_pallets (Utility [])" "proxy_filter Collator (Utility [])"
    by (simp_all add: has_pallet_def mainnet_pallets_def)
  moreover have "mainnet_proxy_filter Collator (Utility [])"
    using runtimes_agree_on_calls [of "Utility []" Collator] util by blast
  moreover have "\<not> has_pallet mainnet_pallets (Nfts (LockCollection 0 0))"
    by (simp add: has_pallet_def mainnet_pallets_def)
  ultimately show ?thesis by simp
qed

end
