(* ===== verification/Extension.thy ===== *)
theory Extension
  imports Fungibles
begin

text \<open>
  The configurable chain extension (\<open>extension/src\<close>): the environment a contract call runs in,
  matching a request to a function, decoding its input, dispatching a runtime call, reading
  runtime state, and the tuple of functions that the extension tries in order. The environment
  of \<open>pallet_contracts\<close> is the record \<open>environment\<close> of its operations over a state \<open>'v\<close>; what the
  extension relies on is the interface \<open>chain_environment\<close>, which the repository's own
  \<open>MockEnvironment\<close> provides. Effects on the environment persist when a function fails, so a
  function returns its result together with the state; a runtime call that fails leaves the
  runtime state \<open>'r\<close> as it was.
\<close>

section \<open>The environment\<close>

record ('v, 'g) environment =
  env_func_id :: "'v \<Rightarrow> u16"
  env_ext_id :: "'v \<Rightarrow> u16"
  env_charge_weight :: "weight \<Rightarrow> 'v \<Rightarrow> (dispatch_error + 'g) \<times> 'v"
  env_adjust_weight :: "'g \<Rightarrow> weight \<Rightarrow> 'v \<Rightarrow> 'v"
  env_address :: "'v \<Rightarrow> account_id"
  env_in_len :: "'v \<Rightarrow> nat"
  env_read :: "nat \<Rightarrow> 'v \<Rightarrow> dispatch_error + bytes"
  env_write :: "bytes \<Rightarrow> bool \<Rightarrow> weight option \<Rightarrow> 'v \<Rightarrow> (dispatch_error + unit) \<times> 'v"

datatype ret_val = Converging u32

text \<open>The \<open>?\<close> operator on a computation that also changes the environment.\<close>

definition try_env :: "(dispatch_error + 'a) \<times> 's \<Rightarrow> ('a \<Rightarrow> 's \<Rightarrow> (dispatch_error + 'b) \<times> 's) \<Rightarrow> (dispatch_error + 'b) \<times> 's" where
  "try_env m k = (case m of (Inl e, s) \<Rightarrow> (Inl e, s) | (Inr a, s) \<Rightarrow> k a s)"

section \<open>Matching\<close>

definition equals_matches :: "('v, 'g) environment \<Rightarrow> u16 \<Rightarrow> u16 \<Rightarrow> 'v \<Rightarrow> bool" where
  "equals_matches E ext_id func_id v \<longleftrightarrow> env_ext_id E v = ext_id \<and> env_func_id E v = func_id"

definition function_id_matches :: "('v, 'g) environment \<Rightarrow> u16 \<Rightarrow> 'v \<Rightarrow> bool" where
  "function_id_matches E func_id v \<longleftrightarrow> env_func_id E v = func_id"

definition with_func_id_matches :: "('v, 'g) environment \<Rightarrow> u32 \<Rightarrow> 'v \<Rightarrow> bool" where
  "with_func_id_matches E func v \<longleftrightarrow>
     (let ext_id = le_bytes 2 (env_ext_id E v); func_id = le_bytes 2 (env_func_id E v)
      in from_le_bytes [func_id ! 0, func_id ! 1, ext_id ! 0, ext_id ! 1] = func)"

section \<open>Decoding\<close>

definition identity_process :: "bytes \<Rightarrow> 'v \<Rightarrow> bytes" where
  "identity_process val env = val"

definition decodes ::
  "('v, 'g) environment \<Rightarrow> (nat \<Rightarrow> weight) \<Rightarrow> dispatch_error \<Rightarrow> (bytes \<Rightarrow> 'v \<Rightarrow> bytes) \<Rightarrow> (bytes \<Rightarrow> 'o option)
     \<Rightarrow> 'v \<Rightarrow> (dispatch_error + 'o) \<times> 'v" where
  "decodes E seal_return error process decode v =
     (let len = env_in_len E v; weight = seal_return len in
      try_env (env_charge_weight E weight v) (\<lambda>charged v.
      case env_read E len v of
        Inl e \<Rightarrow> (Inl e, v)
      | Inr input \<Rightarrow>
          let input = process input v in
          case decode input of None \<Rightarrow> (Inl error, v) | Some out \<Rightarrow> (Inr out, v)))"

section \<open>Functions\<close>

text \<open>The runtime as the extension sees it: the declared weight of a call, its dispatch from an origin
  that carries a call filter, the weight that is finally charged, and the state reads.\<close>

record ('c, 'd, 'o, 'r) runtime =
  rt_call_weight :: "'c \<Rightarrow> weight"
  rt_dispatch :: "('c \<Rightarrow> bool) \<Rightarrow> origin \<Rightarrow> 'c \<Rightarrow> 'r \<Rightarrow> post_error + weight option \<times> 'r"
  rt_extract_actual_weight :: "weight option \<Rightarrow> weight \<Rightarrow> weight"
  rt_read_weight :: "'d \<Rightarrow> weight"
  rt_read :: "'d \<Rightarrow> 'r \<Rightarrow> 'o"
  rt_call_filtered :: dispatch_error

definition post_weight :: "post_error + weight option \<times> 'r \<Rightarrow> weight option" where
  "post_weight result = (case result of Inl (_, w) \<Rightarrow> w | Inr (w, _) \<Rightarrow> w)"

definition dispatch_call_execute ::
  "('v, 'g) environment \<Rightarrow> ('c, 'd, 'o, 'r) runtime \<Rightarrow> ('v \<Rightarrow> (dispatch_error + 'c) \<times> 'v) \<Rightarrow> ('c \<Rightarrow> bool)
     \<Rightarrow> (dispatch_error \<Rightarrow> 'v \<Rightarrow> dispatch_error + ret_val) \<Rightarrow> 'v \<times> 'r \<Rightarrow> (dispatch_error + ret_val) \<times> 'v \<times> 'r" where
  "dispatch_call_execute E R decode contains convert_error = (\<lambda>(v, r).
     case decode v of
       (Inl e, v) \<Rightarrow> (Inl e, v, r)
     | (Inr call, v) \<Rightarrow>
         let dispatch_weight = rt_call_weight R call in
         case env_charge_weight E dispatch_weight v of
           (Inl e, v) \<Rightarrow> (Inl e, v, r)
         | (Inr charged, v) \<Rightarrow>
             let origin = Signed (env_address E v);
                 result = rt_dispatch R contains origin call r;
                 weight = rt_extract_actual_weight R (post_weight result) dispatch_weight;
                 v = env_adjust_weight E charged weight v
             in case result of
                  Inr (_, r') \<Rightarrow> (Inr (Converging 0), v, r')
                | Inl (e, _) \<Rightarrow> (convert_error e v, v, r))"

definition read_state_execute ::
  "('v, 'g) environment \<Rightarrow> ('c, 'd, 'o, 'r) runtime \<Rightarrow> ('v \<Rightarrow> (dispatch_error + 'd) \<times> 'v) \<Rightarrow> ('d \<Rightarrow> bool)
     \<Rightarrow> ('o \<Rightarrow> 'v \<Rightarrow> dispatch_error + bytes) \<Rightarrow> (nat \<Rightarrow> weight) \<Rightarrow> 'v \<times> 'r
     \<Rightarrow> (dispatch_error + ret_val) \<times> 'v \<times> 'r" where
  "read_state_execute E R decode contains convert_result seal_input = (\<lambda>(v, r).
     let (outcome, v') =
       try_env (decode v) (\<lambda>read v.
       let weight = rt_read_weight R read in
       try_env (env_charge_weight E weight v) (\<lambda>charged v.
       if \<not> contains read then (Inl (rt_call_filtered R), v)
       else
         let result = rt_read R read r in
         try_env (convert_result result v, v) (\<lambda>result v.
         let weight = seal_input (length result) in
         try_env (env_charge_weight E weight v) (\<lambda>charged v.
         try_env (env_write E result False None v) (\<lambda>_ v. (Inr (Converging 0), v))))))
     in (outcome, v', r))"

definition default_try_convert :: "('o \<Rightarrow> bytes) \<Rightarrow> 'o \<Rightarrow> 'v \<Rightarrow> dispatch_error + bytes" where
  "default_try_convert into val env = Inr (into val)"

definition unit_error_convert :: "dispatch_error \<Rightarrow> 'v \<Rightarrow> dispatch_error + ret_val" where
  "unit_error_convert error env = Inl error"

text \<open>A tuple of functions: the first one that matches runs, and a request that none matches is
  refused.\<close>

fun execute_tuple ::
  "(('v \<Rightarrow> bool) \<times> ('v \<times> 'r \<Rightarrow> (dispatch_error + ret_val) \<times> 'v \<times> 'r)) list \<Rightarrow> 'v \<times> 'r
     \<Rightarrow> (dispatch_error + ret_val) \<times> 'v \<times> 'r" where
  "execute_tuple [] s = (Inl contracts_decoding_failed, s)"
| "execute_tuple ((matches, execute) # functions) s =
     (if matches (fst s) then execute s else execute_tuple functions s)"

definition extension_call ::
  "('v, 'g) environment \<Rightarrow> (nat \<Rightarrow> weight) \<Rightarrow> ('v \<times> 'r \<Rightarrow> (dispatch_error + ret_val) \<times> 'v \<times> 'r) \<Rightarrow> 'v \<times> 'r
     \<Rightarrow> (dispatch_error + ret_val) \<times> 'v \<times> 'r" where
  "extension_call E seal_debug_message execute = (\<lambda>(v, r).
     let len = env_in_len E v; overhead = seal_debug_message len in
     case env_charge_weight E overhead v of
       (Inl e, v) \<Rightarrow> (Inl e, v, r)
     | (Inr charged, v) \<Rightarrow> execute (v, r))"

section \<open>The mock environment\<close>

text \<open>\<open>extension/src/mock.rs\<close>: the environment of the repository's own tests. It keeps the weights
  charged so far; an adjustment replaces the last entry equal to the charged amount.\<close>

record mock_environment =
  mock_func_id :: u16
  mock_ext_id :: u16
  mock_charged :: "weight list"
  mock_buffer :: bytes
  mock_address :: account_id

definition mock_new :: "u32 \<Rightarrow> bytes \<Rightarrow> mock_environment" where
  "mock_new func buffer =
     \<lparr>mock_func_id = ucast (func AND 0x0000FFFF), mock_ext_id = ucast (drop_bit 16 func), mock_charged = [],
      mock_buffer = buffer, mock_address = 0\<rparr>"

definition mock_charged_total :: "mock_environment \<Rightarrow> weight" where
  "mock_charged_total v = fold (\<lambda>b acc. weight_saturating_add acc b) (mock_charged v) (from_parts 0 0)"

text \<open>Replace the last occurrence; the source unwraps the index, so it panics when there is none, which
  no caller reaches because only charged amounts are adjusted.\<close>

fun replace_last :: "'a \<Rightarrow> 'a \<Rightarrow> 'a list \<Rightarrow> 'a list" where
  "replace_last x y [] = []"
| "replace_last x y (z # zs) =
     (if z = x \<and> x \<notin> set zs then y # zs else z # replace_last x y zs)"

definition mock_env :: "(mock_environment, weight) environment" where
  "mock_env =
     \<lparr>env_func_id = mock_func_id, env_ext_id = mock_ext_id,
      env_charge_weight = (\<lambda>amount v. (Inr amount, v\<lparr>mock_charged := mock_charged v @ [amount]\<rparr>)),
      env_adjust_weight = (\<lambda>charged actual v. v\<lparr>mock_charged := replace_last charged actual (mock_charged v)\<rparr>),
      env_address = mock_address, env_in_len = (\<lambda>v. length (mock_buffer v)),
      env_read = (\<lambda>max_len v. Inr (mock_buffer v)),
      env_write = (\<lambda>buffer allow_skip weight_per_byte v. (Inr (), v\<lparr>mock_buffer := buffer\<rparr>))\<rparr>"

lemma replace_last_snoc: "replace_last x y (zs @ [x]) = zs @ [y]"
  by (induction zs) auto

section \<open>The interface of the environment\<close>

text \<open>What the wrapped environment of \<open>pallet_contracts\<close> documents: charging weight either records it or
  fails, for want of budget; a charge can be adjusted down to a smaller amount; and none of this changes
  who calls what with which input. Writing the output charges nothing of its own when no weight per
  byte is given. Nothing is said of when a charge or a write succeeds.\<close>

locale chain_environment =
  fixes E :: "('v, 'g) environment" and charges :: "'v \<Rightarrow> weight list" and request :: "'v \<Rightarrow> 'q"
  assumes charge: "env_charge_weight E w v = (Inr g, v') \<Longrightarrow> charges v' = charges v @ [w] \<and> request v' = request v"
    and charge_fails: "env_charge_weight E w v = (Inl e, v') \<Longrightarrow> request v' = request v"
    and adjust: "env_charge_weight E w v = (Inr g, v') \<Longrightarrow> weight_le w' w \<Longrightarrow>
      charges (env_adjust_weight E g w' v') = charges v @ [w']"
    and adjust_keeps: "request (env_adjust_weight E g w' v) = request v"
    and write_keeps: "env_write E b skip None v = (res, v') \<Longrightarrow> charges v' = charges v"
    and request_fields: "request v = request v' \<Longrightarrow>
      env_func_id E v = env_func_id E v' \<and> env_ext_id E v = env_ext_id E v' \<and> env_address E v = env_address E v' \<and>
      env_in_len E v = env_in_len E v' \<and> env_read E n v = env_read E n v'"

text \<open>A sequence of charges, up to the first one that the budget does not allow.\<close>

fun charge_all :: "('v, 'g) environment \<Rightarrow> weight list \<Rightarrow> 'v \<Rightarrow> (dispatch_error + unit) \<times> 'v" where
  "charge_all E [] v = (Inr (), v)"
| "charge_all E (w # ws) v = try_env (env_charge_weight E w v) (\<lambda>charged v. charge_all E ws v)"

lemma charge_all_cases:
  obtains (fails) e v' where "env_charge_weight E w v = (Inl e, v')" "charge_all E (w # ws) v = (Inl e, v')"
  | (charged) g v' where "env_charge_weight E w v = (Inr g, v')" "charge_all E (w # ws) v = charge_all E ws v'"
  by (cases "env_charge_weight E w v"; cases "fst (env_charge_weight E w v)") (auto simp: try_env_def)

context chain_environment
begin

lemma charge_all_charges:
  "charge_all E ws v = (Inr (), v') \<Longrightarrow> charges v' = charges v @ ws \<and> request v' = request v"
proof (induction ws arbitrary: v)
  case (Cons w ws)
  show ?case
    by (rule charge_all_cases [of E w v ws]) (use Cons charge in \<open>auto simp del: charge_all.simps(2)\<close>)
qed simp

lemma decodes_Inr:
  assumes "decodes E seal_return error process decode v = (Inr out, v')"
  shows "charges v' = charges v @ [seal_return (env_in_len E v)] \<and> request v' = request v \<and>
    (\<exists>input. env_read E (env_in_len E v) v = Inr input \<and> decode (process input v') = Some out)"
proof -
  from assms obtain g where g: "env_charge_weight E (seal_return (env_in_len E v)) v = (Inr g, v')"
    and rd: "\<exists>input. env_read E (env_in_len E v) v' = Inr input \<and> decode (process input v') = Some out"
    by (auto simp: decodes_def try_env_def Let_def split: prod.splits sum.splits option.splits)
  from charge [OF g] rd request_fields [of v' v] show ?thesis by auto
qed

lemma decodes_Inl:
  assumes "decodes E seal_return error process decode v = (Inl e, v')"
  shows "request v' = request v"
  using assms charge charge_fails
  by (fastforce simp: decodes_def try_env_def Let_def split: prod.splits sum.splits option.splits)

text \<open>A successful dispatch charges for the input and, in the end, the actual weight of the call, as long
  as that is no more than was declared.\<close>

lemma dispatch_call_charges:
  assumes "dispatch_call_execute E R (decodes E seal_return error process decode) f conv (v, r) = (res, v', r')"
    and "decodes E seal_return error process decode v = (Inr call, v1)"
    and "env_charge_weight E (rt_call_weight R call) v1 = (Inr g, v2)"
    and "\<And>a. weight_le (rt_extract_actual_weight R a (rt_call_weight R call)) (rt_call_weight R call)"
  shows "charges v' = charges v @ [seal_return (env_in_len E v),
      rt_extract_actual_weight R (post_weight (rt_dispatch R f (Signed (env_address E v)) call r)) (rt_call_weight R call)] \<and>
    request v' = request v"
proof -
  note dec = decodes_Inr [OF assms(2)]
  have "request v2 = request v" using dec charge [OF assms(3)] by simp
  then have "env_address E v2 = env_address E v" and "request (env_adjust_weight E g w v2) = request v" for w
    using request_fields adjust_keeps by metis+
  with assms(1-3) dec adjust [OF assms(3) assms(4)] show ?thesis
    by (auto simp: dispatch_call_execute_def Let_def split: sum.splits prod.splits)
qed

end

interpretation mock: chain_environment mock_env mock_charged
  "\<lambda>v. (mock_func_id v, mock_ext_id v, mock_buffer v, mock_address v)"
  by unfold_locales (auto simp: mock_env_def replace_last_snoc)

text \<open>The mock environment never refuses. With a budget and an output buffer of a given length it behaves
  as the documentation says of the real one.\<close>

definition metered_env :: "weight \<Rightarrow> nat \<Rightarrow> (mock_environment, weight) environment" where
  "metered_env limit out_len = mock_env
     \<lparr>env_charge_weight := (\<lambda>amount v.
        let v' = v\<lparr>mock_charged := mock_charged v @ [amount]\<rparr> in
        if weight_le (mock_charged_total v') limit then (Inr amount, v') else (Inl dispatch_error.Exhausted, v)),
      env_write := (\<lambda>buffer allow_skip weight_per_byte v.
        if length buffer \<le> out_len then (Inr (), v\<lparr>mock_buffer := buffer\<rparr>) else (Inl dispatch_error.Unavailable, v))\<rparr>"

interpretation metered: chain_environment "metered_env limit out_len" mock_charged
  "\<lambda>v. (mock_func_id v, mock_ext_id v, mock_buffer v, mock_address v)"
  by unfold_locales (auto simp: metered_env_def mock_env_def replace_last_snoc Let_def split: if_splits)

end
