(* ===== verification/Api_Extension.thy ===== *)
theory Api_Extension
  imports Extension Runtime_Calls
begin

text \<open>
  The chain extension as the runtimes configure it: the processors, matchers and converters of
  \<open>pallets/api/src/extension.rs\<close>, the codec of the calls and reads a contract may send, and the
  configuration of \<open>runtime/devnet/src/config/api/mod.rs\<close> (that of testnet is in \<open>Api_Testnet\<close>): reads,
  filters and the two functions of the Pop API. A request identifies itself by four bytes: function,
  version, module and index.
\<close>

section \<open>Helpers of the API extension\<close>

definition func_id :: "('v, 'g) environment \<Rightarrow> 'v \<Rightarrow> u8" where
  "func_id E v = le_bytes 2 (env_func_id E v) ! 0"

definition module_and_index :: "('v, 'g) environment \<Rightarrow> 'v \<Rightarrow> u8 \<times> u8" where
  "module_and_index E v = (let bytes = le_bytes 2 (env_ext_id E v) in (bytes ! 0, bytes ! 1))"

definition version :: "('v, 'g) environment \<Rightarrow> 'v \<Rightarrow> u8" where
  "version E v = le_bytes 2 (env_func_id E v) ! 1"

definition prepender_process :: "('v, 'g) environment \<Rightarrow> bytes \<Rightarrow> 'v \<Rightarrow> bytes" where
  "prepender_process E val v =
     (let ver = version E v; (module, index) = module_and_index E v in [ver, module, index] @ val)"

definition identified_by_first_byte :: "('v, 'g) environment \<Rightarrow> u8 \<Rightarrow> 'v \<Rightarrow> bool" where
  "identified_by_first_byte E t v \<longleftrightarrow> func_id E v = t"

definition versioned_error_convert :: "('v, 'g) environment \<Rightarrow> dispatch_error \<Rightarrow> 'v \<Rightarrow> dispatch_error + ret_val" where
  "versioned_error_convert E error v =
     (let ver = version E v in
      andthen (versioned_error_try_from error ver) (\<lambda>error.
      Inr (Converging (versioned_error_to_u32 error))))"

definition versioned_result_convert ::
  "('v, 'g) environment \<Rightarrow> 'o \<Rightarrow> 'v \<Rightarrow> dispatch_error + 'o versioned_runtime_result" where
  "versioned_result_convert E val v = (let ver = version E v in versioned_runtime_result_try_from val ver)"

section \<open>The codec of requests\<close>

text \<open>Fixed-width fields are little-endian. The codec of a byte string and the calls of the other
  pallets belong to outside code.\<close>

record codec =
  encode_vec :: "bytes \<Rightarrow> bytes"
  decode_vec :: "bytes \<Rightarrow> (bytes \<times> bytes) option"
  decode_other_call :: "u8 \<Rightarrow> bytes \<Rightarrow> runtime_call option"

definition take_u32 :: "bytes \<Rightarrow> (u32 \<times> bytes) option" where
  "take_u32 b = (if length b < 4 then None else Some (from_le_bytes (take 4 b), drop 4 b))"

definition take_account :: "bytes \<Rightarrow> (account_id \<times> bytes) option" where
  "take_account b = (if length b < 32 then None else Some (from_le_bytes (take 32 b), drop 32 b))"

definition take_balance :: "bytes \<Rightarrow> (balance \<times> bytes) option" where
  "take_balance b =
     (if length b < 16 then None else Some (unat (from_le_bytes (take 16 b) :: 128 word), drop 16 b))"

definition obind :: "('a \<times> bytes) option \<Rightarrow> ('a \<Rightarrow> bytes \<Rightarrow> 'b option) \<Rightarrow> 'b option" where
  "obind m k = (case m of None \<Rightarrow> None | Some (a, b) \<Rightarrow> k a b)"

text \<open>Token, account and amount: the arguments of most calls.\<close>

definition decode_tab :: "(token_id \<Rightarrow> account_id \<Rightarrow> balance \<Rightarrow> 'c) \<Rightarrow> bytes \<Rightarrow> 'c option" where
  "decode_tab c b = obind (take_u32 b) (\<lambda>t b. obind (take_account b) (\<lambda>a b. obind (take_balance b) (\<lambda>n _. Some (c t a n))))"

definition decode_t :: "(token_id \<Rightarrow> 'c) \<Rightarrow> bytes \<Rightarrow> 'c option" where
  "decode_t c b = obind (take_u32 b) (\<lambda>t _. Some (c t))"

definition decode_fungibles_call :: "codec \<Rightarrow> bytes \<Rightarrow> fungibles_call option" where
  "decode_fungibles_call C input =
     (case input of
        [] \<Rightarrow> None
      | i # b \<Rightarrow>
          if i = 3 then decode_tab fungibles_call.Transfer b
          else if i = 4 then
            obind (take_u32 b) (\<lambda>t b. obind (take_account b) (\<lambda>f b. obind (take_account b) (\<lambda>a b.
              obind (take_balance b) (\<lambda>n _. Some (TransferFrom t f a n)))))
          else if i = 5 then decode_tab Approve b
          else if i = 6 then decode_tab IncreaseAllowance b
          else if i = 7 then decode_tab DecreaseAllowance b
          else if i = 11 then decode_tab fungibles_call.Create b
          else if i = 12 then decode_t StartDestroy b
          else if i = 16 then
            obind (take_u32 b) (\<lambda>t b. obind (decode_vec C b) (\<lambda>n b. obind (decode_vec C b) (\<lambda>s b.
              case b of [] \<Rightarrow> None | d # _ \<Rightarrow> Some (fungibles_call.SetMetadata t n s d))))
          else if i = 17 then decode_t fungibles_call.ClearMetadata b
          else if i = 19 then decode_tab fungibles_call.Mint b
          else if i = 20 then decode_tab fungibles_call.Burn b
          else None)"

definition decode_runtime_call :: "codec \<Rightarrow> bytes \<Rightarrow> runtime_call option" where
  "decode_runtime_call C input =
     (case input of
        [] \<Rightarrow> None
      | m # b \<Rightarrow>
          if m = 150 then map_option Fungibles (decode_fungibles_call C b)
          else if m \<in> set (map snd devnet_pallets) then decode_other_call C m b else None)"

definition decode_versioned_call :: "codec \<Rightarrow> bytes \<Rightarrow> runtime_call versioned_runtime_call option" where
  "decode_versioned_call C input =
     (case input of
        [] \<Rightarrow> None
      | ver # b \<Rightarrow> if ver = 0 then map_option versioned_runtime_call.V0 (decode_runtime_call C b) else None)"

datatype runtime_read = Fungibles fungibles_read

definition decode_fungibles_read :: "bytes \<Rightarrow> fungibles_read option" where
  "decode_fungibles_read input =
     (case input of
        [] \<Rightarrow> None
      | i # b \<Rightarrow>
          if i = 0 then decode_t fungibles_read.TotalSupply b
          else if i = 1 then
            obind (take_u32 b) (\<lambda>t b. obind (take_account b) (\<lambda>a _. Some (fungibles_read.BalanceOf t a)))
          else if i = 2 then
            obind (take_u32 b) (\<lambda>t b. obind (take_account b) (\<lambda>a b. obind (take_account b) (\<lambda>s _.
              Some (fungibles_read.Allowance t a s))))
          else if i = 8 then decode_t fungibles_read.TokenName b
          else if i = 9 then decode_t fungibles_read.TokenSymbol b
          else if i = 10 then decode_t fungibles_read.TokenDecimals b
          else if i = 18 then decode_t fungibles_read.TokenExists b
          else None)"

definition decode_runtime_read :: "bytes \<Rightarrow> runtime_read option" where
  "decode_runtime_read input =
     (case input of
        [] \<Rightarrow> None
      | m # b \<Rightarrow> if m = 150 then map_option runtime_read.Fungibles (decode_fungibles_read b) else None)"

definition decode_versioned_read :: "bytes \<Rightarrow> runtime_read versioned_runtime_read option" where
  "decode_versioned_read input =
     (case input of
        [] \<Rightarrow> None
      | ver # b \<Rightarrow> if ver = 0 then map_option versioned_runtime_read.V0 (decode_runtime_read b) else None)"

section \<open>The configuration of the runtime\<close>

datatype runtime_result = Fungibles fungibles_read_result

fun runtime_read_weight :: "'x fungibles_config \<Rightarrow> runtime_read \<Rightarrow> weight" where
  "runtime_read_weight cfg (runtime_read.Fungibles key) = fungibles_read_weight cfg key"

fun runtime_read_read :: "'x fungibles_config \<Rightarrow> runtime_read \<Rightarrow> 'x fungibles \<Rightarrow> runtime_result" where
  "runtime_read_read cfg (runtime_read.Fungibles key) s =
     runtime_result.Fungibles (fungibles_read_state cfg key (f_ext s))"

fun runtime_result_encode :: "codec \<Rightarrow> runtime_result \<Rightarrow> bytes" where
  "runtime_result_encode C (runtime_result.Fungibles result) = read_result_encode (encode_vec C) result"

definition filter_call :: "runtime_call \<Rightarrow> bool" where
  "filter_call c \<longleftrightarrow> base_call_filter c \<and>
     (case c of
        runtime_call.Fungibles f \<Rightarrow>
          (case f of fungibles_call.Transfer _ _ _ \<Rightarrow> True | TransferFrom _ _ _ _ \<Rightarrow> True | Approve _ _ _ \<Rightarrow> True
           | IncreaseAllowance _ _ _ \<Rightarrow> True | DecreaseAllowance _ _ _ \<Rightarrow> True | fungibles_call.Create _ _ _ \<Rightarrow> True
           | fungibles_call.SetMetadata _ _ _ _ \<Rightarrow> True | StartDestroy _ \<Rightarrow> True
           | fungibles_call.ClearMetadata _ \<Rightarrow> True | fungibles_call.Mint _ _ _ \<Rightarrow> True
           | fungibles_call.Burn _ _ _ \<Rightarrow> True)
      | _ \<Rightarrow> False)"

fun filter_read :: "runtime_read \<Rightarrow> bool" where
  "filter_read (runtime_read.Fungibles (fungibles_read.TotalSupply _)) = True"
| "filter_read (runtime_read.Fungibles (fungibles_read.BalanceOf _ _)) = True"
| "filter_read (runtime_read.Fungibles (fungibles_read.Allowance _ _ _)) = True"
| "filter_read (runtime_read.Fungibles (fungibles_read.TokenName _)) = True"
| "filter_read (runtime_read.Fungibles (fungibles_read.TokenSymbol _)) = True"
| "filter_read (runtime_read.Fungibles (fungibles_read.TokenDecimals _)) = True"
| "filter_read (runtime_read.Fungibles (fungibles_read.TokenExists _)) = True"

text \<open>What the contracts pallet and FRAME contribute: the weights of crossing the contract boundary,
  the error of a filtered call, the final weight of a dispatch, and the dispatch of the calls of
  other pallets.\<close>

record 'x host =
  seal_debug_message :: "nat \<Rightarrow> weight"
  seal_return :: "nat \<Rightarrow> weight"
  seal_input :: "nat \<Rightarrow> weight"
  call_filtered :: dispatch_error
  extract_actual_weight :: "weight option \<Rightarrow> weight \<Rightarrow> weight"
  other_call_weight :: "runtime_call \<Rightarrow> weight"
  other_dispatch :: "origin \<Rightarrow> runtime_call \<Rightarrow> 'x fungibles \<Rightarrow> post_error + weight option \<times> 'x fungibles"

text \<open>Dispatch through an origin with a filter: a call outside the filter is refused before it runs.\<close>

definition runtime_dispatch ::
  "'x host \<Rightarrow> 'x fungibles_config \<Rightarrow> (runtime_call \<Rightarrow> bool) \<Rightarrow> origin \<Rightarrow> runtime_call \<Rightarrow> 'x fungibles
     \<Rightarrow> post_error + weight option \<times> 'x fungibles" where
  "runtime_dispatch H cfg contains og call s =
     (if \<not> contains call then Inl (call_filtered H, None)
      else case call of runtime_call.Fungibles c \<Rightarrow> fungibles_dispatch cfg og c s | _ \<Rightarrow> other_dispatch H og call s)"

definition api_runtime ::
  "'x host \<Rightarrow> 'x fungibles_config \<Rightarrow> (runtime_call, runtime_read, runtime_result, 'x fungibles) runtime" where
  "api_runtime H cfg =
     \<lparr>rt_call_weight = (\<lambda>call. case call of runtime_call.Fungibles c \<Rightarrow> fungibles_call_weight cfg c
        | _ \<Rightarrow> other_call_weight H call),
      rt_dispatch = runtime_dispatch H cfg, rt_extract_actual_weight = extract_actual_weight H,
      rt_read_weight = runtime_read_weight cfg, rt_read = runtime_read_read cfg,
      rt_call_filtered = call_filtered H\<rparr>"

definition decode_call ::
  "('v, 'g) environment \<Rightarrow> 'x host \<Rightarrow> codec \<Rightarrow> 'v \<Rightarrow> (dispatch_error + runtime_call) \<times> 'v" where
  "decode_call E H C =
     decodes E (seal_return H) contracts_decoding_failed (prepender_process E)
       (\<lambda>b. map_option runtime_call_from (decode_versioned_call C b))"

definition decode_read ::
  "('v, 'g) environment \<Rightarrow> 'x host \<Rightarrow> 'v \<Rightarrow> (dispatch_error + runtime_read) \<times> 'v" where
  "decode_read E H =
     decodes E (seal_return H) contracts_decoding_failed (prepender_process E)
       (\<lambda>b. map_option runtime_read_from (decode_versioned_read b))"

definition convert_read_result ::
  "('v, 'g) environment \<Rightarrow> codec \<Rightarrow> runtime_result \<Rightarrow> 'v \<Rightarrow> dispatch_error + bytes" where
  "convert_read_result E C result v =
     andthen (versioned_result_convert E result v) (\<lambda>r. Inr (versioned_runtime_result_into (runtime_result_encode C) r))"

text \<open>\<open>Functions\<close>: function 0 dispatches a call, function 1 reads state.\<close>

definition api_functions where
  "api_functions E H C cfg =
     [(identified_by_first_byte E 0,
       dispatch_call_execute E (api_runtime H cfg) (decode_call E H C) filter_call (versioned_error_convert E)),
      (identified_by_first_byte E 1,
       read_state_execute E (api_runtime H cfg) (decode_read E H) filter_read (convert_read_result E C) (seal_input H))]"

definition api_call ::
  "('v, 'g) environment \<Rightarrow> 'x host \<Rightarrow> codec \<Rightarrow> 'x fungibles_config \<Rightarrow> 'v \<times> 'x fungibles
     \<Rightarrow> (dispatch_error + ret_val) \<times> 'v \<times> 'x fungibles" where
  "api_call E H C cfg = extension_call E (seal_debug_message H) (execute_tuple (api_functions E H C cfg))"

end
