(* ===== verification/Pop_Api.thy ===== *)
theory Pop_Api
  imports Fungibles
begin

text \<open>
  The crate \<open>pop-api\<close> that contracts link against (\<open>pop-api/src\<close>): the identifiers of the functions,
  one request per API function (the method identifier and the encoded input that \<open>ink\<close> hands to the
  chain extension), and the conversion of the returned status code into a result, a
  \<open>FungiblesError\<close> or a \<open>Psp22Error\<close>.
\<close>

section \<open>Constants\<close>

definition DECODING_FAILED :: u32 where "DECODING_FAILED = 255"
definition MODULE_ERROR :: u8 where "MODULE_ERROR = 3"
definition DISPATCH :: u8 where "DISPATCH = 0"
definition READ_STATE :: u8 where "READ_STATE = 1"
definition ASSETS :: u8 where "ASSETS = 52"
definition BALANCES :: u8 where "BALANCES = 10"
definition FUNGIBLES :: u8 where "FUNGIBLES = 150"
definition api_V0 :: u8 where "api_V0 = 0"

definition TOTAL_SUPPLY :: u8 where "TOTAL_SUPPLY = 0"
definition BALANCE_OF :: u8 where "BALANCE_OF = 1"
definition ALLOWANCE :: u8 where "ALLOWANCE = 2"
definition TRANSFER :: u8 where "TRANSFER = 3"
definition TRANSFER_FROM :: u8 where "TRANSFER_FROM = 4"
definition APPROVE :: u8 where "APPROVE = 5"
definition INCREASE_ALLOWANCE :: u8 where "INCREASE_ALLOWANCE = 6"
definition DECREASE_ALLOWANCE :: u8 where "DECREASE_ALLOWANCE = 7"
definition TOKEN_NAME :: u8 where "TOKEN_NAME = 8"
definition TOKEN_SYMBOL :: u8 where "TOKEN_SYMBOL = 9"
definition TOKEN_DECIMALS :: u8 where "TOKEN_DECIMALS = 10"
definition CREATE :: u8 where "CREATE = 11"
definition START_DESTROY :: u8 where "START_DESTROY = 12"
definition SET_METADATA :: u8 where "SET_METADATA = 16"
definition CLEAR_METADATA :: u8 where "CLEAR_METADATA = 17"
definition TOKEN_EXISTS :: u8 where "TOKEN_EXISTS = 18"
definition MINT :: u8 where "MINT = 19"
definition BURN :: u8 where "BURN = 20"

lemmas api_constants =
  DECODING_FAILED_def MODULE_ERROR_def DISPATCH_def READ_STATE_def ASSETS_def BALANCES_def FUNGIBLES_def
  api_V0_def TOTAL_SUPPLY_def BALANCE_OF_def ALLOWANCE_def TRANSFER_def TRANSFER_FROM_def APPROVE_def
  INCREASE_ALLOWANCE_def DECREASE_ALLOWANCE_def TOKEN_NAME_def TOKEN_SYMBOL_def TOKEN_DECIMALS_def
  CREATE_def START_DESTROY_def SET_METADATA_def CLEAR_METADATA_def TOKEN_EXISTS_def MINT_def BURN_def

section \<open>Requests\<close>

record api_request =
  req_id :: u32
  req_input :: bytes

definition build_extension_method :: "u8 \<Rightarrow> u8 \<Rightarrow> u8 \<Rightarrow> u8 \<Rightarrow> u32" where
  "build_extension_method function ver module dispatchable = from_le_bytes [function, ver, module, dispatchable]"

definition v0_build_dispatch :: "u8 \<Rightarrow> u8 \<Rightarrow> u32" where
  "v0_build_dispatch module dispatchable = build_extension_method DISPATCH api_V0 module dispatchable"

definition v0_build_read_state :: "u8 \<Rightarrow> u8 \<Rightarrow> u32" where
  "v0_build_read_state module state_query = build_extension_method READ_STATE api_V0 module state_query"

definition build_dispatch :: "u8 \<Rightarrow> u32" where
  "build_dispatch dispatchable = v0_build_dispatch FUNGIBLES dispatchable"

definition build_read_state :: "u8 \<Rightarrow> u32" where
  "build_read_state state_query = v0_build_read_state FUNGIBLES state_query"

text \<open>The SCALE encoding of the argument tuples: the fields one after the other.\<close>

definition enc_token :: "token_id \<Rightarrow> bytes" where
  "enc_token t = le_bytes 4 t"

definition enc_account :: "account_id \<Rightarrow> bytes" where
  "enc_account a = le_bytes 32 a"

definition api_total_supply :: "token_id \<Rightarrow> api_request" where
  "api_total_supply token = \<lparr>req_id = build_read_state TOTAL_SUPPLY, req_input = enc_token token\<rparr>"

definition api_balance_of :: "token_id \<Rightarrow> account_id \<Rightarrow> api_request" where
  "api_balance_of token own =
     \<lparr>req_id = build_read_state BALANCE_OF, req_input = enc_token token @ enc_account own\<rparr>"

definition api_allowance :: "token_id \<Rightarrow> account_id \<Rightarrow> account_id \<Rightarrow> api_request" where
  "api_allowance token own spender =
     \<lparr>req_id = build_read_state ALLOWANCE, req_input = enc_token token @ enc_account own @ enc_account spender\<rparr>"

definition api_transfer :: "token_id \<Rightarrow> account_id \<Rightarrow> balance \<Rightarrow> api_request" where
  "api_transfer token to val =
     \<lparr>req_id = build_dispatch TRANSFER, req_input = enc_token token @ enc_account to @ encode_balance val\<rparr>"

definition api_transfer_from :: "token_id \<Rightarrow> account_id \<Rightarrow> account_id \<Rightarrow> balance \<Rightarrow> api_request" where
  "api_transfer_from token from to val =
     \<lparr>req_id = build_dispatch TRANSFER_FROM,
      req_input = enc_token token @ enc_account from @ enc_account to @ encode_balance val\<rparr>"

definition api_approve :: "token_id \<Rightarrow> account_id \<Rightarrow> balance \<Rightarrow> api_request" where
  "api_approve token spender val =
     \<lparr>req_id = build_dispatch APPROVE, req_input = enc_token token @ enc_account spender @ encode_balance val\<rparr>"

definition api_increase_allowance :: "token_id \<Rightarrow> account_id \<Rightarrow> balance \<Rightarrow> api_request" where
  "api_increase_allowance token spender val =
     \<lparr>req_id = build_dispatch INCREASE_ALLOWANCE,
      req_input = enc_token token @ enc_account spender @ encode_balance val\<rparr>"

definition api_decrease_allowance :: "token_id \<Rightarrow> account_id \<Rightarrow> balance \<Rightarrow> api_request" where
  "api_decrease_allowance token spender val =
     \<lparr>req_id = build_dispatch DECREASE_ALLOWANCE,
      req_input = enc_token token @ enc_account spender @ encode_balance val\<rparr>"

definition api_mint :: "token_id \<Rightarrow> account_id \<Rightarrow> balance \<Rightarrow> api_request" where
  "api_mint token account val =
     \<lparr>req_id = build_dispatch MINT, req_input = enc_token token @ enc_account account @ encode_balance val\<rparr>"

definition api_burn :: "token_id \<Rightarrow> account_id \<Rightarrow> balance \<Rightarrow> api_request" where
  "api_burn token account val =
     \<lparr>req_id = build_dispatch BURN, req_input = enc_token token @ enc_account account @ encode_balance val\<rparr>"

definition api_token_name :: "token_id \<Rightarrow> api_request" where
  "api_token_name token = \<lparr>req_id = build_read_state TOKEN_NAME, req_input = enc_token token\<rparr>"

definition api_token_symbol :: "token_id \<Rightarrow> api_request" where
  "api_token_symbol token = \<lparr>req_id = build_read_state TOKEN_SYMBOL, req_input = enc_token token\<rparr>"

definition api_token_decimals :: "token_id \<Rightarrow> api_request" where
  "api_token_decimals token = \<lparr>req_id = build_read_state TOKEN_DECIMALS, req_input = enc_token token\<rparr>"

definition api_create :: "token_id \<Rightarrow> account_id \<Rightarrow> balance \<Rightarrow> api_request" where
  "api_create token admin min_balance =
     \<lparr>req_id = build_dispatch CREATE, req_input = enc_token token @ enc_account admin @ encode_balance min_balance\<rparr>"

definition api_start_destroy :: "token_id \<Rightarrow> api_request" where
  "api_start_destroy token = \<lparr>req_id = build_dispatch START_DESTROY, req_input = enc_token token\<rparr>"

definition api_set_metadata :: "(bytes \<Rightarrow> bytes) \<Rightarrow> token_id \<Rightarrow> bytes \<Rightarrow> bytes \<Rightarrow> u8 \<Rightarrow> api_request" where
  "api_set_metadata enc_vec token name symbol decimals =
     \<lparr>req_id = build_dispatch SET_METADATA,
      req_input = enc_token token @ enc_vec name @ enc_vec symbol @ [decimals]\<rparr>"

definition api_clear_metadata :: "token_id \<Rightarrow> api_request" where
  "api_clear_metadata token = \<lparr>req_id = build_dispatch CLEAR_METADATA, req_input = enc_token token\<rparr>"

definition api_token_exists :: "token_id \<Rightarrow> api_request" where
  "api_token_exists token = \<lparr>req_id = build_read_state TOKEN_EXISTS, req_input = enc_token token\<rparr>"

section \<open>Status codes\<close>

datatype status_code = StatusCode u32

definition from_status_code :: "u32 \<Rightarrow> status_code + unit" where
  "from_status_code code = (if code = 0 then Inr () else Inl (StatusCode code))"

text \<open>\<open>From<scale::Error>\<close>: the code of an output that does not decode.\<close>

definition status_of_scale_error :: status_code where
  "status_of_scale_error = StatusCode DECODING_FAILED"

fun error_of_status :: "status_code \<Rightarrow> pop_error" where
  "error_of_status (StatusCode code) = error_from_u32 code"

datatype fungibles_error =
  Other status_code | NotLive | InsufficientAllowance | InsufficientBalance | InUse | MinBalanceZero
| NoAccount | NoPermission | Unknown | NoBalance

fun fungibles_error_from :: "status_code \<Rightarrow> fungibles_error" where
  "fungibles_error_from (StatusCode code) =
     (let b = le_bytes 4 code; m = b ! 1; e = b ! 2 in
      if m = BALANCES \<and> e = 2 then NoBalance
      else if m = ASSETS \<and> e = 0 then NoAccount
      else if m = ASSETS \<and> e = 1 then NoPermission
      else if m = ASSETS \<and> e = 2 then fungibles_error.Unknown
      else if m = ASSETS \<and> e = 3 then InUse
      else if m = ASSETS \<and> e = 5 then MinBalanceZero
      else if m = ASSETS \<and> e = 7 then fungibles_error.InsufficientAllowance
      else if m = ASSETS \<and> e = 10 then NotLive
      else fungibles_error.Other (StatusCode code))"

datatype psp22_error =
  Custom string | InsufficientBalance | InsufficientAllowance | ZeroRecipientAddress | ZeroSenderAddress
| SafeTransferCheckFailed string

text \<open>\<open>to_string\<close> prints a number in decimal; \<open>parse::<u32>\<close> reads one back and refuses an empty
  string, a character that is not a digit and a number that does not fit. A leading plus is
  accepted.\<close>

definition digit :: "nat \<Rightarrow> char" where
  "digit n = char_of (48 + n)"

fun to_string :: "nat \<Rightarrow> string" where
  "to_string n = (if n < 10 then [digit n] else to_string (n div 10) @ [digit (n mod 10)])"

declare to_string.simps [simp del]

definition digit_value :: "char \<Rightarrow> nat option" where
  "digit_value c = (let n = of_char c in if 48 \<le> n \<and> n \<le> 57 then Some (n - 48) else None)"

fun parse_digits :: "nat \<Rightarrow> string \<Rightarrow> nat option" where
  "parse_digits acc [] = Some acc"
| "parse_digits acc (c # cs) =
     (case digit_value c of
        None \<Rightarrow> None
      | Some d \<Rightarrow> let n = acc * 10 + d in if n \<le> u32_max then parse_digits n cs else None)"

definition parse_u32 :: "string \<Rightarrow> u32 option" where
  "parse_u32 s =
     (let ds = (case s of c # cs \<Rightarrow> if c = CHR ''+'' then cs else s | [] \<Rightarrow> []) in
      if ds = [] then None else map_option of_nat (parse_digits 0 ds))"

text \<open>\<open>From<Psp22Error> for u32\<close>: \<open>None\<close> where the source panics.\<close>

fun psp22_error_to_u32 :: "psp22_error \<Rightarrow> u32 option" where
  "psp22_error_to_u32 psp22_error.InsufficientBalance = Some (from_le_bytes [MODULE_ERROR, ASSETS, 0, 0])"
| "psp22_error_to_u32 psp22_error.InsufficientAllowance = Some (from_le_bytes [MODULE_ERROR, ASSETS, 10, 0])"
| "psp22_error_to_u32 (Custom s) = parse_u32 s"
| "psp22_error_to_u32 _ = None"

fun psp22_error_from :: "status_code \<Rightarrow> psp22_error" where
  "psp22_error_from (StatusCode code) =
     (let b = le_bytes 4 code in
      if b ! 0 = MODULE_ERROR \<and> b ! 1 = ASSETS \<and> b ! 2 = 0 then psp22_error.InsufficientBalance
      else if b ! 0 = MODULE_ERROR \<and> b ! 1 = ASSETS \<and> b ! 2 = 10 then psp22_error.InsufficientAllowance
      else Custom (to_string (unat code)))"

section \<open>Printing and parsing\<close>

lemma digit_value_digit: "n < 10 \<Longrightarrow> digit_value (digit n) = Some n"
  by (simp add: digit_value_def digit_def Let_def)

lemma digit_not_plus: "n < 10 \<Longrightarrow> digit n \<noteq> CHR ''+''"
  by (auto simp: digit_def dest: arg_cong [of _ _ "of_char :: char \<Rightarrow> nat"])

lemma parse_digits_append:
  "parse_digits acc (xs @ ys) = (case parse_digits acc xs of None \<Rightarrow> None | Some n \<Rightarrow> parse_digits n ys)"
  by (induction xs arbitrary: acc) (auto simp: Let_def split: option.splits)

lemma parse_digits_to_string: "n \<le> u32_max \<Longrightarrow> parse_digits 0 (to_string n) = Some n"
proof (induction n rule: to_string.induct)
  case (1 n)
  show ?case
  proof (cases "n < 10")
    case True
    with 1 show ?thesis by (simp add: to_string.simps [of n] digit_value_digit)
  next
    case False
    moreover have "n div 10 \<le> u32_max" using 1(2) by simp
    ultimately have "parse_digits 0 (to_string (n div 10)) = Some (n div 10)" using 1(1) by blast
    with False 1(2) show ?thesis
      by (simp add: to_string.simps [of n] parse_digits_append digit_value_digit Let_def)
  qed
qed

lemma to_string_shape: "\<exists>d cs. to_string n = digit d # cs \<and> d < 10"
proof (induction n rule: to_string.induct)
  case (1 n)
  then show ?case by (cases "n < 10") (auto simp: to_string.simps [of n])
qed

lemma parse_to_string: "parse_u32 (to_string (unat c)) = Some c"
proof -
  obtain d cs where shape: "to_string (unat c) = digit d # cs" and "d < 10" using to_string_shape by blast
  have "unat c < 2 ^ LENGTH(32)" by (rule unsigned_less)
  then have "unat c \<le> u32_max" by (simp add: u32_max_def)
  then have "parse_digits 0 (to_string (unat c)) = Some (unat c)" by (rule parse_digits_to_string)
  with shape digit_not_plus [OF \<open>d < 10\<close>] show ?thesis by (simp add: parse_u32_def)
qed

lemma le_bytes_4_split: "le_bytes 4 c = [b0, b1, b2, b3] \<Longrightarrow> c = from_le_bytes [b0, b1, b2, b3]" for c :: u32
  using from_le_bytes_le_bytes [of 4 c] by (simp add: take_bit_word_eq_self)

lemma le_bytes_4_from: "le_bytes 4 (from_le_bytes [b0, b1, b2, b3] :: u32) = [b0, b1, b2, b3]"
proof -
  have len: "length [b0, b1, b2, b3] = 4" by simp
  from le_bytes_from_le_bytes [where bs = "[b0, b1, b2, b3]" and 'w = 32] show ?thesis
    unfolding len by (simp del: from_le_bytes.simps)
qed

section \<open>Properties\<close>

text \<open>A \<open>Psp22Error\<close> made from a status code always converts back without a panic, to a code that
  stands for the same error; it is the very code unless it is one of the two standard errors of the
  assets pallet with a nested error in the fourth byte, which is dropped.\<close>

theorem psp22_status_roundtrip:
  "\<exists>d. psp22_error_to_u32 (psp22_error_from (StatusCode c)) = Some d \<and>
     psp22_error_from (StatusCode d) = psp22_error_from (StatusCode c) \<and>
     (d = c \<or> le_bytes 4 c ! 3 \<noteq> 0 \<and> take 3 (le_bytes 4 d) = take 3 (le_bytes 4 c))"
proof -
  obtain b0 b1 b2 b3 where b: "le_bytes 4 c = [b0, b1, b2, b3]" by (simp add: le_bytes_4)
  note c = le_bytes_4_split [OF b]
  show ?thesis
  proof (cases "b0 = MODULE_ERROR \<and> b1 = ASSETS \<and> (b2 = 0 \<or> b2 = 10)")
    case True
    let ?d = "from_le_bytes [b0, b1, b2, 0] :: u32"
    have "psp22_error_to_u32 (psp22_error_from (StatusCode c)) = Some ?d"
      using True b by (auto simp del: from_le_bytes.simps)
    moreover have "psp22_error_from (StatusCode ?d) = psp22_error_from (StatusCode c)"
      using True b by (auto simp: le_bytes_4_from simp del: from_le_bytes.simps)
    moreover have "?d = c \<or> b3 \<noteq> 0" using c by auto
    ultimately show ?thesis using b by (auto simp: le_bytes_4_from simp del: from_le_bytes.simps)
  next
    case False
    then have "psp22_error_from (StatusCode c) = Custom (to_string (unat c))" using b by auto
    then show ?thesis by (auto simp: parse_to_string)
  qed
qed

theorem psp22_status_roundtrip_witness:
  "psp22_error_to_u32 (psp22_error_from (StatusCode 2)) = Some 2"
proof -
  have "le_bytes 4 (2 :: u32) ! 3 = 0" by (simp add: le_bytes_4)
  with psp22_status_roundtrip [of 2] show ?thesis by auto
qed

text \<open>Success is the status code zero and nothing else; the error a contract sees carries the code
  unchanged, and converts to the primitive error that the runtime encoded.\<close>

theorem status_code_results:
  "(from_status_code c = Inr () \<longleftrightarrow> c = 0) \<and>
   (from_status_code (error_to_u32 e) = Inr () \<longleftrightarrow> e = pop_error.Other) \<and>
   (from_status_code (error_to_u32 e) = Inl sc \<longrightarrow> error_of_status sc = e)"
  by (auto simp: from_status_code_def error_to_u32_zero error_from_to split: if_splits)

theorem status_code_results_witness:
  "\<exists>sc. from_status_code (error_to_u32 pop_error.BadOrigin) = Inl sc \<and> error_of_status sc = pop_error.BadOrigin"
proof -
  have "from_status_code (error_to_u32 pop_error.BadOrigin) = Inl (StatusCode (error_to_u32 pop_error.BadOrigin))"
    by (simp add: from_status_code_def error_to_u32_zero)
  with status_code_results [of 0 "pop_error.BadOrigin"] show ?thesis by blast
qed

text \<open>The code that \<open>pop-api\<close> gives an undecodable output is not the code of \<open>DecodingFailed\<close>: read back,
  it is an unknown error.\<close>

lemma scale_error_is_not_decoding_failed:
  "error_of_status status_of_scale_error = pop_error.Unknown 0 0 0"
  "error_to_u32 pop_error.DecodingFailed \<noteq> DECODING_FAILED"
proof -
  show "error_of_status status_of_scale_error = pop_error.Unknown 0 0 0"
    by (simp add: status_of_scale_error_def DECODING_FAILED_def error_from_u32_def le_bytes_4 error_decode_def)
  then show "error_to_u32 pop_error.DecodingFailed \<noteq> DECODING_FAILED"
    using error_from_to [of pop_error.DecodingFailed] by (auto simp: status_of_scale_error_def)
qed

text \<open>The two error types of the fungibles API read the errors of the assets pallet differently.\<close>

lemma fungibles_psp22_disagree:
  "fungibles_error_from (StatusCode (error_to_u32 (pop_error.Module ASSETS (0, 0)))) = NoAccount"
  "psp22_error_from (StatusCode (error_to_u32 (pop_error.Module ASSETS (0, 0)))) = psp22_error.InsufficientBalance"
  "fungibles_error_from (StatusCode (error_to_u32 (pop_error.Module ASSETS (10, 0)))) = NotLive"
  "psp22_error_from (StatusCode (error_to_u32 (pop_error.Module ASSETS (10, 0)))) = psp22_error.InsufficientAllowance"
  by (simp_all add: le_bytes_error_to_u32 api_constants)

end
