(* ===== verification/Fungibles_Spec.thy ===== *)
theory Fungibles_Spec
  imports Fungibles
begin

text \<open>
  What the fungibles pallet does on top of \<open>pallet_assets\<close>: the allowance calls implement setting,
  raising and lowering an entry of one abstract book of allowances, and the weight a call reports
  never exceeds the weight declared for it. A small ledger shows that what is expected of
  \<open>pallet_assets\<close> can be met.
\<close>

section \<open>A ledger of tokens\<close>

record demo_assets =
  da_balances :: "(token_id \<times> account_id, balance) storage"
  da_approvals :: "(token_id \<times> account_id \<times> account_id, balance) storage"

definition balance_at :: "('k, balance) storage \<Rightarrow> 'k \<Rightarrow> balance" where
  "balance_at m k = (case sget m k of None \<Rightarrow> 0 | Some n \<Rightarrow> n)"

definition demo_lookup :: "address \<Rightarrow> account_id" where
  "demo_lookup a = from_le_bytes a"

definition demo_move ::
  "token_id \<Rightarrow> account_id \<Rightarrow> account_id \<Rightarrow> balance \<Rightarrow> demo_assets \<Rightarrow> dispatch_error + demo_assets" where
  "demo_move token a b n x =
     (if n \<le> balance_at (da_balances x) (token, a)
      then (let m = sput (token, a) (balance_at (da_balances x) (token, a) - n) (da_balances x)
            in Inr (x\<lparr>da_balances := sput (token, b) (balance_at m (token, b) + n) m\<rparr>))
      else Inl (dispatch_error.Token sp_token_error.FundsUnavailable))"

definition demo_approve ::
  "origin \<Rightarrow> token_id \<Rightarrow> address \<Rightarrow> balance \<Rightarrow> demo_assets \<Rightarrow> dispatch_error + demo_assets" where
  "demo_approve og token to n x =
     andthen (signer_of og) (\<lambda>own.
     let k = (token, own, demo_lookup to) in
     Inr (x\<lparr>da_approvals := sput k (saturating_add (balance_at (da_approvals x) k) n) (da_approvals x)\<rparr>))"

definition demo_cancel :: "origin \<Rightarrow> token_id \<Rightarrow> address \<Rightarrow> demo_assets \<Rightarrow> dispatch_error + demo_assets" where
  "demo_cancel og token to x =
     andthen (signer_of og) (\<lambda>own.
     Inr (x\<lparr>da_approvals := sdel (token, own, demo_lookup to) (da_approvals x)\<rparr>))"

definition demo_fungibles :: "demo_assets fungibles_config" where
  "demo_fungibles =
     \<lparr>unlookup = le_bytes 32,
      assets_transfer_keep_alive = (\<lambda>og token to n x.
        andthen (signer_of og) (\<lambda>a. demo_move token a (demo_lookup to) n x)),
      assets_transfer_approved = (\<lambda>og token from to n x. demo_move token (demo_lookup from) (demo_lookup to) n x),
      assets_approve_transfer = demo_approve, assets_cancel_approval = demo_cancel,
      assets_create = (\<lambda>og token a n x. Inr x), assets_start_destroy = (\<lambda>og token x. Inr x),
      assets_set_metadata = (\<lambda>og token n s d x. Inr x), assets_clear_metadata = (\<lambda>og token x. Inr x),
      assets_mint = (\<lambda>og token to n x. Inr x), assets_burn = (\<lambda>og token from n x. Inr x),
      assets_total_supply = (\<lambda>token x. sum_list (map snd (filter (\<lambda>e. fst (fst e) = token) (da_balances x)))),
      assets_balance = (\<lambda>token a x. balance_at (da_balances x) (token, a)),
      assets_allowance = (\<lambda>token a b x. balance_at (da_approvals x) (token, a, b)),
      assets_name = (\<lambda>token x. [112, 111, 112]), assets_symbol = (\<lambda>token x. []),
      assets_decimals = (\<lambda>token x. 10), assets_asset_exists = (\<lambda>token x. token = 1),
      assets_unapproved = dispatch_error.Module \<lparr>me_index = 52, me_error = (10, 0, 0, 0), me_message = None\<rparr>,
      assets_balance_low = dispatch_error.Module \<lparr>me_index = 52, me_error = (0, 0, 0, 0), me_message = None\<rparr>,
      assets_weight_transfer_keep_alive = from_parts 7 7, assets_weight_transfer_approved = from_parts 8 8,
      assets_weight_approve_transfer = from_parts 9 9, assets_weight_create = from_parts 4 4,
      assets_weight_start_destroy = from_parts 3 3,
      assets_weight_set_metadata = (\<lambda>n s. from_parts (n + s) 5), assets_weight_clear_metadata = from_parts 2 2,
      assets_weight_mint = from_parts 6 6, assets_weight_burn = from_parts 6 6,
      db_reads = (\<lambda>n. from_parts (25 * n) 0), db_writes = (\<lambda>n. from_parts (100 * n) 0)\<rparr>"

definition demo_fungibles_state :: "demo_assets fungibles" where
  "demo_fungibles_state =
     \<lparr>f_ext = \<lparr>da_balances = [((1, 5), 100)], da_approvals = [((1, 5, 6), 30)]\<rparr>, f_events = []\<rparr>"

lemma demo_lookup_unlookup: "demo_lookup (le_bytes 32 a) = a"
  by (simp add: demo_lookup_def from_le_bytes_le_bytes take_bit_word_eq_self)

lemma balance_at_sput: "balance_at (sput k v m) k' = (if k' = k then v else balance_at m k')"
  by (simp add: balance_at_def storage_simps)

lemma balance_at_sdel: "balance_at (sdel k m) k' = (if k' = k then 0 else balance_at m k')"
  by (simp add: balance_at_def storage_simps)

lemma demo_contract: "approvals_contract demo_fungibles"
  by (auto simp: approvals_contract_def book_def fun_eq_iff demo_fungibles_def demo_approve_def
      demo_cancel_def signer_of_def demo_lookup_unlookup balance_at_sput balance_at_sdel Let_def)

lemmas demo_fungibles_eval =
  demo_fungibles_def demo_fungibles_state_def demo_approve_def demo_cancel_def demo_move_def signer_of_def
  on_assets_def with_weight_def no_weight_def plain_def f_deposit_event_def demo_lookup_unlookup
  balance_at_def sget_def sput_def sdel_def saturating_sub_def saturating_add_def u128_max_def Let_def

section \<open>Allowances\<close>

lemmas call_simps = andthen_Inr with_weight_Inr no_weight_Inr signer_of_Inr

text \<open>C21: \<open>approve\<close> sets the allowance of the signer for the spender to exactly the given value, whatever
  it was before, changes no other allowance and reports the new one; although \<open>pallet_assets\<close> can
  only add to an approval or cancel it.\<close>

theorem approve_sets_allowance:
  assumes "approvals_contract cfg" and "value \<le> u128_max"
    and "fungibles_approve cfg og token spender value s = Inr (w, s')"
  shows "\<exists>own. og = Signed own \<and> book cfg s' = (book cfg s)((token, own, spender) := value) \<and>
    f_events s' = f_events s @ [Approval token own spender value] \<and>
    fungibles_read_state cfg (fungibles_read.Allowance token own spender) (f_ext s') =
      fungibles_read_result.Allowance value"
proof -
  from assms(3) obtain own where og: "og = Signed own" by (auto simp: fungibles_approve_def call_simps)
  let ?k = "(token, own, spender)"
  have current: "assets_allowance cfg token own spender (f_ext t) = book cfg t ?k" for t by (simp add: book_def)
  have "book cfg s' = (book cfg s)(?k := value) \<and> f_events s' = f_events s @ [Approval token own spender value]"
  proof (cases "value" "book cfg s ?k" rule: linorder_cases)
    case equal
    then show ?thesis using assms(3)
      by (auto simp: fungibles_approve_def og current call_simps)
  next
    case greater
    then obtain t where t: "on_assets (assets_approve_transfer cfg (Signed own) token (unlookup cfg spender)
        (saturating_sub value (book cfg s ?k))) s = Inr t"
      and s': "s' = f_deposit_event (Approval token own spender value) t"
      using assms(3) by (auto simp: fungibles_approve_def og current Let_def call_simps)
    from approve_step [OF assms(1) t] s' greater assms(2) show ?thesis
      by (simp add: saturating_add_def saturating_sub_def)
  next
    case less
    then obtain t where t: "on_assets (assets_cancel_approval cfg (Signed own) token (unlookup cfg spender)) s = Inr t"
      using assms(3) by (auto simp: fungibles_approve_def og current Let_def call_simps)
    note cancelled = cancel_step [OF assms(1) t]
    show ?thesis
    proof (cases "value = 0")
      case True
      then have "s' = f_deposit_event (Approval token own spender value) t"
        using less assms(3) t by (simp add: fungibles_approve_def og current Let_def call_simps)
      with cancelled True show ?thesis by simp
    next
      case False
      then obtain u where "s' = f_deposit_event (Approval token own spender value) u"
        and u: "on_assets (assets_approve_transfer cfg (Signed own) token (unlookup cfg spender) value) t = Inr u"
        using less assms(3) t by (auto simp: fungibles_approve_def og current Let_def call_simps)
      with approve_step [OF assms(1) u] cancelled assms(2) show ?thesis
        by (simp add: saturating_add_def)
    qed
  qed
  moreover from this have "book cfg s' ?k = value" by simp
  ultimately show ?thesis using og by (simp add: current)
qed

theorem approve_sets_allowance_witness:
  "\<exists>w s'. fungibles_approve demo_fungibles (Signed 5) 1 6 12 demo_fungibles_state = Inr (w, s') \<and>
     fungibles_read_state demo_fungibles (fungibles_read.Allowance 1 5 6) (f_ext s') =
       fungibles_read_result.Allowance 12"
proof -
  obtain w s' where s': "fungibles_approve demo_fungibles (Signed 5) 1 6 12 demo_fungibles_state = Inr (w, s')"
    by (simp add: fungibles_approve_def demo_fungibles_eval)
  have "(12 :: nat) \<le> u128_max" by (simp add: u128_max_def)
  from approve_sets_allowance [OF demo_contract this s'] s' show ?thesis by auto
qed

text \<open>C22: \<open>increase_allowance\<close> adds to the allowance, saturating at the end of the type, and
  \<open>decrease_allowance\<close> subtracts from it exactly, or does nothing for a decrease of zero; neither
  touches any other allowance, and both report the allowance that results.\<close>

theorem allowance_arithmetic:
  assumes "approvals_contract cfg" and "book cfg s (token, own, spender) \<le> u128_max"
  shows "(fungibles_increase_allowance cfg (Signed own) token spender value s = Inr (w, s') \<longrightarrow>
      book cfg s' = (book cfg s)((token, own, spender) := saturating_add (book cfg s (token, own, spender)) value) \<and>
      f_events s' = f_events s @ [Approval token own spender (book cfg s' (token, own, spender))]) \<and>
    (fungibles_decrease_allowance cfg (Signed own) token spender value s = Inr (w, s') \<longrightarrow>
      value \<le> book cfg s (token, own, spender) \<and>
      book cfg s' = (book cfg s)((token, own, spender) := book cfg s (token, own, spender) - value) \<and>
      f_events s' = f_events s @ (if value = 0 then [] else
        [Approval token own spender (book cfg s (token, own, spender) - value)]))"
proof -
  let ?k = "(token, own, spender)"
  have current: "assets_allowance cfg token own spender (f_ext t) = book cfg t ?k" for t
    by (simp add: book_def)
  have "book cfg s' = (book cfg s)(?k := saturating_add (book cfg s ?k) value) \<and>
      f_events s' = f_events s @ [Approval token own spender (book cfg s' ?k)]"
    if inc: "fungibles_increase_allowance cfg (Signed own) token spender value s = Inr (w, s')"
  proof -
    from inc obtain t where t: "on_assets (assets_approve_transfer cfg (Signed own) token (unlookup cfg spender) value) s = Inr t"
      and "s' = f_deposit_event (Approval token own spender (book cfg t ?k)) t"
      by (auto simp: fungibles_increase_allowance_def Let_def call_simps current)
    with approve_step [OF assms(1) t] show ?thesis by simp
  qed
  moreover have "value \<le> book cfg s ?k \<and> book cfg s' = (book cfg s)(?k := book cfg s ?k - value) \<and>
      f_events s' = f_events s @ (if value = 0 then [] else [Approval token own spender (book cfg s ?k - value)])"
    if dec: "fungibles_decrease_allowance cfg (Signed own) token spender value s = Inr (w, s')"
  proof (cases "value = 0")
    case True
    with dec show ?thesis by (simp add: fungibles_decrease_allowance_def call_simps)
  next
    case False
    let ?new = "book cfg s ?k - value"
    from dec False have le: "value \<le> book cfg s ?k"
      by (simp add: fungibles_decrease_allowance_def call_simps current Let_def split: if_splits)
    from dec False le obtain t where t: "on_assets (assets_cancel_approval cfg (Signed own) token (unlookup cfg spender)) s = Inr t"
      by (auto simp: fungibles_decrease_allowance_def Let_def call_simps current)
    note cancelled = cancel_step [OF assms(1) t]
    show ?thesis
    proof (cases "?new = 0")
      case True
      with dec False le t have "s' = f_deposit_event (Approval token own spender ?new) t"
        by (simp add: fungibles_decrease_allowance_def Let_def call_simps current)
      with True cancelled le False show ?thesis by simp
    next
      case new: False
      with dec False le t obtain u where "s' = f_deposit_event (Approval token own spender ?new) u"
        and u: "on_assets (assets_approve_transfer cfg (Signed own) token (unlookup cfg spender) ?new) t = Inr u"
        by (auto simp: fungibles_decrease_allowance_def Let_def call_simps current)
      with approve_step [OF assms(1) u] cancelled le assms(2) False show ?thesis
        by (simp add: saturating_add_def)
    qed
  qed
  ultimately show ?thesis by blast
qed

theorem allowance_arithmetic_witness:
  "\<exists>w s'. fungibles_decrease_allowance demo_fungibles (Signed 5) 1 6 12 demo_fungibles_state = Inr (w, s') \<and>
     book demo_fungibles s' (1, 5, 6) = 18"
proof -
  obtain w s' where s': "fungibles_decrease_allowance demo_fungibles (Signed 5) 1 6 12 demo_fungibles_state = Inr (w, s')"
    by (simp add: fungibles_decrease_allowance_def demo_fungibles_eval)
  have b: "book demo_fungibles demo_fungibles_state (1, 5, 6) = 30"
    by (simp add: book_def demo_fungibles_eval)
  then have "book demo_fungibles demo_fungibles_state (1, 5, 6) \<le> u128_max" by (simp add: u128_max_def)
  from allowance_arithmetic [OF demo_contract this, of 12 w s'] s' b show ?thesis by auto
qed

text \<open>The guards that protect holders: lowering an allowance below zero, and burning more than the
  account holds, are refused with the error of \<open>pallet_assets\<close> before anything is changed, and no
  call that needs a signer accepts another origin.\<close>

theorem fungibles_refusals:
  "(fungibles_decrease_allowance cfg (Signed own) token spender value s = Inl (assets_unapproved cfg, None) \<or>
      value \<le> book cfg s (token, own, spender)) \<and>
   (fungibles_burn cfg og token account value s = Inl (assets_balance_low cfg, Some (weight_balance_of cfg)) \<or>
      value \<le> assets_balance cfg token account (f_ext s)) \<and>
   fst (projl (fungibles_approve cfg Root token spender value s)) = dispatch_error.BadOrigin \<and>
   fst (projl (fungibles_increase_allowance cfg Root token spender value s)) = dispatch_error.BadOrigin \<and>
   fst (projl (fungibles_decrease_allowance cfg NoOrigin token spender value s)) = dispatch_error.BadOrigin \<and>
   fungibles_transfer cfg NoOrigin token to value s = Inl dispatch_error.BadOrigin \<and>
   fungibles_create cfg Root token admin value s = Inl dispatch_error.BadOrigin"
  by (auto simp: fungibles_decrease_allowance_def fungibles_burn_def fungibles_approve_def
      fungibles_increase_allowance_def fungibles_transfer_def fungibles_create_def
      signer_of_def with_weight_def book_def Let_def)

section \<open>Weights\<close>

definition actual_weight :: "post_error + weight option \<times> 'x fungibles \<Rightarrow> weight option" where
  "actual_weight r = (case r of Inl (_, w) \<Rightarrow> w | Inr (w, _) \<Rightarrow> w)"

lemma actual_weight_simps [simp]:
  "actual_weight (Inl (e, w)) = w" "actual_weight (Inr (w, s)) = w"
  by (simp_all add: actual_weight_def)

lemma weight_le_refl [simp]: "weight_le w w"
  by (simp add: weight_le_def)

lemma weight_le_add:
  "weight_le v v' \<Longrightarrow> weight_le w w' \<Longrightarrow> weight_le (weight_saturating_add v w) (weight_saturating_add v' w')"
  by (auto simp: weight_le_def weight_saturating_add_def from_parts_def min_def)

lemma weight_le_mul: "m \<le> n \<Longrightarrow> weight_le (weight_saturating_mul w m) (weight_saturating_mul w n)"
  unfolding weight_le_def weight_saturating_mul_def from_parts_def weight.simps
  by (intro conjI min.mono mult_le_mono2 order.refl)

lemma weight_approve_mono:
  assumes "\<And>m n. m \<le> n \<Longrightarrow> weight_le (db_reads cfg m) (db_reads cfg n)"
    and "\<And>m n. m \<le> n \<Longrightarrow> weight_le (db_writes cfg m) (db_writes cfg n)"
    and "a \<le> a'" and "c \<le> c'"
  shows "weight_le (weight_approve cfg a c) (weight_approve cfg a' c')"
  unfolding weight_approve_def using assms(3,4)
  by (intro weight_le_add weight_le_mul assms(1,2)) (auto simp: min_def)

text \<open>C28: the weight that a call reports after it ran, whether it succeeded or failed, is at most the
  weight declared for it, with one exception: an \<open>increase_allowance\<close> that \<open>pallet_assets\<close> refused
  reports the weight of the \<open>pallet_assets\<close> call, which this pallet does not compare with the declared
  one.\<close>

theorem reported_weight_within_declared:
  assumes "\<And>m n. m \<le> n \<Longrightarrow> weight_le (db_reads cfg m) (db_reads cfg n)"
    and "\<And>m n. m \<le> n \<Longrightarrow> weight_le (db_writes cfg m) (db_writes cfg n)"
    and "actual_weight (fungibles_dispatch cfg og call s) = Some w"
  shows "weight_le w (fungibles_call_weight cfg call) \<or>
    (\<exists>a t b n e. call = IncreaseAllowance t b n \<and> og = Signed a \<and>
       on_assets (assets_approve_transfer cfg og t (unlookup cfg b) n) s = Inl e \<and>
       fungibles_dispatch cfg og call s = Inl (e, Some w) \<and> w = assets_weight_approve_transfer cfg)"
proof -
  note mono = weight_approve_mono [OF assms(1,2)]
  show ?thesis
    using assms(3)
    by (cases call)
       (auto simp: plain_def fungibles_approve_def fungibles_increase_allowance_def
         fungibles_decrease_allowance_def fungibles_burn_def with_weight_def no_weight_def
         andthen_def signer_of_def Let_def weight_le_def from_parts_def
         intro: mono [unfolded weight_le_def, THEN conjunct1] mono [unfolded weight_le_def, THEN conjunct2]
         split: sum.splits prod.splits if_splits origin.splits)
qed

theorem reported_weight_within_declared_witness:
  "\<exists>w. actual_weight (fungibles_dispatch demo_fungibles (Signed 5) (Approve 1 6 12) demo_fungibles_state) = Some w \<and>
     weight_le w (fungibles_call_weight demo_fungibles (Approve 1 6 12))"
proof -
  obtain w where "actual_weight (fungibles_dispatch demo_fungibles (Signed 5) (Approve 1 6 12) demo_fungibles_state) = Some w"
    by (simp add: fungibles_approve_def demo_fungibles_eval)
  moreover have "weight_le (db_reads demo_fungibles m) (db_reads demo_fungibles n)"
    "weight_le (db_writes demo_fungibles m) (db_writes demo_fungibles n)" if "m \<le> n" for m n
    using that by (simp_all add: demo_fungibles_def weight_le_def from_parts_def)
  ultimately show ?thesis using reported_weight_within_declared [of demo_fungibles] by blast
qed

end
