(* ===== verification/Api_Properties.thy ===== *)
theory Api_Properties
  imports Api_Extension Pop_Api Fungibles_Spec
begin

text \<open>
  A contract's call from end to end: the request that \<open>pop-api\<close> builds, the chain extension that
  decodes and filters it, the fungibles pallet that runs it with the contract as its signer, and the
  status code that goes back. The properties hold for every environment that meets the interface
  \<open>chain_environment\<close>; the witnesses run on the mock environment of the repository.
\<close>

section \<open>The bytes of a request\<close>

lemma le_bytes_2: "le_bytes 2 w = [ucast w, ucast (drop_bit 8 (w :: u16))]"
  by (simp add: numeral_eq_Suc)

lemma low_half_bytes:
  "ucast (ucast c :: u16) = (ucast (c :: u32) :: u8)" "ucast (drop_bit 8 (ucast c :: u16)) = (ucast (drop_bit 8 c) :: u8)"
  "ucast (ucast (drop_bit 16 c) :: u16) = (ucast (drop_bit 16 c) :: u8)"
  "ucast (drop_bit 8 (ucast (drop_bit 16 c) :: u16)) = (ucast (drop_bit 24 c) :: u8)"
  by (rule bit_word_eqI; auto simp: bit_unsigned_iff bit_drop_bit_eq)+

lemma request_bytes:
  fixes c :: u32
  assumes "le_bytes 4 c = [f, ver, m, i]"
  shows "le_bytes 2 (ucast c :: u16) = [f, ver]" and "le_bytes 2 (ucast (drop_bit 16 c) :: u16) = [m, i]"
  using assms by (simp_all add: le_bytes_2 le_bytes_4 low_half_bytes)

text \<open>The environment of a contract that sent a request.\<close>

definition carries :: "('v, 'g) environment \<Rightarrow> 'v \<Rightarrow> api_request \<Rightarrow> bool" where
  "carries E v rq \<longleftrightarrow>
     env_func_id E v = ucast (req_id rq) \<and> env_ext_id E v = ucast (drop_bit 16 (req_id rq)) \<and>
     env_read E (env_in_len E v) v = Inr (req_input rq)"

lemma carries_mock: "carries mock_env (mock_new (req_id rq) (req_input rq)\<lparr>mock_address := a\<rparr>) rq"
proof -
  have mask: "(0xFFFF :: u32) = mask 16" by (simp add: mask_eq_exp_minus_1)
  have "ucast (req_id rq AND 0xFFFF) = (ucast (req_id rq) :: u16)"
    unfolding mask by (rule bit_word_eqI) (auto simp: bit_unsigned_iff bit_and_iff bit_mask_iff)
  then show ?thesis by (simp add: carries_def mock_env_def mock_new_def)
qed

lemma decode_fixed:
  "take_u32 (enc_token t @ rest) = Some (t, rest)" "take_account (enc_account a @ rest) = Some (a, rest)"
  "n \<le> u128_max \<Longrightarrow> take_balance (encode_balance n @ rest) = Some (n, rest)"
proof -
  show "take_u32 (enc_token t @ rest) = Some (t, rest)" "take_account (enc_account a @ rest) = Some (a, rest)"
    by (simp_all add: take_u32_def take_account_def enc_token_def enc_account_def from_le_bytes_le_bytes
        take_bit_word_eq_self)
  assume "n \<le> u128_max"
  then show "take_balance (encode_balance n @ rest) = Some (n, rest)"
    by (simp add: take_balance_def encode_balance_def from_le_bytes_le_bytes take_bit_word_eq_self
        u128_max_def unsigned_of_nat take_bit_nat_eq_self)
qed

lemmas decode_fixed_end = decode_fixed [where rest = "[]", simplified]

section \<open>Requests of the API\<close>

fun call_request :: "codec \<Rightarrow> fungibles_call \<Rightarrow> api_request" where
  "call_request C (fungibles_call.Transfer token to val) = api_transfer token to val"
| "call_request C (TransferFrom token from to val) = api_transfer_from token from to val"
| "call_request C (Approve token spender val) = api_approve token spender val"
| "call_request C (IncreaseAllowance token spender val) = api_increase_allowance token spender val"
| "call_request C (DecreaseAllowance token spender val) = api_decrease_allowance token spender val"
| "call_request C (fungibles_call.Create token admin val) = api_create token admin val"
| "call_request C (StartDestroy token) = api_start_destroy token"
| "call_request C (fungibles_call.SetMetadata token name symbol decimals) =
     api_set_metadata (encode_vec C) token name symbol decimals"
| "call_request C (fungibles_call.ClearMetadata token) = api_clear_metadata token"
| "call_request C (fungibles_call.Mint token account val) = api_mint token account val"
| "call_request C (fungibles_call.Burn token account val) = api_burn token account val"

fun read_request :: "fungibles_read \<Rightarrow> api_request" where
  "read_request (fungibles_read.TotalSupply token) = api_total_supply token"
| "read_request (fungibles_read.BalanceOf token own) = api_balance_of token own"
| "read_request (fungibles_read.Allowance token own spender) = api_allowance token own spender"
| "read_request (fungibles_read.TokenName token) = api_token_name token"
| "read_request (fungibles_read.TokenSymbol token) = api_token_symbol token"
| "read_request (fungibles_read.TokenDecimals token) = api_token_decimals token"
| "read_request (fungibles_read.TokenExists token) = api_token_exists token"

text \<open>Amounts are \<open>u128\<close>, and the length of a byte string is a \<open>u32\<close>.\<close>

fun call_fits :: "fungibles_call \<Rightarrow> bool" where
  "call_fits (fungibles_call.Transfer _ _ n) \<longleftrightarrow> n \<le> u128_max"
| "call_fits (TransferFrom _ _ _ n) \<longleftrightarrow> n \<le> u128_max"
| "call_fits (Approve _ _ n) \<longleftrightarrow> n \<le> u128_max"
| "call_fits (IncreaseAllowance _ _ n) \<longleftrightarrow> n \<le> u128_max"
| "call_fits (DecreaseAllowance _ _ n) \<longleftrightarrow> n \<le> u128_max"
| "call_fits (fungibles_call.Create _ _ n) \<longleftrightarrow> n \<le> u128_max"
| "call_fits (fungibles_call.SetMetadata _ name symbol _) \<longleftrightarrow> length name \<le> u32_max \<and> length symbol \<le> u32_max"
| "call_fits (fungibles_call.Mint _ _ n) \<longleftrightarrow> n \<le> u128_max"
| "call_fits (fungibles_call.Burn _ _ n) \<longleftrightarrow> n \<le> u128_max"
| "call_fits _ \<longleftrightarrow> True"

text \<open>The law of the SCALE codec of byte strings.\<close>

definition vec_codec :: "codec \<Rightarrow> bool" where
  "vec_codec C \<longleftrightarrow> (\<forall>b rest. length b \<le> u32_max \<longrightarrow> decode_vec C (encode_vec C b @ rest) = Some (b, rest))"

lemmas request_defs =
  api_transfer_def api_transfer_from_def api_approve_def api_increase_allowance_def api_decrease_allowance_def
  api_create_def api_start_destroy_def api_set_metadata_def api_clear_metadata_def api_mint_def api_burn_def
  api_total_supply_def api_balance_of_def api_allowance_def api_token_name_def api_token_symbol_def
  api_token_decimals_def api_token_exists_def build_dispatch_def build_read_state_def v0_build_dispatch_def
  v0_build_read_state_def build_extension_method_def api_constants

fun call_index :: "fungibles_call \<Rightarrow> u8" where
  "call_index (fungibles_call.Transfer _ _ _) = 3" | "call_index (TransferFrom _ _ _ _) = 4"
| "call_index (Approve _ _ _) = 5" | "call_index (IncreaseAllowance _ _ _) = 6"
| "call_index (DecreaseAllowance _ _ _) = 7" | "call_index (fungibles_call.Create _ _ _) = 11"
| "call_index (StartDestroy _) = 12" | "call_index (fungibles_call.SetMetadata _ _ _ _) = 16"
| "call_index (fungibles_call.ClearMetadata _) = 17" | "call_index (fungibles_call.Mint _ _ _) = 19"
| "call_index (fungibles_call.Burn _ _ _) = 20"

fun read_index :: "fungibles_read \<Rightarrow> u8" where
  "read_index (fungibles_read.TotalSupply _) = 0" | "read_index (fungibles_read.BalanceOf _ _) = 1"
| "read_index (fungibles_read.Allowance _ _ _) = 2" | "read_index (fungibles_read.TokenName _) = 8"
| "read_index (fungibles_read.TokenSymbol _) = 9" | "read_index (fungibles_read.TokenDecimals _) = 10"
| "read_index (fungibles_read.TokenExists _) = 18"

lemma call_request_id: "le_bytes 4 (req_id (call_request C call)) = [0, 0, 150, call_index call]"
  by (cases call) (simp_all add: request_defs le_bytes_4_from del: from_le_bytes.simps)

lemma read_request_id: "le_bytes 4 (req_id (read_request rd)) = [1, 0, 150, read_index rd]"
  by (cases rd) (simp_all add: request_defs le_bytes_4_from del: from_le_bytes.simps)

lemma decode_call_request:
  "vec_codec C \<Longrightarrow> call_fits call \<Longrightarrow>
     decode_fungibles_call C (call_index call # req_input (call_request C call)) = Some call"
  by (cases call)
     (simp_all add: request_defs decode_fungibles_call_def decode_tab_def decode_t_def obind_def
       decode_fixed decode_fixed_end vec_codec_def)

lemma decode_read_request:
  "decode_fungibles_read (read_index rd # req_input (read_request rd)) = Some rd"
  by (cases rd)
     (simp_all add: request_defs decode_fungibles_read_def decode_t_def obind_def decode_fixed decode_fixed_end)

section \<open>Through the extension\<close>

lemma filter_call_fungibles: "filter_call c \<longleftrightarrow> (\<exists>f. c = runtime_call.Fungibles f)"
  by (cases c) (auto simp: filter_call_def base_call_filter_def split: fungibles_call.splits)

lemma filter_read_all: "filter_read r"
  by (cases r rule: filter_read.cases) auto

lemma carries_ids:
  assumes "carries E v rq" and "le_bytes 4 (req_id rq) = [f, ver, m, i]"
  shows "func_id E v = f" and "version E v = ver" and "module_and_index E v = (m, i)"
  using assms request_bytes [OF assms(2)]
  by (simp_all add: carries_def func_id_def version_def module_and_index_def)

text \<open>The law of FRAME's \<open>extract_actual_weight\<close>: what a call reports is capped by what it declared.\<close>

definition weight_capped :: "'x host \<Rightarrow> bool" where
  "weight_capped H \<longleftrightarrow> (\<forall>actual w. weight_le (extract_actual_weight H actual w) w)"

text \<open>What a request is charged before it takes effect: every request the overhead; a call or a read the
  copy of its input, too; then a call its declared weight, a read its weight and the copy of the
  result.\<close>

definition call_charges :: "'x host \<Rightarrow> 'x fungibles_config \<Rightarrow> fungibles_call \<Rightarrow> nat \<Rightarrow> weight list" where
  "call_charges H cfg call len =
     [seal_debug_message H len, seal_return H len, fungibles_call_weight cfg call]"

definition read_charges :: "'x host \<Rightarrow> 'x fungibles_config \<Rightarrow> fungibles_read \<Rightarrow> nat \<Rightarrow> nat \<Rightarrow> weight list" where
  "read_charges H cfg rd len out_len =
     [seal_debug_message H len, seal_return H len, fungibles_read_weight cfg rd, seal_input H out_len]"

definition refusal_charges :: "'x host \<Rightarrow> u8 \<Rightarrow> nat \<Rightarrow> weight list" where
  "refusal_charges H f len = seal_debug_message H len # (if f \<in> {0, 1} then [seal_return H len] else [])"

context chain_environment
begin

lemma carries_request: "request v' = request v \<Longrightarrow> carries E v rq \<Longrightarrow> carries E v' rq"
  using request_fields [of v' v] by (simp add: carries_def)

lemma carries_len: "request v' = request v \<Longrightarrow> env_in_len E v' = env_in_len E v"
  using request_fields by blast

lemma carries_read: "carries E v rq \<Longrightarrow> request v' = request v \<Longrightarrow> env_read E (env_in_len E v) v' = Inr (req_input rq)"
  using carries_request [of v' v rq] carries_len [of v' v] by (simp add: carries_def)

text \<open>The first charge of a request, the overhead.\<close>

lemma api_call_overhead:
  "env_charge_weight E (seal_debug_message H (env_in_len E v)) v = (Inl e, u) \<Longrightarrow>
     api_call E H C cfg (v, s) = (Inl e, u, s)"
  "env_charge_weight E (seal_debug_message H (env_in_len E v)) v = (Inr g, u) \<Longrightarrow>
     api_call E H C cfg (v, s) = execute_tuple (api_functions E H C cfg) (u, s)"
  by (simp_all add: api_call_def extension_call_def)

lemma decode_call_works:
  assumes "carries E v rq" and "le_bytes 4 (req_id rq) = [f, 0, 150, i]"
    and "decode_fungibles_call C (i # req_input rq) = Some call"
    and "env_charge_weight E (seal_return H (env_in_len E v)) v = (Inr g, v')"
  shows "decode_call E H C v = (Inr (runtime_call.Fungibles call), v')"
proof -
  have r: "request v' = request v" using charge [OF assms(4)] by simp
  show ?thesis
    using assms(3,4) carries_ids [OF carries_request [OF r assms(1)] assms(2)] carries_read [OF assms(1) r]
    by (simp add: decode_call_def decodes_def try_env_def Let_def prepender_process_def
        decode_versioned_call_def decode_runtime_call_def)
qed

lemma dispatch_call_runs:
  assumes "carries E v2 rq" and "le_bytes 4 (req_id rq) = [0, 0, 150, i]" and "decode v = (Inr (runtime_call.Fungibles call), v2)"
    and 3: "env_charge_weight E (fungibles_call_weight cfg call) v2 = (Inr g, v3)"
    and out: "out = fungibles_dispatch cfg (Signed (env_address E v2)) call s"
  shows "\<exists>v'. (weight_capped H \<longrightarrow> charges v' =
        charges v2 @ [extract_actual_weight H (post_weight out) (fungibles_call_weight cfg call)]) \<and>
      dispatch_call_execute E (api_runtime H cfg) decode filter_call (versioned_error_convert E) (v, s) =
        (case out of Inr (_, s') \<Rightarrow> (Inr (Converging 0), v', s')
         | Inl (e, _) \<Rightarrow> (Inr (Converging (v0_status e)), v', s))"
proof -
  let ?v = "env_adjust_weight E g (extract_actual_weight H (post_weight out) (fungibles_call_weight cfg call)) v3"
  have r: "request v3 = request v2" using charge [OF 3] by simp
  then have addr: "env_address E v3 = env_address E v2" using request_fields by blast
  have conv: "versioned_error_convert E e (env_adjust_weight E g w v3) = Inr (Converging (v0_status e))" for e w
    using carries_ids(2) [OF carries_request [OF _ assms(1)] assms(2)] r adjust_keeps
    by (simp add: versioned_error_convert_def versioned_error_try_from_def v0_status_def)
  have "runtime_dispatch H cfg filter_call (Signed (env_address E v3)) (runtime_call.Fungibles call) s = out"
    by (simp add: runtime_dispatch_def filter_call_fungibles addr out)
  with 3 assms(3) have "dispatch_call_execute E (api_runtime H cfg) decode filter_call (versioned_error_convert E) (v, s) =
        (case out of Inr (_, s') \<Rightarrow> (Inr (Converging 0), ?v, s') | Inl (e, _) \<Rightarrow> (Inr (Converging (v0_status e)), ?v, s))"
    by (simp add: dispatch_call_execute_def api_runtime_def Let_def conv split: sum.splits prod.splits)
  moreover have "weight_capped H \<longrightarrow> charges ?v =
      charges v2 @ [extract_actual_weight H (post_weight out) (fungibles_call_weight cfg call)]"
    using adjust [OF 3] by (simp add: weight_capped_def)
  ultimately show ?thesis by blast
qed

lemma api_call_dispatches:
  assumes "carries E v rq" and "le_bytes 4 (req_id rq) = [0, 0, 150, i]"
    and "decode_fungibles_call C (i # req_input rq) = Some call"
    and out: "out = fungibles_dispatch cfg (Signed (env_address E v)) call s"
  shows "case charge_all E (call_charges H cfg call (env_in_len E v)) v of
      (Inl e, u) \<Rightarrow> api_call E H C cfg (v, s) = (Inl e, u, s)
    | (Inr _, _) \<Rightarrow> \<exists>v'. (weight_capped H \<longrightarrow>
          charges v' = charges v @ [seal_debug_message H (env_in_len E v), seal_return H (env_in_len E v),
            extract_actual_weight H (post_weight out) (fungibles_call_weight cfg call)]) \<and>
        api_call E H C cfg (v, s) =
          (case out of Inr (_, s') \<Rightarrow> (Inr (Converging 0), v', s')
           | Inl (e, _) \<Rightarrow> (Inr (Converging (v0_status e)), v', s))"
proof (cases rule: charge_all_cases [of E "seal_debug_message H (env_in_len E v)" v
      "[seal_return H (env_in_len E v), fungibles_call_weight cfg call]"])
  case fails
  then show ?thesis using api_call_overhead(1) by (simp add: call_charges_def del: charge_all.simps(2))
next
  case (charged g1 v1)
  have r1: "request v1 = request v" "charges v1 = charges v @ [seal_debug_message H (env_in_len E v)]"
    using charge [OF charged(1)] by simp_all
  have c1: "carries E v1 rq" using carries_request [OF r1(1) assms(1)] .
  have len: "env_in_len E v1 = env_in_len E v" using carries_len [OF r1(1)] .
  have id: "identified_by_first_byte E 0 v1"
    using carries_ids(1) [OF c1 assms(2)] by (simp add: identified_by_first_byte_def)
  have run: "api_call E H C cfg (v, s) = dispatch_call_execute E (api_runtime H cfg) (decode_call E H C) filter_call
      (versioned_error_convert E) (v1, s)"
    using id by (simp add: api_call_overhead(2) [OF charged(1)] api_functions_def)
  note first = charged(2)
  show ?thesis
  proof (cases rule: charge_all_cases [of E "seal_return H (env_in_len E v)" v1 "[fungibles_call_weight cfg call]"])
    case (fails e u)
    then have "decode_call E H C v1 = (Inl e, u)"
      by (simp add: decode_call_def decodes_def len try_env_def)
    with fails first show ?thesis
      by (simp add: run call_charges_def dispatch_call_execute_def del: charge_all.simps(2))
  next
    case (charged g2 v2)
    note dec = decode_call_works [OF c1 assms(2,3) charged(1) [folded len]]
    have r2: "request v2 = request v" "charges v2 = charges v1 @ [seal_return H (env_in_len E v)]"
      using charge [OF charged(1)] r1 by simp_all
    have c2: "carries E v2 rq" and addr: "env_address E v2 = env_address E v"
      using carries_request [OF r2(1) assms(1)] request_fields [OF r2(1)] by simp_all
    note second = charged(2)
    show ?thesis
    proof (cases rule: charge_all_cases [of E "fungibles_call_weight cfg call" v2 "[]"])
      case fails
      with first second dec show ?thesis
        by (simp add: run call_charges_def dispatch_call_execute_def api_runtime_def del: charge_all.simps(2))
    next
      case (charged g3 v3)
      from dispatch_call_runs [where H = H and decode = "decode_call E H C" and v = v1, OF c2 assms(2) dec charged(1) out [folded addr]] first second charged(2)
      show ?thesis by (auto simp: run call_charges_def r1 r2 simp del: charge_all.simps(2))
    qed
  qed
qed

lemma decode_read_works:
  assumes "carries E v rq" and "le_bytes 4 (req_id rq) = [f, 0, 150, i]"
    and "decode_fungibles_read (i # req_input rq) = Some rd"
    and "env_charge_weight E (seal_return H (env_in_len E v)) v = (Inr g, v')"
  shows "decode_read E H v = (Inr (runtime_read.Fungibles rd), v')"
proof -
  have r: "request v' = request v" using charge [OF assms(4)] by simp
  show ?thesis
    using assms(3,4) carries_ids [OF carries_request [OF r assms(1)] assms(2)] carries_read [OF assms(1) r]
    by (simp add: decode_read_def decodes_def try_env_def Let_def prepender_process_def
        decode_versioned_read_def decode_runtime_read_def)
qed

lemma read_state_runs:
  assumes "carries E v2 rq" and "le_bytes 4 (req_id rq) = [1, 0, 150, i]" and "decode v = (Inr (runtime_read.Fungibles rd), v2)"
    and out: "out = read_result_encode (encode_vec C) (fungibles_read_state cfg rd (f_ext s))"
  shows "read_state_execute E (api_runtime H cfg) decode filter_read (convert_read_result E C) (seal_input H) (v, s) =
    (case charge_all E [fungibles_read_weight cfg rd, seal_input H (length out)] v2 of
       (Inl e, u) \<Rightarrow> (Inl e, u, s)
     | (Inr _, u) \<Rightarrow>
         (case env_write E out False None u of
            (Inl e, v') \<Rightarrow> (Inl e, v', s) | (Inr _, v') \<Rightarrow> (Inr (Converging 0), v', s)))"
proof (cases rule: charge_all_cases [of E "fungibles_read_weight cfg rd" v2 "[seal_input H (length out)]"])
  case fails
  then show ?thesis using assms(3)
    by (simp add: read_state_execute_def api_runtime_def try_env_def)
next
  case (charged g v3)
  have "request v3 = request v2" using charge [OF charged(1)] by simp
  from carries_ids(2) [OF carries_request [OF this assms(1)] assms(2)]
  have conv: "convert_read_result E C result v3 = Inr (runtime_result_encode C result)" for result
    by (simp add: convert_read_result_def versioned_result_convert_def versioned_runtime_result_try_from_def)
  show ?thesis using charged assms(3)
    by (simp add: read_state_execute_def api_runtime_def try_env_def Let_def conv filter_read_all
        out [symmetric] split: sum.split prod.split)
qed

lemma api_call_reads:
  assumes "carries E v rq" and "le_bytes 4 (req_id rq) = [1, 0, 150, i]"
    and "decode_fungibles_read (i # req_input rq) = Some rd"
    and out: "out = read_result_encode (encode_vec C) (fungibles_read_state cfg rd (f_ext s))"
  shows "api_call E H C cfg (v, s) =
    (case charge_all E (read_charges H cfg rd (env_in_len E v) (length out)) v of
       (Inl e, u) \<Rightarrow> (Inl e, u, s)
     | (Inr _, u) \<Rightarrow>
         (case env_write E out False None u of
            (Inl e, v') \<Rightarrow> (Inl e, v', s) | (Inr _, v') \<Rightarrow> (Inr (Converging 0), v', s)))"
proof (cases rule: charge_all_cases [of E "seal_debug_message H (env_in_len E v)" v
      "[seal_return H (env_in_len E v), fungibles_read_weight cfg rd, seal_input H (length out)]"])
  case fails
  then show ?thesis using api_call_overhead(1) by (simp add: read_charges_def del: charge_all.simps(2))
next
  case (charged g1 v1)
  have r1: "request v1 = request v" using charge [OF charged(1)] by simp
  have c1: "carries E v1 rq" using carries_request [OF r1 assms(1)] .
  have len: "env_in_len E v1 = env_in_len E v" using carries_len [OF r1] .
  have ids: "\<not> identified_by_first_byte E 0 v1" "identified_by_first_byte E 1 v1"
    using carries_ids(1) [OF c1 assms(2)] by (simp_all add: identified_by_first_byte_def)
  have run: "api_call E H C cfg (v, s) = read_state_execute E (api_runtime H cfg) (decode_read E H) filter_read
      (convert_read_result E C) (seal_input H) (v1, s)"
    using ids by (simp add: api_call_overhead(2) [OF charged(1)] api_functions_def)
  note first = charged(2)
  show ?thesis
  proof (cases rule: charge_all_cases [of E "seal_return H (env_in_len E v)" v1
        "[fungibles_read_weight cfg rd, seal_input H (length out)]"])
    case (fails e u)
    then have "decode_read E H v1 = (Inl e, u)"
      by (simp add: decode_read_def decodes_def len try_env_def)
    with fails first show ?thesis
      by (simp add: run read_charges_def read_state_execute_def try_env_def del: charge_all.simps(2))
  next
    case (charged g2 v2)
    have c2: "carries E v2 rq" using carries_request [OF _ c1] charge [OF charged(1)] by simp
    from read_state_runs [where decode = "decode_read E H" and v = v1, OF c2 assms(2)
        decode_read_works [OF c1 assms(2,3) charged(1) [folded len]] out] first charged(2)
    show ?thesis by (simp add: run read_charges_def del: charge_all.simps(2))
  qed
qed

lemma decodes_refuses:
  assumes "carries E v rq" and "le_bytes 4 (req_id rq) = [f, ver, m, i]"
    and "\<And>input. decode (ver # m # i # input) = None"
  shows "decodes E ret err (prepender_process E) decode v =
    (case charge_all E [ret (env_in_len E v)] v of (Inl e, u) \<Rightarrow> (Inl e, u) | (Inr _, u) \<Rightarrow> (Inl err, u))"
proof (cases rule: charge_all_cases [of E "ret (env_in_len E v)" v "[]"])
  case fails
  then show ?thesis by (simp add: decodes_def try_env_def)
next
  case (charged g u)
  have r: "request u = request v" using charge [OF charged(1)] by simp
  show ?thesis
    using charged carries_read [OF assms(1) r] carries_ids [OF carries_request [OF r assms(1)] assms(2)] assms(3)
    by (simp add: decodes_def try_env_def Let_def prepender_process_def)
qed

lemma api_call_rejects:
  assumes "carries E v rq" and "le_bytes 4 (req_id rq) = [f, ver, m, i]"
    and "f \<noteq> 0 \<and> f \<noteq> 1 \<or> ver \<noteq> 0 \<or> f = 1 \<and> m \<noteq> 150"
  shows "api_call E H C cfg (v, s) =
    (case charge_all E (refusal_charges H f (env_in_len E v)) v of
       (Inl e, u) \<Rightarrow> (Inl e, u, s) | (Inr _, u) \<Rightarrow> (Inl contracts_decoding_failed, u, s))"
proof (cases rule: charge_all_cases [of E "seal_debug_message H (env_in_len E v)" v
      "if f \<in> {0, 1} then [seal_return H (env_in_len E v)] else []"])
  case fails
  then show ?thesis using api_call_overhead(1) by (simp add: refusal_charges_def del: charge_all.simps(2))
next
  case (charged g1 v1)
  have r1: "request v1 = request v" using charge [OF charged(1)] by simp
  have c1: "carries E v1 rq" using carries_request [OF r1 assms(1)] .
  have len: "env_in_len E v1 = env_in_len E v" using carries_len [OF r1] .
  note ids = carries_ids [OF c1 assms(2)]
  have run: "api_call E H C cfg (v, s) = execute_tuple (api_functions E H C cfg) (v1, s)"
    by (rule api_call_overhead(2) [OF charged(1)])
  note first = charged(2)
  show ?thesis
  proof (cases "f \<in> {0, 1}")
    case False
    with first show ?thesis
      by (simp add: run refusal_charges_def api_functions_def identified_by_first_byte_def ids(1) del: charge_all.simps(2))
  next
    case True
    have no_call: "map_option runtime_call_from (decode_versioned_call C (ver # m # i # input)) = None" if "f = 0" for input
      using that assms(3) by (simp add: decode_versioned_call_def)
    have no_read: "map_option runtime_read_from (decode_versioned_read (ver # m # i # input)) = None" if "f = 1" for input
      using that assms(3) by (auto simp: decode_versioned_read_def decode_runtime_read_def)
    show ?thesis
    proof (cases "f = 0")
      case True
      then show ?thesis
        using first decodes_refuses [where decode = "\<lambda>b. map_option runtime_call_from (decode_versioned_call C b)", OF c1 assms(2) no_call [OF True]]
        by (simp add: run refusal_charges_def api_functions_def identified_by_first_byte_def ids(1)
            dispatch_call_execute_def decode_call_def len del: charge_all.simps(2) split: prod.split sum.split)
    next
      case False
      with \<open>f \<in> {0, 1}\<close> have f: "f = 1" by simp
      then show ?thesis
        using first decodes_refuses [where decode = "\<lambda>b. map_option runtime_read_from (decode_versioned_read b)", OF c1 assms(2) no_read [OF f]]
        by (simp add: run refusal_charges_def api_functions_def identified_by_first_byte_def ids(1)
            read_state_execute_def decode_read_def try_env_def len del: charge_all.simps(2) split: prod.split sum.split)
    qed
  qed
qed

text \<open>Whatever the request, the runtime state changes only by a call that the filter lets through.\<close>

lemma decode_call_address:
  assumes "decode_call E H C v = (Inr call, v')"
  shows "request v' = request v"
  using decodes_Inr [OF assms [unfolded decode_call_def]] by blast

lemma api_call_confined:
  assumes run: "api_call E H C cfg (v, s) = (res, v', s')" and changed: "s' \<noteq> s"
  shows "\<exists>call w. fungibles_dispatch cfg (Signed (env_address E v)) call s = Inr (w, s') \<and> res = Inr (Converging 0)"
proof -
  from run changed obtain g1 v1 where 1: "env_charge_weight E (seal_debug_message H (env_in_len E v)) v = (Inr g1, v1)"
    and ex: "execute_tuple (api_functions E H C cfg) (v1, s) = (res, v', s')"
    by (auto simp: api_call_def extension_call_def Let_def split: prod.splits sum.splits)
  have "identified_by_first_byte E 0 v1"
    using ex changed
    by (auto simp: api_functions_def read_state_execute_def Let_def split: if_splits prod.splits)
  with ex have dc: "dispatch_call_execute E (api_runtime H cfg) (decode_call E H C) filter_call
      (versioned_error_convert E) (v1, s) = (res, v', s')"
    by (simp add: api_functions_def)
  then obtain call v2 where 2: "decode_call E H C v1 = (Inr call, v2)"
    using changed by (auto simp: dispatch_call_execute_def split: prod.splits sum.splits)
  then obtain g3 v3 where 3: "env_charge_weight E (rt_call_weight (api_runtime H cfg) call) v2 = (Inr g3, v3)"
    using dc changed by (auto simp: dispatch_call_execute_def Let_def split: prod.splits sum.splits)
  have "request v3 = request v" using charge [OF 1] decode_call_address [OF 2] charge [OF 3] by simp
  then have addr: "env_address E v3 = env_address E v" using request_fields by blast
  obtain w where d: "runtime_dispatch H cfg filter_call (Signed (env_address E v)) call s = Inr (w, s')"
      and res: "res = Inr (Converging 0)"
    using dc 2 3 changed
    by (cases "runtime_dispatch H cfg filter_call (Signed (env_address E v)) call s")
       (auto simp: dispatch_call_execute_def Let_def addr api_runtime_def split: prod.splits)
  then obtain f where "call = runtime_call.Fungibles f"
    using filter_call_fungibles [of call] by (auto simp: runtime_dispatch_def split: if_splits)
  with d res show ?thesis by (auto simp: runtime_dispatch_def split: if_splits)
qed

end

section \<open>Properties\<close>

text \<open>C12: a call of the Pop API does what it says, end to end: when a contract sends the request of any of
  the eleven API calls and its weight budget covers the overhead, the copy of the input and the declared
  weight of the call, the chain extension runs exactly that call of the fungibles pallet, signed by
  the contract; on success the runtime state is the one the call left and the status code is zero, on
  failure the runtime state is untouched and the status code is that of the error. The weight charged
  is then the overhead, the copy of the input and the actual weight of the call. When the budget does
  not cover one of the three, the request fails with the error of that charge and changes nothing.\<close>

theorem api_dispatch_end_to_end:
  assumes "chain_environment E charges request" and "vec_codec C" and "weight_capped H"
    and "carries E v (call_request C call)" and "call_fits call"
  shows "case charge_all E (call_charges H cfg call (env_in_len E v)) v of
      (Inl e, u) \<Rightarrow> api_call E H C cfg (v, s) = (Inl e, u, s)
    | (Inr _, _) \<Rightarrow> \<exists>v'. charges v' = charges v @ [seal_debug_message H (env_in_len E v), seal_return H (env_in_len E v),
          extract_actual_weight H (post_weight (fungibles_dispatch cfg (Signed (env_address E v)) call s))
            (fungibles_call_weight cfg call)] \<and>
        api_call E H C cfg (v, s) =
          (case fungibles_dispatch cfg (Signed (env_address E v)) call s of
             Inr (_, s') \<Rightarrow> (Inr (Converging 0), v', s')
           | Inl (e, _) \<Rightarrow> (Inr (Converging (v0_status e)), v', s))"
  using chain_environment.api_call_dispatches [where H = H,
      OF assms(1,4) call_request_id decode_call_request [OF assms(2,5)] refl, of cfg s] assms(3)
  by (cases "fst (charge_all E (call_charges H cfg call (env_in_len E v)) v)")
     (simp_all add: split_beta)

definition demo_codec :: codec where
  "demo_codec =
     \<lparr>encode_vec = (\<lambda>b. le_bytes 4 (of_nat (length b) :: u32) @ b),
      decode_vec = (\<lambda>b. obind (take_u32 b) (\<lambda>n r.
        if length r < unat n then None else Some (take (unat n) r, drop (unat n) r))),
      decode_other_call = (\<lambda>m b. None)\<rparr>"

definition demo_host :: "demo_assets host" where
  "demo_host =
     \<lparr>seal_debug_message = (\<lambda>n. from_parts (10 + n) 0), seal_return = (\<lambda>n. from_parts (20 + n) 0),
      seal_input = (\<lambda>n. from_parts (30 + n) 0),
      call_filtered = dispatch_error.Module \<lparr>me_index = 0, me_error = (5, 0, 0, 0), me_message = None\<rparr>,
      extract_actual_weight = (\<lambda>actual w. case actual of None \<Rightarrow> w
        | Some a \<Rightarrow> from_parts (min (ref_time a) (ref_time w)) (min (proof_size a) (proof_size w))),
      other_call_weight = (\<lambda>c. from_parts 1 1),
      other_dispatch = (\<lambda>og c s. Inr (None, s))\<rparr>"

lemma demo_vec_codec: "vec_codec demo_codec"
proof -
  have "unat (of_nat (length b) :: u32) = length b" if "length b \<le> u32_max" for b :: bytes
    using that by (simp add: unsigned_of_nat take_bit_nat_eq_self u32_max_def)
  then show ?thesis
    using decode_fixed(1) [unfolded enc_token_def] by (simp add: vec_codec_def demo_codec_def obind_def)
qed

lemma demo_weight_capped: "weight_capped demo_host"
  by (simp add: weight_capped_def demo_host_def weight_le_def from_parts_def split: option.split)

lemma mock_env_reads [simp]:
  "env_address mock_env = mock_address" "env_in_len mock_env v = length (mock_buffer v)"
  "env_write mock_env b skip ow v = (Inr (), v\<lparr>mock_buffer := b\<rparr>)"
  by (simp_all add: mock_env_def)

lemma mock_charge_all [simp]:
  "charge_all mock_env ws v = (Inr (), v\<lparr>mock_charged := mock_charged v @ ws\<rparr>)"
  by (induction ws arbitrary: v) (simp_all add: try_env_def, simp add: mock_env_def)

lemma carries_metered:
  "carries (metered_env limit n) v rq \<longleftrightarrow> carries mock_env v rq"
  by (simp add: carries_def metered_env_def mock_env_def)

abbreviation mock_contract :: "api_request \<Rightarrow> account_id \<Rightarrow> mock_environment" where
  "mock_contract rq a \<equiv> mock_new (req_id rq) (req_input rq)\<lparr>mock_address := a\<rparr>"

theorem api_dispatch_end_to_end_witness:
  "(\<exists>v' s'. api_call mock_env demo_host demo_codec demo_fungibles
      (mock_contract (api_transfer 1 6 40) 5, demo_fungibles_state) = (Inr (Converging 0), v', s') \<and>
    balance_at (da_balances (f_ext s')) (1, 6) = 40) \<and>
   api_call (metered_env (from_parts 200 0) 16) demo_host demo_codec demo_fungibles
      (mock_contract (api_transfer 1 6 40) 5, demo_fungibles_state)
     = (Inl dispatch_error.Exhausted, (mock_contract (api_transfer 1 6 40) 5)
          \<lparr>mock_charged := [from_parts 62 0, from_parts 72 0]\<rparr>, demo_fungibles_state)"
proof -
  let ?c = "fungibles_call.Transfer 1 6 40" and ?v = "mock_contract (api_transfer 1 6 40) 5"
  have fits: "call_fits ?c" by (simp add: u128_max_def)
  have len: "length (req_input (api_transfer 1 6 40)) = 52"
    by (simp add: request_defs enc_token_def enc_account_def encode_balance_def)
  from api_dispatch_end_to_end [OF mock.chain_environment_axioms demo_vec_codec demo_weight_capped
      carries_mock [of 5 "call_request demo_codec ?c"] fits, of demo_fungibles demo_fungibles_state]
  have run: "\<exists>v' s'. api_call mock_env demo_host demo_codec demo_fungibles (?v, demo_fungibles_state)
        = (Inr (Converging 0), v', s') \<and> balance_at (da_balances (f_ext s')) (1, 6) = 40"
    by (auto simp: fungibles_transfer_def demo_fungibles_eval)
  have "charge_all (metered_env (from_parts 200 0) 16) (call_charges demo_host demo_fungibles ?c (env_in_len (metered_env (from_parts 200 0) 16) ?v)) ?v
      = (Inl dispatch_error.Exhausted, ?v\<lparr>mock_charged := [from_parts 62 0, from_parts 72 0]\<rparr>)"
    by (simp add: call_charges_def metered_env_def mock_env_def mock_new_def len try_env_def demo_host_def Let_def
        mock_charged_total_def weight_saturating_add_def weight_le_def from_parts_def u64_max_def demo_fungibles_def)
  with run api_dispatch_end_to_end [OF metered.chain_environment_axioms demo_vec_codec demo_weight_capped
      carries_metered [THEN iffD2, OF carries_mock [of 5 "call_request demo_codec ?c"]] fits,
      of "from_parts 200 0" 16 demo_fungibles demo_fungibles_state]
  show ?thesis by simp
qed

text \<open>C33: a state read of the Pop API is answered with the encoded result of exactly the read asked for and
  never changes the runtime state; what is charged is the overhead, the copy of the input, the read
  itself and the copy of the result, and a charge or a write that fails is the error of the request.\<close>

theorem api_read_end_to_end:
  assumes "chain_environment E charges request" and "carries E v (read_request rd)"
    and "out = read_result_encode (encode_vec C) (fungibles_read_state cfg rd (f_ext s))"
  shows "api_call E H C cfg (v, s) =
    (case charge_all E (read_charges H cfg rd (env_in_len E v) (length out)) v of
       (Inl e, u) \<Rightarrow> (Inl e, u, s)
     | (Inr _, u) \<Rightarrow>
         (case env_write E out False None u of
            (Inl e, v') \<Rightarrow> (Inl e, v', s) | (Inr _, v') \<Rightarrow> (Inr (Converging 0), v', s)))"
  by (rule chain_environment.api_call_reads [OF assms(1,2) read_request_id decode_read_request assms(3)])

theorem api_read_end_to_end_witness:
  "\<exists>v'. api_call mock_env demo_host demo_codec demo_fungibles
      (mock_contract (api_allowance 1 5 6) 9, demo_fungibles_state) = (Inr (Converging 0), v', demo_fungibles_state) \<and>
    mock_buffer v' = encode_balance 30"
proof -
  let ?r = "fungibles_read.Allowance 1 5 6"
  have val: "fungibles_read_state demo_fungibles ?r (f_ext demo_fungibles_state) = fungibles_read_result.Allowance 30"
    by (simp add: demo_fungibles_eval)
  from api_read_end_to_end [where H = demo_host and C = demo_codec and cfg = demo_fungibles and s = demo_fungibles_state,
      OF mock.chain_environment_axioms carries_mock [of 9 "read_request ?r"] refl]
  show ?thesis unfolding val by simp
qed

text \<open>C11: a contract is confined: whatever bytes it sends, under any function, version, module and index,
  the runtime state can change only by one call of the fungibles pallet that the contract itself
  signed and that succeeded, and the contract is told so with the status code zero.\<close>

theorem contract_confined:
  assumes "chain_environment E charges request"
    and "api_call E H C cfg (v, s) = (res, v', s')" and "s' \<noteq> s"
  shows "\<exists>call w. fungibles_dispatch cfg (Signed (env_address E v)) call s = Inr (w, s') \<and>
    res = Inr (Converging 0)"
  by (rule chain_environment.api_call_confined [OF assms])

theorem contract_confined_witness:
  "\<exists>v' s' call w. api_call mock_env demo_host demo_codec demo_fungibles
      (mock_contract (api_transfer 1 6 40) 5, demo_fungibles_state) = (Inr (Converging 0), v', s') \<and>
    s' \<noteq> demo_fungibles_state \<and>
    fungibles_dispatch demo_fungibles (Signed 5) call demo_fungibles_state = Inr (w, s')"
proof -
  let ?c = "fungibles_call.Transfer 1 6 40" and ?v = "mock_contract (api_transfer 1 6 40) 5"
  have "call_fits ?c" by (simp add: u128_max_def)
  from chain_environment.api_call_dispatches [where H = demo_host and cfg = demo_fungibles and s = demo_fungibles_state,
      OF mock.chain_environment_axioms carries_mock [of 5] call_request_id
      decode_call_request [OF demo_vec_codec this] refl]
  obtain v' s' where run: "api_call mock_env demo_host demo_codec demo_fungibles (?v, demo_fungibles_state)
        = (Inr (Converging 0), v', s')" and new: "s' \<noteq> demo_fungibles_state"
    by (auto simp: fungibles_transfer_def demo_fungibles_eval)
  have "env_address mock_env ?v = 5" by simp
  with contract_confined [OF mock.chain_environment_axioms run new] run new show ?thesis by auto
qed

text \<open>C25: what a contract learns from the status code. When its budget covers the three charges of a call,
  it gets a status code and reads it as success exactly when the call succeeded or failed with
  \<open>DispatchError::Other\<close>, whose code is zero; any other failure reaches it as the version-zero error of
  the runtime's error. When the budget does not cover them, there is no status code: the request fails
  with the error of the charge, which traps the contract, and nothing changed.\<close>

theorem reported_result:
  assumes "chain_environment E charges request" and "vec_codec C"
    and "carries E v (call_request C call)" and "call_fits call"
    and "out = fungibles_dispatch cfg (Signed (env_address E v)) call s"
  shows "case charge_all E (call_charges H cfg call (env_in_len E v)) v of
      (Inl e, u) \<Rightarrow> api_call E H C cfg (v, s) = (Inl e, u, s)
    | (Inr _, _) \<Rightarrow> \<exists>code v' s'. api_call E H C cfg (v, s) = (Inr (Converging code), v', s') \<and>
        (from_status_code code = Inr () \<longleftrightarrow> (\<exists>r. out = Inr r) \<or> (\<exists>m w. out = Inl (dispatch_error.Other m, w))) \<and>
        (\<forall>e w. out = Inl (e, w) \<longrightarrow> s' = s \<and> error_from_u32 code = V0Error_from e)"
proof -
  have zero: "v0_status e = 0 \<longleftrightarrow> (\<exists>m. e = dispatch_error.Other m)" for e
    by (simp add: v0_status_def error_to_u32_zero V0Error_from_Other)
  have recover: "error_from_u32 (v0_status e) = V0Error_from e" for e
    by (simp add: v0_status_def error_from_to)
  have status: "\<exists>code w s'. r = (Inr (Converging code), w, s') \<and>
      (from_status_code code = Inr () \<longleftrightarrow> (\<exists>r. out = Inr r) \<or> (\<exists>m w. out = Inl (dispatch_error.Other m, w))) \<and>
      (\<forall>e w. out = Inl (e, w) \<longrightarrow> s' = s \<and> error_from_u32 code = V0Error_from e)"
    if r: "r = (case out of Inr (_, s') \<Rightarrow> (Inr (Converging 0), u, s')
        | Inl (e, _) \<Rightarrow> (Inr (Converging (v0_status e)), u, s))" for r u
  proof (cases out)
    case (Inl ew)
    then show ?thesis
      by (intro exI [of _ "v0_status (fst ew)"] exI [of _ u] exI [of _ s])
         (auto simp: r from_status_code_def zero recover split: prod.splits)
  next
    case (Inr ws)
    then show ?thesis
      by (intro exI [of _ 0] exI [of _ u] exI [of _ "snd ws"])
         (auto simp: r from_status_code_def split: prod.splits)
  qed
  from chain_environment.api_call_dispatches [where H = H,
      OF assms(1,3) call_request_id decode_call_request [OF assms(2,4)] assms(5)]
  show ?thesis
    by (cases "fst (charge_all E (call_charges H cfg call (env_in_len E v)) v)")
       (auto simp: split_beta dest!: status)
qed

theorem reported_result_witness:
  "\<exists>code v'. api_call mock_env demo_host demo_codec demo_fungibles
      (mock_contract (api_transfer 1 6 400) 5, demo_fungibles_state)
        = (Inr (Converging code), v', demo_fungibles_state) \<and>
    error_from_u32 code = pop_error.Token token_error.FundsUnavailable"
proof -
  let ?c = "fungibles_call.Transfer 1 6 400"
  have fits: "call_fits ?c" by (simp add: u128_max_def)
  have out: "fungibles_dispatch demo_fungibles (Signed 5) ?c demo_fungibles_state
      = Inl (dispatch_error.Token sp_token_error.FundsUnavailable, None)"
    by (simp add: fungibles_transfer_def demo_fungibles_eval)
  from reported_result [where H = demo_host and cfg = demo_fungibles and s = demo_fungibles_state,
      OF mock.chain_environment_axioms demo_vec_codec
      carries_mock [of 5 "call_request demo_codec ?c"] fits refl]
  show ?thesis using out by auto
qed

text \<open>C26: requests outside the API change nothing and fail: a function other than dispatch and read, any
  version but zero, and a read of a module other than the fungibles are refused with the decoding error
  of the contracts pallet once the overhead and, for the two known functions, the copy of the input are
  charged; if the budget does not cover these, the error is that of the charge.\<close>

theorem unknown_requests_refused:
  assumes "chain_environment E charges request"
    and "carries E v rq" and "le_bytes 4 (req_id rq) = [f, ver, m, i]"
    and "f \<noteq> 0 \<and> f \<noteq> 1 \<or> ver \<noteq> 0 \<or> f = 1 \<and> m \<noteq> 150"
  shows "api_call E H C cfg (v, s) =
    (case charge_all E (refusal_charges H f (env_in_len E v)) v of
       (Inl e, u) \<Rightarrow> (Inl e, u, s) | (Inr _, u) \<Rightarrow> (Inl contracts_decoding_failed, u, s))"
  by (rule chain_environment.api_call_rejects [OF assms])

theorem unknown_requests_refused_witness:
  "\<exists>v'. api_call mock_env demo_host demo_codec demo_fungibles
      (mock_contract \<lparr>req_id = build_extension_method 2 0 150 3, req_input = []\<rparr> 5, demo_fungibles_state)
        = (Inl contracts_decoding_failed, v', demo_fungibles_state)"
proof -
  let ?rq = "\<lparr>req_id = build_extension_method 2 0 150 3, req_input = []\<rparr>"
  have "le_bytes 4 (req_id ?rq) = [2, 0, 150, 3]"
    by (simp add: build_extension_method_def le_bytes_4_from del: from_le_bytes.simps)
  from unknown_requests_refused [OF mock.chain_environment_axioms carries_mock this,
      of demo_host demo_codec demo_fungibles 5 demo_fungibles_state]
  show ?thesis by simp
qed

section \<open>Matching by identifier\<close>

lemma le_bytes_2_inject: "le_bytes 2 v = le_bytes 2 w \<longleftrightarrow> v = w" for v w :: u16
proof
  assume eq: "le_bytes 2 v = le_bytes 2 w"
  have "take_bit (8 * 2) v = take_bit (8 * 2) w"
    unfolding from_le_bytes_le_bytes [symmetric] eq ..
  then show "v = w" by (simp add: take_bit_word_eq_self)
qed simp

lemma from_le_bytes_4_eq: "from_le_bytes [a, b, c, d] = n \<longleftrightarrow> le_bytes 4 n = [a, b, c, d]" for n :: u32
  using le_bytes_4_split [of n a b c d] le_bytes_4_from [of a b c d] by blast

text \<open>Matching the whole \<open>u32\<close> identifier is matching its two halves: the upper one as the extension, the
  lower one as the function, so the three matchers of the extension agree.\<close>

theorem with_func_id_is_equals:
  "with_func_id_matches E n v \<longleftrightarrow> equals_matches E (ucast (drop_bit 16 n)) (ucast n) v"
proof -
  let ?f = "env_func_id E v" and ?e = "env_ext_id E v"
  obtain f0 f1 where f: "le_bytes 2 ?f = [f0, f1]" by (simp add: le_bytes_2)
  obtain e0 e1 where e: "le_bytes 2 ?e = [e0, e1]" by (simp add: le_bytes_2)
  obtain n0 n1 n2 n3 where n: "le_bytes 4 n = [n0, n1, n2, n3]" by (simp add: le_bytes_4)
  have "with_func_id_matches E n v \<longleftrightarrow> [n0, n1, n2, n3] = [f0, f1, e0, e1]"
    by (simp add: with_func_id_matches_def f e from_le_bytes_4_eq n Let_def del: from_le_bytes.simps)
  also have "\<dots> \<longleftrightarrow> le_bytes 2 ?f = le_bytes 2 (ucast n :: u16) \<and> le_bytes 2 ?e = le_bytes 2 (ucast (drop_bit 16 n) :: u16)"
    unfolding request_bytes [OF n] f e by auto
  also have "\<dots> \<longleftrightarrow> equals_matches E (ucast (drop_bit 16 n)) (ucast n) v"
    unfolding le_bytes_2_inject equals_matches_def by blast
  finally show ?thesis .
qed

end
