(* ===== verification/Api_Testnet.thy ===== *)
theory Api_Testnet
  imports Runtime_Pallets Api_Properties
begin

text \<open>
  The chain extension of the testnet runtime: its own versioned types
  (\<open>runtime/testnet/src/config/api/versioning.rs\<close>) and its own reads, filters and functions
  (\<open>runtime/testnet/src/config/api/mod.rs\<close>), over the shared helpers of \<open>pallet_api\<close> and the shared
  extension. The indexes that requests and errors carry come from the pallets of the testnet
  runtime, which has no \<open>Ismp\<close> and no \<open>IsmpParachain\<close> pallet; its codec of the calls of other pallets and
  their dispatch are parameters of their own. The property says where the two runtimes agree.
\<close>

section \<open>Versioned types\<close>

datatype testnet_read = Fungibles fungibles_read

datatype testnet_result = Fungibles fungibles_read_result

datatype testnet_versioned_call = V0 runtime_call

fun testnet_call_from :: "testnet_versioned_call \<Rightarrow> runtime_call" where
  "testnet_call_from (testnet_versioned_call.V0 call) = call"

datatype testnet_versioned_read = V0 testnet_read

fun testnet_read_from :: "testnet_versioned_read \<Rightarrow> testnet_read" where
  "testnet_read_from (testnet_versioned_read.V0 read) = read"

text \<open>The index of a pallet of the testnet runtime, and its decoding error.\<close>

definition testnet_index :: "string \<Rightarrow> u8" where
  "testnet_index pallet = (case map_of testnet_pallets pallet of None \<Rightarrow> 0 | Some i \<Rightarrow> i)"

definition testnet_decoding_failed :: dispatch_error where
  "testnet_decoding_failed =
     dispatch_error.Module \<lparr>me_index = testnet_index ''Contracts'', me_error = DECODING_FAILED_ERROR,
       me_message = Some ''DecodingFailed''\<rparr>"

datatype testnet_versioned_result = V0 testnet_result

definition testnet_result_try_from :: "testnet_result \<Rightarrow> u8 \<Rightarrow> dispatch_error + testnet_versioned_result" where
  "testnet_result_try_from result ver =
     (if ver = 0 then Inr (testnet_versioned_result.V0 result) else Inl testnet_decoding_failed)"

fun testnet_result_encode :: "codec \<Rightarrow> testnet_result \<Rightarrow> bytes" where
  "testnet_result_encode C (testnet_result.Fungibles result) = read_result_encode (encode_vec C) result"

fun testnet_result_into :: "codec \<Rightarrow> testnet_versioned_result \<Rightarrow> bytes" where
  "testnet_result_into C (testnet_versioned_result.V0 result) = testnet_result_encode C result"

text \<open>Version zero of the errors.\<close>

fun testnet_V0Error_from :: "dispatch_error \<Rightarrow> pop_error" where
  "testnet_V0Error_from (dispatch_error.Other _) = pop_error.Other"
| "testnet_V0Error_from dispatch_error.CannotLookup = pop_error.CannotLookup"
| "testnet_V0Error_from dispatch_error.BadOrigin = pop_error.BadOrigin"
| "testnet_V0Error_from (dispatch_error.Module error) =
     (if me_index error = testnet_index ''Contracts'' \<and> me_error error = DECODING_FAILED_ERROR
      then DecodingFailed
      else (case me_error error of (e0, e1, _, _) \<Rightarrow> pop_error.Module (me_index error) (e0, e1)))"
| "testnet_V0Error_from dispatch_error.ConsumerRemaining = pop_error.ConsumerRemaining"
| "testnet_V0Error_from dispatch_error.NoProviders = pop_error.NoProviders"
| "testnet_V0Error_from dispatch_error.TooManyConsumers = pop_error.TooManyConsumers"
| "testnet_V0Error_from (dispatch_error.Token error) =
     pop_error.Token (case error of
        sp_token_error.FundsUnavailable \<Rightarrow> token_error.FundsUnavailable
      | sp_token_error.OnlyProvider \<Rightarrow> token_error.OnlyProvider
      | sp_token_error.BelowMinimum \<Rightarrow> token_error.BelowMinimum
      | sp_token_error.CannotCreate \<Rightarrow> token_error.CannotCreate
      | sp_token_error.UnknownAsset \<Rightarrow> token_error.UnknownAsset
      | sp_token_error.Frozen \<Rightarrow> token_error.Frozen
      | sp_token_error.Unsupported \<Rightarrow> token_error.Unsupported
      | sp_token_error.CannotCreateHold \<Rightarrow> token_error.CannotCreateHold
      | sp_token_error.NotExpendable \<Rightarrow> token_error.NotExpendable
      | sp_token_error.Blocked \<Rightarrow> token_error.Blocked)"
| "testnet_V0Error_from (dispatch_error.Arithmetic error) =
     pop_error.Arithmetic (case error of
        sp_arithmetic_error.Underflow \<Rightarrow> arithmetic_error.Underflow
      | sp_arithmetic_error.Overflow \<Rightarrow> arithmetic_error.Overflow
      | sp_arithmetic_error.DivisionByZero \<Rightarrow> arithmetic_error.DivisionByZero)"
| "testnet_V0Error_from (dispatch_error.Transactional error) =
     pop_error.Transactional (case error of
        sp_transactional_error.LimitReached \<Rightarrow> transactional_error.LimitReached
      | sp_transactional_error.NoLayer \<Rightarrow> transactional_error.NoLayer)"
| "testnet_V0Error_from dispatch_error.Exhausted = pop_error.Exhausted"
| "testnet_V0Error_from dispatch_error.Corruption = pop_error.Corruption"
| "testnet_V0Error_from dispatch_error.Unavailable = pop_error.Unavailable"
| "testnet_V0Error_from dispatch_error.RootNotAllowed = pop_error.RootNotAllowed"

datatype testnet_versioned_error = V0 pop_error

definition testnet_error_try_from :: "dispatch_error \<Rightarrow> u8 \<Rightarrow> dispatch_error + testnet_versioned_error" where
  "testnet_error_try_from error ver =
     (if ver = 0 then Inr (testnet_versioned_error.V0 (testnet_V0Error_from error))
      else Inl testnet_decoding_failed)"

fun testnet_error_to_u32 :: "testnet_versioned_error \<Rightarrow> u32" where
  "testnet_error_to_u32 (testnet_versioned_error.V0 error) = error_to_u32 error"

section \<open>Decoding\<close>

text \<open>\<open>RuntimeCall\<close> has the indexes of the runtime's pallets; \<open>RuntimeRead\<close> states its own.\<close>

definition testnet_decode_call :: "codec \<Rightarrow> bytes \<Rightarrow> runtime_call option" where
  "testnet_decode_call C input =
     (case input of
        [] \<Rightarrow> None
      | m # b \<Rightarrow>
          if m = testnet_index ''Fungibles'' then map_option runtime_call.Fungibles (decode_fungibles_call C b)
          else if m \<in> set (map snd testnet_pallets) then decode_other_call C m b else None)"

definition testnet_decode_versioned_call :: "codec \<Rightarrow> bytes \<Rightarrow> testnet_versioned_call option" where
  "testnet_decode_versioned_call C input =
     (case input of
        [] \<Rightarrow> None
      | ver # b \<Rightarrow>
          if ver = 0 then map_option testnet_versioned_call.V0 (testnet_decode_call C b) else None)"

definition testnet_decode_read :: "bytes \<Rightarrow> testnet_read option" where
  "testnet_decode_read input =
     (case input of
        [] \<Rightarrow> None
      | m # b \<Rightarrow> if m = 150 then map_option testnet_read.Fungibles (decode_fungibles_read b) else None)"

definition testnet_decode_versioned_read :: "bytes \<Rightarrow> testnet_versioned_read option" where
  "testnet_decode_versioned_read input =
     (case input of
        [] \<Rightarrow> None
      | ver # b \<Rightarrow> if ver = 0 then map_option testnet_versioned_read.V0 (testnet_decode_read b) else None)"

section \<open>The configuration\<close>

fun testnet_read_weight :: "'x fungibles_config \<Rightarrow> testnet_read \<Rightarrow> weight" where
  "testnet_read_weight cfg (testnet_read.Fungibles key) = fungibles_read_weight cfg key"

fun testnet_read_read :: "'x fungibles_config \<Rightarrow> testnet_read \<Rightarrow> 'x fungibles \<Rightarrow> testnet_result" where
  "testnet_read_read cfg (testnet_read.Fungibles key) s =
     testnet_result.Fungibles (fungibles_read_state cfg key (f_ext s))"

definition testnet_filter_call :: "runtime_call \<Rightarrow> bool" where
  "testnet_filter_call c \<longleftrightarrow> testnet_base_call_filter c \<and>
     (case c of
        runtime_call.Fungibles f \<Rightarrow>
          (case f of fungibles_call.Transfer _ _ _ \<Rightarrow> True | TransferFrom _ _ _ _ \<Rightarrow> True | Approve _ _ _ \<Rightarrow> True
           | IncreaseAllowance _ _ _ \<Rightarrow> True | DecreaseAllowance _ _ _ \<Rightarrow> True | fungibles_call.Create _ _ _ \<Rightarrow> True
           | fungibles_call.SetMetadata _ _ _ _ \<Rightarrow> True | StartDestroy _ \<Rightarrow> True
           | fungibles_call.ClearMetadata _ \<Rightarrow> True | fungibles_call.Mint _ _ _ \<Rightarrow> True
           | fungibles_call.Burn _ _ _ \<Rightarrow> True)
      | _ \<Rightarrow> False)"

definition testnet_filter_read :: "testnet_read \<Rightarrow> bool" where
  "testnet_filter_read r =
     (case r of testnet_read.Fungibles f \<Rightarrow>
        (case f of fungibles_read.TotalSupply _ \<Rightarrow> True | fungibles_read.BalanceOf _ _ \<Rightarrow> True
         | fungibles_read.Allowance _ _ _ \<Rightarrow> True | fungibles_read.TokenName _ \<Rightarrow> True
         | fungibles_read.TokenSymbol _ \<Rightarrow> True | fungibles_read.TokenDecimals _ \<Rightarrow> True
         | fungibles_read.TokenExists _ \<Rightarrow> True))"

definition testnet_runtime ::
  "'x host \<Rightarrow> 'x fungibles_config \<Rightarrow> (runtime_call, testnet_read, testnet_result, 'x fungibles) runtime" where
  "testnet_runtime H cfg =
     \<lparr>rt_call_weight = (\<lambda>call. case call of runtime_call.Fungibles c \<Rightarrow> fungibles_call_weight cfg c
        | _ \<Rightarrow> other_call_weight H call),
      rt_dispatch = runtime_dispatch H cfg, rt_extract_actual_weight = extract_actual_weight H,
      rt_read_weight = testnet_read_weight cfg, rt_read = testnet_read_read cfg,
      rt_call_filtered = call_filtered H\<rparr>"

definition testnet_error_convert ::
  "('v, 'g) environment \<Rightarrow> dispatch_error \<Rightarrow> 'v \<Rightarrow> dispatch_error + ret_val" where
  "testnet_error_convert E error v =
     andthen (testnet_error_try_from error (version E v)) (\<lambda>error.
     Inr (Converging (testnet_error_to_u32 error)))"

definition testnet_result_convert ::
  "('v, 'g) environment \<Rightarrow> codec \<Rightarrow> testnet_result \<Rightarrow> 'v \<Rightarrow> dispatch_error + bytes" where
  "testnet_result_convert E C result v =
     andthen (testnet_result_try_from result (version E v)) (\<lambda>r. Inr (testnet_result_into C r))"

definition testnet_functions where
  "testnet_functions E H C cfg =
     [(identified_by_first_byte E 0,
       dispatch_call_execute E (testnet_runtime H cfg)
         (decodes E (seal_return H) testnet_decoding_failed (prepender_process E)
           (\<lambda>b. map_option testnet_call_from (testnet_decode_versioned_call C b)))
         testnet_filter_call (testnet_error_convert E)),
      (identified_by_first_byte E 1,
       read_state_execute E (testnet_runtime H cfg)
         (decodes E (seal_return H) testnet_decoding_failed (prepender_process E)
           (\<lambda>b. map_option testnet_read_from (testnet_decode_versioned_read b)))
         testnet_filter_read (testnet_result_convert E C) (seal_input H))]"

definition testnet_api_call ::
  "('v, 'g) environment \<Rightarrow> 'x host \<Rightarrow> codec \<Rightarrow> 'x fungibles_config \<Rightarrow> 'v \<times> 'x fungibles
     \<Rightarrow> (dispatch_error + ret_val) \<times> 'v \<times> 'x fungibles" where
  "testnet_api_call E H C cfg =
     extension_call E (seal_debug_message H) (execute_tuple (testnet_functions E H C cfg))"

section \<open>Agreement with devnet\<close>

lemma testnet_indexes: "testnet_index ''Contracts'' = contracts_index" "testnet_index ''Fungibles'' = 150"
  by (simp_all add: testnet_index_def testnet_pallets_def contracts_index_def)

lemma testnet_decoding_failed_eq: "testnet_decoding_failed = contracts_decoding_failed"
  by (simp add: testnet_decoding_failed_def contracts_decoding_failed_def testnet_indexes)

lemma testnet_V0Error_from_eq: "testnet_V0Error_from e = V0Error_from e"
  by (cases e) (auto simp: testnet_indexes split: sp_token_error.splits sp_arithmetic_error.splits
      sp_transactional_error.splits)

lemma testnet_error_convert_eq: "testnet_error_convert E = versioned_error_convert E"
  by (auto simp: fun_eq_iff testnet_error_convert_def versioned_error_convert_def testnet_error_try_from_def
      versioned_error_try_from_def testnet_decoding_failed_eq testnet_V0Error_from_eq Let_def)

lemma testnet_filter_call_eq: "testnet_filter_call = filter_call"
  by (simp add: fun_eq_iff testnet_filter_call_def filter_call_def testnet_base_call_filter_eq)

text \<open>The reads of the two runtimes are different types with the same content.\<close>

fun as_read :: "testnet_read \<Rightarrow> runtime_read" where
  "as_read (testnet_read.Fungibles key) = runtime_read.Fungibles key"

fun as_result :: "testnet_result \<Rightarrow> runtime_result" where
  "as_result (testnet_result.Fungibles r) = runtime_result.Fungibles r"

lemma testnet_decode_read_eq:
  "map_option runtime_read_from (decode_versioned_read b) =
   map_option (\<lambda>r. as_read (testnet_read_from r)) (testnet_decode_versioned_read b)"
  by (simp add: testnet_decode_versioned_read_def decode_versioned_read_def testnet_decode_read_def
      decode_runtime_read_def option.map_comp comp_def split: list.split)

lemma testnet_read_eq:
  "runtime_read_weight cfg (as_read d) = testnet_read_weight cfg d"
  "runtime_read_read cfg (as_read d) s = as_result (testnet_read_read cfg d s)"
  "filter_read (as_read d) = testnet_filter_read d"
  "encode_vec D = encode_vec C \<Longrightarrow> convert_read_result E C (as_result res) v = testnet_result_convert E D res v"
proof -
  obtain f where d: "d = testnet_read.Fungibles f" by (cases d)
  obtain g where res: "res = testnet_result.Fungibles g" by (cases res)
  show "runtime_read_weight cfg (as_read d) = testnet_read_weight cfg d"
    "runtime_read_read cfg (as_read d) s = as_result (testnet_read_read cfg d s)" by (simp_all add: d)
  show "filter_read (as_read d) = testnet_filter_read d" by (cases f) (simp_all add: d testnet_filter_read_def)
  show "encode_vec D = encode_vec C \<Longrightarrow> convert_read_result E C (as_result res) v = testnet_result_convert E D res v"
    by (simp add: res convert_read_result_def versioned_result_convert_def versioned_runtime_result_try_from_def
        testnet_result_convert_def testnet_result_try_from_def testnet_decoding_failed_eq andthen_def Let_def)
qed

lemma try_env_decodes:
  assumes "\<And>b. decode b = map_option f (decode' b)"
  shows "try_env (decodes E ret err pre decode v) k = try_env (decodes E ret err pre decode' v) (\<lambda>d. k (f d))"
  by (simp add: decodes_def try_env_def Let_def assms split: prod.split sum.split option.split)

text \<open>Reading state does not depend on the type of the reads: when decoding, weights, filter, reads and the
  conversion of results correspond, the outcome and all effects are the same.\<close>

lemma read_state_execute_cong:
  assumes "\<And>d. rt_read_weight R (f d) = rt_read_weight S d" and "\<And>d. contains (f d) = contains' d"
    and "\<And>d r v. conv (rt_read R (f d) r) v = conv' (rt_read S d r) v"
    and "rt_call_filtered R = rt_call_filtered S" and "\<And>b. decode b = map_option f (decode' b)"
  shows "read_state_execute E R (decodes E ret err pre decode) contains conv seal s =
    read_state_execute E S (decodes E ret err pre decode') contains' conv' seal s"
  by (simp only: read_state_execute_def try_env_decodes [OF assms(5)] assms(1-4) Let_def)

section \<open>Two runtimes\<close>

text \<open>The parameters of the two runtimes: the same contracts pallet and the same codec of byte strings; the
  calls of other pallets and their codecs may differ.\<close>

definition same_host :: "'x host \<Rightarrow> 'x host \<Rightarrow> bool" where
  "same_host H G \<longleftrightarrow>
     seal_debug_message G = seal_debug_message H \<and> seal_return G = seal_return H \<and> seal_input G = seal_input H \<and>
     call_filtered G = call_filtered H \<and> extract_actual_weight G = extract_actual_weight H"

definition same_bytes :: "codec \<Rightarrow> codec \<Rightarrow> bool" where
  "same_bytes C D \<longleftrightarrow> encode_vec D = encode_vec C \<and> decode_vec D = decode_vec C"

text \<open>The law of the codec of \<open>RuntimeCall\<close>: only the index of the fungibles pallet gives one of its calls.\<close>

definition separates :: "codec \<Rightarrow> bool" where
  "separates C \<longleftrightarrow> (\<forall>m b f. decode_other_call C m b \<noteq> Some (runtime_call.Fungibles f))"

lemma decode_fungibles_call_same: "same_bytes C D \<Longrightarrow> decode_fungibles_call D = decode_fungibles_call C"
  by (auto simp: fun_eq_iff same_bytes_def decode_fungibles_call_def split: list.split)

lemma testnet_read_state_eq:
  assumes "same_host H G" and "same_bytes C D"
  shows "read_state_execute E (api_runtime H cfg) (decode_read E H) filter_read (convert_read_result E C) (seal_input H) s =
   read_state_execute E (testnet_runtime G cfg)
     (decodes E (seal_return G) testnet_decoding_failed (prepender_process E)
       (\<lambda>b. map_option testnet_read_from (testnet_decode_versioned_read b)))
     testnet_filter_read (testnet_result_convert E D) (seal_input G) s"
proof -
  have "seal_return G = seal_return H" "seal_input G = seal_input H" "call_filtered G = call_filtered H"
    and D: "encode_vec D = encode_vec C"
    using assms by (simp_all add: same_host_def same_bytes_def)
  then show ?thesis
    unfolding decode_read_def testnet_decoding_failed_eq
    by (simp only:) (rule read_state_execute_cong [where f = as_read],
       simp_all add: api_runtime_def testnet_runtime_def testnet_read_eq(1-3) testnet_read_eq(4) [OF D]
         testnet_decode_read_eq option.map_comp comp_def)
qed

text \<open>The outcome of a dispatched call that the filter refuses, or that is not decoded at all.\<close>

definition refused :: "'x host \<Rightarrow> 'x fungibles \<Rightarrow> (dispatch_error + ret_val) \<times> 'v \<times> 'x fungibles \<Rightarrow> bool" where
  "refused H s r \<longleftrightarrow>
     snd (snd r) = s \<and> (\<forall>code. fst r = Inr (Converging code) \<longrightarrow> code = v0_status (call_filtered H))"

lemma decoded_call:
  "runtime_call_from (versioned_runtime_call.V0 c) = c" "testnet_call_from (testnet_versioned_call.V0 c) = c"
  by simp_all

context chain_environment
begin

text \<open>Decoding depends only on what the request holds.\<close>

lemma module_request: "request v' = request v \<Longrightarrow> version E v' = version E v \<and> module_and_index E v' = module_and_index E v"
  using request_fields [of v' v] by (simp add: version_def module_and_index_def)

lemma decodes_cong:
  assumes "\<And>input. decode (version E v # fst (module_and_index E v) # snd (module_and_index E v) # input) =
    decode' (version E v # fst (module_and_index E v) # snd (module_and_index E v) # input)"
  shows "decodes E ret err (prepender_process E) decode v = decodes E ret err (prepender_process E) decode' v"
proof (cases "env_charge_weight E (ret (env_in_len E v)) v")
  case (Pair r u)
  show ?thesis
  proof (cases r)
    case (Inr g)
    then have "request u = request v" using charge Pair by blast
    from module_request [OF this] show ?thesis
      using Pair assms
      by (simp add: decodes_def try_env_def Let_def prepender_process_def Inr split_beta split: sum.split)
  qed (simp add: decodes_def try_env_def Pair)
qed

lemma decodes_outside:
  assumes "decodes E ret err (prepender_process E) decode v = (Inr c, u)"
  shows "request u = request v \<and> (\<exists>input. decode (version E v # fst (module_and_index E v) # snd (module_and_index E v) # input) = Some c)"
proof -
  note dec = decodes_Inr [OF assms]
  then show ?thesis
    using module_request [of u v] by (auto simp: prepender_process_def Let_def split_beta)
qed

text \<open>A call that is not one of the fungibles pallet never runs.\<close>

lemma dispatch_call_refused:
  assumes "\<And>c u. decode v = (Inr c, u) \<Longrightarrow> request u = request v \<and> (\<nexists>f. c = runtime_call.Fungibles f)"
    and "\<And>e u. request u = request v \<Longrightarrow> convert e u = Inr (Converging (v0_status e)) \<or> (\<exists>e'. convert e u = Inl e')"
    and "\<And>c. contains c \<longleftrightarrow> (\<exists>f. c = runtime_call.Fungibles f)"
    and "rt_dispatch R = runtime_dispatch H cfg"
  shows "refused H s (dispatch_call_execute E R decode contains convert (v, s))"
proof (cases "decode v")
  case (Pair r u)
  show ?thesis
  proof (cases r)
    case (Inl e)
    with Pair show ?thesis by (simp add: dispatch_call_execute_def refused_def)
  next
    case (Inr c)
    with assms(1) Pair have u: "request u = request v" and c: "\<nexists>f. c = runtime_call.Fungibles f" by blast+
    have filtered: "runtime_dispatch H cfg contains og c s = Inl (call_filtered H, None)" for og
      using assms(3) c by (simp add: runtime_dispatch_def)
    show ?thesis
    proof (cases "env_charge_weight E (rt_call_weight R c) u")
      case (Pair q w)
      show ?thesis
      proof (cases q)
        case (Inl e)
        with Pair \<open>decode v = (r, u)\<close> \<open>r = Inr c\<close> show ?thesis
          by (simp add: dispatch_call_execute_def refused_def)
      next
        case (Inr g)
        have "request (env_adjust_weight E g x w) = request v" for x
          using charge [of _ u g w] Pair Inr u adjust_keeps by simp
        then have "convert (call_filtered H) (env_adjust_weight E g x w) = Inr (Converging code) \<Longrightarrow>
            code = v0_status (call_filtered H)" for x code
          using assms(2) [of "env_adjust_weight E g x w" "call_filtered H"] by auto
        with Pair Inr \<open>decode v = (r, u)\<close> \<open>r = Inr c\<close> show ?thesis
          by (simp add: dispatch_call_execute_def refused_def assms(4) filtered Let_def)
      qed
    qed
  qed
qed

end

text \<open>Both runtimes convert an error of version zero to its status code.\<close>

lemma versioned_error_convert_cases:
  "versioned_error_convert E e u = Inr (Converging (v0_status e)) \<or> (\<exists>e'. versioned_error_convert E e u = Inl e')"
  by (simp add: versioned_error_convert_def versioned_error_try_from_def v0_status_def)

text \<open>A call of the fungibles module: the same decoding, the same weights, the same dispatch.\<close>

lemma testnet_call_of_fungibles:
  assumes "same_host H G" and "c = runtime_call.Fungibles f"
  shows "rt_call_weight (testnet_runtime G cfg) c = rt_call_weight (api_runtime H cfg) c"
    and "rt_dispatch (testnet_runtime G cfg) filter_call og c s = rt_dispatch (api_runtime H cfg) filter_call og c s"
    and "rt_extract_actual_weight (testnet_runtime G cfg) = rt_extract_actual_weight (api_runtime H cfg)"
  using assms by (simp_all add: testnet_runtime_def api_runtime_def runtime_dispatch_def same_host_def)

lemma dispatch_call_execute_cong:
  assumes "decode v = decode' v"
    and "\<And>c u. decode v = (Inr c, u) \<Longrightarrow> rt_call_weight R c = rt_call_weight S c \<and>
      (\<forall>og. rt_dispatch R contains og c s = rt_dispatch S contains og c s)"
    and "rt_extract_actual_weight R = rt_extract_actual_weight S"
  shows "dispatch_call_execute E R decode contains convert (v, s) = dispatch_call_execute E S decode' contains convert (v, s)"
proof (cases "decode' v")
  case (Pair r u)
  with assms show ?thesis by (cases r) (simp_all add: dispatch_call_execute_def Let_def split: prod.split sum.split)
qed

abbreviation testnet_decode ::
  "('v, 'g) environment \<Rightarrow> 'x host \<Rightarrow> codec \<Rightarrow> 'v \<Rightarrow> (dispatch_error + runtime_call) \<times> 'v" where
  "testnet_decode E G D \<equiv> decodes E (seal_return G) testnet_decoding_failed (prepender_process E)
     (\<lambda>b. map_option testnet_call_from (testnet_decode_versioned_call D b))"

lemma decode_bytes:
  "map_option runtime_call_from (decode_versioned_call C (ver # m # i # b)) =
     (if ver \<noteq> 0 then None
      else if m = 150 then map_option runtime_call.Fungibles (decode_fungibles_call C (i # b))
      else if m \<in> set (map snd devnet_pallets) then decode_other_call C m (i # b) else None)"
  "map_option testnet_call_from (testnet_decode_versioned_call D (ver # m # i # b)) =
     (if ver \<noteq> 0 then None
      else if m = 150 then map_option runtime_call.Fungibles (decode_fungibles_call D (i # b))
      else if m \<in> set (map snd testnet_pallets) then decode_other_call D m (i # b) else None)"
  by (simp_all add: decode_versioned_call_def testnet_decode_versioned_call_def decode_runtime_call_def
      testnet_decode_call_def testnet_indexes option.map_comp comp_def option.map_ident)

context chain_environment
begin

lemma testnet_dispatch_same:
  assumes "same_host H G" and "same_bytes C D" and m: "fst (module_and_index E v) = 150"
  shows "dispatch_call_execute E (testnet_runtime G cfg) (testnet_decode E G D) testnet_filter_call
      (testnet_error_convert E) (v, s) =
    dispatch_call_execute E (api_runtime H cfg) (decode_call E H C) filter_call (versioned_error_convert E) (v, s)"
  unfolding testnet_filter_call_eq testnet_error_convert_eq
proof (rule dispatch_call_execute_cong)
  have ret: "seal_return G = seal_return H" using assms(1) by (simp add: same_host_def)
  show "testnet_decode E G D v = decode_call E H C v"
    unfolding decode_call_def testnet_decoding_failed_eq ret
    by (rule decodes_cong) (simp add: decode_bytes m decode_fungibles_call_same [OF assms(2)])
  fix c u assume "testnet_decode E G D v = (Inr c, u)"
  from decodes_outside [OF this] obtain f where f: "c = runtime_call.Fungibles f"
    by (auto simp: decode_bytes m split: if_splits)
  show "rt_call_weight (testnet_runtime G cfg) c = rt_call_weight (api_runtime H cfg) c \<and>
      (\<forall>og. rt_dispatch (testnet_runtime G cfg) filter_call og c s = rt_dispatch (api_runtime H cfg) filter_call og c s)"
    using testnet_call_of_fungibles(1,2) [OF assms(1) f] by blast
qed (rule testnet_call_of_fungibles(3) [OF assms(1) refl])

lemma other_module_refused:
  assumes "separates C" and "separates D" and "same_host H G" and m: "fst (module_and_index E v) \<noteq> 150"
  shows "refused H s (dispatch_call_execute E (api_runtime H cfg) (decode_call E H C) filter_call
      (versioned_error_convert E) (v, s))"
    and "refused H s (dispatch_call_execute E (testnet_runtime G cfg) (testnet_decode E G D) testnet_filter_call
      (testnet_error_convert E) (v, s))"
proof -
  have "request u = request v \<and> (\<nexists>f. c = runtime_call.Fungibles f)" if "decode_call E H C v = (Inr c, u)" for c u
    using decodes_outside [OF that [unfolded decode_call_def]] assms(1) m
    by (auto simp: decode_bytes separates_def split: if_splits)
  then show "refused H s (dispatch_call_execute E (api_runtime H cfg) (decode_call E H C) filter_call
      (versioned_error_convert E) (v, s))"
    by (rule dispatch_call_refused)
       (simp_all add: versioned_error_convert_cases filter_call_fungibles api_runtime_def)
  have "request u = request v \<and> (\<nexists>f. c = runtime_call.Fungibles f)" if "testnet_decode E G D v = (Inr c, u)" for c u
    using decodes_outside [OF that] assms(2) m by (auto simp: decode_bytes separates_def split: if_splits)
  then have "refused G s (dispatch_call_execute E (testnet_runtime G cfg) (testnet_decode E G D) filter_call
      (versioned_error_convert E) (v, s))"
    by (rule dispatch_call_refused)
       (simp_all add: versioned_error_convert_cases filter_call_fungibles testnet_runtime_def)
  then show "refused H s (dispatch_call_execute E (testnet_runtime G cfg) (testnet_decode E G D) testnet_filter_call
      (testnet_error_convert E) (v, s))"
    using assms(3) by (simp add: testnet_filter_call_eq testnet_error_convert_eq refused_def same_host_def)
qed

lemma testnet_overhead:
  assumes "same_host H G"
  shows "env_charge_weight E (seal_debug_message H (env_in_len E v)) v = (Inl e, u) \<Longrightarrow>
     testnet_api_call E G D cfg (v, s) = (Inl e, u, s)"
  "env_charge_weight E (seal_debug_message H (env_in_len E v)) v = (Inr g, u) \<Longrightarrow>
     testnet_api_call E G D cfg (v, s) = execute_tuple (testnet_functions E G D cfg) (u, s)"
  using assms by (simp_all add: testnet_api_call_def extension_call_def same_host_def)

lemma testnet_tuple:
  assumes "same_host H G" and "same_bytes C D" and "separates C" and "separates D"
  shows "func_id E v \<noteq> 0 \<or> fst (module_and_index E v) = 150 \<Longrightarrow>
      execute_tuple (testnet_functions E G D cfg) (v, s) = execute_tuple (api_functions E H C cfg) (v, s)"
    and "func_id E v = 0 \<Longrightarrow> fst (module_and_index E v) \<noteq> 150 \<Longrightarrow>
      refused H s (execute_tuple (api_functions E H C cfg) (v, s)) \<and>
      refused H s (execute_tuple (testnet_functions E G D cfg) (v, s))"
  using testnet_dispatch_same [OF assms(1,2)] other_module_refused [OF assms(3,4,1)]
    testnet_read_state_eq [OF assms(1,2), of E cfg "(v, s)", symmetric]
  by (auto simp: testnet_functions_def api_functions_def identified_by_first_byte_def)

lemma testnet_unknown_module:
  assumes "func_id E v = 0" and "fst (module_and_index E v) \<notin> set (map snd testnet_pallets)"
  shows "\<exists>e. fst (execute_tuple (testnet_functions E G D cfg) (v, s)) = Inl e"
proof -
  have "fst (module_and_index E v) \<noteq> 150" using assms(2) by (auto simp: testnet_pallets_def)
  then have "testnet_decode E G D v \<noteq> (Inr c, u)" for c u
    using decodes_outside [of "seal_return G" testnet_decoding_failed
        "\<lambda>b. map_option testnet_call_from (testnet_decode_versioned_call D b)" v c u] assms(2)
    by (auto simp: decode_bytes split: if_splits)
  then obtain e u where "testnet_decode E G D v = (Inl e, u)"
    by (cases "testnet_decode E G D v"; cases "fst (testnet_decode E G D v)") auto
  with assms(1) show ?thesis
    by (simp add: testnet_functions_def identified_by_first_byte_def dispatch_call_execute_def)
qed

lemma testnet_api_agrees:
  assumes "same_host H G" and "same_bytes C D" and "separates C" and "separates D"
  shows "(func_id E v \<noteq> 0 \<or> fst (module_and_index E v) = 150 \<longrightarrow>
      testnet_api_call E G D cfg (v, s) = api_call E H C cfg (v, s)) \<and>
    (func_id E v = 0 \<and> fst (module_and_index E v) \<noteq> 150 \<longrightarrow>
      refused H s (api_call E H C cfg (v, s)) \<and> refused H s (testnet_api_call E G D cfg (v, s))) \<and>
    (func_id E v = 0 \<and> fst (module_and_index E v) \<notin> set (map snd testnet_pallets) \<longrightarrow>
      (\<exists>e. fst (testnet_api_call E G D cfg (v, s)) = Inl e))"
proof (cases "env_charge_weight E (seal_debug_message H (env_in_len E v)) v")
  case (Pair r u)
  show ?thesis
  proof (cases r)
    case (Inl e)
    with Pair have u: "env_charge_weight E (seal_debug_message H (env_in_len E v)) v = (Inl e, u)" by simp
    show ?thesis
      unfolding testnet_overhead(1) [OF assms(1) u] api_call_overhead(1) [OF u] by (simp add: refused_def)
  next
    case (Inr g)
    then have u: "env_charge_weight E (seal_debug_message H (env_in_len E v)) v = (Inr g, u)" using Pair by simp
    then have "request u = request v" using charge by blast
    from request_fields [OF this] module_request [OF this]
    have ids: "func_id E u = func_id E v" "module_and_index E u = module_and_index E v"
      by (simp_all add: func_id_def)
    show ?thesis
      unfolding testnet_overhead(2) [OF assms(1) u] api_call_overhead(2) [OF u]
      using testnet_tuple [OF assms, of u] testnet_unknown_module [of u] by (auto simp: ids)
  qed
qed

end

section \<open>Properties\<close>

text \<open>C27: what a contract sees on testnet and on devnet. The two runtimes share the contracts pallet and the
  codec of byte strings, but testnet has no \<open>Ismp\<close> and no \<open>IsmpParachain\<close> pallet, so their codecs and
  dispatch of the calls of other pallets differ. Every read, every unknown function and every call of
  the fungibles module has the same result on both, charges the same weights, writes the same output
  and changes the runtime state in the same way. A call of any other module never runs on either: it
  leaves the runtime state as it was, and the contract gets an error of the extension or the status
  code of a filtered call; which of the two may differ, and on testnet a module it does not have is
  always an error of the extension.\<close>

theorem testnet_api_same:
  assumes "chain_environment E charges request" and "same_host H G" and "same_bytes C D"
    and "separates C" and "separates D"
  shows "(func_id E v \<noteq> 0 \<or> fst (module_and_index E v) = 150 \<longrightarrow>
      testnet_api_call E G D cfg (v, s) = api_call E H C cfg (v, s)) \<and>
    (func_id E v = 0 \<and> fst (module_and_index E v) \<noteq> 150 \<longrightarrow>
      refused H s (api_call E H C cfg (v, s)) \<and> refused H s (testnet_api_call E G D cfg (v, s))) \<and>
    (func_id E v = 0 \<and> fst (module_and_index E v) \<notin> set (map snd testnet_pallets) \<longrightarrow>
      (\<exists>e. fst (testnet_api_call E G D cfg (v, s)) = Inl e))"
  by (rule chain_environment.testnet_api_agrees [OF assms])

text \<open>Two codecs that differ on the calls of other pallets, and a request to the \<open>Ismp\<close> pallet: devnet refuses
  the call by its filter, testnet does not decode it.\<close>

definition devnet_codec :: codec where
  "devnet_codec = demo_codec\<lparr>decode_other_call := (\<lambda>m b. Some (OtherCall m b))\<rparr>"

definition ismp_request :: api_request where
  "ismp_request = \<lparr>req_id = build_extension_method 0 0 38 0, req_input = []\<rparr>"

lemma mock_frame:
  "func_id mock_env (v\<lparr>mock_charged := ws\<rparr>) = func_id mock_env v" "version mock_env (v\<lparr>mock_charged := ws\<rparr>) = version mock_env v"
  "module_and_index mock_env (v\<lparr>mock_charged := ws\<rparr>) = module_and_index mock_env v"
  by (simp_all add: func_id_def version_def module_and_index_def mock_env_def)

lemma mock_charge:
  "env_charge_weight mock_env w v = (Inr w, v\<lparr>mock_charged := mock_charged v @ [w]\<rparr>)"
  "env_adjust_weight mock_env g w v = v\<lparr>mock_charged := replace_last g w (mock_charged v)\<rparr>"
  "env_read mock_env n v = Inr (mock_buffer v)"
  by (simp_all add: mock_env_def)

theorem testnet_api_same_witness:
  "testnet_api_call mock_env demo_host demo_codec demo_fungibles (mock_contract (api_transfer 1 6 40) 5, demo_fungibles_state) =
     api_call mock_env demo_host devnet_codec demo_fungibles (mock_contract (api_transfer 1 6 40) 5, demo_fungibles_state) \<and>
   (\<exists>v. api_call mock_env demo_host devnet_codec demo_fungibles (mock_contract ismp_request 5, demo_fungibles_state) =
     (Inr (Converging (v0_status (call_filtered demo_host))), v, demo_fungibles_state)) \<and>
   (\<exists>e. fst (testnet_api_call mock_env demo_host demo_codec demo_fungibles
     (mock_contract ismp_request 5, demo_fungibles_state)) = Inl e)"
proof -
  have laws: "same_host demo_host demo_host" "same_bytes devnet_codec demo_codec" "separates devnet_codec" "separates demo_codec"
    by (simp_all add: same_host_def same_bytes_def separates_def devnet_codec_def demo_codec_def)
  note agree = testnet_api_same [OF mock.chain_environment_axioms laws]
  have transfer: "le_bytes 4 (req_id (api_transfer 1 6 40)) = [0, 0, 150, 3]"
    using call_request_id [of demo_codec "fungibles_call.Transfer 1 6 40"] by simp
  have ismp: "le_bytes 4 (req_id ismp_request) = [0, 0, 38, 0]"
    by (simp add: ismp_request_def build_extension_method_def le_bytes_4_from del: from_le_bytes.simps)
  note ids = carries_ids [OF carries_mock transfer, of 5] carries_ids [OF carries_mock ismp, of 5]
  have missing: "(38 :: u8) \<notin> set (map snd testnet_pallets)" by (simp add: testnet_pallets_def)
  have "\<exists>v. api_call mock_env demo_host devnet_codec demo_fungibles (mock_contract ismp_request 5, demo_fungibles_state) =
     (Inr (Converging (v0_status (call_filtered demo_host))), v, demo_fungibles_state)"
    using carries_ids [OF carries_mock ismp, of 5]
    by (auto simp: api_call_def extension_call_def api_functions_def identified_by_first_byte_def
        dispatch_call_execute_def decode_call_def decodes_def try_env_def prepender_process_def Let_def mock_charge mock_frame
        decode_versioned_call_def decode_runtime_call_def devnet_codec_def devnet_pallets_def api_runtime_def runtime_dispatch_def filter_call_fungibles
        versioned_error_convert_def versioned_error_try_from_def v0_status_def)
  with agree [of "mock_contract (api_transfer 1 6 40) 5"] agree [of "mock_contract ismp_request 5"] ids missing
  show ?thesis by simp
qed

end
