(* ===== verification/Nfts_Weights.thy ===== *)
theory Nfts_Weights
  imports Runtime_Prices
begin

text \<open>
  The weights of the NFTs pallet: \<open>SubstrateWeight\<close> of \<open>pallets/nfts/src/weights.rs\<close>, the weight that
  each dispatchable of \<open>lib.rs\<close> declares, and the room a block of devnet has for it (\<open>RuntimeBlockWeights\<close> of
  \<open>runtime/devnet/src/lib.rs\<close>, the ratios of \<open>runtime/common/src/lib.rs\<close>, the constants of
  \<open>runtime/devnet/src/weights\<close>). The size of a relay chain proof of validity and FRAME's derivation of the
  largest extrinsic are outside code and parameters.
\<close>

section \<open>Database weights and sums\<close>

record db_weight =
  db_read :: nat
  db_write :: nat

definition db_reads_weight :: "db_weight \<Rightarrow> nat \<Rightarrow> weight" where
  "db_reads_weight db n = from_parts (min (db_read db * n) u64_max) 0"

definition db_writes_weight :: "db_weight \<Rightarrow> nat \<Rightarrow> weight" where
  "db_writes_weight db n = from_parts (min (db_write db * n) u64_max) 0"

definition RocksDbWeight :: db_weight where
  "RocksDbWeight = \<lparr>db_read = 25000 * 1000, db_write = 100000 * 1000\<rparr>"

text \<open>A chain of \<open>saturating_add\<close>.\<close>

definition weight_sum :: "weight \<Rightarrow> weight list \<Rightarrow> weight" where
  "weight_sum w ws = foldl weight_saturating_add w ws"

section \<open>The weights of the pallet\<close>

definition nfts_weight_create :: "db_weight \<Rightarrow> weight" where
  "nfts_weight_create db =
     weight_sum (from_parts 36679000 3549)
       [db_reads_weight db 2,
        db_writes_weight db 5]"

definition nfts_weight_force_create :: "db_weight \<Rightarrow> weight" where
  "nfts_weight_force_create db =
     weight_sum (from_parts 20384000 3549)
       [db_reads_weight db 2,
        db_writes_weight db 5]"

definition nfts_weight_destroy :: "db_weight \<Rightarrow> nat \<Rightarrow> nat \<Rightarrow> nat \<Rightarrow> weight" where
  "nfts_weight_destroy db m c a =
     weight_sum (from_parts 1249191963 2523990)
       [weight_saturating_mul (from_parts 6470227 0) a,
        db_reads_weight db 1004,
        db_reads_weight db (min (1 * a) u64_max),
        db_writes_weight db 1005,
        db_writes_weight db (min (1 * a) u64_max),
        weight_saturating_mul (from_parts 0 2954) a]"

definition nfts_weight_mint :: "db_weight \<Rightarrow> weight" where
  "nfts_weight_mint db =
     weight_sum (from_parts 50592000 4326)
       [db_reads_weight db 5,
        db_writes_weight db 4]"

definition nfts_weight_force_mint :: "db_weight \<Rightarrow> weight" where
  "nfts_weight_force_mint db =
     weight_sum (from_parts 48772000 4326)
       [db_reads_weight db 5,
        db_writes_weight db 4]"

definition nfts_weight_burn :: "db_weight \<Rightarrow> weight" where
  "nfts_weight_burn db =
     weight_sum (from_parts 55136000 4326)
       [db_reads_weight db 5,
        db_writes_weight db 7]"

definition nfts_weight_transfer :: "db_weight \<Rightarrow> weight" where
  "nfts_weight_transfer db =
     weight_sum (from_parts 43288000 4326)
       [db_reads_weight db 5,
        db_writes_weight db 5]"

definition nfts_weight_redeposit :: "db_weight \<Rightarrow> nat \<Rightarrow> weight" where
  "nfts_weight_redeposit db i =
     weight_sum (from_parts 14664000 3549)
       [weight_saturating_mul (from_parts 15911377 0) i,
        db_reads_weight db 2,
        db_reads_weight db (min (1 * i) u64_max),
        db_writes_weight db (min (1 * i) u64_max),
        weight_saturating_mul (from_parts 0 3336) i]"

definition nfts_weight_lock_item_transfer :: "db_weight \<Rightarrow> weight" where
  "nfts_weight_lock_item_transfer db =
     weight_sum (from_parts 18966000 3534)
       [db_reads_weight db 2,
        db_writes_weight db 1]"

definition nfts_weight_unlock_item_transfer :: "db_weight \<Rightarrow> weight" where
  "nfts_weight_unlock_item_transfer db =
     weight_sum (from_parts 18593000 3534)
       [db_reads_weight db 2,
        db_writes_weight db 1]"

definition nfts_weight_lock_collection :: "db_weight \<Rightarrow> weight" where
  "nfts_weight_lock_collection db =
     weight_sum (from_parts 15762000 3549)
       [db_reads_weight db 2,
        db_writes_weight db 1]"

definition nfts_weight_transfer_ownership :: "db_weight \<Rightarrow> weight" where
  "nfts_weight_transfer_ownership db =
     weight_sum (from_parts 27117000 3593)
       [db_reads_weight db 3,
        db_writes_weight db 5]"

definition nfts_weight_set_team :: "db_weight \<Rightarrow> weight" where
  "nfts_weight_set_team db =
     weight_sum (from_parts 39486000 6078)
       [db_reads_weight db 3,
        db_writes_weight db 5]"

definition nfts_weight_force_collection_owner :: "db_weight \<Rightarrow> weight" where
  "nfts_weight_force_collection_owner db =
     weight_sum (from_parts 16227000 3549)
       [db_reads_weight db 1,
        db_writes_weight db 3]"

definition nfts_weight_force_collection_config :: "db_weight \<Rightarrow> weight" where
  "nfts_weight_force_collection_config db =
     weight_sum (from_parts 12690000 3549)
       [db_reads_weight db 1,
        db_writes_weight db 1]"

definition nfts_weight_lock_item_properties :: "db_weight \<Rightarrow> weight" where
  "nfts_weight_lock_item_properties db =
     weight_sum (from_parts 17769000 3534)
       [db_reads_weight db 2,
        db_writes_weight db 1]"

definition nfts_weight_set_attribute :: "db_weight \<Rightarrow> weight" where
  "nfts_weight_set_attribute db =
     weight_sum (from_parts 50584000 3944)
       [db_reads_weight db 5,
        db_writes_weight db 2]"

definition nfts_weight_force_set_attribute :: "db_weight \<Rightarrow> weight" where
  "nfts_weight_force_set_attribute db =
     weight_sum (from_parts 25465000 3944)
       [db_reads_weight db 2,
        db_writes_weight db 2]"

definition nfts_weight_clear_attribute :: "db_weight \<Rightarrow> weight" where
  "nfts_weight_clear_attribute db =
     weight_sum (from_parts 46458000 3944)
       [db_reads_weight db 4,
        db_writes_weight db 2]"

definition nfts_weight_approve_item_attributes :: "db_weight \<Rightarrow> weight" where
  "nfts_weight_approve_item_attributes db =
     weight_sum (from_parts 16191000 4326)
       [db_reads_weight db 2,
        db_writes_weight db 1]"

definition nfts_weight_cancel_item_attributes_approval :: "db_weight \<Rightarrow> nat \<Rightarrow> weight" where
  "nfts_weight_cancel_item_attributes_approval db n =
     weight_sum (from_parts 25144000 4326)
       [weight_saturating_mul (from_parts 6523101 0) n,
        db_reads_weight db 4,
        db_reads_weight db (min (1 * n) u64_max),
        db_writes_weight db 2,
        db_writes_weight db (min (1 * n) u64_max),
        weight_saturating_mul (from_parts 0 2954) n]"

definition nfts_weight_set_metadata :: "db_weight \<Rightarrow> weight" where
  "nfts_weight_set_metadata db =
     weight_sum (from_parts 41098000 3812)
       [db_reads_weight db 5,
        db_writes_weight db 2]"

definition nfts_weight_clear_metadata :: "db_weight \<Rightarrow> weight" where
  "nfts_weight_clear_metadata db =
     weight_sum (from_parts 39842000 3812)
       [db_reads_weight db 4,
        db_writes_weight db 2]"

definition nfts_weight_set_collection_metadata :: "db_weight \<Rightarrow> weight" where
  "nfts_weight_set_collection_metadata db =
     weight_sum (from_parts 38088000 3759)
       [db_reads_weight db 4,
        db_writes_weight db 2]"

definition nfts_weight_clear_collection_metadata :: "db_weight \<Rightarrow> weight" where
  "nfts_weight_clear_collection_metadata db =
     weight_sum (from_parts 38406000 3759)
       [db_reads_weight db 4,
        db_writes_weight db 2]"

definition nfts_weight_approve_transfer :: "db_weight \<Rightarrow> weight" where
  "nfts_weight_approve_transfer db =
     weight_sum (from_parts 19267000 4326)
       [db_reads_weight db 2,
        db_writes_weight db 1]"

definition nfts_weight_cancel_approval :: "db_weight \<Rightarrow> weight" where
  "nfts_weight_cancel_approval db =
     weight_sum (from_parts 16603000 4326)
       [db_reads_weight db 1,
        db_writes_weight db 1]"

definition nfts_weight_clear_all_transfer_approvals :: "db_weight \<Rightarrow> weight" where
  "nfts_weight_clear_all_transfer_approvals db =
     weight_sum (from_parts 15607000 4326)
       [db_reads_weight db 1,
        db_writes_weight db 1]"

definition nfts_weight_set_accept_ownership :: "db_weight \<Rightarrow> weight" where
  "nfts_weight_set_accept_ownership db =
     weight_sum (from_parts 13635000 3517)
       [db_reads_weight db 1,
        db_writes_weight db 1]"

definition nfts_weight_set_collection_max_supply :: "db_weight \<Rightarrow> weight" where
  "nfts_weight_set_collection_max_supply db =
     weight_sum (from_parts 17453000 3549)
       [db_reads_weight db 2,
        db_writes_weight db 1]"

definition nfts_weight_update_mint_settings :: "db_weight \<Rightarrow> weight" where
  "nfts_weight_update_mint_settings db =
     weight_sum (from_parts 16629000 3538)
       [db_reads_weight db 2,
        db_writes_weight db 1]"

definition nfts_weight_set_price :: "db_weight \<Rightarrow> weight" where
  "nfts_weight_set_price db =
     weight_sum (from_parts 22849000 4326)
       [db_reads_weight db 3,
        db_writes_weight db 1]"

definition nfts_weight_buy_item :: "db_weight \<Rightarrow> weight" where
  "nfts_weight_buy_item db =
     weight_sum (from_parts 51816000 4326)
       [db_reads_weight db 6,
        db_writes_weight db 5]"

definition nfts_weight_pay_tips :: "db_weight \<Rightarrow> nat \<Rightarrow> weight" where
  "nfts_weight_pay_tips db n =
     weight_sum (from_parts 3710869 0)
       [weight_saturating_mul (from_parts 2201869 0) n]"

definition nfts_weight_create_swap :: "db_weight \<Rightarrow> weight" where
  "nfts_weight_create_swap db =
     weight_sum (from_parts 19506000 7662)
       [db_reads_weight db 2,
        db_writes_weight db 1]"

definition nfts_weight_cancel_swap :: "db_weight \<Rightarrow> weight" where
  "nfts_weight_cancel_swap db =
     weight_sum (from_parts 19609000 4326)
       [db_reads_weight db 2,
        db_writes_weight db 1]"

definition nfts_weight_claim_swap :: "db_weight \<Rightarrow> weight" where
  "nfts_weight_claim_swap db =
     weight_sum (from_parts 85325000 7662)
       [db_reads_weight db 9,
        db_writes_weight db 10]"

definition nfts_weight_mint_pre_signed :: "db_weight \<Rightarrow> nat \<Rightarrow> weight" where
  "nfts_weight_mint_pre_signed db n =
     weight_sum (from_parts 139474918 6078)
       [weight_saturating_mul (from_parts 31384027 0) n,
        db_reads_weight db 8,
        db_reads_weight db (min (1 * n) u64_max),
        db_writes_weight db 6,
        db_writes_weight db (min (1 * n) u64_max),
        weight_saturating_mul (from_parts 0 2954) n]"

definition nfts_weight_set_attributes_pre_signed :: "db_weight \<Rightarrow> nat \<Rightarrow> weight" where
  "nfts_weight_set_attributes_pre_signed db n =
     weight_sum (from_parts 79208379 4326)
       [weight_saturating_mul (from_parts 31028221 0) n,
        db_reads_weight db 4,
        db_reads_weight db (min (1 * n) u64_max),
        db_writes_weight db 2,
        db_writes_weight db (min (1 * n) u64_max),
        weight_saturating_mul (from_parts 0 2954) n]"


section \<open>Declared weights\<close>

text \<open>\<open>#[pallet::weight(..)]\<close> of every dispatchable.\<close>

fun nfts_call_weight :: "db_weight \<Rightarrow> call \<Rightarrow> weight" where
  "nfts_call_weight db (call.Create _ _) = nfts_weight_create db"
| "nfts_call_weight db (call.ForceCreate _ _) = nfts_weight_force_create db"
| "nfts_call_weight db (call.Destroy _ w) = nfts_weight_destroy db (dw_item_metadatas w) (dw_item_configs w) (dw_attributes w)"
| "nfts_call_weight db (call.Mint _ _ _ _) = nfts_weight_mint db"
| "nfts_call_weight db (call.ForceMint _ _ _ _) = nfts_weight_force_mint db"
| "nfts_call_weight db (call.Burn _ _) = nfts_weight_burn db"
| "nfts_call_weight db (call.Transfer _ _ _) = nfts_weight_transfer db"
| "nfts_call_weight db (call.Redeposit _ items) = nfts_weight_redeposit db (as_u32 (length items))"
| "nfts_call_weight db (call.LockItemTransfer _ _) = nfts_weight_lock_item_transfer db"
| "nfts_call_weight db (call.UnlockItemTransfer _ _) = nfts_weight_unlock_item_transfer db"
| "nfts_call_weight db (call.LockCollection _ _) = nfts_weight_lock_collection db"
| "nfts_call_weight db (call.TransferOwnership _ _) = nfts_weight_transfer_ownership db"
| "nfts_call_weight db (call.SetTeam _ _ _ _) = nfts_weight_set_team db"
| "nfts_call_weight db (call.ForceCollectionOwner _ _) = nfts_weight_force_collection_owner db"
| "nfts_call_weight db (call.ForceCollectionConfig _ _) = nfts_weight_force_collection_config db"
| "nfts_call_weight db (call.ApproveTransfer _ _ _ _) = nfts_weight_approve_transfer db"
| "nfts_call_weight db (call.CancelApproval _ _ _) = nfts_weight_cancel_approval db"
| "nfts_call_weight db (call.ClearAllTransferApprovals _ _) = nfts_weight_clear_all_transfer_approvals db"
| "nfts_call_weight db (call.LockItemProperties _ _ _ _) = nfts_weight_lock_item_properties db"
| "nfts_call_weight db (call.SetAttribute _ _ _ _ _) = nfts_weight_set_attribute db"
| "nfts_call_weight db (call.ForceSetAttribute _ _ _ _ _ _) = nfts_weight_force_set_attribute db"
| "nfts_call_weight db (call.ClearAttribute _ _ _ _) = nfts_weight_clear_attribute db"
| "nfts_call_weight db (call.ApproveItemAttributes _ _ _) = nfts_weight_approve_item_attributes db"
| "nfts_call_weight db (call.CancelItemAttributesApproval _ _ _ w) = nfts_weight_cancel_item_attributes_approval db (account_attributes w)"
| "nfts_call_weight db (call.SetMetadata _ _ _) = nfts_weight_set_metadata db"
| "nfts_call_weight db (call.ClearMetadata _ _) = nfts_weight_clear_metadata db"
| "nfts_call_weight db (call.SetCollectionMetadata _ _) = nfts_weight_set_collection_metadata db"
| "nfts_call_weight db (call.ClearCollectionMetadata _) = nfts_weight_clear_collection_metadata db"
| "nfts_call_weight db (call.SetAcceptOwnership _) = nfts_weight_set_accept_ownership db"
| "nfts_call_weight db (call.SetCollectionMaxSupply _ _) = nfts_weight_set_collection_max_supply db"
| "nfts_call_weight db (call.UpdateMintSettings _ _) = nfts_weight_update_mint_settings db"
| "nfts_call_weight db (call.SetPrice _ _ _ _) = nfts_weight_set_price db"
| "nfts_call_weight db (call.BuyItem _ _ _) = nfts_weight_buy_item db"
| "nfts_call_weight db (call.PayTips tips) = nfts_weight_pay_tips db (as_u32 (length tips))"
| "nfts_call_weight db (call.CreateSwap _ _ _ _ _ _) = nfts_weight_create_swap db"
| "nfts_call_weight db (call.CancelSwap _ _) = nfts_weight_cancel_swap db"
| "nfts_call_weight db (call.ClaimSwap _ _ _ _ _) = nfts_weight_claim_swap db"
| "nfts_call_weight db (call.MintPreSigned d _ _) = nfts_weight_mint_pre_signed db (as_u32 (length (psm_attributes d)))"
| "nfts_call_weight db (call.SetAttributesPreSigned d _ _) = nfts_weight_set_attributes_pre_signed db (as_u32 (length (psa_attributes d)))"

section \<open>Room in a block\<close>

definition MAXIMUM_BLOCK_WEIGHT :: "nat \<Rightarrow> weight" where
  "MAXIMUM_BLOCK_WEIGHT max_pov_size = from_parts (min (10 ^ 12 * 2) u64_max) max_pov_size"

definition BlockExecutionWeight :: weight where
  "BlockExecutionWeight = from_parts (min (1000 * 5000000) u64_max) 0"

definition NORMAL_DISPATCH_RATIO :: nat where
  "NORMAL_DISPATCH_RATIO = 75"

definition AVERAGE_ON_INITIALIZE_RATIO :: nat where
  "AVERAGE_ON_INITIALIZE_RATIO = 5"

text \<open>A percentage of a weight, a whole number for the sizes in use, and the operations of \<open>Weight\<close> that the
  limits need.\<close>

definition weight_percent :: "nat \<Rightarrow> weight \<Rightarrow> weight" where
  "weight_percent p w = from_parts (ref_time w * p div 100) (proof_size w * p div 100)"

definition weight_saturating_sub :: "weight \<Rightarrow> weight \<Rightarrow> weight" where
  "weight_saturating_sub v w = from_parts (ref_time v - ref_time w) (proof_size v - proof_size w)"

definition weight_max :: "weight \<Rightarrow> weight \<Rightarrow> weight" where
  "weight_max v w = from_parts (max (ref_time v) (ref_time w)) (max (proof_size v) (proof_size w))"

text \<open>The builder of block weights, as far as the runtimes set it, and what devnet sets.\<close>

datatype dispatch_class = Normal | Operational | Mandatory

record class_weights =
  base_extrinsic :: weight
  max_total :: "weight option"
  reserved :: "weight option"

record block_weights_builder =
  base_block :: weight
  class_of :: "dispatch_class \<Rightarrow> class_weights"
  avg_block_initialization :: "nat option"

definition for_class ::
  "dispatch_class list \<Rightarrow> (class_weights \<Rightarrow> class_weights) \<Rightarrow> block_weights_builder \<Rightarrow> block_weights_builder" where
  "for_class cs f b = b\<lparr>class_of := (\<lambda>c. if c \<in> set cs then f (class_of b c) else class_of b c)\<rparr>"

definition RuntimeBlockWeights :: "nat \<Rightarrow> block_weights_builder \<Rightarrow> block_weights_builder" where
  "RuntimeBlockWeights max_pov_size builder =
     (let maximum = MAXIMUM_BLOCK_WEIGHT max_pov_size;
          normal = weight_percent NORMAL_DISPATCH_RATIO maximum;
          b = builder\<lparr>base_block := BlockExecutionWeight\<rparr>;
          b = for_class [Normal, Operational, Mandatory] (\<lambda>w. w\<lparr>base_extrinsic := ExtrinsicBaseWeight\<rparr>) b;
          b = for_class [Normal] (\<lambda>w. w\<lparr>max_total := Some normal\<rparr>) b;
          b = for_class [Operational]
                (\<lambda>w. w\<lparr>max_total := Some maximum, reserved := Some (weight_saturating_sub maximum normal)\<rparr>) b
      in b\<lparr>avg_block_initialization := Some AVERAGE_ON_INITIALIZE_RATIO\<rparr>)"

text \<open>FRAME's part: the builder starts with no limit for mandatory extrinsics, and building it derives the
  largest single extrinsic of a class (\<open>build\<close>) from the share of the class, less the average cost of
  initialising a block, a part of the largest block, and less the base weight of an extrinsic.\<close>

definition fresh_builder :: "block_weights_builder \<Rightarrow> bool" where
  "fresh_builder b \<longleftrightarrow> max_total (class_of b Mandatory) = None"

definition max_block :: "block_weights_builder \<Rightarrow> weight" where
  "max_block b =
     fold (\<lambda>c m. case max_total (class_of b c) of None \<Rightarrow> m | Some t \<Rightarrow> weight_max t m)
       [Normal, Operational, Mandatory] (from_parts 0 0)"

definition derives_max_extrinsic :: "(block_weights_builder \<Rightarrow> dispatch_class \<Rightarrow> weight option) \<Rightarrow> bool" where
  "derives_max_extrinsic build \<longleftrightarrow>
     (\<forall>b c r. avg_block_initialization b = Some r \<longrightarrow>
        build b c = map_option (\<lambda>t. weight_saturating_sub (weight_saturating_sub t (weight_percent r (max_block b)))
          (base_extrinsic (class_of b c))) (max_total (class_of b c)))"

lemmas nfts_weight_defs =
  nfts_weight_create_def nfts_weight_force_create_def nfts_weight_destroy_def
  nfts_weight_mint_def nfts_weight_force_mint_def nfts_weight_burn_def
  nfts_weight_transfer_def nfts_weight_redeposit_def nfts_weight_lock_item_transfer_def
  nfts_weight_unlock_item_transfer_def nfts_weight_lock_collection_def nfts_weight_transfer_ownership_def
  nfts_weight_set_team_def nfts_weight_force_collection_owner_def nfts_weight_force_collection_config_def
  nfts_weight_lock_item_properties_def nfts_weight_set_attribute_def nfts_weight_force_set_attribute_def
  nfts_weight_clear_attribute_def nfts_weight_approve_item_attributes_def nfts_weight_cancel_item_attributes_approval_def
  nfts_weight_set_metadata_def nfts_weight_clear_metadata_def nfts_weight_set_collection_metadata_def
  nfts_weight_clear_collection_metadata_def nfts_weight_approve_transfer_def nfts_weight_cancel_approval_def
  nfts_weight_clear_all_transfer_approvals_def nfts_weight_set_accept_ownership_def nfts_weight_set_collection_max_supply_def
  nfts_weight_update_mint_settings_def nfts_weight_set_price_def nfts_weight_buy_item_def
  nfts_weight_pay_tips_def nfts_weight_create_swap_def nfts_weight_cancel_swap_def
  nfts_weight_claim_swap_def nfts_weight_mint_pre_signed_def nfts_weight_set_attributes_pre_signed_def

lemma weight_fields [simp]: "ref_time (from_parts r p) = r" "proof_size (from_parts r p) = p"
  by (simp_all add: from_parts_def)

lemma weight_sum_le:
  assumes "R < u64_max" and "P < u64_max"
  shows "weight_le (weight_sum w ws) (from_parts R P) \<longleftrightarrow>
    ref_time w + sum_list (map ref_time ws) \<le> R \<and> proof_size w + sum_list (map proof_size ws) \<le> P"
proof (induction ws arbitrary: w)
  case Nil
  then show ?case by (simp add: weight_sum_def weight_le_def)
next
  case (Cons v ws)
  have "weight_sum w (v # ws) = weight_sum (weight_saturating_add w v) ws" by (simp add: weight_sum_def)
  with Cons assms show ?case by (auto simp: weight_saturating_add_def min_def)
qed

section \<open>Properties\<close>

text \<open>The count that the weight of a call depends on, and the most of it that a block has room for.\<close>

fun call_size :: "call \<Rightarrow> nat" where
  "call_size (call.Destroy _ w) = dw_attributes w"
| "call_size (call.Redeposit _ items) = as_u32 (length items)"
| "call_size (call.CancelItemAttributesApproval _ _ _ w) = account_attributes w"
| "call_size (call.PayTips tips) = as_u32 (length tips)"
| "call_size (call.MintPreSigned d _ _) = as_u32 (length (psm_attributes d))"
| "call_size (call.SetAttributesPreSigned d _ _) = as_u32 (length (psa_attributes d))"
| "call_size _ = 0"

fun call_room :: "call \<Rightarrow> nat" where
  "call_room (call.Destroy _ _) = 387"
| "call_room (call.Redeposit _ _) = 1099"
| "call_room (call.CancelItemAttributesApproval _ _ _ _) = 1240"
| "call_room (call.PayTips _) = 635765"
| "call_room (call.MintPreSigned _ _ _) = 1240"
| "call_room (call.SetAttributesPreSigned _ _ _) = 1240"
| "call_room _ = 0"

text \<open>The largest normal extrinsic with a proof of validity of five MiB.\<close>

lemma max_normal_extrinsic:
  assumes "derives_max_extrinsic build" and "fresh_builder b"
  shows "build (RuntimeBlockWeights 5242880 b) Normal = Some (from_parts 1399875000000 3670016)"
proof -
  let ?b = "RuntimeBlockWeights 5242880 b"
  have classes: "max_total (class_of ?b Normal) = Some (from_parts 1500000000000 3932160)"
    "max_total (class_of ?b Operational) = Some (from_parts 2000000000000 5242880)"
    "max_total (class_of ?b Mandatory) = None" "base_extrinsic (class_of ?b Normal) = from_parts 125000000 0"
    "avg_block_initialization ?b = Some 5"
    using assms(2)
    by (simp_all add: RuntimeBlockWeights_def for_class_def fresh_builder_def Let_def weight_percent_def
        MAXIMUM_BLOCK_WEIGHT_def NORMAL_DISPATCH_RATIO_def AVERAGE_ON_INITIALIZE_RATIO_def ExtrinsicBaseWeight_def
        u64_max_def)
  then have "max_block ?b = from_parts 2000000000000 5242880"
    by (simp add: max_block_def weight_max_def)
  with assms(1) classes show ?thesis
    by (simp add: derives_max_extrinsic_def weight_saturating_sub_def weight_percent_def)
qed

lemma fits_normal:
  "weight_le (weight_sum w ws) (from_parts 1399875000000 3670016) \<longleftrightarrow>
    ref_time w + sum_list (map ref_time ws) \<le> 1399875000000 \<and> proof_size w + sum_list (map proof_size ws) \<le> 3670016"
  by (rule weight_sum_le) (simp_all add: u64_max_def)

text \<open>C29: which calls of the NFTs pallet fit a block: with the weights of the runtime, the block weights of
  devnet and a proof of validity of five MiB, a call is within the largest normal extrinsic (three
  quarters of a block, less five percent of a block for its initialisation and less the base weight
  of an extrinsic) exactly when its count is within the room: 387 attributes for destroying a
  collection, 1,099 items for a new deposit, 1,240 attributes for cancelling an approval and
  for the pre-signed calls, 635,765 tips; every other call always fits. The limits of the pallet (ten
  tips, ten attributes per call) are far below.\<close>

theorem nfts_calls_fit_block:
  assumes "derives_max_extrinsic build" and "fresh_builder b" and "call_size c \<le> u32_max"
  shows "\<exists>limit. build (RuntimeBlockWeights 5242880 b) Normal = Some limit \<and>
    (weight_le (nfts_call_weight RocksDbWeight c) limit \<longleftrightarrow> call_size c \<le> call_room c)"
proof -
  have "weight_le (nfts_call_weight RocksDbWeight c) (from_parts 1399875000000 3670016) \<longleftrightarrow> call_size c \<le> call_room c"
    using assms(3)
    by (cases c)
       (auto simp: nfts_weight_defs fits_normal db_reads_weight_def db_writes_weight_def weight_saturating_mul_def
         RocksDbWeight_def u64_max_def u32_max_def)
  then show ?thesis using max_normal_extrinsic [OF assms(1,2)] by simp
qed

text \<open>The limits as FRAME computes them, for the builder it starts with.\<close>

definition demo_build :: "block_weights_builder \<Rightarrow> dispatch_class \<Rightarrow> weight option" where
  "demo_build b c =
     (case avg_block_initialization b of
        None \<Rightarrow> None
      | Some r \<Rightarrow> map_option (\<lambda>t. weight_saturating_sub (weight_saturating_sub t (weight_percent r (max_block b)))
          (base_extrinsic (class_of b c))) (max_total (class_of b c)))"

definition demo_builder :: block_weights_builder where
  "demo_builder =
     \<lparr>base_block = from_parts 0 0,
      class_of = (\<lambda>c. let initial = (if c = Mandatory then None else Some (from_parts 0 0)) in
        \<lparr>base_extrinsic = from_parts 0 0, max_total = initial, reserved = initial\<rparr>),
      avg_block_initialization = None\<rparr>"

theorem nfts_calls_fit_block_witness:
  "\<exists>limit. demo_build (RuntimeBlockWeights 5242880 demo_builder) Normal = Some limit \<and>
     weight_le (nfts_call_weight RocksDbWeight (call.Redeposit 0 [1, 2, 3])) limit \<and>
     \<not> weight_le (nfts_call_weight RocksDbWeight (call.Destroy 0
         \<lparr>dw_item_metadatas = 0, dw_item_configs = 0, dw_attributes = 388\<rparr>)) limit"
proof -
  have laws: "derives_max_extrinsic demo_build" "fresh_builder demo_builder"
    by (simp_all add: derives_max_extrinsic_def demo_build_def fresh_builder_def demo_builder_def)
  show ?thesis
    using nfts_calls_fit_block [OF laws, of "call.Redeposit 0 [1, 2, 3]"]
      nfts_calls_fit_block [OF laws, of "call.Destroy 0 \<lparr>dw_item_metadatas = 0, dw_item_configs = 0, dw_attributes = 388\<rparr>"]
    by (auto simp: as_u32_def u32_max_def)
qed

text \<open>The weight \<open>destroy\<close> reports afterwards is the weight it declared, because the witness has to be
  exact; but neither depends on how many items have metadata or a configuration, although
  \<open>do_destroy_collection\<close> removes all of them.\<close>

lemma destroy_weight_reported:
  assumes "do_destroy_collection cfg collection witness maybe_check_owner s = Inr (w, s')"
  shows "nfts_weight_destroy db (dw_item_metadatas w) (dw_item_configs w) (dw_attributes w) =
    nfts_call_weight db (call.Destroy collection witness)"
  using assms
  by (auto simp: do_destroy_collection_def exec_simps Let_def details_destroy_witness_def)

lemma destroy_weight_ignores_items: "nfts_weight_destroy db m c a = nfts_weight_destroy db m' c' a"
  by (simp add: nfts_weight_destroy_def)

end
