(* ===== verification/Psp22_Contract.thy ===== *)
theory Psp22_Contract
  imports Api_Properties
begin

text \<open>
  The token contract on top of the API (\<open>pop-api/examples/fungibles/lib.rs\<close>, with the events of
  \<open>pop-api/src/v0/fungibles/events.rs\<close>): an owner-controlled PSP22 token whose balances live in the
  runtime. What a contract runs in is the record \<open>ink_env\<close>.
\<close>

section \<open>The contract and its environment\<close>

record fungible =
  fg_id :: token_id
  fg_owner :: account_id

datatype psp22_event =
  Approval account_id account_id balance
| Transfer "account_id option" "account_id option" balance
| Created token_id account_id account_id
| DestroyStarted token_id
| MetadataSet token_id bytes bytes u8
| MetadataCleared token_id

text \<open>A run of a message: the storage of the contract, the events it emitted and the world behind the
  chain extension.\<close>

record 'w contract =
  ct_self :: fungible
  ct_events :: "psp22_event list"
  ct_world :: 'w

text \<open>A chain extension answers with a status code and an output, or traps the contract (\<open>None\<close>).\<close>

record 'w ink_env =
  ink_caller :: account_id
  ink_account_id :: account_id
  ink_chain_extension :: "api_request \<Rightarrow> 'w \<Rightarrow> (u32 \<times> bytes \<times> 'w) option"

text \<open>A message that traps or returns an error is reverted: what it wrote is dropped.\<close>

datatype message_error = Trap | Err psp22_error

definition emit_event :: "psp22_event \<Rightarrow> 'w contract \<Rightarrow> 'w contract" where
  "emit_event e s = s\<lparr>ct_events := ct_events s @ [e]\<rparr>"

text \<open>\<open>ChainExtensionMethod::call\<close> with \<open>handle_error_code::<StatusCode>\<close>: the status code decides, then the
  output is decoded.\<close>

definition ink_call ::
  "'w ink_env \<Rightarrow> api_request \<Rightarrow> (bytes \<Rightarrow> ('a \<times> bytes) option) \<Rightarrow> 'w contract
     \<Rightarrow> message_error + (status_code + 'a) \<times> 'w contract" where
  "ink_call E rq decode s =
     (case ink_chain_extension E rq (ct_world s) of
        None \<Rightarrow> Inl Trap
      | Some (code, output, w) \<Rightarrow>
          Inr (andthen (from_status_code code) (\<lambda>_.
                 case decode output of None \<Rightarrow> Inl status_of_scale_error | Some (v, _) \<Rightarrow> Inr v),
               s\<lparr>ct_world := w\<rparr>))"

text \<open>\<open>api::f(..).map_err(Psp22Error::from)?\<close>.\<close>

definition api_try :: "'w ink_env \<Rightarrow> api_request \<Rightarrow> 'w contract \<Rightarrow> message_error + 'w contract" where
  "api_try E rq s =
     andthen (ink_call E rq (\<lambda>b. Some ((), b)) s) (\<lambda>(result, s).
     case result of Inl code \<Rightarrow> Inl (Err (psp22_error_from code)) | Inr _ \<Rightarrow> Inr s)"

definition unwrap_or_default :: "'a \<Rightarrow> 'e + 'a \<Rightarrow> 'a" where
  "unwrap_or_default d r = (case r of Inl _ \<Rightarrow> d | Inr v \<Rightarrow> v)"

definition api_get ::
  "'w ink_env \<Rightarrow> api_request \<Rightarrow> (bytes \<Rightarrow> ('a \<times> bytes) option) \<Rightarrow> 'a \<Rightarrow> 'w contract
     \<Rightarrow> message_error + 'a \<times> 'w contract" where
  "api_get E rq decode d s =
     andthen (ink_call E rq decode s) (\<lambda>(result, s). Inr (unwrap_or_default d result, s))"

section \<open>Reading messages\<close>

definition contract_total_supply :: "'w ink_env \<Rightarrow> 'w contract \<Rightarrow> message_error + balance \<times> 'w contract" where
  "contract_total_supply E s = api_get E (api_total_supply (fg_id (ct_self s))) take_balance 0 s"

definition contract_balance_of ::
  "'w ink_env \<Rightarrow> account_id \<Rightarrow> 'w contract \<Rightarrow> message_error + balance \<times> 'w contract" where
  "contract_balance_of E own s = api_get E (api_balance_of (fg_id (ct_self s)) own) take_balance 0 s"

definition contract_allowance ::
  "'w ink_env \<Rightarrow> account_id \<Rightarrow> account_id \<Rightarrow> 'w contract \<Rightarrow> message_error + balance \<times> 'w contract" where
  "contract_allowance E own spender s = api_get E (api_allowance (fg_id (ct_self s)) own spender) take_balance 0 s"

text \<open>\<open>String::from_utf8\<close>: a string is its well-formed UTF-8 bytes.\<close>

definition utf8_cont :: "u8 \<Rightarrow> bool" where
  "utf8_cont b \<longleftrightarrow> 0x80 \<le> b \<and> b \<le> 0xBF"

definition utf8_three :: "u8 \<Rightarrow> u8 \<Rightarrow> bool" where
  "utf8_three a b \<longleftrightarrow>
     a = 0xE0 \<and> 0xA0 \<le> b \<and> b \<le> 0xBF \<or> a = 0xED \<and> 0x80 \<le> b \<and> b \<le> 0x9F \<or>
     0xE1 \<le> a \<and> a \<le> 0xEF \<and> a \<noteq> 0xED \<and> utf8_cont b"

definition utf8_four :: "u8 \<Rightarrow> u8 \<Rightarrow> bool" where
  "utf8_four a b \<longleftrightarrow>
     a = 0xF0 \<and> 0x90 \<le> b \<and> b \<le> 0xBF \<or> a = 0xF4 \<and> 0x80 \<le> b \<and> b \<le> 0x8F \<or>
     0xF1 \<le> a \<and> a \<le> 0xF3 \<and> utf8_cont b"

fun utf8_ok :: "bytes \<Rightarrow> bool" where
  "utf8_ok [] = True"
| "utf8_ok (a # bs) =
     (if a < 0x80 then utf8_ok bs
      else (case bs of
              [] \<Rightarrow> False
            | b # cs \<Rightarrow>
                if 0xC2 \<le> a \<and> a \<le> 0xDF \<and> utf8_cont b then utf8_ok cs
                else (case cs of
                        [] \<Rightarrow> False
                      | c # ds \<Rightarrow>
                          if utf8_three a b \<and> utf8_cont c then utf8_ok ds
                          else (case ds of
                                  [] \<Rightarrow> False
                                | d # es \<Rightarrow> utf8_four a b \<and> utf8_cont c \<and> utf8_cont d \<and> utf8_ok es))))"

definition from_utf8 :: "bytes \<Rightarrow> bytes option" where
  "from_utf8 v = (if utf8_ok v then Some v else None)"

definition take_option :: "(bytes \<Rightarrow> ('a \<times> bytes) option) \<Rightarrow> bytes \<Rightarrow> ('a option \<times> bytes) option" where
  "take_option dec b =
     (case b of
        [] \<Rightarrow> None
      | t # r \<Rightarrow> if t = 0 then Some (None, r)
                 else if t = 1 then map_option (\<lambda>(v, r). (Some v, r)) (dec r) else None)"

definition take_u8 :: "bytes \<Rightarrow> (u8 \<times> bytes) option" where
  "take_u8 b = (case b of [] \<Rightarrow> None | x # r \<Rightarrow> Some (x, r))"

definition contract_token_name ::
  "codec \<Rightarrow> 'w ink_env \<Rightarrow> 'w contract \<Rightarrow> message_error + bytes option \<times> 'w contract" where
  "contract_token_name C E s =
     andthen (api_get E (api_token_name (fg_id (ct_self s))) (take_option (decode_vec C)) None s) (\<lambda>(v, s).
     Inr (Option.bind v from_utf8, s))"

definition contract_token_symbol ::
  "codec \<Rightarrow> 'w ink_env \<Rightarrow> 'w contract \<Rightarrow> message_error + bytes option \<times> 'w contract" where
  "contract_token_symbol C E s =
     andthen (api_get E (api_token_symbol (fg_id (ct_self s))) (take_option (decode_vec C)) None s) (\<lambda>(v, s).
     Inr (Option.bind v from_utf8, s))"

definition contract_token_decimals :: "'w ink_env \<Rightarrow> 'w contract \<Rightarrow> message_error + u8 \<times> 'w contract" where
  "contract_token_decimals E s = api_get E (api_token_decimals (fg_id (ct_self s))) take_u8 0 s"

section \<open>The constructor and the messages that change state\<close>

text \<open>The constructor runs on a fresh contract; an error aborts the instantiation.\<close>

definition contract_new ::
  "'w ink_env \<Rightarrow> token_id \<Rightarrow> balance \<Rightarrow> 'w \<Rightarrow> message_error + 'w contract" where
  "contract_new E token min_balance w =
     (let instance = \<lparr>fg_id = token, fg_owner = ink_caller E\<rparr>;
          contract_id = ink_account_id E;
          s = \<lparr>ct_self = instance, ct_events = [], ct_world = w\<rparr> in
      andthen (api_try E (api_create token contract_id min_balance) s) (\<lambda>s.
      Inr (emit_event (Created token contract_id contract_id) s)))"

definition ensure_owner :: "'w ink_env \<Rightarrow> 'w contract \<Rightarrow> message_error + unit" where
  "ensure_owner E s =
     (if fg_owner (ct_self s) \<noteq> ink_caller E then Inl (Err (Custom ''Not the owner'')) else Inr ())"

definition contract_transfer ::
  "'w ink_env \<Rightarrow> account_id \<Rightarrow> balance \<Rightarrow> bytes \<Rightarrow> 'w contract \<Rightarrow> message_error + 'w contract" where
  "contract_transfer E to val data s =
     andthen (ensure_owner E s) (\<lambda>_.
     let contract = ink_account_id E in
     if contract = to \<or> val = 0 then Inr s
     else
       andthen (api_try E (api_transfer (fg_id (ct_self s)) to val) s) (\<lambda>s.
       Inr (emit_event (Transfer (Some contract) (Some to) val) s)))"

definition contract_transfer_from ::
  "'w ink_env \<Rightarrow> account_id \<Rightarrow> account_id \<Rightarrow> balance \<Rightarrow> bytes \<Rightarrow> 'w contract \<Rightarrow> message_error + 'w contract" where
  "contract_transfer_from E from to val data s =
     andthen (ensure_owner E s) (\<lambda>_.
     let contract = ink_account_id E in
     if from = to \<or> val = 0 then Inr s
     else
       andthen (api_try E (api_transfer_from (fg_id (ct_self s)) from to val) s) (\<lambda>s.
       let s = emit_event (Transfer (Some contract) (Some to) val) s in
       andthen (contract_allowance E from contract s) (\<lambda>(allowance, s).
       Inr (emit_event (Approval from contract allowance) s))))"

definition contract_approve ::
  "'w ink_env \<Rightarrow> account_id \<Rightarrow> balance \<Rightarrow> 'w contract \<Rightarrow> message_error + 'w contract" where
  "contract_approve E spender val s =
     andthen (ensure_owner E s) (\<lambda>_.
     let contract = ink_account_id E in
     if contract = spender then Inr s
     else
       andthen (api_try E (api_approve (fg_id (ct_self s)) spender val) s) (\<lambda>s.
       Inr (emit_event (Approval contract spender val) s)))"

definition contract_increase_allowance ::
  "'w ink_env \<Rightarrow> account_id \<Rightarrow> balance \<Rightarrow> 'w contract \<Rightarrow> message_error + 'w contract" where
  "contract_increase_allowance E spender val s =
     andthen (ensure_owner E s) (\<lambda>_.
     let contract = ink_account_id E in
     if contract = spender \<or> val = 0 then Inr s
     else
       andthen (api_try E (api_increase_allowance (fg_id (ct_self s)) spender val) s) (\<lambda>s.
       andthen (contract_allowance E contract spender s) (\<lambda>(allowance, s).
       Inr (emit_event (Approval contract spender allowance) s))))"

definition contract_decrease_allowance ::
  "'w ink_env \<Rightarrow> account_id \<Rightarrow> balance \<Rightarrow> 'w contract \<Rightarrow> message_error + 'w contract" where
  "contract_decrease_allowance E spender val s =
     andthen (ensure_owner E s) (\<lambda>_.
     let contract = ink_account_id E in
     if contract = spender \<or> val = 0 then Inr s
     else
       andthen (api_try E (api_decrease_allowance (fg_id (ct_self s)) spender val) s) (\<lambda>s.
       andthen (contract_allowance E contract spender s) (\<lambda>(val, s).
       Inr (emit_event (Approval contract spender val) s))))"

definition contract_mint ::
  "'w ink_env \<Rightarrow> account_id \<Rightarrow> balance \<Rightarrow> 'w contract \<Rightarrow> message_error + 'w contract" where
  "contract_mint E account val s =
     andthen (ensure_owner E s) (\<lambda>_.
     if val = 0 then Inr s
     else
       andthen (api_try E (api_mint (fg_id (ct_self s)) account val) s) (\<lambda>s.
       Inr (emit_event (Transfer None (Some account) val) s)))"

definition contract_burn ::
  "'w ink_env \<Rightarrow> account_id \<Rightarrow> balance \<Rightarrow> 'w contract \<Rightarrow> message_error + 'w contract" where
  "contract_burn E account val s =
     andthen (ensure_owner E s) (\<lambda>_.
     if val = 0 then Inr s
     else
       andthen (api_try E (api_burn (fg_id (ct_self s)) account val) s) (\<lambda>s.
       Inr (emit_event (Transfer (Some account) None val) s)))"

definition contract_transfer_ownership ::
  "'w ink_env \<Rightarrow> account_id \<Rightarrow> 'w contract \<Rightarrow> message_error + 'w contract" where
  "contract_transfer_ownership E own s =
     andthen (ensure_owner E s) (\<lambda>_. Inr (s\<lparr>ct_self := (ct_self s)\<lparr>fg_owner := own\<rparr>\<rparr>))"

datatype psp22_message =
  TransferMsg account_id balance bytes
| TransferFromMsg account_id account_id balance bytes
| ApproveMsg account_id balance
| IncreaseAllowanceMsg account_id balance
| DecreaseAllowanceMsg account_id balance
| MintMsg account_id balance
| BurnMsg account_id balance
| TransferOwnershipMsg account_id

fun contract_message :: "'w ink_env \<Rightarrow> psp22_message \<Rightarrow> 'w contract \<Rightarrow> message_error + 'w contract" where
  "contract_message E (TransferMsg to val data) s = contract_transfer E to val data s"
| "contract_message E (TransferFromMsg from to val data) s = contract_transfer_from E from to val data s"
| "contract_message E (ApproveMsg spender val) s = contract_approve E spender val s"
| "contract_message E (IncreaseAllowanceMsg spender val) s = contract_increase_allowance E spender val s"
| "contract_message E (DecreaseAllowanceMsg spender val) s = contract_decrease_allowance E spender val s"
| "contract_message E (MintMsg account val) s = contract_mint E account val s"
| "contract_message E (BurnMsg account val) s = contract_burn E account val s"
| "contract_message E (TransferOwnershipMsg own) s = contract_transfer_ownership E own s"

lemmas message_defs =
  contract_transfer_def contract_transfer_from_def contract_approve_def contract_increase_allowance_def
  contract_decrease_allowance_def contract_mint_def contract_burn_def contract_transfer_ownership_def

end
