(* ===== verification/Psp22_Properties.thy ===== *)
theory Psp22_Properties
  imports Psp22_Contract
begin

text \<open>
  Properties of the token contract. The locale \<open>token_runtime\<close> is what the contract relies on: a chain
  extension that runs the API's requests as calls and reads of the fungibles pallet. The chain
  extension of \<open>Api_Extension\<close> meets it, so that what is shown of the contract holds on the runtime.
\<close>

section \<open>Only the owner\<close>

lemma to_string_not_text: "to_string n \<noteq> ''Not the owner''"
proof
  assume eq: "to_string n = ''Not the owner''"
  obtain d cs where "to_string n = digit d # cs" "d < 10" using to_string_shape by blast
  with eq have "digit_value CHR ''N'' = Some d" using digit_value_digit [of d] by simp
  then show False by (simp add: digit_value_def)
qed

lemma psp22_error_from_not_owner: "psp22_error_from sc \<noteq> Custom ''Not the owner''"
  by (cases sc) (auto simp: Let_def to_string_not_text)

declare psp22_error_from.simps [simp del]

lemma api_try_eq:
  "api_try E rq s =
     (case ink_chain_extension E rq (ct_world s) of
        None \<Rightarrow> Inl Trap
      | Some (code, _, w) \<Rightarrow>
          if code = 0 then Inr (s\<lparr>ct_world := w\<rparr>) else Inl (Err (psp22_error_from (StatusCode code))))"
  by (simp add: api_try_def ink_call_def from_status_code_def split: option.splits prod.splits)

lemma api_get_eq:
  "api_get E rq dec d s =
     (case ink_chain_extension E rq (ct_world s) of
        None \<Rightarrow> Inl Trap
      | Some (code, out, w) \<Rightarrow>
          Inr (if code = 0 then (case dec out of None \<Rightarrow> d | Some (v, _) \<Rightarrow> v) else d, s\<lparr>ct_world := w\<rparr>))"
  by (simp add: api_get_def ink_call_def from_status_code_def unwrap_or_default_def split: option.splits prod.splits)

lemma api_try_Inr: "api_try E rq s = Inr s' \<Longrightarrow> ct_self s' = ct_self s \<and> ct_events s' = ct_events s"
  by (auto simp: api_try_eq split: option.splits if_splits)

lemma api_try_Inl: "api_try E rq s = Inl e \<Longrightarrow> e \<noteq> Err (Custom ''Not the owner'')"
  using psp22_error_from_not_owner by (auto simp: api_try_eq split: option.splits if_splits)

lemma api_get_Inr: "api_get E rq dec d s = Inr (v, s') \<Longrightarrow> ct_self s' = ct_self s \<and> ct_events s' = ct_events s"
  by (auto simp: api_get_eq split: option.splits)

lemma api_get_Inl: "api_get E rq dec d s = Inl e \<Longrightarrow> e = Trap"
  by (auto simp: api_get_eq split: option.splits)

lemma emit_event_fields [simp]:
  "ct_self (emit_event e s) = ct_self s" "ct_world (emit_event e s) = ct_world s"
  "ct_events (emit_event e s) = ct_events s @ [e]"
  by (simp_all add: emit_event_def)

lemma andthen_Inl: "andthen r k = Inl e \<longleftrightarrow> r = Inl e \<or> (\<exists>v. r = Inr v \<and> k v = Inl e)"
  by (simp add: andthen_def split: sum.splits)

lemma message_refused:
  "contract_message E m s = Inl (Err (Custom ''Not the owner'')) \<longleftrightarrow> ink_caller E \<noteq> fg_owner (ct_self s)"
proof (cases "ink_caller E = fg_owner (ct_self s)")
  case True
  then have "ensure_owner E s = Inr ()" by (simp add: ensure_owner_def)
  then have "contract_message E m s \<noteq> Inl (Err (Custom ''Not the owner''))"
    by (cases m) (auto simp: message_defs andthen_Inl contract_allowance_def Let_def
      dest: api_try_Inl api_get_Inl split: if_splits)
  with True show ?thesis by simp
next
  case False
  then show ?thesis by (cases m) (simp_all add: message_defs ensure_owner_def)
qed

lemma message_keeps_self:
  assumes "contract_message E m s = Inr s'"
  shows "fg_id (ct_self s') = fg_id (ct_self s) \<and>
    fg_owner (ct_self s') = (case m of TransferOwnershipMsg own \<Rightarrow> own | _ \<Rightarrow> fg_owner (ct_self s))"
  using assms
  by (cases m) (auto simp: message_defs exec_simps contract_allowance_def Let_def
      dest!: api_try_Inr api_get_Inr split: if_splits)

section \<open>What the contract relies on\<close>

text \<open>Balances are \<open>u128\<close> and byte strings have a \<open>u32\<close> length in \<open>pallet_assets\<close>.\<close>

definition assets_fit :: "'x fungibles_config \<Rightarrow> bool" where
  "assets_fit cfg \<longleftrightarrow>
     (\<forall>t x. assets_total_supply cfg t x \<le> u128_max \<and> length (assets_name cfg t x) \<le> u32_max \<and>
        length (assets_symbol cfg t x) \<le> u32_max) \<and>
     (\<forall>t a x. assets_balance cfg t a x \<le> u128_max) \<and> (\<forall>t a b x. assets_allowance cfg t a b x \<le> u128_max)"

text \<open>A request is served when the contract can pay for it (\<open>pays_call\<close>, \<open>pays_read\<close>); otherwise it traps.\<close>

locale token_runtime =
  fixes ext :: "api_request \<Rightarrow> 'x fungibles \<Rightarrow> (u32 \<times> bytes \<times> 'x fungibles) option"
    and C :: codec and cfg :: "'x fungibles_config" and me :: account_id
    and pays_call :: "fungibles_call \<Rightarrow> bool" and pays_read :: "fungibles_read \<Rightarrow> 'x fungibles \<Rightarrow> bool"
  assumes vec: "vec_codec C" and fit: "assets_fit cfg"
    and ext_call: "call_fits c \<Longrightarrow> \<exists>out. ext (call_request C c) w =
      (if pays_call c
       then Some (case fungibles_dispatch cfg (Signed me) c w of
              Inr (_, w') \<Rightarrow> (0, out, w') | Inl (e, _) \<Rightarrow> (v0_status e, out, w))
       else None)"
    and ext_read: "ext (read_request rd) w =
      (if pays_read rd w
       then Some (0, read_result_encode (encode_vec C) (fungibles_read_state cfg rd (f_ext w)), w) else None)"

text \<open>What a contract sees of a call: the state after it, the error of its status code, or, when the error
  has the status code zero, a success that changed nothing.\<close>

definition visible_step ::
  "'x fungibles_config \<Rightarrow> account_id \<Rightarrow> fungibles_call \<Rightarrow> 'x fungibles \<Rightarrow> message_error + 'x fungibles" where
  "visible_step cfg me c w =
     (case fungibles_dispatch cfg (Signed me) c w of
        Inr (_, w') \<Rightarrow> Inr w'
      | Inl (e, _) \<Rightarrow>
          if v0_status e = 0 then Inr w else Inl (Err (psp22_error_from (StatusCode (v0_status e)))))"

text \<open>The specification of a message: the call it stands for, if any, the state it reads afterwards, and the
  events it emits.\<close>

fun message_call :: "account_id \<Rightarrow> token_id \<Rightarrow> psp22_message \<Rightarrow> fungibles_call option" where
  "message_call me t (TransferMsg to n data) = (if me = to \<or> n = 0 then None else Some (fungibles_call.Transfer t to n))"
| "message_call me t (TransferFromMsg from to n data) =
     (if from = to \<or> n = 0 then None else Some (TransferFrom t from to n))"
| "message_call me t (ApproveMsg spender n) = (if me = spender then None else Some (Approve t spender n))"
| "message_call me t (IncreaseAllowanceMsg spender n) =
     (if me = spender \<or> n = 0 then None else Some (IncreaseAllowance t spender n))"
| "message_call me t (DecreaseAllowanceMsg spender n) =
     (if me = spender \<or> n = 0 then None else Some (DecreaseAllowance t spender n))"
| "message_call me t (MintMsg account n) = (if n = 0 then None else Some (fungibles_call.Mint t account n))"
| "message_call me t (BurnMsg account n) = (if n = 0 then None else Some (fungibles_call.Burn t account n))"
| "message_call me t (TransferOwnershipMsg own) = None"

fun message_read :: "account_id \<Rightarrow> token_id \<Rightarrow> psp22_message \<Rightarrow> fungibles_read option" where
  "message_read me t (TransferFromMsg from to n data) = Some (fungibles_read.Allowance t from me)"
| "message_read me t (IncreaseAllowanceMsg spender n) = Some (fungibles_read.Allowance t me spender)"
| "message_read me t (DecreaseAllowanceMsg spender n) = Some (fungibles_read.Allowance t me spender)"
| "message_read me t _ = None"

fun message_events ::
  "'x fungibles_config \<Rightarrow> account_id \<Rightarrow> token_id \<Rightarrow> psp22_message \<Rightarrow> 'x fungibles \<Rightarrow> psp22_event list" where
  "message_events cfg me t (TransferMsg to n data) w = [Transfer (Some me) (Some to) n]"
| "message_events cfg me t (TransferFromMsg from to n data) w =
     [Transfer (Some me) (Some to) n, Approval from me (assets_allowance cfg t from me (f_ext w))]"
| "message_events cfg me t (ApproveMsg spender n) w = [Approval me spender n]"
| "message_events cfg me t (IncreaseAllowanceMsg spender n) w =
     [Approval me spender (assets_allowance cfg t me spender (f_ext w))]"
| "message_events cfg me t (DecreaseAllowanceMsg spender n) w =
     [Approval me spender (assets_allowance cfg t me spender (f_ext w))]"
| "message_events cfg me t (MintMsg account n) w = [Transfer None (Some account) n]"
| "message_events cfg me t (BurnMsg account n) w = [Transfer (Some account) None n]"
| "message_events cfg me t (TransferOwnershipMsg own) w = []"

fun message_amount :: "psp22_message \<Rightarrow> balance" where
  "message_amount (TransferMsg _ n _) = n"
| "message_amount (TransferFromMsg _ _ n _) = n"
| "message_amount (ApproveMsg _ n) = n"
| "message_amount (IncreaseAllowanceMsg _ n) = n"
| "message_amount (DecreaseAllowanceMsg _ n) = n"
| "message_amount (MintMsg _ n) = n"
| "message_amount (BurnMsg _ n) = n"
| "message_amount (TransferOwnershipMsg _) = 0"

text \<open>A message whose call, or whose read after it, the contract cannot pay for traps, and the runtime drops
  everything it did.\<close>

definition message_spec ::
  "'x fungibles_config \<Rightarrow> account_id \<Rightarrow> (fungibles_call \<Rightarrow> bool) \<Rightarrow> (fungibles_read \<Rightarrow> 'x fungibles \<Rightarrow> bool)
     \<Rightarrow> psp22_message \<Rightarrow> 'x fungibles contract \<Rightarrow> message_error + 'x fungibles contract" where
  "message_spec cfg me pays_call pays_read m s =
     (let t = fg_id (ct_self s) in
      case message_call me t m of
        None \<Rightarrow>
          Inr (case m of TransferOwnershipMsg own \<Rightarrow> s\<lparr>ct_self := (ct_self s)\<lparr>fg_owner := own\<rparr>\<rparr> | _ \<Rightarrow> s)
      | Some c \<Rightarrow>
          if \<not> pays_call c then Inl Trap
          else (case visible_step cfg me c (ct_world s) of
                  Inl e \<Rightarrow> Inl e
                | Inr w \<Rightarrow>
                    if pred_option (\<lambda>rd. pays_read rd w) (message_read me t m)
                    then Inr (s\<lparr>ct_world := w, ct_events := ct_events s @ message_events cfg me t m w\<rparr>)
                    else Inl Trap))"

text \<open>The answer of a message that reads.\<close>

definition answer :: "bool \<Rightarrow> 'a \<Rightarrow> 'w contract \<Rightarrow> message_error + 'a \<times> 'w contract" where
  "answer paid v s = (if paid then Inr (v, s) else Inl Trap)"

context token_runtime
begin

lemma try_call:
  assumes "ink_chain_extension E = ext" and "call_fits c"
  shows "api_try E (call_request C c) s =
    (if \<not> pays_call c then Inl Trap
     else case visible_step cfg me c (ct_world s) of Inl e \<Rightarrow> Inl e | Inr w \<Rightarrow> Inr (s\<lparr>ct_world := w\<rparr>))"
proof -
  obtain out where "ext (call_request C c) (ct_world s) =
      (if pays_call c
       then Some (case fungibles_dispatch cfg (Signed me) c (ct_world s) of
              Inr (_, w') \<Rightarrow> (0, out, w') | Inl (e, _) \<Rightarrow> (v0_status e, out, ct_world s))
       else None)"
    using ext_call [OF assms(2)] by blast
  then show ?thesis
    by (simp add: api_try_eq assms(1) visible_step_def split: sum.splits prod.splits)
qed

lemmas try_requests =
  try_call [where c = "fungibles_call.Transfer _ _ _", simplified] try_call [where c = "TransferFrom _ _ _ _", simplified]
  try_call [where c = "Approve _ _ _", simplified] try_call [where c = "IncreaseAllowance _ _ _", simplified]
  try_call [where c = "DecreaseAllowance _ _ _", simplified] try_call [where c = "fungibles_call.Mint _ _ _", simplified]
  try_call [where c = "fungibles_call.Burn _ _ _", simplified] try_call [where c = "fungibles_call.Create _ _ _", simplified]

lemma get_read:
  assumes "ink_chain_extension E = ext"
  shows "api_get E (read_request rd) dec d s =
    answer (pays_read rd (ct_world s))
      (case dec (read_result_encode (encode_vec C) (fungibles_read_state cfg rd (f_ext (ct_world s)))) of
         None \<Rightarrow> d | Some (v, _) \<Rightarrow> v) s"
  by (simp add: api_get_eq assms ext_read answer_def)

lemmas get_requests =
  get_read [where rd = "fungibles_read.TotalSupply _", simplified] get_read [where rd = "fungibles_read.BalanceOf _ _", simplified]
  get_read [where rd = "fungibles_read.Allowance _ _ _", simplified] get_read [where rd = "fungibles_read.TokenName _", simplified]
  get_read [where rd = "fungibles_read.TokenSymbol _", simplified] get_read [where rd = "fungibles_read.TokenDecimals _", simplified]

lemma decode_read:
  "take_balance (encode_balance (assets_total_supply cfg t x)) = Some (assets_total_supply cfg t x, [])"
  "take_balance (encode_balance (assets_balance cfg t a x)) = Some (assets_balance cfg t a x, [])"
  "take_balance (encode_balance (assets_allowance cfg t a b x)) = Some (assets_allowance cfg t a b x, [])"
  using fit by (simp_all add: decode_fixed_end assets_fit_def)

lemma decode_text:
  "length v \<le> u32_max \<Longrightarrow>
     take_option (decode_vec C) (encode_option (encode_vec C) (non_empty v)) = Some (non_empty v, [])"
  using vec [unfolded vec_codec_def, rule_format, of v "[]"]
  by (simp add: take_option_def encode_option_def non_empty_def)

lemma allowance_read:
  assumes "ink_chain_extension E = ext"
  shows "contract_allowance E own spender s =
    answer (pays_read (fungibles_read.Allowance (fg_id (ct_self s)) own spender) (ct_world s))
      (assets_allowance cfg (fg_id (ct_self s)) own spender (f_ext (ct_world s))) s"
  by (simp add: contract_allowance_def get_requests [OF assms] decode_read)

lemma reads_meet_spec:
  fixes s :: "'x fungibles contract"
  assumes "ink_chain_extension E = ext"
  defines "t \<equiv> fg_id (ct_self s)" and "x \<equiv> f_ext (ct_world s)"
  shows "contract_total_supply E s = answer (pays_read (fungibles_read.TotalSupply t) (ct_world s)) (assets_total_supply cfg t x) s \<and>
    contract_balance_of E own s = answer (pays_read (fungibles_read.BalanceOf t own) (ct_world s)) (assets_balance cfg t own x) s \<and>
    contract_allowance E own spender s =
      answer (pays_read (fungibles_read.Allowance t own spender) (ct_world s)) (assets_allowance cfg t own spender x) s \<and>
    contract_token_name C E s =
      answer (pays_read (fungibles_read.TokenName t) (ct_world s)) (Option.bind (non_empty (assets_name cfg t x)) from_utf8) s \<and>
    contract_token_symbol C E s =
      answer (pays_read (fungibles_read.TokenSymbol t) (ct_world s)) (Option.bind (non_empty (assets_symbol cfg t x)) from_utf8) s \<and>
    contract_token_decimals E s = answer (pays_read (fungibles_read.TokenDecimals t) (ct_world s)) (assets_decimals cfg t x) s"
  using fit
  by (simp add: contract_total_supply_def contract_balance_of_def contract_allowance_def contract_token_name_def
      contract_token_symbol_def contract_token_decimals_def get_requests [OF assms(1)] decode_read decode_text
      assets_fit_def take_u8_def t_def x_def answer_def)

lemma new_meets_spec:
  assumes "ink_chain_extension E = ext" and "ink_account_id E = me" and "min_balance \<le> u128_max"
  shows "contract_new E t min_balance w =
    (if \<not> pays_call (fungibles_call.Create t me min_balance) then Inl Trap
     else case visible_step cfg me (fungibles_call.Create t me min_balance) w of
       Inl e \<Rightarrow> Inl e
     | Inr w' \<Rightarrow> Inr \<lparr>ct_self = \<lparr>fg_id = t, fg_owner = ink_caller E\<rparr>, ct_events = [Created t me me], ct_world = w'\<rparr>)"
  using assms(2,3)
  by (simp add: contract_new_def Let_def try_requests [OF assms(1)] emit_event_def split: sum.splits)

lemma message_meets_spec:
  assumes "ink_chain_extension E = ext" and "ink_account_id E = me"
    and "ink_caller E = fg_owner (ct_self s)" and "message_amount m \<le> u128_max"
  shows "contract_message E m s = message_spec cfg me pays_call pays_read m s"
proof -
  have own: "ensure_owner E s = Inr ()" by (simp add: ensure_owner_def assms(3))
  show ?thesis
    using assms(2,4)
    by (cases m)
       (auto simp: message_defs own message_spec_def Let_def try_requests [OF assms(1)] allowance_read [OF assms(1)]
         emit_event_def answer_def split: sum.splits)
qed

end

section \<open>On the runtime\<close>

text \<open>The chain extension as a contract reaches it: every request opens an environment of its own; an
  error of the extension traps the contract; otherwise the contract gets the status code and what
  was written to its output buffer.\<close>

definition runtime_extension ::
  "('v, 'g) environment \<Rightarrow> ('v \<Rightarrow> bytes) \<Rightarrow> (api_request \<Rightarrow> 'v) \<Rightarrow> 'x host \<Rightarrow> codec \<Rightarrow> 'x fungibles_config
     \<Rightarrow> api_request \<Rightarrow> 'x fungibles \<Rightarrow> (u32 \<times> bytes \<times> 'x fungibles) option" where
  "runtime_extension V buffer open_env H C cfg rq s =
     (case api_call V H C cfg (open_env rq, s) of
        (Inr (Converging code), v, s') \<Rightarrow> Some (code, buffer v, s')
      | (Inl _, _) \<Rightarrow> None)"

definition opens :: "('v, 'g) environment \<Rightarrow> (api_request \<Rightarrow> 'v) \<Rightarrow> account_id \<Rightarrow> bool" where
  "opens V open_env me \<longleftrightarrow> (\<forall>rq. carries V (open_env rq) rq \<and> env_address V (open_env rq) = me)"

text \<open>What was written to the output is in the contract's buffer.\<close>

definition delivers :: "('v, 'g) environment \<Rightarrow> ('v \<Rightarrow> bytes) \<Rightarrow> bool" where
  "delivers V buffer \<longleftrightarrow> (\<forall>b u u'. env_write V b False None u = (Inr (), u') \<longrightarrow> buffer u' = b)"

text \<open>When the contract can pay for a request: the budget of its environment covers the charges, and the
  output buffer holds the result of a read. A message sends at most one call and one read, so the
  budget that is left for each can be any.\<close>

definition call_paid ::
  "('v, 'g) environment \<Rightarrow> (api_request \<Rightarrow> 'v) \<Rightarrow> 'x host \<Rightarrow> codec \<Rightarrow> 'x fungibles_config \<Rightarrow> fungibles_call \<Rightarrow> bool" where
  "call_paid V open_env H C cfg c \<longleftrightarrow>
     (let v = open_env (call_request C c) in
      fst (charge_all V (call_charges H cfg c (env_in_len V v)) v) = Inr ())"

definition read_paid ::
  "('v, 'g) environment \<Rightarrow> (api_request \<Rightarrow> 'v) \<Rightarrow> 'x host \<Rightarrow> codec \<Rightarrow> 'x fungibles_config \<Rightarrow> fungibles_read
     \<Rightarrow> 'x fungibles \<Rightarrow> bool" where
  "read_paid V open_env H C cfg rd w \<longleftrightarrow>
     (let v = open_env (read_request rd);
          out = read_result_encode (encode_vec C) (fungibles_read_state cfg rd (f_ext w)) in
      case charge_all V (read_charges H cfg rd (env_in_len V v) (length out)) v of
        (Inl e, u) \<Rightarrow> False
      | (Inr _, u) \<Rightarrow> fst (env_write V out False None u) = Inr ())"

lemma runtime_extension_token_runtime:
  fixes cfg :: "'x fungibles_config"
  assumes env: "chain_environment V charges request" and vec: "vec_codec C" and fit: "assets_fit cfg"
    and op: "opens V open_env me" and del: "delivers V buffer"
  shows "token_runtime (runtime_extension V buffer open_env H C cfg) C cfg me
    (call_paid V open_env H C cfg) (read_paid V open_env H C cfg)"
proof
  have carry: "carries V (open_env rq) rq" "env_address V (open_env rq) = me" for rq
    using op by (simp_all add: opens_def)
  show "vec_codec C" "assets_fit cfg" by (fact vec fit)+
  fix c and w :: "'x fungibles"
  let ?v = "open_env (call_request C c)"
  assume "call_fits c"
  from chain_environment.api_call_dispatches [OF env carry(1) call_request_id decode_call_request [OF vec this] refl,
      of H cfg w]
  show "\<exists>out. runtime_extension V buffer open_env H C cfg (call_request C c) w =
      (if call_paid V open_env H C cfg c
       then Some (case fungibles_dispatch cfg (Signed me) c w of
              Inr (_, w') \<Rightarrow> (0, out, w') | Inl (e, _) \<Rightarrow> (v0_status e, out, w))
       else None)"
    by (cases "fst (charge_all V (call_charges H cfg c (env_in_len V ?v)) ?v)";
        cases "fungibles_dispatch cfg (Signed me) c w")
       (auto simp: runtime_extension_def call_paid_def carry(2) Let_def split_beta)
next
  fix rd and w :: "'x fungibles"
  let ?out = "read_result_encode (encode_vec C) (fungibles_read_state cfg rd (f_ext w))"
  let ?v = "open_env (read_request rd)"
  have carry: "carries V (open_env rq) rq" for rq using op by (simp add: opens_def)
  have written: "buffer (snd (env_write V ?out False None u)) = ?out"
    if "fst (env_write V ?out False None u) = Inr ()" for u
    using del that unfolding delivers_def by (metis prod.collapse)
  show "runtime_extension V buffer open_env H C cfg (read_request rd) w =
      (if read_paid V open_env H C cfg rd w then Some (0, ?out, w) else None)"
    by (simp add: runtime_extension_def read_paid_def Let_def split_beta written
        chain_environment.api_call_reads [OF env carry read_request_id decode_read_request refl]
        split: sum.split)
qed

text \<open>The mock environment and the small ledger of \<open>Fungibles_Spec\<close>, with allowances kept to \<open>u128\<close>.\<close>

definition demo_token :: "demo_assets fungibles_config" where
  "demo_token = demo_fungibles
     \<lparr>assets_total_supply := (\<lambda>t x. min u128_max (assets_total_supply demo_fungibles t x)),
      assets_balance := (\<lambda>t a x. min u128_max (assets_balance demo_fungibles t a x)),
      assets_allowance := (\<lambda>t a b x. min u128_max (assets_allowance demo_fungibles t a b x))\<rparr>"

lemma demo_token_fit: "assets_fit demo_token"
  by (simp add: assets_fit_def demo_token_def demo_fungibles_def u32_max_def)

lemma mock_opens: "opens mock_env (\<lambda>rq. mock_contract rq me) me"
  using carries_mock by (simp add: opens_def)

lemma mock_delivers: "delivers mock_env mock_buffer" "delivers (metered_env limit n) mock_buffer"
  by (auto simp: delivers_def metered_env_def split: if_splits)

lemma mock_paid [simp]: "call_paid mock_env open_env H C cfg c" "read_paid mock_env open_env H C cfg rd w"
  by (simp_all add: call_paid_def read_paid_def)

lemma metered_opens: "opens (metered_env limit n) (\<lambda>rq. mock_contract rq me) me"
  using mock_opens [of me] by (simp add: opens_def carries_metered) (simp add: metered_env_def)

abbreviation demo_extension :: "api_request \<Rightarrow> demo_assets fungibles \<Rightarrow> (u32 \<times> bytes \<times> demo_assets fungibles) option" where
  "demo_extension \<equiv> runtime_extension mock_env mock_buffer (\<lambda>rq. mock_contract rq 5) demo_host demo_codec demo_token"

interpretation demo: token_runtime demo_extension demo_codec demo_token 5
  "call_paid mock_env (\<lambda>rq. mock_contract rq 5) demo_host demo_codec demo_token"
  "read_paid mock_env (\<lambda>rq. mock_contract rq 5) demo_host demo_codec demo_token"
  by (rule runtime_extension_token_runtime
      [OF mock.chain_environment_axioms demo_vec_codec demo_token_fit mock_opens mock_delivers(1)])

definition demo_ink :: "account_id \<Rightarrow> demo_assets fungibles ink_env" where
  "demo_ink caller = \<lparr>ink_caller = caller, ink_account_id = 5, ink_chain_extension = demo_extension\<rparr>"

definition demo_contract_state :: "demo_assets fungibles contract" where
  "demo_contract_state =
     \<lparr>ct_self = \<lparr>fg_id = 1, fg_owner = 9\<rparr>, ct_events = [], ct_world = demo_fungibles_state\<rparr>"

section \<open>Properties\<close>

text \<open>C14: only the owner controls the token contract: a message is refused as not the owner's exactly when
  the caller is not the owner, whatever the runtime answers; and a message that succeeds keeps the
  token, and the owner too unless it hands the ownership over.\<close>

theorem contract_owner_only:
  "(contract_message E m s = Inl (Err (Custom ''Not the owner'')) \<longleftrightarrow> ink_caller E \<noteq> fg_owner (ct_self s)) \<and>
   (contract_message E m s = Inr s' \<longrightarrow>
      fg_id (ct_self s') = fg_id (ct_self s) \<and>
      fg_owner (ct_self s') = (case m of TransferOwnershipMsg own \<Rightarrow> own | _ \<Rightarrow> fg_owner (ct_self s)))"
  using message_refused message_keeps_self by blast

theorem contract_owner_only_witness:
  "contract_message (demo_ink 7) (BurnMsg 6 10) demo_contract_state = Inl (Err (Custom ''Not the owner'')) \<and>
   (\<exists>s'. contract_message (demo_ink 9) (TransferOwnershipMsg 7) demo_contract_state = Inr s' \<and> fg_owner (ct_self s') = 7)"
proof -
  have ok: "\<exists>s'. contract_message (demo_ink 9) (TransferOwnershipMsg 7) demo_contract_state = Inr s'"
    by (simp add: contract_transfer_ownership_def ensure_owner_def demo_ink_def demo_contract_state_def)
  have "ink_caller (demo_ink 7) \<noteq> fg_owner (ct_self demo_contract_state)"
    by (simp add: demo_ink_def demo_contract_state_def)
  with ok show ?thesis
    using contract_owner_only [of "demo_ink 7" "BurnMsg 6 10" demo_contract_state]
      contract_owner_only [of "demo_ink 9" "TransferOwnershipMsg 7" demo_contract_state] by auto
qed

text \<open>C13: a message of the token contract's owner is one call of the fungibles pallet signed by the
  contract, or nothing where the message says so: on the runtime, through the chain extension, it
  leaves the state that the call leaves, emits the events of the message with the allowance that
  the runtime then holds, and turns a refusal into the PSP22 error of its status code. A refusal
  with the status code zero (\<open>DispatchError::Other\<close>) is taken for a success. When the weight budget or
  the output buffer does not suffice for the call or for the read of the allowance after it, the
  message traps. The \<open>Transfer\<close> event of
  \<open>transfer_from\<close> names the contract, not the account the tokens came from.\<close>

theorem contract_message_effect:
  assumes "chain_environment V charges request" and "vec_codec C" and "assets_fit cfg"
    and "opens V open_env (ink_account_id E)" and "delivers V buffer"
    and "ink_chain_extension E = runtime_extension V buffer open_env H C cfg"
    and "ink_caller E = fg_owner (ct_self s)" and "message_amount m \<le> u128_max"
  shows "contract_message E m s = message_spec cfg (ink_account_id E) (call_paid V open_env H C cfg)
    (read_paid V open_env H C cfg) m s"
  by (rule token_runtime.message_meets_spec
      [OF runtime_extension_token_runtime [OF assms(1-5)] assms(6) refl assms(7,8)])

abbreviation poor_extension :: "api_request \<Rightarrow> demo_assets fungibles \<Rightarrow> (u32 \<times> bytes \<times> demo_assets fungibles) option" where
  "poor_extension \<equiv> runtime_extension (metered_env (from_parts 100 0) 16) mock_buffer (\<lambda>rq. mock_contract rq 5)
     demo_host demo_codec demo_token"

theorem contract_message_effect_witness:
  "(\<exists>s'. contract_message (demo_ink 9) (TransferMsg 6 40 []) demo_contract_state = Inr s' \<and>
     ct_events s' = [Transfer (Some 5) (Some 6) 40] \<and>
     balance_at (da_balances (f_ext (ct_world s'))) (1, 6) = 40) \<and>
   contract_message ((demo_ink 9)\<lparr>ink_chain_extension := poor_extension\<rparr>) (TransferMsg 6 40 []) demo_contract_state
     = Inl Trap"
proof -
  let ?m = "TransferMsg 6 40 []" and ?poor = "(demo_ink 9)\<lparr>ink_chain_extension := poor_extension\<rparr>"
  have spec: "contract_message (demo_ink 9) ?m demo_contract_state = message_spec demo_token 5
      (call_paid mock_env (\<lambda>rq. mock_contract rq 5) demo_host demo_codec demo_token)
      (read_paid mock_env (\<lambda>rq. mock_contract rq 5) demo_host demo_codec demo_token) ?m demo_contract_state"
    using contract_message_effect [OF mock.chain_environment_axioms demo_vec_codec demo_token_fit _ mock_delivers(1),
        of "\<lambda>rq. mock_contract rq 5" "demo_ink 9" demo_host demo_contract_state ?m] mock_opens [of 5]
    by (simp add: demo_ink_def demo_contract_state_def u128_max_def)
  have poor: "contract_message ?poor ?m demo_contract_state = message_spec demo_token 5
      (call_paid (metered_env (from_parts 100 0) 16) (\<lambda>rq. mock_contract rq 5) demo_host demo_codec demo_token)
      (read_paid (metered_env (from_parts 100 0) 16) (\<lambda>rq. mock_contract rq 5) demo_host demo_codec demo_token)
      ?m demo_contract_state"
    using contract_message_effect [OF metered.chain_environment_axioms demo_vec_codec demo_token_fit _ mock_delivers(2),
        of "from_parts 100 0" 16 "\<lambda>rq. mock_contract rq 5" ?poor demo_host demo_contract_state ?m] metered_opens [of _ _ 5]
    by (simp add: demo_ink_def demo_contract_state_def u128_max_def)
  have "\<not> call_paid (metered_env (from_parts 100 0) 16) (\<lambda>rq. mock_contract rq 5) demo_host demo_codec demo_token
      (fungibles_call.Transfer 1 6 40)"
    by (simp add: call_paid_def call_charges_def metered_env_def mock_env_def mock_new_def try_env_def demo_host_def
        Let_def mock_charged_total_def weight_saturating_add_def weight_le_def from_parts_def u64_max_def
        request_defs enc_token_def enc_account_def encode_balance_def)
  then show ?thesis unfolding spec poor
    by (auto simp: message_spec_def visible_step_def demo_contract_state_def fungibles_transfer_def demo_token_def
        demo_fungibles_eval)
qed

text \<open>C23: the reading messages of the token contract return what the runtime holds, through the codec in
  both directions: supply, balances, allowances and decimals unchanged, and the name and symbol when
  they are set and well-formed UTF-8; none of them changes anything. A read traps exactly when the
  weight budget does not cover its four charges or the output buffer is too small for the result.\<close>

theorem contract_reads_exact:
  fixes s :: "'x fungibles contract"
  assumes "chain_environment V charges request" and "vec_codec C" and "assets_fit cfg"
    and "opens V open_env (ink_account_id E)" and "delivers V buffer"
    and "ink_chain_extension E = runtime_extension V buffer open_env H C cfg"
    and "t = fg_id (ct_self s)" and "x = f_ext (ct_world s)"
  shows "contract_total_supply E s = answer (read_paid V open_env H C cfg (fungibles_read.TotalSupply t) (ct_world s)) (assets_total_supply cfg t x) s \<and>
    contract_balance_of E own s = answer (read_paid V open_env H C cfg (fungibles_read.BalanceOf t own) (ct_world s)) (assets_balance cfg t own x) s \<and>
    contract_allowance E own spender s =
      answer (read_paid V open_env H C cfg (fungibles_read.Allowance t own spender) (ct_world s)) (assets_allowance cfg t own spender x) s \<and>
    contract_token_name C E s =
      answer (read_paid V open_env H C cfg (fungibles_read.TokenName t) (ct_world s)) (Option.bind (non_empty (assets_name cfg t x)) from_utf8) s \<and>
    contract_token_symbol C E s =
      answer (read_paid V open_env H C cfg (fungibles_read.TokenSymbol t) (ct_world s)) (Option.bind (non_empty (assets_symbol cfg t x)) from_utf8) s \<and>
    contract_token_decimals E s = answer (read_paid V open_env H C cfg (fungibles_read.TokenDecimals t) (ct_world s)) (assets_decimals cfg t x) s"
  unfolding assms(7,8)
  by (rule token_runtime.reads_meet_spec [OF runtime_extension_token_runtime [OF assms(1-5)] assms(6)])

theorem contract_reads_exact_witness:
  "contract_balance_of (demo_ink 3) 5 demo_contract_state = Inr (100, demo_contract_state) \<and>
   contract_token_name demo_codec (demo_ink 3) demo_contract_state = Inr (Some [112, 111, 112], demo_contract_state) \<and>
   contract_token_symbol demo_codec (demo_ink 3) demo_contract_state = Inr (None, demo_contract_state)"
proof -
  have "opens mock_env (\<lambda>rq. mock_contract rq 5) (ink_account_id (demo_ink 3))"
    using mock_opens [of 5] by (simp add: demo_ink_def)
  from contract_reads_exact [OF mock.chain_environment_axioms demo_vec_codec demo_token_fit this mock_delivers(1) _ refl refl,
      of demo_host demo_contract_state 5 0]
  show ?thesis
    by (auto simp: demo_ink_def demo_contract_state_def demo_token_def demo_fungibles_eval non_empty_def from_utf8_def
        answer_def)
qed

end
