(* ===== verification/Node_Specs.thy ===== *)
theory Node_Specs
  imports Runtime_Prices
begin

text \<open>
  How the node finds its chain: the chain specifications of \<open>node/src/chain_spec.rs\<close> with their genesis
  state, and \<open>load_spec\<close> and the choice of the runtime of \<open>node/src/command.rs\<close>. Key derivation,
  address decoding and the JSON files are outside code: the records \<open>key_store\<close> and \<open>spec_files\<close>.
\<close>

section \<open>Which runtime\<close>

datatype chain_runtime = Devnet | Testnet | Mainnet

definition starts_with :: "string \<Rightarrow> string \<Rightarrow> bool" where
  "starts_with s p \<longleftrightarrow> take (length p) s = p"

definition ends_with :: "string \<Rightarrow> string \<Rightarrow> bool" where
  "ends_with s p \<longleftrightarrow> length p \<le> length s \<and> drop (length s - length p) s = p"

definition resolve_runtime :: "string \<Rightarrow> chain_runtime" where
  "resolve_runtime i =
     (if starts_with i ''dev'' \<or> ends_with i ''devnet'' then Devnet
      else if starts_with i ''test'' \<or> ends_with i ''testnet'' then Testnet
      else if i = ''pop'' \<or> ends_with i ''mainnet'' then Mainnet
      else Devnet)"

section \<open>Relay chains\<close>

datatype relay = Paseo | PaseoLocal | Polkadot

record extensions =
  relay_chain :: string
  para_id :: nat

datatype json_value = JString string | JNumber nat

type_synonym properties = "(string, json_value) storage"

fun configure_for_relay :: "relay \<Rightarrow> properties \<Rightarrow> (extensions \<times> nat) \<times> properties" where
  "configure_for_relay Polkadot ps =
     (let pid = 3395;
          ps = sput ''ss58Format'' (JNumber 0) ps;
          ps = sput ''tokenSymbol'' (JString ''DOT'') ps;
          ps = sput ''tokenDecimals'' (JNumber 10) ps
      in ((\<lparr>relay_chain = ''polkadot'', para_id = pid\<rparr>, pid), ps))"
| "configure_for_relay relay ps =
     (let pid = 4001;
          ps = sput ''tokenSymbol'' (JString ''PAS'') ps;
          ps = sput ''tokenDecimals'' (JNumber 10) ps;
          (rc, ps) = (if relay = Paseo then (''paseo'', sput ''ss58Format'' (JNumber 0) ps)
                      else (''paseo-local'', sput ''ss58Format'' (JNumber 42) ps))
      in ((\<lparr>relay_chain = rc, para_id = pid\<rparr>, pid), ps))"

section \<open>Genesis\<close>

type_synonym aura_id = account_id

record genesis =
  gn_balances :: "(account_id \<times> balance) list"
  gn_parachain_id :: nat
  gn_invulnerables :: "account_id list"
  gn_candidacy_bond :: balance
  gn_desired_candidates :: "nat option"
  gn_session_keys :: "(account_id \<times> account_id \<times> aura_id) list"
  gn_safe_xcm_version :: "nat option"
  gn_sudo_key :: "account_id option"
  gn_ismp_parachains :: "(nat \<times> nat) list"

record key_store =
  account_from_seed :: "string \<Rightarrow> account_id"
  aura_from_seed :: "string \<Rightarrow> aura_id"
  account_from_ss58 :: "string \<Rightarrow> account_id"
  aura_from_ss58 :: "string \<Rightarrow> aura_id"
  xcm_version :: nat

definition session_keys_of :: "(account_id \<times> aura_id) list \<Rightarrow> (account_id \<times> account_id \<times> aura_id) list" where
  "session_keys_of invulnerables = map (\<lambda>(acc, aura). (acc, acc, aura)) invulnerables"

definition testnet_genesis :: "key_store \<Rightarrow> (account_id \<times> aura_id) list \<Rightarrow> account_id \<Rightarrow> nat \<Rightarrow> genesis" where
  "testnet_genesis K invulnerables root pid =
     \<lparr>gn_balances = [], gn_parachain_id = pid, gn_invulnerables = map fst invulnerables,
      gn_candidacy_bond = unat (EXISTENTIAL_DEPOSIT * 16), gn_desired_candidates = None,
      gn_session_keys = session_keys_of invulnerables, gn_safe_xcm_version = Some (xcm_version K),
      gn_sudo_key = Some root, gn_ismp_parachains = []\<rparr>"

definition mainnet_genesis :: "key_store \<Rightarrow> (account_id \<times> aura_id) list \<Rightarrow> account_id \<Rightarrow> nat \<Rightarrow> genesis" where
  "mainnet_genesis K invulnerables root pid =
     \<lparr>gn_balances = [], gn_parachain_id = pid, gn_invulnerables = map fst invulnerables,
      gn_candidacy_bond = unat (EXISTENTIAL_DEPOSIT * 16), gn_desired_candidates = Some 0,
      gn_session_keys = session_keys_of invulnerables, gn_safe_xcm_version = Some (xcm_version K),
      gn_sudo_key = Some root, gn_ismp_parachains = []\<rparr>"

definition devnet_genesis :: "key_store \<Rightarrow> (account_id \<times> aura_id) list \<Rightarrow> account_id \<Rightarrow> nat \<Rightarrow> genesis" where
  "devnet_genesis K invulnerables root pid =
     \<lparr>gn_balances = [], gn_parachain_id = pid, gn_invulnerables = map fst invulnerables,
      gn_candidacy_bond = unat (EXISTENTIAL_DEPOSIT * 16), gn_desired_candidates = None,
      gn_session_keys = session_keys_of invulnerables, gn_safe_xcm_version = Some (xcm_version K),
      gn_sudo_key = Some root, gn_ismp_parachains = [(1000, 6000)]\<rparr>"

section \<open>Chain specifications\<close>

datatype chain_type = Development | Live

record chain_spec =
  sp_wasm :: chain_runtime
  sp_extensions :: extensions
  sp_name :: string
  sp_id :: string
  sp_chain_type :: chain_type
  sp_genesis :: genesis
  sp_protocol_id :: string
  sp_properties :: properties

definition development_config :: "key_store \<Rightarrow> relay \<Rightarrow> chain_spec" where
  "development_config K relay =
     (let ((exts, pid), ps) = configure_for_relay relay [] in
      \<lparr>sp_wasm = Devnet, sp_extensions = exts, sp_name = ''Pop Network Development'', sp_id = ''pop-devnet'',
       sp_chain_type = Development,
       sp_genesis = devnet_genesis K
         [(account_from_seed K ''Alice'', aura_from_seed K ''Alice''),
          (account_from_seed K ''Bob'', aura_from_seed K ''Bob'')]
         (account_from_seed K ''Alice'') pid,
       sp_protocol_id = ''pop-devnet'', sp_properties = ps\<rparr>)"

definition testnet_config :: "key_store \<Rightarrow> relay \<Rightarrow> chain_spec" where
  "testnet_config K relay =
     (let ((exts, pid), ps) = configure_for_relay relay [];
          collator_0 = ''5Gn9dVgCNUYtC5JVMBheQQv2x6Lpg5sAMcQVRupG1s3tP2gR'';
          collator_1 = ''5FyVvcSvSXCkBwvBEHkUh1VWGGrwaR3zbYBkU3Rc5DqV75S4'';
          collator_2 = ''5GMqrQuWpyyBBK7LAWXR5psWvKc1QMqtiyasjp23VNKZWgh6'';
          sudo_account_id = account_from_ss58 K ''5FPL3ZLqUk6MyBoZrQZ1Co29WAteX6T6N68TZ6jitHvhpyuD'' in
      \<lparr>sp_wasm = Testnet, sp_extensions = exts, sp_name = ''Pop Network Testnet'', sp_id = ''pop-testnet'',
       sp_chain_type = Live,
       sp_genesis = testnet_genesis K
         [(account_from_ss58 K collator_0, aura_from_ss58 K collator_0),
          (account_from_ss58 K collator_1, aura_from_ss58 K collator_1),
          (account_from_ss58 K collator_2, aura_from_ss58 K collator_2)] sudo_account_id pid,
       sp_protocol_id = ''pop-testnet'', sp_properties = ps\<rparr>)"

definition SudoAddress :: "key_store \<Rightarrow> account_id" where
  "SudoAddress K = account_from_ss58 K ''15NMV2JX1NeMwarQiiZvuJ8ixUcvayFDcu1F9Wz1HNpSc8gP''"

definition mainnet_config :: "key_store \<Rightarrow> relay \<Rightarrow> chain_spec" where
  "mainnet_config K relay =
     (let ((exts, pid), ps) = configure_for_relay relay [];
          collator_0 = ''15B6eUkXgoLA3dWruCRYWeBGNC8SCwuqiMtMTM1Zh2auSg3w'';
          sudo_account_id = SudoAddress K in
      \<lparr>sp_wasm = Mainnet, sp_extensions = exts, sp_name = ''Pop Network'', sp_id = ''pop'', sp_chain_type = Live,
       sp_genesis = mainnet_genesis K [(account_from_ss58 K collator_0, aura_from_ss58 K collator_0)]
         sudo_account_id pid,
       sp_protocol_id = ''pop'', sp_properties = ps\<rparr>)"

section \<open>Loading\<close>

text \<open>Reading the identifier of a file panics when the file cannot be read; loading it may fail.\<close>

datatype load_error = Panic | LoadFailed string

record spec_files =
  json_spec_id :: "string \<Rightarrow> string option"
  from_json_file :: "string \<Rightarrow> string + chain_spec"

definition path_runtime :: "spec_files \<Rightarrow> string \<Rightarrow> chain_runtime option" where
  "path_runtime J path = map_option resolve_runtime (json_spec_id J path)"

definition load_spec :: "key_store \<Rightarrow> spec_files \<Rightarrow> string \<Rightarrow> load_error + chain_spec" where
  "load_spec K J i =
     (if i \<in> {''dev'', ''devnet'', ''dev-paseo''} then Inr (development_config K PaseoLocal)
      else if i \<in> {''test'', ''testnet'', ''pop-paseo''} then Inr (testnet_config K Paseo)
      else if i \<in> {''pop'', ''mainnet'', ''pop-polkadot'', ''pop-network''} then Inr (mainnet_config K Polkadot)
      else if i \<in> {'''', ''local''} then Inr (development_config K PaseoLocal)
      else
        let load = (case from_json_file J i of Inl e \<Rightarrow> Inl (LoadFailed e) | Inr spec \<Rightarrow> Inr spec) in
        (case path_runtime J i of
           None \<Rightarrow> Inl Panic
         | Some Devnet \<Rightarrow> load
         | Some Testnet \<Rightarrow> load
         | Some Mainnet \<Rightarrow> load))"

section \<open>Properties\<close>

text \<open>What holds of a specification that ships with the node.\<close>

definition spec_ok :: "chain_spec \<Rightarrow> bool" where
  "spec_ok sp \<longleftrightarrow>
     resolve_runtime (sp_id sp) = sp_wasm sp \<and> sp_protocol_id sp = sp_id sp \<and>
     gn_parachain_id (sp_genesis sp) = para_id (sp_extensions sp) \<and>
     gn_invulnerables (sp_genesis sp) \<noteq> [] \<and>
     map fst (gn_session_keys (sp_genesis sp)) = gn_invulnerables (sp_genesis sp) \<and>
     list_all (\<lambda>(acc, validator, _). validator = acc) (gn_session_keys (sp_genesis sp)) \<and>
     gn_sudo_key (sp_genesis sp) \<noteq> None \<and> gn_balances (sp_genesis sp) = [] \<and>
     (case sget (sp_properties sp) ''tokenDecimals'' of
        Some (JNumber d) \<Rightarrow> 10 ^ d = unat UNIT | _ \<Rightarrow> False)"

definition built_in_names :: "string list" where
  "built_in_names =
     [''dev'', ''devnet'', ''dev-paseo'', ''test'', ''testnet'', ''pop-paseo'', ''pop'', ''mainnet'', ''pop-polkadot'',
      ''pop-network'', '''', ''local'']"

lemmas spec_defs =
  spec_ok_def development_config_def testnet_config_def mainnet_config_def devnet_genesis_def testnet_genesis_def
  mainnet_genesis_def session_keys_of_def resolve_runtime_def starts_with_def ends_with_def sget_def sput_def units

lemma spec_ok_devnet: "spec_ok (development_config K PaseoLocal)"
  by (simp add: spec_defs Let_def)

lemma spec_ok_testnet: "spec_ok (testnet_config K Paseo)"
  by (simp add: spec_defs Let_def)

lemma spec_ok_mainnet: "spec_ok (mainnet_config K Polkadot)"
  by (simp add: spec_defs Let_def)

text \<open>The chain a node runs: every built-in name loads a well-formed specification, whose identifier
  resolves back to the runtime it was built with, whose genesis names the parachain of its relay
  chain settings, gives every initial collator its session keys and has a sudo key, and whose
  decimals are those of the runtime's unit; any other name is loaded from the file of that name,
  whichever runtime it is for.\<close>

theorem chain_specs_consistent:
  "(i \<in> set built_in_names \<longrightarrow> (\<exists>sp. load_spec K J i = Inr sp \<and> spec_ok sp)) \<and>
   (i \<notin> set built_in_names \<longrightarrow>
      load_spec K J i =
        (if json_spec_id J i = None then Inl Panic
         else case from_json_file J i of Inl e \<Rightarrow> Inl (LoadFailed e) | Inr sp \<Rightarrow> Inr sp))"
proof -
  have "load_spec K J i \<in> {Inr (development_config K PaseoLocal), Inr (testnet_config K Paseo), Inr (mainnet_config K Polkadot)}"
    if "i \<in> set built_in_names"
    using that by (auto simp: built_in_names_def load_spec_def)
  moreover have "load_spec K J i =
      (if json_spec_id J i = None then Inl Panic
       else case from_json_file J i of Inl e \<Rightarrow> Inl (LoadFailed e) | Inr sp \<Rightarrow> Inr sp)"
    if "i \<notin> set built_in_names"
    using that
    by (auto simp: built_in_names_def load_spec_def path_runtime_def Let_def split: sum.splits chain_runtime.splits)
  ultimately show ?thesis using spec_ok_devnet spec_ok_testnet spec_ok_mainnet by auto
qed

definition demo_keys :: key_store where
  "demo_keys =
     \<lparr>account_from_seed = (\<lambda>s. of_nat (length s)), aura_from_seed = (\<lambda>s. of_nat (length s)),
      account_from_ss58 = (\<lambda>s. of_nat (length s)), aura_from_ss58 = (\<lambda>s. of_nat (length s)), xcm_version = 4\<rparr>"

definition demo_files :: spec_files where
  "demo_files = \<lparr>json_spec_id = (\<lambda>p. None), from_json_file = (\<lambda>p. Inl ''no such file'')\<rparr>"

theorem chain_specs_consistent_witness:
  "(\<exists>sp. load_spec demo_keys demo_files ''pop-network'' = Inr sp \<and> spec_ok sp) \<and>
   load_spec demo_keys demo_files ''spec.json'' = Inl Panic"
  using chain_specs_consistent [of "''pop-network''" demo_keys demo_files]
    chain_specs_consistent [of "''spec.json''" demo_keys demo_files]
  by (simp add: built_in_names_def demo_files_def)

end
