(* ===== verification/Spec2Isabelle.thy ===== *)
theory Spec2Isabelle
  imports Api_Testnet Nfts_Weights Psp22_Properties Node_Specs
begin

text \<open>
  \<^bold>\<open>Verification of the Pop Network node.\<close>

  Pop Network is a Substrate parachain on which smart contracts use the runtime through a versioned
  API. File names below are relative to \<open>src/\<close>.

  \<^bold>\<open>Parts of the program and how they interact.\<close>
  A contract links \<open>pop-api\<close>, which encodes a request (function, version, module and index in one
  32-bit identifier, the arguments as bytes) and hands it to the chain extension. The crate
  \<open>extension\<close> picks the first configured function that matches the identifier, charges weight,
  decodes the input, filters the call or read and runs it; \<open>pallets/api/src/extension.rs\<close> has the
  processor, matchers and converters, and \<open>runtime/devnet/src/config/api\<close> puts them together. What a
  contract may reach is the fungibles pallet (\<open>pallets/api/src/fungibles\<close>), which wraps
  \<open>pallet_assets\<close>. A result goes back as a status code: \<open>config/api/versioning.rs\<close> turns the
  runtime's error into the error of \<open>primitives\<close>, whose four bytes are the code that \<open>pop-api\<close> turns
  into an error again. The token contract of \<open>pop-api/examples\<close> is built on that API. Beside it, the
  runtimes hold a fork of the NFTs pallet (\<open>pallets/nfts\<close>), which is the largest stateful component,
  the proxy filters and the prices of storage and weight. The node (\<open>node\<close>) picks a chain
  specification and with it a runtime.

  \<^bold>\<open>The theories.\<close>
  \<^item> \<open>Prelude\<close>: machine types, the combinators for \<open>ensure!\<close>, \<open>ok_or\<close> and \<open>?\<close>, saturating
    arithmetic, storage maps as ordered association lists with the laws of the locale
    \<open>storage_map\<close> (interpreted as \<open>st\<close>), and runs of a system (\<open>runs\<close>, \<open>call_system\<close>,
    \<open>call_budget\<close>: what every call keeps holds in every run; every call may move a budgeted
    invariant by a bounded amount).
  \<^item> \<open>Bitflags\<close>: little-endian bytes, the flag sets of \<open>macros.rs\<close>; the locale \<open>bitflag_enum\<close> is
    interpreted for the four flag enums of the pallet in \<open>Nfts_Types\<close>.
  \<^item> \<open>Nfts_Types\<close>: \<open>types.rs\<close>, the storages, errors and events of \<open>lib.rs\<close>; the state is the record
    \<open>nfts\<close>, with one field per storage, and the configuration trait is the record \<open>config\<close>.
  \<^item> \<open>Nfts_Admin\<close>, \<open>Nfts_Attributes\<close>, \<open>Nfts_Items\<close>, \<open>Nfts_Trading\<close>: \<open>common_functions.rs\<close> and the
    modules of \<open>features/\<close>, one definition per function under its own name. \<open>Nfts_Calls\<close>: the 39
    dispatchables of \<open>lib.rs\<close> and \<open>dispatch\<close>. \<open>Nfts_Nonfungibles\<close>: the trait methods of
    \<open>impl_nonfungibles.rs\<close> (\<open>nf_\<close> before the method's name) and \<open>migration.rs\<close>.
  \<^item> \<open>Nfts_Registry\<close>: the abstract specification, a registry of who owns what with its step relation
    and its well-formedness. \<open>Nfts_Refinement\<close>: every operation is a sequence of registry steps.
    \<open>Nfts_Effects\<close>: what each call writes of roles, configurations and items, as the step relation
    \<open>core_step\<close>, indexed by the powers a call has. \<open>Nfts_Roles\<close>: the team as stored.
    \<open>Nfts_Invariants\<close>: the interpretations of the run locales on the dispatcher.
    \<open>Nfts_Attribute_Moves\<close>: what each call does to the attributes, and the two invariants that follow
    (attributes belong to existing collections; the marks the pallet sets for itself stay).
    \<open>Nfts_Example\<close>: a concrete configuration and history for the witnesses.
    \<open>Nfts_Safety\<close>, \<open>Nfts_Behaviour\<close>, \<open>Nfts_Deposits\<close>: the properties of the pallet.
    \<open>Nfts_Weights\<close>: the weights of \<open>weights.rs\<close>, what each call declares and the room of a block.
  \<^item> \<open>Primitives\<close>: the error type, its codec and status codes. \<open>Versioning\<close>: the versioned types and
    the conversion of the runtime's errors.
  \<^item> \<open>Fungibles\<close>: the calls, reads, events and weights of the fungibles pallet; \<open>Fungibles_Spec\<close>:
    what they do on top of \<open>pallet_assets\<close>.
  \<^item> \<open>Extension\<close>: the chain extension over an abstract environment and the mock environment of its
    tests, which interprets the locale \<open>chain_environment\<close>, as does the same environment with a weight budget
    and a bounded output buffer (\<open>metered_env\<close>). \<open>Api_Extension\<close>: its configuration in
    the runtime, with the codec of calls and reads. \<open>Pop_Api\<close>: the contract's side.
    \<open>Api_Properties\<close>: requests from end to end.
  \<^item> \<open>Psp22_Contract\<close>: the token contract, one definition per message. \<open>Psp22_Properties\<close>: the locale
    \<open>token_runtime\<close> of what the contract relies on, met by the chain extension of \<open>Api_Extension\<close> and
    interpreted on the mock environment.
  \<^item> \<open>Runtime_Calls\<close>: the calls of the runtimes, \<open>ProxyType\<close> with its order and filters, and the base
    call filter, with the tables of the pallets of the three runtimes. \<open>Runtime_Prices\<close>: units, deposits in \<open>u128\<close> words, the constants of the NFTs pallet and
    the fee polynomials. \<open>Runtime_Queries\<close>: the runtime API of the NFTs pallet and the runtime's own
    filters of cross-chain messages. \<open>Runtime_Pallets\<close>: the three runtimes side by side and what
    testnet and mainnet declare for themselves (call filters, the proxy filter, prices, reserves).
    \<open>Api_Testnet\<close>: the chain extension of testnet, which has its own versioned types, reads, filters and
    functions. \<open>Node_Specs\<close>: chain specifications, genesis and \<open>load_spec\<close>.

  \<^bold>\<open>What the properties show.\<close>
  \<^item> NFTs, over all runs: the dispatcher refines the registry; the reverse indexes, the counters and
    the references between storages are exact; destroying a collection leaves no entry keyed by it (an
    acceptance of its ownership or a swap offer that names it may stay); a role has one holder; approvals stay within their limit, items
    within the maximum supply; what is locked stays locked.
  \<^item> NFTs, single calls: who can move an item away from its owner; the effect of a sale, a swap, a
    change of team; a held item claims a mint only once, over all runs in which the pallet's mark is not removed by force; the guards of pre-signed mints;
    exactly when a collection can be destroyed, and with which error not; an attribute can be cleared by whoever set it and a new, unlocked item minted otherwise than by
    holders burned by its owner, with every storage as before and the deposit returned to who paid it; the trait methods agree with the calls
    (\<open>can_transfer\<close> says exactly when \<open>transfer\<close> succeeds, enumeration lists exactly what is owned); the migration sets exact counters.
  \<^item> Contract API: whatever bytes a contract sends, the state changes only by a fungibles call it
    signed itself; each API function reaches the call or read it names, with its arguments, or fails without effect at
    the first charge of weight that the budget does not cover; unknown requests are refused without effect; the status code a contract reads is the runtime's error,
    with the exceptions stated (\<open>DispatchError::Other\<close> reads as success); approving sets the
    allowance to the value given; the weight reported is within the weight declared, except for a
    refused \<open>increase_allowance\<close>. The extension of testnet answers reads, unknown functions and fungibles
    calls exactly as that of devnet; calls of other modules run on neither, but may be refused
    differently, since devnet has two pallets that testnet has not.
  \<^item> Token contract: only its owner controls it; each message is one fungibles call signed by the
    contract with the stated events, and reads return what the runtime holds; a message traps exactly
    when the weight budget or the output buffer does not suffice.
  \<^item> Runtimes and node: a larger proxy type admits whatever a smaller one admits; a pallet index means
    the same pallet on all runtimes, whose call and proxy filters agree on the calls they share; which NFTs calls
    fit a block; what the fees come to. (A theorem of \<open>Node_Specs\<close> checks the built-in chain specifications.)

  \<^bold>\<open>Code outside the repository\<close> is a parameter. \<open>config\<close> has the currency, the consumer references,
  the block number, signature verification, locks and the codec of signed data, over an external
  state \<open>'x\<close> that nothing is assumed about; \<open>fungibles_config\<close> has \<open>pallet_assets\<close>; \<open>environment\<close>,
  \<open>host\<close> and \<open>codec\<close> have the contracts environment, its costs and the codec of byte vectors and of
  other pallets' calls. What a property needs of them is a named hypothesis: \<open>approvals_contract\<close>
  (approving adds to the allowance, cancelling clears it), \<open>vec_codec\<close> (decoding inverts encoding),
  \<open>chain_environment\<close> (charging weight records it or fails, a charge can be adjusted downwards, and none of
  this changes the request; nothing says when a charge or a write succeeds, and the properties state
  what happens when one fails), \<open>weight_capped\<close> (the weight finally charged is at most the declared one),
  \<open>opens\<close> and \<open>delivers\<close> (a request opens an environment that carries it; output that was written is in the
  contract's buffer), \<open>assets_fit\<close> (amounts are \<open>u128\<close>), \<open>same_host\<close>, \<open>same_bytes\<close> and \<open>separates\<close> (testnet and
  devnet share the contracts pallet and the codec of byte strings, not the codec of other pallets' calls;
  only the index of the fungibles pallet decodes to its calls), \<open>derives_max_extrinsic\<close> and \<open>fresh_builder\<close> (how FRAME
  derives the largest extrinsic from the block weights), monotone weights of database accesses, and
  \<open>fee_arithmetic\<close> (fee arithmetic where nothing is rounded). Each is met by a concrete instance in the
  witnesses.

  \<^bold>\<open>Integers and bounds.\<close> Numbers that the code only compares or saturates are \<open>nat\<close> with the
  saturation written out at their width; identifiers, flags and status codes are words or bytes.
  The counters of a collection saturate at \<open>u32_max\<close>; a call raises a counter by at most two, so
  the properties that need exact counters hold for runs of \<open>n\<close> calls with \<open>2 * n \<le> u32_max\<close>. There
  is no fuel: every loop of the code runs over a finite list and is structural recursion or a fold,
  so every definition is total and an answer is always returned. A failed call leaves the state as
  it was, which is the transactional layer that FRAME puts around a dispatchable.

  \<^bold>\<open>Not modelled.\<close> The service of the node (networking, RPC, subcommands), the wiring of third-party
  pallets and their constants in the runtimes, their runtime APIs and the rest of the XCM
  configuration: they instantiate outside code. The benchmarks of the pallets set up states for measuring. The second
  set of weights in \<open>weights.rs\<close> repeats the first for tests. The runtime API of the NFTs
  pallet and the filter of unpaid execution are modelled for devnet; testnet repeats them.
\<close>

end
